(* ===== verification/Prelude.thy ===== *)
theory Prelude
  imports Main "HOL-Library.Word"
begin

text \<open>
  Shared vocabulary of the development: the machine types of the Go sources
  (\<open>uint64\<close> and \<open>int\<close> as 64-bit words), the bit-counting functions of Go's
  \<open>math/bits\<close> package that the Merkle code calls, the symbolic digest type that
  stands for the SHA-256 values of \<open>crypto/merkle\<close>, and the generic lemmas on
  natural numbers, words and lists that the component theories share.
\<close>

type_synonym u64 = "64 word"
type_synonym byte = "8 word"

text \<open>\<open>common.Address\<close> values, the zero address being \<open>0\<close>.\<close>

type_synonym address = nat

text \<open>Signatures, as the byte slices the wallets return.\<close>

type_synonym sig = "byte list"

named_theorems go_bits_simps "evaluation rules of the Go bit functions"
named_theorems stack_simps "rules about the Merkle subtree stack"
named_theorems state_simps "effects of the state-database operations on balances, slots and accounts"

section \<open>Digests\<close>

text \<open>
  Hashes are modelled symbolically, as the free term algebra over the two hash
  constructions of \<open>crypto/merkle\<close>: \<open>leafSum\<close> (hash of \<open>0x00\<close> followed by the
  leaf bytes) and \<open>nodeSum\<close> (hash of \<open>0x01\<close> followed by the two child sums).
  Distinct terms are distinct hashes: this is the collision-resistance
  idealisation under which a Merkle root commits to its leaves.
  \<open>Nil_Bytes\<close> is Go's \<open>nil\<close> byte slice, which \<open>Tree.Root\<close> returns for an
  empty tree, and \<open>Hash_Value\<close> an opaque 32-byte value (a sector root or
  \<open>common.Hash\<close> that the model does not compute).
\<close>

datatype digest =
    Nil_Bytes
  | LeafSum "byte list"
  | NodeSum digest digest
  | Hash_Value nat

section \<open>Go's bit functions\<close>

text \<open>
  \<open>tz_nat\<close> and \<open>len_nat\<close> are the trailing-zero count and the bit length of a
  natural number; \<open>trailingZeros64\<close> and \<open>len64\<close> are \<open>bits.TrailingZeros64\<close>
  and \<open>bits.Len64\<close>, with Go's value \<open>64\<close> for the trailing zeros of \<open>0\<close>.
  \<open>go_shl1 k\<close> is Go's \<open>1 << uint(k)\<close> for an \<open>int\<close> \<open>k\<close> and a 64-bit
  result: a negative \<open>k\<close> converts to a huge unsigned shift, and every shift of
  64 or more gives \<open>0\<close>.
\<close>

fun tz_nat :: "nat \<Rightarrow> nat" where
  "tz_nat n = (if n = 0 \<or> odd n then 0 else Suc (tz_nat (n div 2)))"

fun len_nat :: "nat \<Rightarrow> nat" where
  "len_nat n = (if n = 0 then 0 else Suc (len_nat (n div 2)))"

declare tz_nat.simps [simp del] len_nat.simps [simp del]

definition trailingZeros64 :: "u64 \<Rightarrow> nat" where
  "trailingZeros64 w = (if w = 0 then 64 else tz_nat (unat w))"

definition len64 :: "u64 \<Rightarrow> nat" where
  "len64 w = len_nat (unat w)"

definition go_shl1 :: "int \<Rightarrow> u64" where
  "go_shl1 k = (if k < 0 \<or> 64 \<le> k then 0 else push_bit (nat k) 1)"

section \<open>Lemmas on the bit functions\<close>

lemma unat_pow2_64 [go_bits_simps]:
  assumes "k < 64" shows "unat (2 ^ k :: u64) = 2 ^ k"
proof -
  have "unat (word_of_nat (2 ^ k) :: u64) = 2 ^ k mod 2 ^ 64"
    by (simp only: unat_of_nat) simp
  moreover have "(2::nat) ^ k < 2 ^ 64"
    using power_strict_increasing [OF assms, of "2::nat"] by simp
  ultimately show ?thesis by simp
qed

lemma unat_u64_bound: "unat (x :: u64) < 2 ^ 64"
  using unsigned_less [of x] by simp

lemma len_nat_0 [simp, go_bits_simps]: "len_nat 0 = 0"
  by (simp add: len_nat.simps)

lemma len_nat_pos [go_bits_simps]: "0 < n \<Longrightarrow> len_nat n = Suc (len_nat (n div 2))"
  by (simp add: len_nat.simps [of n])

lemma tz_nat_odd [go_bits_simps]: "odd n \<Longrightarrow> tz_nat n = 0"
  by (simp add: tz_nat.simps [of n])

lemma tz_nat_even [go_bits_simps]: "0 < n \<Longrightarrow> even n \<Longrightarrow> tz_nat n = Suc (tz_nat (n div 2))"
  by (simp add: tz_nat.simps [of n])

lemma len_nat_bound: "n < 2 ^ len_nat n"
proof (induction n rule: len_nat.induct)
  case (1 n)
  show ?case
  proof (cases "n = 0")
    case True
    then show ?thesis by simp
  next
    case False
    with "1.IH" have "n div 2 < 2 ^ len_nat (n div 2)" by simp
    with False show ?thesis by (simp add: len_nat_pos)
  qed
qed

lemma len_nat_lower: "0 < n \<Longrightarrow> 2 ^ (len_nat n - 1) \<le> n"
proof (induction n rule: len_nat.induct)
  case (1 n)
  show ?case
  proof (cases "n div 2 = 0")
    case True
    with "1.prems" show ?thesis by (simp add: len_nat_pos [of n])
  next
    case False
    with "1.IH" "1.prems" have ih: "2 ^ (len_nat (n div 2) - 1) \<le> n div 2" by simp
    obtain m where m: "len_nat (n div 2) = Suc m"
      using False len_nat_pos [of "n div 2"] by auto
    have "len_nat n - 1 = Suc m"
      using "1.prems" m len_nat_pos [of n] by simp
    moreover have "(2::nat) ^ Suc m \<le> n"
      using ih m by simp
    ultimately show ?thesis by simp
  qed
qed

lemma len_nat_le: "n < 2 ^ k \<Longrightarrow> len_nat n \<le> k"
proof (induction n arbitrary: k rule: len_nat.induct)
  case (1 n)
  show ?case
  proof (cases "n = 0")
    case True
    then show ?thesis by simp
  next
    case False
    then obtain j where k: "k = Suc j" using "1.prems" by (cases k) auto
    with "1.prems" have "n div 2 < 2 ^ j" by auto
    with "1.IH" False have "len_nat (n div 2) \<le> j" by simp
    with False k show ?thesis by (simp add: len_nat_pos [of n])
  qed
qed

lemma len64_le: "len64 w \<le> 64"
  unfolding len64_def by (rule len_nat_le) (rule unat_u64_bound)

lemma go_shl1_nat [go_bits_simps]: "k < 64 \<Longrightarrow> go_shl1 (int k) = 2 ^ k"
  by (simp add: go_shl1_def)

lemma tz_nat_dvd: "2 ^ tz_nat n dvd n"
proof (induction n rule: tz_nat.induct)
  case (1 n)
  show ?case
  proof (cases "n = 0 \<or> odd n")
    case True
    then show ?thesis by (auto simp: tz_nat.simps [of n])
  next
    case False
    with "1.IH" have "2 ^ tz_nat (n div 2) dvd n div 2" by simp
    with False show ?thesis by (auto simp: tz_nat.simps [of n] elim!: evenE)
  qed
qed

lemma tz_nat_greatest: "0 < n \<Longrightarrow> 2 ^ k dvd n \<Longrightarrow> k \<le> tz_nat n"
proof (induction n arbitrary: k rule: tz_nat.induct)
  case (1 n)
  show ?case
  proof (cases k)
    case 0
    then show ?thesis by simp
  next
    case (Suc j)
    with "1.prems" have ev: "even n" by (simp add: dvd_mult_left)
    from "1.prems" Suc have "2 ^ j dvd n div 2"
      by (auto simp: dvd_def)
    moreover from ev "1.prems" have "0 < n div 2" by auto
    ultimately have "j \<le> tz_nat (n div 2)" using "1.IH" ev by simp
    with ev Suc "1.prems" show ?thesis by (simp add: tz_nat_even)
  qed
qed

end
