(* ===== verification/MerkleTree.thy ===== *)
theory MerkleTree
  imports Prelude
begin

text \<open>
  The Merkle tree underneath the proof engine of \<open>crypto/merkle\<close> (source file
  \<open>src/consensus/dpos/api.go\<close>, package \<open>merkle\<close>, lines 87--129): the
  incremental \<open>Tree\<close> that the proof functions push subtrees into, the aligned
  subtree size \<open>adjacentSubtreeSize\<close> and the range-list check
  \<open>checkLimitList\<close>, with their lemmas: the root is invariant under joining,
  pushing a complete aligned block of \<open>2 ^ k\<close> leaves is pushing its root at
  height \<open>k\<close>, and \<open>adjacentSubtreeSize\<close> returns a power of two that fits the
  remaining span and is aligned to the left index. The \<open>Tree\<close> type itself
  (\<open>NewTree\<close>, \<open>PushLeaf\<close>, \<open>PushSubTree\<close>, \<open>Root\<close>) lives in a file that is
  not part of the sources; it is modelled from the spec as the stack of complete
  subtrees it keeps.
\<close>

section \<open>The subtree stack of \<open>Tree\<close>\<close>

text \<open>
  A \<open>Tree\<close> is a stack of complete subtrees, smallest on top, each with its
  height and root sum. Pushing a subtree joins the top two while their heights
  are equal; the root folds the stack from the top, each lower subtree becoming
  the left child.
\<close>

type_synonym subtree = "nat \<times> digest"

fun join_all :: "subtree list \<Rightarrow> subtree list" where
  "join_all ((h1, s1) # (h2, s2) # rest) =
     (if h1 = h2 then join_all ((Suc h1, NodeSum s2 s1) # rest)
      else (h1, s1) # (h2, s2) # rest)"
| "join_all t = t"

datatype merkle_error =
    EOF
  | ErrUnexpectedEOF
  | ErrInvalidParameter
  | ErrSubtreeTooLarge
  | ErrPanic

definition push_subtree :: "nat \<Rightarrow> digest \<Rightarrow> subtree list \<Rightarrow> merkle_error + subtree list" where
  "push_subtree height sm t =
     (case t of
        [] \<Rightarrow> Inr (join_all [(height, sm)])
      | (h, _) # _ \<Rightarrow>
          if h < height then Inl ErrSubtreeTooLarge else Inr (join_all ((height, sm) # t)))"

definition push_leaf :: "byte list \<Rightarrow> subtree list \<Rightarrow> subtree list" where
  "push_leaf data t = join_all ((0, LeafSum data) # t)"

fun tree_root :: "subtree list \<Rightarrow> digest" where
  "tree_root [] = Nil_Bytes"
| "tree_root ((h, s) # rest) = fold (\<lambda>(h', s') cur. NodeSum s' cur) rest s"

text \<open>
  \<open>Sha256CachedTreeRoot2\<close>: the root of a list of sector roots, each pushed as a
  subtree of height 0; an empty list gives the zero hash (Go copies the \<open>nil\<close>
  root into a zero \<open>common.Hash\<close>).
\<close>

abbreviation zero_hash :: digest where
  "zero_hash \<equiv> Hash_Value 0"

definition push_roots :: "digest list \<Rightarrow> subtree list \<Rightarrow> subtree list" where
  "push_roots rs t = fold (\<lambda>r t. join_all ((0, r) # t)) rs t"

definition Sha256CachedTreeRoot2 :: "digest list \<Rightarrow> digest" where
  "Sha256CachedTreeRoot2 rs = (if rs = [] then zero_hash else tree_root (push_roots rs []))"

section \<open>Aligned subtree sizes and range lists\<close>

text \<open>
  \<open>adjacentSubtreeSize\<close> returns a Go \<open>int\<close>, modelled as the 64-bit word of its
  two's-complement bits (\<open>1 << 63\<close> is then the word \<open>2 ^ 63\<close>, negative as an
  \<open>int\<close>); \<open>max\<close> is \<open>-1\<close> when \<open>right - left = 0\<close>.
\<close>

definition adjacentSubtreeSize :: "u64 \<Rightarrow> u64 \<Rightarrow> u64" where
  "adjacentSubtreeSize left right =
     (let leftInt = int (trailingZeros64 left);
          max = int (len64 (right - left)) - 1
      in if leftInt > max then go_shl1 max else go_shl1 leftInt)"

record SubTreeLimit =
  Left :: u64
  Right :: u64

text \<open>
  \<open>checkLimitList\<close>: every range is non-empty and starts at or after the end of
  the one before. The test \<open>r.Left < 0\<close> of the source can never hold for a
  \<open>uint64\<close>; it is kept as written.
\<close>

fun check_limits_from :: "u64 option \<Rightarrow> SubTreeLimit list \<Rightarrow> bool" where
  "check_limits_from prev [] = True"
| "check_limits_from prev (r # rs) =
     (if Left r < 0 \<or> Left r \<ge> Right r then False
      else if (case prev of None \<Rightarrow> False | Some pr \<Rightarrow> pr > Left r) then False
      else check_limits_from (Some (Right r)) rs)"

definition checkLimitList :: "SubTreeLimit list \<Rightarrow> bool" where
  "checkLimitList limits = check_limits_from None limits"

text \<open>
  The number of leaves a stack covers: a subtree of height \<open>h\<close> covers
  \<open>2 ^ h\<close> leaves. Used only in the proofs.
\<close>

definition stack_weight :: "subtree list \<Rightarrow> nat" where
  "stack_weight t = sum_list (map (\<lambda>(h, _). 2 ^ h) t)"

section \<open>Lemmas on the subtree stack\<close>

lemma tree_root_join_all [stack_simps]: "tree_root (join_all t) = tree_root t"
  by (induction t rule: join_all.induct) auto

lemma stack_weight_Nil [simp]: "stack_weight [] = 0"
  and stack_weight_Cons [simp]: "stack_weight ((h, x) # t) = 2 ^ h + stack_weight t"
  by (simp_all add: stack_weight_def)

lemma stack_weight_join_all [stack_simps]: "stack_weight (join_all t) = stack_weight t"
  by (induction t rule: join_all.induct) auto

lemma push_subtree_ok [stack_simps]:
  "\<forall>h\<in>fst ` set t. k \<le> h \<Longrightarrow> push_subtree k x t = Inr (join_all ((k, x) # t))"
  by (auto simp: push_subtree_def split: list.splits)

lemma push_subtree_0 [stack_simps]: "push_subtree 0 x t = Inr (join_all ((0, x) # t))"
  by (rule push_subtree_ok) simp

lemma push_roots_Nil [simp]: "push_roots [] t = t"
  and push_roots_Cons [simp]: "push_roots (r # rs) t = push_roots rs (join_all ((0, r) # t))"
  and push_roots_append: "push_roots (xs @ ys) t = push_roots ys (push_roots xs t)"
  by (simp_all add: push_roots_def)

lemma join_all_sorted:
  "sorted_wrt (<) (map fst t) \<Longrightarrow> \<forall>h\<in>fst ` set t. k \<le> h \<Longrightarrow>
   sorted_wrt (<) (map fst (join_all ((k, x) # t))) \<and> (\<forall>h\<in>fst ` set (join_all ((k, x) # t)). k \<le> h)"
proof (induction t arbitrary: k x)
  case Nil
  then show ?case by simp
next
  case (Cons p t)
  obtain h y where p: "p = (h, y)" by (cases p)
  show ?case
  proof (cases "k = h")
    case True
    with Cons.prems p have "sorted_wrt (<) (map fst t)" and "\<forall>h'\<in>fst ` set t. Suc k \<le> h'"
      by (auto simp: Suc_le_eq)
    from Cons.IH [OF this] True p show ?thesis by fastforce
  next
    case False
    with Cons.prems p show ?thesis by fastforce
  qed
qed

lemma push_roots_sorted:
  "sorted_wrt (<) (map fst t) \<Longrightarrow> sorted_wrt (<) (map fst (push_roots xs t))"
  by (induction xs arbitrary: t) (simp_all add: join_all_sorted)

lemma stack_weight_push_roots [stack_simps]: "stack_weight (push_roots xs t) = stack_weight t + length xs"
  by (induction xs arbitrary: t) (simp_all add: stack_weight_join_all)

lemma join_all_no_merge:
  "\<forall>h\<in>fst ` set t. k < h \<Longrightarrow> join_all ((k, x) # t) = (k, x) # t"
  by (cases t) auto

lemma push_roots_block:
  "length xs = 2 ^ k \<Longrightarrow> \<forall>h\<in>fst ` set t. k \<le> h \<Longrightarrow>
   push_roots xs t = join_all ((k, tree_root (push_roots xs [])) # t)"
proof (induction k arbitrary: xs t)
  case 0
  then obtain x where "xs = [x]" by (auto simp: length_Suc_conv)
  then show ?case by simp
next
  case (Suc k)
  define as where "as = take (2 ^ k) xs"
  define bs where "bs = drop (2 ^ k) xs"
  have la: "length as = 2 ^ k" and lb: "length bs = 2 ^ k"
    using Suc.prems(1) by (simp_all add: as_def bs_def)
  have xs: "xs = as @ bs" by (simp add: as_def bs_def)
  define ra where "ra = tree_root (push_roots as [])"
  define rb where "rb = tree_root (push_roots bs [])"
  have gen: "push_roots xs u = join_all ((Suc k, NodeSum ra rb) # u)"
    if u: "\<forall>h\<in>fst ` set u. Suc k \<le> h" for u
  proof -
    from u have "\<forall>h\<in>fst ` set u. k \<le> h" by auto
    from Suc.IH [OF la this] have "push_roots as u = join_all ((k, ra) # u)"
      by (simp add: ra_def)
    also from u have "\<dots> = (k, ra) # u"
      by (intro join_all_no_merge) (auto simp: Suc_le_eq)
    finally have a: "push_roots as u = (k, ra) # u" .
    from u have "\<forall>h\<in>fst ` set ((k, ra) # u). k \<le> h" by auto
    from Suc.IH [OF lb this] have "push_roots bs ((k, ra) # u) = join_all ((k, rb) # (k, ra) # u)"
      by (simp add: rb_def)
    with a show ?thesis by (simp add: xs push_roots_append)
  qed
  from gen [of "[]"] have "tree_root (push_roots xs []) = NodeSum ra rb" by simp
  with gen [OF Suc.prems(2)] show ?case by simp
qed

lemma stack_weight_dvd:
  "\<forall>h\<in>fst ` set t. j \<le> h \<Longrightarrow> 2 ^ j dvd stack_weight t"
proof (induction t)
  case Nil
  then show ?case by simp
next
  case (Cons p t)
  obtain h y where p: "p = (h, y)" by (cases p)
  with Cons.prems have "(2::nat) ^ j dvd 2 ^ h" by (simp add: le_imp_power_dvd)
  with Cons p show ?case by simp
qed

lemma stack_aligned_heights:
  assumes "sorted_wrt (<) (map fst t)" and "2 ^ k dvd stack_weight t"
  shows "\<forall>h\<in>fst ` set t. k \<le> h"
proof (cases t)
  case Nil
  then show ?thesis by simp
next
  case (Cons p rest)
  obtain h y where p: "p = (h, y)" by (cases p)
  have rest: "\<forall>h'\<in>fst ` set rest. Suc h \<le> h'"
    using assms(1) Cons p by (auto simp: Suc_le_eq)
  have "k \<le> h"
  proof (rule ccontr)
    assume "\<not> k \<le> h"
    then have "Suc h \<le> k" by simp
    then have "(2::nat) ^ Suc h dvd 2 ^ k" by (rule le_imp_power_dvd)
    then have "2 ^ Suc h dvd stack_weight t" using assms(2) by (rule dvd_trans)
    moreover have "2 ^ Suc h dvd stack_weight rest" using rest by (rule stack_weight_dvd)
    ultimately have "2 ^ Suc h dvd (2::nat) ^ h"
      using Cons p by (simp add: dvd_add_left_iff)
    then show False by (simp add: nat_dvd_not_less)
  qed
  with rest Cons p show ?thesis by fastforce
qed

lemma join_all_append:
  "s \<noteq> [] \<Longrightarrow> stack_weight s < 2 ^ j \<Longrightarrow> \<forall>h\<in>fst ` set u. j \<le> h \<Longrightarrow>
   join_all (s @ u) = join_all s @ u"
proof (induction s rule: join_all.induct)
  case (1 h1 s1 h2 s2 rest)
  then show ?case by (cases "h1 = h2") auto
qed (auto intro!: join_all_no_merge intro: order_less_le_trans)

lemma push_roots_short:
  "length xs < 2 ^ j \<Longrightarrow> \<forall>h\<in>fst ` set u. j \<le> h \<Longrightarrow> push_roots xs u = push_roots xs [] @ u"
proof (induction xs rule: rev_induct)
  case Nil
  then show ?case by simp
next
  case (snoc x xs)
  then have ih: "push_roots xs u = push_roots xs [] @ u" by simp
  have "stack_weight ((0, x) # push_roots xs []) < 2 ^ j"
    using snoc.prems(1) by (simp add: stack_weight_push_roots)
  then have "join_all (((0, x) # push_roots xs []) @ u) = join_all ((0, x) # push_roots xs []) @ u"
    using snoc.prems(2) by (intro join_all_append) auto
  with ih show ?case by (simp add: push_roots_append)
qed

lemma tree_root_append:
  "s \<noteq> [] \<Longrightarrow> tree_root (s @ u) = fold (\<lambda>(h', s') cur. NodeSum s' cur) u (tree_root s)"
  by (cases s) auto

section \<open>Lemmas on the aligned subtree size\<close>

lemma adjacentSubtreeSize_pow2:
  assumes "l \<noteq> r"
  shows "\<exists>k<64. adjacentSubtreeSize l r = 2 ^ k \<and> 2 ^ k \<le> unat (r - l) \<and> 2 ^ k dvd unat l"
proof -
  define d where "d = unat (r - l)"
  have d0: "0 < d" using assms by (simp add: d_def unat_gt_0)
  obtain k0 where k0: "len64 (r - l) = Suc k0"
    using d0 len_nat_pos [of d] by (simp add: d_def len64_def)
  have k64: "k0 < 64" using len64_le [of "r - l"] k0 by simp
  have dlow: "2 ^ k0 \<le> d" using len_nat_lower [OF d0] k0 by (simp add: d_def len64_def)
  have unf: "adjacentSubtreeSize l r =
      (if k0 < trailingZeros64 l then go_shl1 (int k0) else go_shl1 (int (trailingZeros64 l)))"
    unfolding adjacentSubtreeSize_def Let_def k0 by simp
  show ?thesis
  proof (cases "k0 < trailingZeros64 l")
    case True
    have res: "adjacentSubtreeSize l r = 2 ^ k0"
      using True unf k64 by (simp add: go_shl1_nat)
    have "2 ^ k0 dvd unat l"
    proof (cases "l = 0")
      case True
      then show ?thesis by simp
    next
      case False
      then have "k0 \<le> tz_nat (unat l)"
        using \<open>k0 < trailingZeros64 l\<close> by (simp add: trailingZeros64_def)
      then have "(2::nat) ^ k0 dvd 2 ^ tz_nat (unat l)" by (rule le_imp_power_dvd)
      then show ?thesis using tz_nat_dvd dvd_trans by blast
    qed
    with res dlow k64 show ?thesis unfolding d_def by blast
  next
    case False
    then have l0: "l \<noteq> 0" using k64 by (auto simp: trailingZeros64_def)
    define k where "k = tz_nat (unat l)"
    have tz: "trailingZeros64 l = k" using l0 by (simp add: trailingZeros64_def k_def)
    have kk: "k \<le> k0" using False tz by simp
    have res: "adjacentSubtreeSize l r = 2 ^ k"
      using False tz unf kk k64 by (simp add: go_shl1_nat)
    have "(2::nat) ^ k \<le> 2 ^ k0" using kk by simp
    with dlow have "2 ^ k \<le> d" by (meson le_trans)
    moreover have "2 ^ k dvd unat l" by (simp add: k_def tz_nat_dvd)
    moreover have "k < 64" using kk k64 by simp
    ultimately show ?thesis using res unfolding d_def by blast
  qed
qed


lemma adjacentSubtreeSize_step:
  assumes "l \<noteq> r"
  shows "0 < unat (adjacentSubtreeSize l r)"
    and "unat (adjacentSubtreeSize l r) \<le> unat (r - l)"
    and "unat (r - (l + adjacentSubtreeSize l r)) < unat (r - l)"
proof -
  obtain k where k: "k < 64" "adjacentSubtreeSize l r = 2 ^ k" "2 ^ k \<le> unat (r - l)"
    using adjacentSubtreeSize_pow2 [OF assms] by blast
  then have u: "unat (adjacentSubtreeSize l r) = 2 ^ k" by (simp add: unat_pow2_64)
  then show pos: "0 < unat (adjacentSubtreeSize l r)" by simp
  from u k show le: "unat (adjacentSubtreeSize l r) \<le> unat (r - l)" by simp
  have eq: "r - (l + adjacentSubtreeSize l r) = (r - l) - adjacentSubtreeSize l r" by simp
  have "adjacentSubtreeSize l r \<le> r - l" using le by (simp add: word_le_nat_alt)
  then have "unat ((r - l) - adjacentSubtreeSize l r) = unat (r - l) - unat (adjacentSubtreeSize l r)"
    by (rule unat_sub)
  then have "unat (r - (l + adjacentSubtreeSize l r)) = unat (r - l) - unat (adjacentSubtreeSize l r)"
    by (simp only: eq)
  with pos le show "unat (r - (l + adjacentSubtreeSize l r)) < unat (r - l)" by simp
qed

lemma Sha256CachedTreeRoot2_single [simp]: "Sha256CachedTreeRoot2 [r] = r"
  by (simp add: Sha256CachedTreeRoot2_def push_roots_def)

end
