(* ===== verification/MerkleProof.thy ===== *)
theory MerkleProof
  imports MerkleTree
begin

text \<open>
  The diff-proof engine of \<open>crypto/merkle\<close> (\<open>src/consensus/dpos/api.go\<close>,
  lines 131--397): the two subtree-root sources behind the \<open>SubtreeRoot\<close>
  interface, the two leaf-root sources behind \<open>LeafRoot\<close>, the proof
  construction \<open>getLimitStorageProof\<close> (its \<open>consumeUntil\<close> closure is
  \<open>consume_until\<close>) and the verification \<open>checkLimitStorageProof\<close>, with the
  round-trip theorem: a proof built from the cached leaf roots verifies against
  their root when the verifier is given the leaves of the excluded ranges.
\<close>

section \<open>Subtree-root sources\<close>

text \<open>
  The Go interface \<open>SubtreeRoot\<close> is a record of its two methods over the
  source's state \<open>'s\<close>; each returns the new state beside its result.
\<close>

record 's SubtreeRoot =
  GetSubtreeRoot :: "u64 \<Rightarrow> 's \<Rightarrow> (merkle_error + digest) \<times> 's"
  Skip :: "u64 \<Rightarrow> 's \<Rightarrow> merkle_error + 's"

text \<open>
  \<open>CachedSubtreeRoot\<close>: the state is the list of leaf roots not yet consumed.
  \<open>GetSubtreeRoot n\<close> pushes at most \<open>n\<close> of them (none when the \<open>int\<close> \<open>n\<close> is
  not positive) and returns the root of what it pushed; \<open>Skip\<close> drops \<open>n\<close>
  roots, fails when fewer remain, and a negative \<open>n\<close> makes the slice
  expression \<open>leafRoots[n:]\<close> panic.
\<close>

fun cached_push_loop :: "nat \<Rightarrow> subtree list \<Rightarrow> digest list \<Rightarrow> (merkle_error + subtree list) \<times> digest list" where
  "cached_push_loop 0 t rs = (Inr t, rs)"
| "cached_push_loop (Suc i) t [] = (Inr t, [])"
| "cached_push_loop (Suc i) t (r # rs) =
     (case push_subtree 0 r t of
        Inl e \<Rightarrow> (Inl e, r # rs)
      | Inr t' \<Rightarrow> cached_push_loop i t' rs)"

definition cached_GetSubtreeRoot :: "u64 \<Rightarrow> digest list \<Rightarrow> (merkle_error + digest) \<times> digest list" where
  "cached_GetSubtreeRoot n roots =
     (if roots = [] then (Inl EOF, roots)
      else (case cached_push_loop (nat (sint n)) [] roots of
              (Inl e, rs) \<Rightarrow> (Inl e, rs)
            | (Inr t, rs) \<Rightarrow> (Inr (tree_root t), rs)))"

definition cached_Skip :: "u64 \<Rightarrow> digest list \<Rightarrow> merkle_error + digest list" where
  "cached_Skip n roots =
     (if sint n > int (length roots) then Inl ErrUnexpectedEOF
      else if sint n < 0 then Inl ErrPanic
      else Inr (drop (nat (sint n)) roots))"

definition CachedSubtreeRoot :: "digest list SubtreeRoot" where
  "CachedSubtreeRoot = \<lparr>GetSubtreeRoot = cached_GetSubtreeRoot, Skip = cached_Skip\<rparr>"

text \<open>
  \<open>SubtreeRootReader\<close>: the state is the rest of the byte stream and
  \<open>leafNumber\<close> the length of the leaf buffer. Each iteration reads one leaf
  with \<open>io.ReadFull\<close>, pushes the bytes it read if there were any, and stops
  at the end of the stream; the root of an empty tree is reported as \<open>EOF\<close>.
  \<open>Skip n\<close> discards \<open>leafNumber * n\<close> bytes (a Go \<open>int\<close> product, so it
  wraps); a non-positive count discards nothing.
\<close>

fun reader_push_loop :: "nat \<Rightarrow> nat \<Rightarrow> subtree list \<Rightarrow> byte list \<Rightarrow> subtree list \<times> byte list" where
  "reader_push_loop leafNumber 0 t bs = (t, bs)"
| "reader_push_loop leafNumber (Suc i) t bs =
     (let chunk = take leafNumber bs;
          rest = drop leafNumber bs;
          t' = (if chunk \<noteq> [] then push_leaf chunk t else t)
      in if length chunk < leafNumber then (t', rest)
         else reader_push_loop leafNumber i t' rest)"

definition reader_GetSubtreeRoot :: "nat \<Rightarrow> u64 \<Rightarrow> byte list \<Rightarrow> (merkle_error + digest) \<times> byte list" where
  "reader_GetSubtreeRoot leafNumber n bs =
     (case reader_push_loop leafNumber (nat (sint n)) [] bs of
        (t, rest) \<Rightarrow> if t = [] then (Inl EOF, rest) else (Inr (tree_root t), rest))"

definition reader_Skip :: "nat \<Rightarrow> u64 \<Rightarrow> byte list \<Rightarrow> merkle_error + byte list" where
  "reader_Skip leafNumber n bs =
     (let skipSize = sint (word_of_nat leafNumber * n :: u64)
      in if skipSize \<le> 0 then Inr bs
         else if int (length bs) < skipSize then Inl ErrUnexpectedEOF
         else Inr (drop (nat skipSize) bs))"

definition SubtreeRootReader :: "nat \<Rightarrow> byte list SubtreeRoot" where
  "SubtreeRootReader leafNumber =
     \<lparr>GetSubtreeRoot = reader_GetSubtreeRoot leafNumber, Skip = reader_Skip leafNumber\<rparr>"

section \<open>Proof construction\<close>

text \<open>
  \<open>consume_until\<close> is the closure \<open>consumeUntil\<close> of \<open>getLimitStorageProof\<close>:
  from \<open>leafIndex\<close> up to \<open>end\<close> it asks the source for the root of the largest
  aligned subtree that fits and appends it to the proof. Its state is returned
  with its outcome: the error that stopped it, if any, the proof so far, the
  leaf index and the source. It terminates for every source: each step
  advances the index by a positive amount no larger than the distance left.
\<close>

function consume_until ::
  "'s SubtreeRoot \<Rightarrow> u64 \<Rightarrow> u64 \<Rightarrow> 's \<Rightarrow> digest list \<Rightarrow>
   merkle_error option \<times> digest list \<times> u64 \<times> 's" where
  "consume_until sr end leafIndex s acc =
     (if leafIndex = end then (None, acc, leafIndex, s)
      else (let subtreeSize = adjacentSubtreeSize leafIndex end in
            case GetSubtreeRoot sr subtreeSize s of
              (Inl e, s') \<Rightarrow> (Some e, acc, leafIndex, s')
            | (Inr root, s') \<Rightarrow> consume_until sr end (leafIndex + subtreeSize) s' (acc @ [root])))"
  by pat_completeness auto
termination
  by (relation "measure (\<lambda>(sr, end, leafIndex, s, acc). unat (end - leafIndex))")
     (auto simp: adjacentSubtreeSize_step(3))

declare consume_until.simps [simp del]

abbreviation MaxUint64 :: u64 where
  "MaxUint64 \<equiv> - 1"

fun limits_loop ::
  "'s SubtreeRoot \<Rightarrow> SubTreeLimit list \<Rightarrow> u64 \<Rightarrow> 's \<Rightarrow> digest list \<Rightarrow>
   merkle_error option \<times> digest list \<times> u64 \<times> 's" where
  "limits_loop sr [] leafIndex s acc = (None, acc, leafIndex, s)"
| "limits_loop sr (r # rs) leafIndex s acc =
     (case consume_until sr (Left r) leafIndex s acc of
        (Some e, acc', li', s') \<Rightarrow> (Some e, acc', li', s')
      | (None, acc', li', s') \<Rightarrow>
          (case Skip sr (Right r - Left r) s' of
             Inl e \<Rightarrow> (Some e, acc', li', s')
           | Inr s'' \<Rightarrow> limits_loop sr rs (li' + (Right r - Left r)) s'' acc'))"

text \<open>
  \<open>getLimitStorageProof\<close>: an empty range list gives an empty proof, an
  invalid one an error; after the ranges the rest of the leaves is drained with
  \<open>end = MaxUint64\<close>, where running out of leaves (\<open>EOF\<close>) is the normal end.
  When the drain stops on another error the source returns the partial proof
  beside the error; every caller discards it, and the model returns the error.
\<close>

definition getLimitStorageProof ::
  "SubTreeLimit list \<Rightarrow> 's SubtreeRoot \<Rightarrow> 's \<Rightarrow> (merkle_error + digest list) \<times> 's" where
  "getLimitStorageProof limits sr s =
     (if limits = [] then (Inr [], s)
      else if \<not> checkLimitList limits then (Inl ErrInvalidParameter, s)
      else (case limits_loop sr limits 0 s [] of
              (Some e, _, _, s') \<Rightarrow> (Inl e, s')
            | (None, acc, leafIndex, s') \<Rightarrow>
                (case consume_until sr MaxUint64 leafIndex s' acc of
                   (None, acc', _, s'') \<Rightarrow> (Inr acc', s'')
                 | (Some e, acc', _, s'') \<Rightarrow>
                     if e = EOF then (Inr acc', s'') else (Inl e, s''))))"

definition GetLimitStorageProof :: "u64 \<Rightarrow> u64 \<Rightarrow> 's SubtreeRoot \<Rightarrow> 's \<Rightarrow> (merkle_error + digest list) \<times> 's" where
  "GetLimitStorageProof left right h s =
     (if sint left < 0 \<or> sint left > sint right \<or> left = right then (Inl ErrInvalidParameter, s)
      else getLimitStorageProof [\<lparr>Left = left, Right = right\<rparr>] h s)"

section \<open>Leaf-root sources\<close>

record 'l LeafRoot =
  GetLeafRoot :: "'l \<Rightarrow> (merkle_error + digest) \<times> 'l"

definition reader_GetLeafRoot :: "nat \<Rightarrow> byte list \<Rightarrow> (merkle_error + digest) \<times> byte list" where
  "reader_GetLeafRoot leafSize bs =
     (let chunk = take leafSize bs
      in if chunk = [] then (Inl EOF, drop leafSize bs) else (Inr (LeafSum chunk), drop leafSize bs))"

definition LeafRootReader :: "nat \<Rightarrow> byte list LeafRoot" where
  "LeafRootReader leafSize = \<lparr>GetLeafRoot = reader_GetLeafRoot leafSize\<rparr>"

definition cached_GetLeafRoot :: "digest list \<Rightarrow> (merkle_error + digest) \<times> digest list" where
  "cached_GetLeafRoot roots = (case roots of [] \<Rightarrow> (Inl EOF, []) | h # rest \<Rightarrow> (Inr h, rest))"

definition LeafRootCached :: "digest list LeafRoot" where
  "LeafRootCached = \<lparr>GetLeafRoot = cached_GetLeafRoot\<rparr>"

section \<open>Proof verification\<close>

text \<open>
  The verifier's \<open>consumeUntil\<close> pushes one proof hash per aligned subtree, at
  the height given by the subtree size, while proof hashes remain; the leaves
  of each range are pushed one by one (a failing push panics in the source).
\<close>

fun check_consume_until ::
  "u64 \<Rightarrow> u64 \<Rightarrow> subtree list \<Rightarrow> digest list \<Rightarrow> merkle_error option \<times> u64 \<times> subtree list \<times> digest list" where
  "check_consume_until end leafIndex t [] = (None, leafIndex, t, [])"
| "check_consume_until end leafIndex t (p # ps) =
     (if leafIndex = end then (None, leafIndex, t, p # ps)
      else (let subtreeSize = adjacentSubtreeSize leafIndex end;
                i = trailingZeros64 subtreeSize
            in case push_subtree i p t of
                 Inl e \<Rightarrow> (Some e, leafIndex, t, p # ps)
               | Inr t' \<Rightarrow> check_consume_until end (leafIndex + subtreeSize) t' ps))"

fun check_push_leaves ::
  "'l LeafRoot \<Rightarrow> nat \<Rightarrow> subtree list \<Rightarrow> 'l \<Rightarrow> merkle_error option \<times> subtree list \<times> 'l" where
  "check_push_leaves lh 0 t l = (None, t, l)"
| "check_push_leaves lh (Suc n) t l =
     (case GetLeafRoot lh l of
        (Inl e, l') \<Rightarrow> (Some e, t, l')
      | (Inr leafHash, l') \<Rightarrow>
          (case push_subtree 0 leafHash t of
             Inl _ \<Rightarrow> (Some ErrPanic, t, l')
           | Inr t' \<Rightarrow> check_push_leaves lh n t' l'))"

fun check_limits_loop ::
  "'l LeafRoot \<Rightarrow> SubTreeLimit list \<Rightarrow> u64 \<Rightarrow> subtree list \<Rightarrow> 'l \<Rightarrow> digest list \<Rightarrow>
   merkle_error option \<times> u64 \<times> subtree list \<times> 'l \<times> digest list" where
  "check_limits_loop lh [] leafIndex t l ps = (None, leafIndex, t, l, ps)"
| "check_limits_loop lh (r # rs) leafIndex t l ps =
     (case check_consume_until (Left r) leafIndex t ps of
        (Some e, li', t', ps') \<Rightarrow> (Some e, li', t', l, ps')
      | (None, li', t', ps') \<Rightarrow>
          (case check_push_leaves lh (unat (Right r) - unat (Left r)) t' l of
             (Some e, t'', l') \<Rightarrow> (Some e, li', t'', l', ps')
           | (None, t'', l') \<Rightarrow> check_limits_loop lh rs (li' + (Right r - Left r)) t'' l' ps'))"

definition checkLimitStorageProof ::
  "'l LeafRoot \<Rightarrow> 'l \<Rightarrow> SubTreeLimit list \<Rightarrow> digest list \<Rightarrow> digest \<Rightarrow> merkle_error + bool" where
  "checkLimitStorageProof lh l limits storageProofList root =
     (if limits = [] then Inr True
      else if \<not> checkLimitList limits then Inl ErrInvalidParameter
      else (case check_limits_loop lh limits 0 [] l storageProofList of
              (Some e, _) \<Rightarrow> Inl e
            | (None, leafIndex, t, _, ps) \<Rightarrow>
                (case check_consume_until MaxUint64 leafIndex t ps of
                   (Some e, _) \<Rightarrow> Inl e
                 | (None, _, t', _) \<Rightarrow> Inr (tree_root t' = root))))"

text \<open>
  The leaves a verifier is handed for a range list: the leaf roots inside each
  range, in order. Used to state the round trip.
\<close>

definition range_leaves :: "SubTreeLimit list \<Rightarrow> 'a list \<Rightarrow> 'a list" where
  "range_leaves limits ls =
     concat (map (\<lambda>r. take (unat (Right r) - unat (Left r)) (drop (unat (Left r)) ls)) limits)"

definition CheckLimitStorageProof ::
  "'l LeafRoot \<Rightarrow> 'l \<Rightarrow> u64 \<Rightarrow> u64 \<Rightarrow> digest list \<Rightarrow> digest \<Rightarrow> merkle_error + bool" where
  "CheckLimitStorageProof lh l left right storageProofList root =
     (if sint left < 0 \<or> sint left > sint right \<or> left = right then Inl ErrInvalidParameter
      else checkLimitStorageProof lh l [\<lparr>Left = left, Right = right\<rparr>] storageProofList root)"

section \<open>Lemmas: the cached sources\<close>

lemma uint_lt_of_unat: "unat (w :: u64) < n \<Longrightarrow> uint w < int n"
  by (simp add: uint_nat del: of_nat_unat)

lemma sint_small:
  assumes "unat (w :: u64) < 2 ^ 63" shows "sint w = uint w"
proof -
  have "uint w < 2 ^ 63" using uint_lt_of_unat [OF assms] by simp
  moreover have "- (2 ^ 63) \<le> uint w" by (rule order_trans [of _ 0]) simp_all
  ultimately have "signed_take_bit 63 (uint w) = uint w"
    by (intro signed_take_bit_int_eq_self) simp_all
  then show ?thesis by (simp add: sint_uint)
qed

lemma tz_nat_pow2: "tz_nat (2 ^ k) = k"
  by (induction k) (simp_all add: tz_nat_even tz_nat_odd)

lemma trailingZeros64_pow2 [go_bits_simps]: "k < 64 \<Longrightarrow> trailingZeros64 (2 ^ k) = k"
proof -
  assume k: "k < 64"
  then have u: "unat (2 ^ k :: u64) = 2 ^ k" by (rule unat_pow2_64)
  then have "(2 ^ k :: u64) \<noteq> 0" by (metis power_not_zero unsigned_0 zero_neq_numeral)
  with u show ?thesis by (simp add: trailingZeros64_def tz_nat_pow2)
qed

lemma cached_push_loop_eq:
  "cached_push_loop n t rs = (Inr (push_roots (take n rs) t), drop n rs)"
proof (induction n arbitrary: t rs)
  case 0
  then show ?case by simp
next
  case (Suc n)
  then show ?case by (cases rs) (simp_all add: push_subtree_0)
qed

lemma cached_GetSubtreeRoot_Nil: "cached_GetSubtreeRoot n [] = (Inl EOF, [])"
  by (simp add: cached_GetSubtreeRoot_def)

lemma cached_GetSubtreeRoot_eq:
  "rs \<noteq> [] \<Longrightarrow> unat n < 2 ^ 63 \<Longrightarrow>
   cached_GetSubtreeRoot n rs = (Inr (tree_root (push_roots (take (unat n) rs) [])), drop (unat n) rs)"
  by (simp add: cached_GetSubtreeRoot_def cached_push_loop_eq sint_small)

lemma cached_Skip_eq:
  "unat n \<le> length rs \<Longrightarrow> unat n < 2 ^ 63 \<Longrightarrow> cached_Skip n rs = Inr (drop (unat n) rs)"
  by (simp add: cached_Skip_def sint_small uint_nat del: of_nat_unat)

lemma check_consume_until_stop: "check_consume_until e e t qs = (None, e, t, qs)"
  by (cases qs) simp_all

lemma check_push_leaves_cached:
  "check_push_leaves LeafRootCached (length xs) t (xs @ rest) = (None, push_roots xs t, rest)"
  by (induction xs arbitrary: t) (simp_all add: LeafRootCached_def cached_GetLeafRoot_def push_subtree_0)

lemma check_limits_from_Some0: "check_limits_from None limits \<Longrightarrow> check_limits_from (Some 0) limits"
  by (cases limits) (auto split: if_splits)

section \<open>Lemmas: prover and verifier in lock-step\<close>

lemma push_aligned_block:
  assumes "2 ^ k dvd n" "2 ^ k \<le> length ls - n" "n \<le> length ls"
  shows "push_subtree k (tree_root (push_roots (take (2 ^ k) (drop n ls)) [])) (push_roots (take n ls) [])
         = Inr (push_roots (take (n + 2 ^ k) ls) [])"
proof -
  define t where "t = push_roots (take n ls) []"
  have sorted: "sorted_wrt (<) (map fst t)" unfolding t_def by (rule push_roots_sorted) simp
  have "stack_weight t = n" using assms(3) by (simp add: t_def stack_weight_push_roots)
  with sorted assms(1) have hs: "\<forall>h\<in>fst ` set t. k \<le> h" by (simp add: stack_aligned_heights)
  have len: "length (take (2 ^ k) (drop n ls)) = 2 ^ k" using assms(2) by simp
  have "push_roots (take (2 ^ k) (drop n ls)) t
        = join_all ((k, tree_root (push_roots (take (2 ^ k) (drop n ls)) [])) # t)"
    by (rule push_roots_block [OF len hs])
  moreover have "push_roots (take (n + 2 ^ k) ls) [] = push_roots (take (2 ^ k) (drop n ls)) t"
    by (simp add: t_def take_add push_roots_append)
  ultimately show ?thesis using hs by (simp add: push_subtree_ok t_def)
qed

lemma consume_gap:
  assumes "unat li \<le> unat e" "unat e \<le> length ls" "length ls < 2 ^ 62"
  shows "\<exists>ps. consume_until CachedSubtreeRoot e li (drop (unat li) ls) acc = (None, acc @ ps, e, drop (unat e) ls) \<and>
    (\<forall>qs. check_consume_until e li (push_roots (take (unat li) ls) []) (ps @ qs)
          = (None, e, push_roots (take (unat e) ls) [], qs))"
  using assms
proof (induction "unat e - unat li" arbitrary: li acc rule: less_induct)
  case less
  show ?case
  proof (cases "li = e")
    case True
    then show ?thesis
      by (intro exI [of _ "[]"]) (simp add: consume_until.simps check_consume_until_stop)
  next
    case False
    obtain k where k: "k < 64" "adjacentSubtreeSize li e = 2 ^ k" "2 ^ k \<le> unat (e - li)"
      "2 ^ k dvd unat li"
      using adjacentSubtreeSize_pow2 [OF False] by blast
    have "li \<le> e" using less.prems(1) by (simp add: word_le_nat_alt)
    then have span: "unat (e - li) = unat e - unat li" by (rule unat_sub)
    define li' where "li' = li + adjacentSubtreeSize li e"
    have "unat li + unat (adjacentSubtreeSize li e) < 2 ^ 64"
      using k span less.prems unat_u64_bound [of e] by (simp add: unat_pow2_64)
    then have li': "unat li' = unat li + 2 ^ k"
      using k by (simp add: li'_def unat_add_lem [THEN iffD1] unat_pow2_64)
    have small: "unat (adjacentSubtreeSize li e) < 2 ^ 63"
      using k span less.prems by (simp add: unat_pow2_64)
    have ne: "drop (unat li) ls \<noteq> []"
      using less.prems False by (simp add: word_unat_eq_iff)
    define R where "R = tree_root (push_roots (take (2 ^ k) (drop (unat li) ls)) [])"
    have get: "GetSubtreeRoot CachedSubtreeRoot (adjacentSubtreeSize li e) (drop (unat li) ls)
               = (Inr R, drop (unat li') ls)"
      using cached_GetSubtreeRoot_eq [OF ne small] k li'
      by (simp add: CachedSubtreeRoot_def R_def unat_pow2_64 add.commute)
    have step: "consume_until CachedSubtreeRoot e li (drop (unat li) ls) acc
                = consume_until CachedSubtreeRoot e li' (drop (unat li') ls) (acc @ [R])"
      using False get by (simp add: consume_until.simps [of _ e li] Let_def li'_def)
    have "(0::nat) < 2 ^ k" by simp
    then have lt: "unat e - unat li' < unat e - unat li"
      using li' span k(3) less.prems(1) by linarith
    have pre: "unat li' \<le> unat e" using li' span k less.prems by simp
    from less.hyps [OF lt pre less.prems(2,3), of "acc @ [R]"] obtain ps where
      ps: "consume_until CachedSubtreeRoot e li' (drop (unat li') ls) (acc @ [R])
             = (None, acc @ [R] @ ps, e, drop (unat e) ls)"
        "\<forall>qs. check_consume_until e li' (push_roots (take (unat li') ls) []) (ps @ qs)
             = (None, e, push_roots (take (unat e) ls) [], qs)"
      by auto
    have push: "push_subtree k R (push_roots (take (unat li) ls) []) = Inr (push_roots (take (unat li') ls) [])"
      unfolding R_def li' using k span less.prems by (intro push_aligned_block) simp_all
    show ?thesis
    proof (intro exI [of _ "R # ps"] conjI allI)
      show "consume_until CachedSubtreeRoot e li (drop (unat li) ls) acc = (None, acc @ (R # ps), e, drop (unat e) ls)"
        using step ps(1) by simp
      fix qs
      show "check_consume_until e li (push_roots (take (unat li) ls) []) ((R # ps) @ qs)
            = (None, e, push_roots (take (unat e) ls) [], qs)"
        using False k push ps(2) by (simp add: Let_def trailingZeros64_pow2 li'_def)
    qed
  qed
qed

lemma aligned_stack_heights:
  assumes "2 ^ k dvd n" "n \<le> length ls"
  shows "\<forall>h\<in>fst ` set (push_roots (take n ls) []). k \<le> h"
proof -
  have "sorted_wrt (<) (map fst (push_roots (take n ls) []))" by (rule push_roots_sorted) simp
  moreover have "stack_weight (push_roots (take n ls) []) = n" using assms(2) by (simp add: stack_weight_push_roots)
  ultimately show ?thesis using assms(1) by (simp add: stack_aligned_heights)
qed

lemma root_short_tail:
  assumes "2 ^ k dvd n" "n < length ls" "length ls - n < 2 ^ k"
  shows "tree_root (join_all ((k, tree_root (push_roots (drop n ls) [])) # push_roots (take n ls) []))
         = tree_root (push_roots ls [])"
proof -
  define t where "t = push_roots (take n ls) []"
  define s where "s = push_roots (drop n ls) []"
  have hs: "\<forall>h\<in>fst ` set t. k \<le> h" unfolding t_def using assms by (intro aligned_stack_heights) simp_all
  have "push_roots ls [] = push_roots (drop n ls) t"
    by (simp add: t_def push_roots_append [symmetric])
  also have "\<dots> = s @ t" unfolding s_def using assms(3) hs by (intro push_roots_short) simp_all
  finally have ls: "push_roots ls [] = s @ t" .
  have "stack_weight s = length ls - n" by (simp add: s_def stack_weight_push_roots)
  then have "s \<noteq> []" using assms(2) by auto
  then have "tree_root (s @ t) = fold (\<lambda>(h', s') cur. NodeSum s' cur) t (tree_root s)"
    by (rule tree_root_append)
  with ls show ?thesis by (simp add: stack_simps s_def t_def)
qed

lemma MaxUint64_ne: "unat li < 2 ^ 63 \<Longrightarrow> li \<noteq> MaxUint64"
  by (auto simp: unsigned_minus_1_eq_mask mask_eq_exp_minus_1)

lemma consume_drain:
  assumes "0 < unat li" "unat li \<le> length ls" "length ls < 2 ^ 62"
  shows "\<exists>ps li'. consume_until CachedSubtreeRoot MaxUint64 li (drop (unat li) ls) acc = (Some EOF, acc @ ps, li', []) \<and>
    (\<exists>li'' t'. check_consume_until MaxUint64 li (push_roots (take (unat li) ls) []) ps = (None, li'', t', []) \<and>
       tree_root t' = tree_root (push_roots ls []))"
  using assms
proof (induction "length ls - unat li" arbitrary: li acc rule: less_induct)
  case less
  have ne: "li \<noteq> MaxUint64" using less.prems by (intro MaxUint64_ne) simp
  obtain k where k: "k < 64" "adjacentSubtreeSize li MaxUint64 = 2 ^ k" "2 ^ k dvd unat li"
    using adjacentSubtreeSize_pow2 [OF ne] by blast
  have kli: "2 ^ k \<le> unat li" using k(3) less.prems(1) by (rule dvd_imp_le)
  have small: "unat (adjacentSubtreeSize li MaxUint64) < 2 ^ 63"
    using k kli less.prems by (simp add: unat_pow2_64)
  define li' where "li' = li + adjacentSubtreeSize li MaxUint64"
  have "unat li + unat (adjacentSubtreeSize li MaxUint64) < 2 ^ 64"
    using k kli less.prems by (simp add: unat_pow2_64)
  then have li': "unat li' = unat li + 2 ^ k"
    using k by (simp add: li'_def unat_add_lem [THEN iffD1] unat_pow2_64)
  define t where "t = push_roots (take (unat li) ls) []"
  consider (exhausted) "unat li = length ls" | (full) "2 ^ k \<le> length ls - unat li"
    | (short) "unat li < length ls" "length ls - unat li < 2 ^ k"
    using less.prems(2) by linarith
  then show ?case
  proof cases
    case exhausted
    then have "consume_until CachedSubtreeRoot MaxUint64 li (drop (unat li) ls) acc = (Some EOF, acc, li, [])"
      using ne by (simp add: consume_until.simps [of _ _ li] CachedSubtreeRoot_def cached_GetSubtreeRoot_Nil)
    moreover have "check_consume_until MaxUint64 li t [] = (None, li, push_roots ls [], [])"
      using exhausted by (simp add: t_def)
    ultimately show ?thesis unfolding t_def by (intro exI [of _ "[]"]) auto
  next
    case full
    have nel: "drop (unat li) ls \<noteq> []" using full by auto
    define R where "R = tree_root (push_roots (take (2 ^ k) (drop (unat li) ls)) [])"
    have get: "GetSubtreeRoot CachedSubtreeRoot (adjacentSubtreeSize li MaxUint64) (drop (unat li) ls)
               = (Inr R, drop (unat li') ls)"
      using cached_GetSubtreeRoot_eq [OF nel small] k li'
      by (simp add: CachedSubtreeRoot_def R_def unat_pow2_64 add.commute)
    have step: "consume_until CachedSubtreeRoot MaxUint64 li (drop (unat li) ls) acc
                = consume_until CachedSubtreeRoot MaxUint64 li' (drop (unat li') ls) (acc @ [R])"
      using ne get by (simp add: consume_until.simps [of _ _ li] Let_def li'_def)
    have "(0::nat) < 2 ^ k" by simp
    then have lt: "length ls - unat li' < length ls - unat li" using li' full by linarith
    have pre: "0 < unat li'" "unat li' \<le> length ls" using li' full less.prems by simp_all
    from less.hyps [OF lt pre less.prems(3), of "acc @ [R]"] obtain ps li2 li3 t' where
      ps: "consume_until CachedSubtreeRoot MaxUint64 li' (drop (unat li') ls) (acc @ [R])
             = (Some EOF, acc @ [R] @ ps, li2, [])"
        "check_consume_until MaxUint64 li' (push_roots (take (unat li') ls) []) ps = (None, li3, t', [])"
        "tree_root t' = tree_root (push_roots ls [])"
      by auto
    have push: "push_subtree k R t = Inr (push_roots (take (unat li') ls) [])"
      unfolding R_def li' t_def using k full less.prems by (intro push_aligned_block) simp_all
    have "check_consume_until MaxUint64 li t (R # ps) = (None, li3, t', [])"
      using ne k push ps(2) by (simp add: Let_def trailingZeros64_pow2 li'_def)
    with step ps(1,3) show ?thesis unfolding t_def by (intro exI [of _ "R # ps"]) auto
  next
    case short
    have nel: "drop (unat li) ls \<noteq> []" using short by auto
    define R where "R = tree_root (push_roots (drop (unat li) ls) [])"
    have get: "GetSubtreeRoot CachedSubtreeRoot (adjacentSubtreeSize li MaxUint64) (drop (unat li) ls)
               = (Inr R, [])"
      using cached_GetSubtreeRoot_eq [OF nel small] k short
      by (simp add: CachedSubtreeRoot_def R_def unat_pow2_64)
    have ne': "li' \<noteq> MaxUint64" using li' kli less.prems by (intro MaxUint64_ne) simp
    have "consume_until CachedSubtreeRoot MaxUint64 li (drop (unat li) ls) acc = (Some EOF, acc @ [R], li', [])"
      using ne ne' get
      by (simp add: consume_until.simps [of _ _ li] consume_until.simps [of _ _ li'] Let_def
          li'_def [symmetric] CachedSubtreeRoot_def cached_GetSubtreeRoot_Nil)
    moreover have hs: "\<forall>h\<in>fst ` set t. k \<le> h"
      unfolding t_def using k short by (intro aligned_stack_heights) simp_all
    then have "check_consume_until MaxUint64 li t [R] = (None, li', join_all ((k, R) # t), [])"
      using ne k by (simp add: Let_def trailingZeros64_pow2 li'_def push_subtree_ok)
    moreover have "tree_root (join_all ((k, R) # t)) = tree_root (push_roots ls [])"
      unfolding R_def t_def using k short by (intro root_short_tail) simp_all
    ultimately show ?thesis unfolding t_def by (intro exI [of _ "[R]"]) auto
  qed
qed

lemma range_leaves_Nil [simp]: "range_leaves [] ls = []"
  and range_leaves_Cons [simp]:
    "range_leaves (r # rs) ls = take (unat (Right r) - unat (Left r)) (drop (unat (Left r)) ls) @ range_leaves rs ls"
  by (simp_all add: range_leaves_def)

lemma limits_sim:
  assumes "check_limits_from (Some li) limits" "\<forall>r\<in>set limits. unat (Right r) \<le> length ls"
    "length ls < 2 ^ 62" "unat li \<le> length ls"
  shows "\<exists>ps li'. limits_loop CachedSubtreeRoot limits li (drop (unat li) ls) acc
             = (None, acc @ ps, li', drop (unat li') ls) \<and>
           unat li' \<le> length ls \<and> (limits \<noteq> [] \<longrightarrow> 0 < unat li') \<and>
           (\<forall>qs rest. check_limits_loop LeafRootCached limits li (push_roots (take (unat li) ls) [])
                 (range_leaves limits ls @ rest) (ps @ qs)
               = (None, li', push_roots (take (unat li') ls) [], rest, qs))"
  using assms
proof (induction limits arbitrary: li acc)
  case Nil
  then show ?case by (intro exI [of _ "[]"] exI [of _ li]) simp
next
  case (Cons r rs)
  have lr: "li \<le> Left r" "Left r < Right r" and rest: "check_limits_from (Some (Right r)) rs"
    using Cons.prems(1) by (auto split: if_splits)
  have ul: "unat li \<le> unat (Left r)" "unat (Left r) < unat (Right r)"
    using lr by (simp_all add: word_le_nat_alt word_less_nat_alt)
  have rlen: "unat (Right r) \<le> length ls" using Cons.prems(2) by simp
  from consume_gap [of li "Left r" ls acc] ul rlen Cons.prems(3) obtain ps1 where
    g: "consume_until CachedSubtreeRoot (Left r) li (drop (unat li) ls) acc
          = (None, acc @ ps1, Left r, drop (unat (Left r)) ls)"
      "\<forall>qs. check_consume_until (Left r) li (push_roots (take (unat li) ls) []) (ps1 @ qs)
          = (None, Left r, push_roots (take (unat (Left r)) ls) [], qs)"
    by auto
  have span: "unat (Right r - Left r) = unat (Right r) - unat (Left r)"
    using lr by (simp add: unat_sub)
  have skip: "Skip CachedSubtreeRoot (Right r - Left r) (drop (unat (Left r)) ls) = Inr (drop (unat (Right r)) ls)"
    using span ul rlen Cons.prems(3) by (simp add: CachedSubtreeRoot_def cached_Skip_eq)
  have ir: "Left r + (Right r - Left r) = Right r" by simp
  have rs_len: "\<forall>r\<in>set rs. unat (Right r) \<le> length ls" using Cons.prems(2) by simp
  from Cons.IH [OF rest rs_len Cons.prems(3) rlen, of "acc @ ps1"] obtain ps2 li' where
    ih: "limits_loop CachedSubtreeRoot rs (Right r) (drop (unat (Right r)) ls) (acc @ ps1)
           = (None, (acc @ ps1) @ ps2, li', drop (unat li') ls)"
      "unat li' \<le> length ls" "rs \<noteq> [] \<longrightarrow> 0 < unat li'"
      "\<forall>qs rest. check_limits_loop LeafRootCached rs (Right r) (push_roots (take (unat (Right r)) ls) [])
           (range_leaves rs ls @ rest) (ps2 @ qs) = (None, li', push_roots (take (unat li') ls) [], rest, qs)"
    by blast
  have pos: "0 < unat li'"
  proof (cases "rs = []")
    case True
    with ih(1) have "li' = Right r" by simp
    with ul show ?thesis by simp
  next
    case False
    with ih(3) show ?thesis by simp
  qed
  have leaves: "check_push_leaves LeafRootCached (unat (Right r) - unat (Left r))
        (push_roots (take (unat (Left r)) ls) []) (range_leaves (r # rs) ls @ rest)
      = (None, push_roots (take (unat (Right r)) ls) [], range_leaves rs ls @ rest)" for rest
  proof -
    have len: "length (take (unat (Right r) - unat (Left r)) (drop (unat (Left r)) ls)) = unat (Right r) - unat (Left r)"
      using rlen by simp
    have "take (unat (Right r)) ls = take (unat (Left r)) ls @ take (unat (Right r) - unat (Left r)) (drop (unat (Left r)) ls)"
      using ul by (metis le_add_diff_inverse less_imp_le_nat take_add)
    then show ?thesis
      using check_push_leaves_cached [of "take (unat (Right r) - unat (Left r)) (drop (unat (Left r)) ls)"] len
      by (simp add: push_roots_append)
  qed
  show ?case
  proof (intro exI [of _ "ps1 @ ps2"] exI [of _ li'] conjI allI impI)
    show "limits_loop CachedSubtreeRoot (r # rs) li (drop (unat li) ls) acc
          = (None, acc @ ps1 @ ps2, li', drop (unat li') ls)"
      using g(1) skip ih(1) by (simp add: ir)
    show "unat li' \<le> length ls" by (rule ih(2))
    show "0 < unat li'" by (rule pos)
    fix qs rest
    show "check_limits_loop LeafRootCached (r # rs) li (push_roots (take (unat li) ls) [])
            (range_leaves (r # rs) ls @ rest) ((ps1 @ ps2) @ qs)
          = (None, li', push_roots (take (unat li') ls) [], rest, qs)"
      using g(2) leaves ih(4) by (simp add: ir)
  qed
qed

lemma limit_storage_proof_check:
  assumes "checkLimitList limits" "limits \<noteq> []" "\<forall>r\<in>set limits. unat (Right r) \<le> length ls"
    "length ls < 2 ^ 62"
  shows "\<exists>prf. getLimitStorageProof limits CachedSubtreeRoot ls = (Inr prf, []) \<and>
    checkLimitStorageProof LeafRootCached (range_leaves limits ls) limits prf root
      = Inr (tree_root (push_roots ls []) = root)"
proof -
  have start: "check_limits_from (Some 0) limits"
    using assms(1) by (simp add: checkLimitList_def check_limits_from_Some0)
  from limits_sim [OF start assms(3,4), of "[]"] assms(2) obtain ps1 li' where
    l: "limits_loop CachedSubtreeRoot limits 0 ls [] = (None, ps1, li', drop (unat li') ls)"
      "unat li' \<le> length ls" "0 < unat li'"
      "\<forall>qs rest. check_limits_loop LeafRootCached limits 0 [] (range_leaves limits ls @ rest) (ps1 @ qs)
           = (None, li', push_roots (take (unat li') ls) [], rest, qs)"
    by auto
  from consume_drain [OF l(3,2) assms(4), of ps1] obtain ps2 li2 li3 t' where
    d: "consume_until CachedSubtreeRoot MaxUint64 li' (drop (unat li') ls) ps1 = (Some EOF, ps1 @ ps2, li2, [])"
      "check_consume_until MaxUint64 li' (push_roots (take (unat li') ls) []) ps2 = (None, li3, t', [])"
      "tree_root t' = tree_root (push_roots ls [])"
    by blast
  have "getLimitStorageProof limits CachedSubtreeRoot ls = (Inr (ps1 @ ps2), [])"
    using assms(1,2) l(1) d(1) by (simp add: getLimitStorageProof_def)
  moreover have "checkLimitStorageProof LeafRootCached (range_leaves limits ls) limits (ps1 @ ps2) root
      = Inr (tree_root (push_roots ls []) = root)"
    using assms(1,2) l(4) [rule_format, where qs = ps2 and rest = "[]"] d(2,3)
    by (simp add: checkLimitStorageProof_def)
  ultimately show ?thesis by blast
qed

end
