(* ===== verification/Upload.thy ===== *)
theory Upload
  imports MerkleProof "HOL-Library.Multiset"
begin

text \<open>
  The host side of the upload negotiation
  (\<open>src/storage/storagehost/hostnegotiation/contractuploadhandler.go\<close>): the
  negotiation working state \<open>uploadNegotiationData\<close>, the contract revision and
  the storage responsibility it updates, every step of \<open>ContractUploadHandler\<close>
  from decoding the request to the commit or the rollback, and the host's
  capabilities as the Go interface \<open>Protocol\<close>, a record of functions over the
  host's state \<open>'h\<close>. Functions the handler calls that are not part of the
  sources (revenue computation, revision validation, hashing of a revision) are
  parameters collected in \<open>UploadExt\<close>; the peer's answers are a
  \<open>PeerScript\<close>.
\<close>

section \<open>Data\<close>

datatype upload_error =
    ErrDecodeUploadRequest
  | ErrGetStorageResponsibility
  | ErrUnknownActionType string
  | ErrIndexOutOfRange
  | ErrRevisionValidation
  | ErrConstructMerkleProof
  | ErrSendUploadMerkleProof
  | ErrClientRevisionSign
  | ErrFindWallet
  | ErrSignHash
  | ErrSendHostRevisionSign
  | ErrWaitContractResp
  | ErrClientCommit
  | ErrClientNegotiate
  | ErrUnknownMsgCode
  | ErrHostCommit
  | ErrSendHostAck

record DxcoinCharge =
  Value :: int
  Address :: address

record StorageContractRevision =
  NewRevisionNumber :: u64
  NewFileSize :: u64
  NewFileMerkleRoot :: digest
  NewValidProofOutputs :: "DxcoinCharge list"
  NewMissedProofOutputs :: "DxcoinCharge list"
  Signatures :: "sig list"

text \<open>
  \<open>SrID\<close> is \<open>sr.id()\<close>, the id of the contract the responsibility belongs to.
\<close>

record StorageResponsibility =
  SrID :: digest
  SectorRoots :: "digest list"
  StorageContractRevisions :: "StorageContractRevision list"
  PotentialStorageRevenue :: int
  RiskedStorageDeposit :: int
  PotentialUploadRevenue :: int

record UploadAction =
  Type :: string
  Data :: "byte list"

text \<open>
  The request's proposed revision number is \<open>ReqNewRevisionNumber\<close> (the Go
  field \<open>NewRevisionNumber\<close> of \<open>storage.UploadRequest\<close>).
\<close>

record UploadRequest =
  StorageContractID :: digest
  Actions :: "UploadAction list"
  ReqNewRevisionNumber :: u64
  NewValidProofValues :: "int list"
  NewMissedProofValues :: "int list"

record UploadMerkleProof =
  OldSubtreeHashes :: "digest list"
  OldLeafHashes :: "digest list"
  NewMerkleRoot :: digest

record uploadNegotiationData =
  srSnapshot :: StorageResponsibility
  newRoots :: "digest list"
  sectorsChanged :: "u64 set"
  bandwidthRevenue :: int
  sectorGained :: "digest list"
  gainedSectorData :: "byte list list"
  storageRevenue :: int
  newDeposit :: int
  newMerkleRoot :: digest
  merkleProof :: UploadMerkleProof

record HostIntConfig =
  UploadBandwidthPrice :: int
  DownloadBandwidthPrice :: int

text \<open>Go's zero values, with which \<open>var nd uploadNegotiationData\<close> starts.\<close>

definition StorageResponsibility_zero :: StorageResponsibility where
  "StorageResponsibility_zero =
     \<lparr>SrID = zero_hash, SectorRoots = [], StorageContractRevisions = [],
      PotentialStorageRevenue = 0, RiskedStorageDeposit = 0, PotentialUploadRevenue = 0\<rparr>"

definition uploadNegotiationData_zero :: uploadNegotiationData where
  "uploadNegotiationData_zero =
     \<lparr>srSnapshot = StorageResponsibility_zero, newRoots = [], sectorsChanged = {},
      bandwidthRevenue = 0, sectorGained = [], gainedSectorData = [], storageRevenue = 0,
      newDeposit = 0, newMerkleRoot = zero_hash,
      merkleProof = \<lparr>OldSubtreeHashes = [], OldLeafHashes = [], NewMerkleRoot = zero_hash\<rparr>\<rparr>"

section \<open>Constants and sector roots\<close>

text \<open>
  The constants of package \<open>storage\<close>: sectors of \<open>1 << 22\<close> bytes hashed in
  segments of 64 bytes, the action type \<open>"Append"\<close>, and the payout index of the
  host. \<open>Sha256MerkleTreeRoot\<close> is the Merkle root of a sector's data, its
  segments pushed as leaves of the tree of \<open>MerkleTree\<close>.
\<close>

definition SectorSize :: u64 where
  "SectorSize = 4194304"

definition SegmentSize :: nat where
  "SegmentSize = 64"

definition UploadActionAppend :: string where
  "UploadActionAppend = ''Append''"

definition validProofPaybackHostAddressIndex :: nat where
  "validProofPaybackHostAddressIndex = 1"

definition hostSignIndex :: nat where
  "hostSignIndex = 1"

function segments :: "nat \<Rightarrow> byte list \<Rightarrow> byte list list" where
  "segments n xs = (if n = 0 \<or> xs = [] then [] else take n xs # segments n (drop n xs))"
  by pat_completeness auto
termination by (relation "measure (\<lambda>(n, xs). length xs)") auto

definition Sha256MerkleTreeRoot :: "byte list \<Rightarrow> digest" where
  "Sha256MerkleTreeRoot data = tree_root (fold push_leaf (segments SegmentSize data) [])"

section \<open>Interfaces\<close>

text \<open>
  \<open>Protocol\<close> (lines 384--402) restricted to the methods the upload handler
  calls. \<open>FindWallet\<close> returns the wallet's \<open>SignHash\<close> for the account;
  \<open>ModifyStorageResponsibility\<close> returns \<open>None\<close> for an error. The caller
  discards the error of \<open>RollbackUploadStorageResponsibility\<close>, so it returns
  the state only.
\<close>

record 'h Protocol =
  GetHostConfig :: "'h \<Rightarrow> HostIntConfig"
  GetBlockHeight :: "'h \<Rightarrow> u64"
  GetStorageResponsibility :: "'h \<Rightarrow> digest \<Rightarrow> StorageResponsibility option"
  FindWallet :: "'h \<Rightarrow> address \<Rightarrow> (digest \<Rightarrow> sig option) option"
  ModifyStorageResponsibility ::
    "'h \<Rightarrow> StorageResponsibility \<Rightarrow> digest list \<Rightarrow> digest list \<Rightarrow> byte list list \<Rightarrow> 'h option"
  CheckAndSetStaticConnection :: "'h \<Rightarrow> 'h"
  RollbackUploadStorageResponsibility ::
    "'h \<Rightarrow> StorageResponsibility \<Rightarrow> digest list \<Rightarrow> digest list \<Rightarrow> byte list list \<Rightarrow> 'h"

text \<open>
  Functions of package \<open>hostnegotiation\<close> that the handler calls and the
  sources do not contain. \<open>calcHostRevenue\<close> returns the storage revenue and
  the new deposit it records in \<open>nd\<close>, and the host revenue it returns.
\<close>

record UploadExt =
  calcHostRevenue :: "uploadNegotiationData \<Rightarrow> StorageResponsibility \<Rightarrow> u64 \<Rightarrow> HostIntConfig \<Rightarrow> int \<times> int \<times> int"
  uploadRevisionValidation :: "StorageResponsibility \<Rightarrow> StorageContractRevision \<Rightarrow> u64 \<Rightarrow> int \<Rightarrow> bool"
  calcBandwidthRevenueForProof :: "uploadNegotiationData \<Rightarrow> nat \<Rightarrow> nat \<Rightarrow> int \<Rightarrow> int"
  RLPHash :: "StorageContractRevision \<Rightarrow> digest"

text \<open>
  The client's side of the session, as the outcome of each call the handler
  makes on \<open>storage.Peer\<close>: whether each send succeeds, the client's revision
  signature (or the error of \<open>waitAndHandleClientRevSignResp\<close>), and the code
  of the message \<open>HostWaitContractResp\<close> reads.
\<close>

datatype client_msg_code =
    ClientCommitSuccessMsg
  | ClientCommitFailedMsg
  | ClientNegotiateErrorMsg
  | OtherMsgCode nat

record PeerScript =
  sendProofOk :: bool
  clientRevSignResp :: "upload_error + sig"
  sendHostRevSignOk :: bool
  contractResp :: "upload_error + client_msg_code"
  sendAckOk :: bool

datatype host_msg =
    MsgUploadMerkleProof UploadMerkleProof
  | MsgUploadHostRevisionSign sig
  | MsgHostAck

section \<open>Handling the actions\<close>

definition handleUploadAppendType :: "UploadAction \<Rightarrow> uploadNegotiationData \<Rightarrow> int \<Rightarrow> uploadNegotiationData" where
  "handleUploadAppendType action nd uploadBandwidthPrice =
     (let newRoot = Sha256MerkleTreeRoot (Data action);
          roots = newRoots nd @ [newRoot]
      in nd\<lparr>newRoots := roots,
            sectorGained := sectorGained nd @ [newRoot],
            gainedSectorData := gainedSectorData nd @ [Data action],
            sectorsChanged := insert (of_nat (length roots - 1)) (sectorsChanged nd),
            bandwidthRevenue := bandwidthRevenue nd + uploadBandwidthPrice * uint SectorSize\<rparr>)"

fun handle_upload_actions ::
  "UploadAction list \<Rightarrow> int \<Rightarrow> uploadNegotiationData \<Rightarrow> upload_error + uploadNegotiationData" where
  "handle_upload_actions [] price nd = Inr nd"
| "handle_upload_actions (a # rest) price nd =
     (if Type a = UploadActionAppend then handle_upload_actions rest price (handleUploadAppendType a nd price)
      else Inl (ErrUnknownActionType (Type a)))"

definition parseAndHandleUploadActions ::
  "UploadRequest \<Rightarrow> uploadNegotiationData \<Rightarrow> StorageResponsibility \<Rightarrow> int \<Rightarrow> upload_error + uploadNegotiationData" where
  "parseAndHandleUploadActions uploadReq nd sr uploadBandwidthPrice =
     handle_upload_actions (Actions uploadReq) uploadBandwidthPrice
       (nd\<lparr>newRoots := newRoots nd @ SectorRoots sr, sectorsChanged := {}\<rparr>)"

section \<open>The new revision\<close>

definition updateRevisionFileSize :: "StorageContractRevision \<Rightarrow> UploadRequest \<Rightarrow> StorageContractRevision" where
  "updateRevisionFileSize newRev uploadReq =
     fold (\<lambda>action r. if Type action = UploadActionAppend then r\<lparr>NewFileSize := NewFileSize r + SectorSize\<rparr> else r)
       (Actions uploadReq) newRev"

definition calcAndUpdateRevisionMerkleRoot ::
  "uploadNegotiationData \<Rightarrow> StorageContractRevision \<Rightarrow> uploadNegotiationData \<times> StorageContractRevision" where
  "calcAndUpdateRevisionMerkleRoot nd newRev =
     (let r = Sha256CachedTreeRoot2 (newRoots nd)
      in (nd\<lparr>newMerkleRoot := r\<rparr>, newRev\<lparr>NewFileMerkleRoot := r\<rparr>))"

text \<open>
  Both loops range over the indices of the current revision's valid outputs;
  an index past the end of \<open>NewValidProofValues\<close>, \<open>NewMissedProofValues\<close>
  or the current missed outputs panics in Go (\<open>ErrIndexOutOfRange\<close>).
  The new entries are appended to the outputs \<open>newRev\<close> already holds.
\<close>

definition updateRevisionMissedAndValidPayback ::
  "StorageContractRevision \<Rightarrow> StorageContractRevision \<Rightarrow> UploadRequest \<Rightarrow> upload_error + StorageContractRevision" where
  "updateRevisionMissedAndValidPayback newRev currentRev uploadReq =
     (let n = length (NewValidProofOutputs currentRev)
      in if length (NewValidProofValues uploadReq) < n \<or> length (NewMissedProofValues uploadReq) < n
            \<or> length (NewMissedProofOutputs currentRev) < n then Inl ErrIndexOutOfRange
         else Inr (newRev\<lparr>
           NewValidProofOutputs := NewValidProofOutputs newRev @
             map (\<lambda>i. \<lparr>Value = NewValidProofValues uploadReq ! i,
                        Address = Address (NewValidProofOutputs currentRev ! i)\<rparr>) [0..<n],
           NewMissedProofOutputs := NewMissedProofOutputs newRev @
             map (\<lambda>i. \<lparr>Value = NewMissedProofValues uploadReq ! i,
                        Address = Address (NewMissedProofOutputs currentRev ! i)\<rparr>) [0..<n]\<rparr>))"

text \<open>
  \<open>constructAndVerifyNewRevision\<close>: the validation sees the responsibility
  with the new sector roots (the swap of lines 133 and 137); an empty revision
  list makes the index \<open>len - 1\<close> panic.
\<close>

definition constructAndVerifyNewRevision ::
  "UploadExt \<Rightarrow> 'h Protocol \<Rightarrow> 'h \<Rightarrow> uploadNegotiationData \<Rightarrow> StorageResponsibility \<Rightarrow> UploadRequest \<Rightarrow>
   HostIntConfig \<Rightarrow> upload_error + StorageContractRevision \<times> uploadNegotiationData" where
  "constructAndVerifyNewRevision ext np h nd sr uploadReq hostConfig =
     (if StorageContractRevisions sr = [] then Inl ErrIndexOutOfRange
      else
        let currentRev = last (StorageContractRevisions sr);
            rev1 = updateRevisionFileSize (currentRev\<lparr>NewRevisionNumber := ReqNewRevisionNumber uploadReq\<rparr>) uploadReq
        in case calcAndUpdateRevisionMerkleRoot nd rev1 of
             (nd1, rev2) \<Rightarrow>
               (case updateRevisionMissedAndValidPayback rev2 currentRev uploadReq of
                  Inl e \<Rightarrow> Inl e
                | Inr rev3 \<Rightarrow>
                    let blockHeight = GetBlockHeight np h
                    in case calcHostRevenue ext nd1 sr blockHeight hostConfig of
                         (sRev, dep, hostRevenue) \<Rightarrow>
                           let nd2 = nd1\<lparr>storageRevenue := sRev, newDeposit := dep\<rparr>
                           in if uploadRevisionValidation ext (sr\<lparr>SectorRoots := newRoots nd2\<rparr>) rev3 blockHeight hostRevenue
                              then Inr (rev3, nd2) else Inl ErrRevisionValidation))"

section \<open>The Merkle proof\<close>

text \<open>
  \<open>calcAndSortProofRanges\<close> collects the changed indices below the old number
  of sectors, as one-leaf ranges sorted by their left end (the indices are
  distinct, so the unstable \<open>sort.Slice\<close> has one result). \<open>Sha256DiffProof\<close>
  of package \<open>merkle\<close> is the diff proof \<open>getLimitStorageProof\<close> builds over the
  cached sector roots.
\<close>

definition calcAndSortProofRanges :: "StorageResponsibility \<Rightarrow> uploadNegotiationData \<Rightarrow> SubTreeLimit list" where
  "calcAndSortProofRanges sr nd =
     (let oldNumSectors = (of_nat (length (SectorRoots sr)) :: u64)
      in map (\<lambda>i. \<lparr>Left = i, Right = i + 1\<rparr>)
           (sorted_list_of_set (Set.filter (\<lambda>i. i < oldNumSectors) (sectorsChanged nd))))"

definition calcLeafHashes :: "SubTreeLimit list \<Rightarrow> StorageResponsibility \<Rightarrow> upload_error + digest list" where
  "calcLeafHashes proofRanges sr =
     (if list_all (\<lambda>r. unat (Left r) < length (SectorRoots sr)) proofRanges
      then Inr (map (\<lambda>r. SectorRoots sr ! unat (Left r)) proofRanges)
      else Inl ErrIndexOutOfRange)"

definition Sha256DiffProof :: "digest list \<Rightarrow> SubTreeLimit list \<Rightarrow> u64 \<Rightarrow> merkle_error + digest list" where
  "Sha256DiffProof roots rangeSet leafNum = fst (getLimitStorageProof rangeSet CachedSubtreeRoot roots)"

definition calcOldHashSet :: "StorageResponsibility \<Rightarrow> SubTreeLimit list \<Rightarrow> merkle_error + digest list" where
  "calcOldHashSet sr proofRanges =
     Sha256DiffProof (SectorRoots sr) proofRanges (of_nat (length (SectorRoots sr)))"

definition constructUploadMerkleProof ::
  "uploadNegotiationData \<Rightarrow> StorageResponsibility \<Rightarrow> upload_error + UploadMerkleProof \<times> uploadNegotiationData" where
  "constructUploadMerkleProof nd sr =
     (let proofRanges = calcAndSortProofRanges sr nd
      in case calcLeafHashes proofRanges sr of
           Inl e \<Rightarrow> Inl e
         | Inr leafHashes \<Rightarrow>
             (case calcOldHashSet sr proofRanges of
                Inl _ \<Rightarrow> Inl ErrConstructMerkleProof
              | Inr oldHashSet \<Rightarrow>
                  let mp = \<lparr>OldSubtreeHashes = oldHashSet, OldLeafHashes = leafHashes,
                            NewMerkleRoot = newMerkleRoot nd\<rparr>
                  in Inr (mp, nd\<lparr>merkleProof := mp\<rparr>)))"

definition merkleProofNegotiation ::
  "PeerScript \<Rightarrow> uploadNegotiationData \<Rightarrow> StorageResponsibility \<Rightarrow>
   (upload_error + sig \<times> uploadNegotiationData) \<times> host_msg list" where
  "merkleProofNegotiation sp nd sr =
     (case constructUploadMerkleProof nd sr of
        Inl e \<Rightarrow> (Inl e, [])
      | Inr (mp, nd1) \<Rightarrow>
          if \<not> sendProofOk sp then (Inl ErrSendUploadMerkleProof, [])
          else (case clientRevSignResp sp of
                  Inl e \<Rightarrow> (Inl e, [MsgUploadMerkleProof mp])
                | Inr clientSig \<Rightarrow> (Inr (clientSig, nd1), [MsgUploadMerkleProof mp])))"

section \<open>Signing and committing\<close>

definition hostSignAndUpdateRevision ::
  "UploadExt \<Rightarrow> 'h Protocol \<Rightarrow> 'h \<Rightarrow> StorageContractRevision \<Rightarrow> sig \<Rightarrow> upload_error + StorageContractRevision" where
  "hostSignAndUpdateRevision ext np h newRev clientRevisionSign =
     (if length (NewValidProofOutputs newRev) \<le> validProofPaybackHostAddressIndex then Inl ErrIndexOutOfRange
      else
        let account = Address (NewValidProofOutputs newRev ! validProofPaybackHostAddressIndex)
        in case FindWallet np h account of
             None \<Rightarrow> Inl ErrFindWallet
           | Some signHash \<Rightarrow>
               (case signHash (RLPHash ext newRev) of
                  None \<Rightarrow> Inl ErrSignHash
                | Some hostRevisionSign \<Rightarrow> Inr (newRev\<lparr>Signatures := [clientRevisionSign, hostRevisionSign]\<rparr>)))"

definition updateStorageResponsibilityUpload ::
  "UploadExt \<Rightarrow> uploadNegotiationData \<Rightarrow> StorageResponsibility \<Rightarrow> HostIntConfig \<Rightarrow> StorageContractRevision \<Rightarrow>
   StorageResponsibility" where
  "updateStorageResponsibilityUpload ext nd sr hostConfig newRev =
     (let bwRevenue = calcBandwidthRevenueForProof ext nd (length (OldSubtreeHashes (merkleProof nd)))
                        (length (OldLeafHashes (merkleProof nd))) (DownloadBandwidthPrice hostConfig)
      in sr\<lparr>SectorRoots := newRoots nd,
            PotentialStorageRevenue := PotentialStorageRevenue sr + storageRevenue nd,
            RiskedStorageDeposit := RiskedStorageDeposit sr + newDeposit nd,
            PotentialUploadRevenue := PotentialUploadRevenue sr + bwRevenue,
            StorageContractRevisions := StorageContractRevisions sr @ [newRev]\<rparr>)"

text \<open>
  The commit: the host stores the updated responsibility and the gained
  sectors, marks the connection static, and acknowledges; when the
  acknowledgement cannot be sent it rolls the responsibility back to the
  snapshot taken at decoding and releases the gained sectors.
\<close>

definition handleClientUploadSuccessCommit ::
  "UploadExt \<Rightarrow> PeerScript \<Rightarrow> 'h Protocol \<Rightarrow> 'h \<Rightarrow> uploadNegotiationData \<Rightarrow> StorageResponsibility \<Rightarrow>
   HostIntConfig \<Rightarrow> StorageContractRevision \<Rightarrow> (upload_error + unit) \<times> 'h \<times> host_msg list" where
  "handleClientUploadSuccessCommit ext sp np h nd sr hostConfig newRev =
     (let sr1 = updateStorageResponsibilityUpload ext nd sr hostConfig newRev
      in case ModifyStorageResponsibility np h sr1 [] (sectorGained nd) (gainedSectorData nd) of
           None \<Rightarrow> (Inl ErrHostCommit, h, [])
         | Some h1 \<Rightarrow>
             let h2 = CheckAndSetStaticConnection np h1
             in if sendAckOk sp then (Inr (), h2, [MsgHostAck])
                else (Inl ErrSendHostAck,
                      RollbackUploadStorageResponsibility np h2 (srSnapshot nd) (sectorGained nd) [] [], []))"

definition handleClientUploadCommitResp ::
  "client_msg_code \<Rightarrow> UploadExt \<Rightarrow> PeerScript \<Rightarrow> 'h Protocol \<Rightarrow> 'h \<Rightarrow> uploadNegotiationData \<Rightarrow>
   StorageResponsibility \<Rightarrow> HostIntConfig \<Rightarrow> StorageContractRevision \<Rightarrow> (upload_error + unit) \<times> 'h \<times> host_msg list" where
  "handleClientUploadCommitResp code ext sp np h nd sr hostConfig newRev =
     (case code of
        ClientCommitSuccessMsg \<Rightarrow> handleClientUploadSuccessCommit ext sp np h nd sr hostConfig newRev
      | ClientCommitFailedMsg \<Rightarrow> (Inl ErrClientCommit, h, [])
      | ClientNegotiateErrorMsg \<Rightarrow> (Inl ErrClientNegotiate, h, [])
      | OtherMsgCode _ \<Rightarrow> (Inl ErrUnknownMsgCode, h, []))"

definition waitAndHandleClientCommitRespUpload ::
  "UploadExt \<Rightarrow> PeerScript \<Rightarrow> 'h Protocol \<Rightarrow> 'h \<Rightarrow> uploadNegotiationData \<Rightarrow> StorageResponsibility \<Rightarrow>
   HostIntConfig \<Rightarrow> StorageContractRevision \<Rightarrow> (upload_error + unit) \<times> 'h \<times> host_msg list" where
  "waitAndHandleClientCommitRespUpload ext sp np h nd sr hostConfig newRev =
     (case contractResp sp of
        Inl _ \<Rightarrow> (Inl ErrWaitContractResp, h, [])
      | Inr code \<Rightarrow> handleClientUploadCommitResp code ext sp np h nd sr hostConfig newRev)"

definition hostRevisionSignNegotiation ::
  "UploadExt \<Rightarrow> PeerScript \<Rightarrow> 'h Protocol \<Rightarrow> 'h \<Rightarrow> HostIntConfig \<Rightarrow> uploadNegotiationData \<Rightarrow>
   StorageResponsibility \<Rightarrow> StorageContractRevision \<Rightarrow> (upload_error + unit) \<times> 'h \<times> host_msg list" where
  "hostRevisionSignNegotiation ext sp np h hostConfig nd sr newRev =
     (if length (Signatures newRev) \<le> hostSignIndex then (Inl ErrIndexOutOfRange, h, [])
      else if \<not> sendHostRevSignOk sp then (Inl ErrSendHostRevisionSign, h, [])
      else (case waitAndHandleClientCommitRespUpload ext sp np h nd sr hostConfig newRev of
              (r, h', out) \<Rightarrow> (r, h', MsgUploadHostRevisionSign (Signatures newRev ! hostSignIndex) # out)))"

section \<open>The handler\<close>

text \<open>
  The request message is modelled by its decoding: \<open>None\<close> when it does not
  decode. The deferred \<open>handleNegotiationErr\<close> (not part of the sources) only
  reports the error, and is left out.
\<close>

definition decodeUploadReqAndGetSr ::
  "'h Protocol \<Rightarrow> 'h \<Rightarrow> uploadNegotiationData \<Rightarrow> UploadRequest option \<Rightarrow>
   upload_error + UploadRequest \<times> StorageResponsibility \<times> uploadNegotiationData" where
  "decodeUploadReqAndGetSr np h nd uploadReqMsg =
     (case uploadReqMsg of
        None \<Rightarrow> Inl ErrDecodeUploadRequest
      | Some uploadReq \<Rightarrow>
          (case GetStorageResponsibility np h (StorageContractID uploadReq) of
             None \<Rightarrow> Inl ErrGetStorageResponsibility
           | Some sr \<Rightarrow> Inr (uploadReq, sr, nd\<lparr>srSnapshot := sr\<rparr>)))"

definition ContractUploadHandler ::
  "UploadExt \<Rightarrow> 'h Protocol \<Rightarrow> PeerScript \<Rightarrow> 'h \<Rightarrow> UploadRequest option \<Rightarrow>
   (upload_error + unit) \<times> 'h \<times> host_msg list" where
  "ContractUploadHandler ext np sp h uploadReqMsg =
     (case decodeUploadReqAndGetSr np h uploadNegotiationData_zero uploadReqMsg of
        Inl e \<Rightarrow> (Inl e, h, [])
      | Inr (uploadReq, sr, nd) \<Rightarrow>
          let hostConfig = GetHostConfig np h
          in case parseAndHandleUploadActions uploadReq nd sr (UploadBandwidthPrice hostConfig) of
               Inl e \<Rightarrow> (Inl e, h, [])
             | Inr nd1 \<Rightarrow>
                 (case constructAndVerifyNewRevision ext np h nd1 sr uploadReq hostConfig of
                    Inl e \<Rightarrow> (Inl e, h, [])
                  | Inr (newRev, nd2) \<Rightarrow>
                      (case merkleProofNegotiation sp nd2 sr of
                         (Inl e, out) \<Rightarrow> (Inl e, h, out)
                       | (Inr (clientRevisionSign, nd3), out) \<Rightarrow>
                           (case hostSignAndUpdateRevision ext np h newRev clientRevisionSign of
                              Inl e \<Rightarrow> (Inl e, h, out)
                            | Inr newRev1 \<Rightarrow>
                                (case hostRevisionSignNegotiation ext sp np h hostConfig nd3 sr newRev1 of
                                   (r, h', out2) \<Rightarrow> (r, h', out @ out2))))))"

text \<open>
  The revision a successful upload commits, in closed form: the current
  revision with the requested number, one sector more per action, the root of
  the new sector roots, and the outputs of the request appended to the
  current outputs.
\<close>

definition upload_revision :: "UploadRequest \<Rightarrow> StorageContractRevision \<Rightarrow> digest list \<Rightarrow> StorageContractRevision" where
  "upload_revision req cur roots =
     cur\<lparr>NewRevisionNumber := ReqNewRevisionNumber req,
         NewFileSize := NewFileSize cur + of_nat (length (Actions req)) * SectorSize,
         NewFileMerkleRoot := Sha256CachedTreeRoot2 roots,
         NewValidProofOutputs := NewValidProofOutputs cur @
           map (\<lambda>i. \<lparr>Value = NewValidProofValues req ! i, Address = Address (NewValidProofOutputs cur ! i)\<rparr>)
             [0..<length (NewValidProofOutputs cur)],
         NewMissedProofOutputs := NewMissedProofOutputs cur @
           map (\<lambda>i. \<lparr>Value = NewMissedProofValues req ! i, Address = Address (NewMissedProofOutputs cur ! i)\<rparr>)
             [0..<length (NewValidProofOutputs cur)]\<rparr>"

section \<open>Lemmas\<close>

lemma insert_image_atLeastLessThan:
  "n < m \<Longrightarrow> insert (f n) (f ` {Suc n..<m}) = f ` {n..<m}"
proof -
  assume "n < m"
  then have "{n..<m} = insert n {Suc n..<m}" by auto
  then show ?thesis by simp
qed

lemma handle_upload_actions_Inr:
  assumes "handle_upload_actions as price nd = Inr nd'"
  shows "list_all (\<lambda>a. Type a = UploadActionAppend) as \<and>
     newRoots nd' = newRoots nd @ map (Sha256MerkleTreeRoot \<circ> Data) as \<and>
     sectorGained nd' = sectorGained nd @ map (Sha256MerkleTreeRoot \<circ> Data) as \<and>
     gainedSectorData nd' = gainedSectorData nd @ map Data as \<and>
     sectorsChanged nd' = sectorsChanged nd \<union> of_nat ` {length (newRoots nd) ..< length (newRoots nd) + length as} \<and>
     bandwidthRevenue nd' = bandwidthRevenue nd + int (length as) * (price * uint SectorSize) \<and>
     srSnapshot nd' = srSnapshot nd \<and> storageRevenue nd' = storageRevenue nd \<and>
     newDeposit nd' = newDeposit nd \<and> newMerkleRoot nd' = newMerkleRoot nd \<and> merkleProof nd' = merkleProof nd"
  using assms
proof (induction as arbitrary: nd)
  case Nil
  then show ?case by auto
next
  case (Cons a as)
  then have app: "Type a = UploadActionAppend"
    and rest: "handle_upload_actions as price (handleUploadAppendType a nd price) = Inr nd'"
    by (auto split: if_splits)
  have "insert (of_nat (length (newRoots nd)))
          (of_nat ` {Suc (length (newRoots nd))..<Suc (length (newRoots nd) + length as)})
      = (of_nat ` {length (newRoots nd)..<Suc (length (newRoots nd) + length as)} :: u64 set)"
    by (rule insert_image_atLeastLessThan) simp
  with Cons.IH [OF rest] app show ?case
    by (simp add: handleUploadAppendType_def Let_def algebra_simps) (metis Un_insert_right)
qed

lemma handle_upload_actions_append:
  "list_all (\<lambda>a. Type a = UploadActionAppend) as \<Longrightarrow> \<exists>nd'. handle_upload_actions as price nd = Inr nd'"
  by (induction as arbitrary: nd) auto

lemma updateRevisionFileSize_fields:
  "updateRevisionFileSize r req =
     r\<lparr>NewFileSize := NewFileSize r + of_nat (length (filter (\<lambda>a. Type a = UploadActionAppend) (Actions req))) * SectorSize\<rparr>"
proof -
  have "\<And>r. fold (\<lambda>action r. if Type action = UploadActionAppend then r\<lparr>NewFileSize := NewFileSize r + SectorSize\<rparr> else r) as r =
     r\<lparr>NewFileSize := NewFileSize r + of_nat (length (filter (\<lambda>a. Type a = UploadActionAppend) as)) * SectorSize\<rparr>" for as
    by (induction as) (simp_all add: algebra_simps)
  then show ?thesis by (simp add: updateRevisionFileSize_def)
qed

lemma updateRevisionMissedAndValidPayback_Inr:
  "updateRevisionMissedAndValidPayback newRev currentRev uploadReq = Inr rv \<Longrightarrow>
     rv = newRev\<lparr>
       NewValidProofOutputs := NewValidProofOutputs newRev @
         map (\<lambda>i. \<lparr>Value = NewValidProofValues uploadReq ! i, Address = Address (NewValidProofOutputs currentRev ! i)\<rparr>)
           [0..<length (NewValidProofOutputs currentRev)],
       NewMissedProofOutputs := NewMissedProofOutputs newRev @
         map (\<lambda>i. \<lparr>Value = NewMissedProofValues uploadReq ! i, Address = Address (NewMissedProofOutputs currentRev ! i)\<rparr>)
           [0..<length (NewValidProofOutputs currentRev)]\<rparr>"
  by (auto simp: updateRevisionMissedAndValidPayback_def Let_def split: if_splits)

lemma constructAndVerifyNewRevision_Inr:
  assumes "constructAndVerifyNewRevision ext np h nd sr req cfg = Inr (rv, nd')"
  shows "StorageContractRevisions sr \<noteq> [] \<and>
    (\<exists>rv0. updateRevisionMissedAndValidPayback rv0 (last (StorageContractRevisions sr)) req = Inr rv \<and>
       rv0 = (updateRevisionFileSize ((last (StorageContractRevisions sr))\<lparr>NewRevisionNumber := ReqNewRevisionNumber req\<rparr>) req)
                \<lparr>NewFileMerkleRoot := Sha256CachedTreeRoot2 (newRoots nd)\<rparr>) \<and>
    newRoots nd' = newRoots nd \<and> sectorGained nd' = sectorGained nd \<and>
    gainedSectorData nd' = gainedSectorData nd \<and> srSnapshot nd' = srSnapshot nd \<and>
    sectorsChanged nd' = sectorsChanged nd \<and> newMerkleRoot nd' = Sha256CachedTreeRoot2 (newRoots nd)"
  using assms
  by (auto simp: constructAndVerifyNewRevision_def calcAndUpdateRevisionMerkleRoot_def Let_def
           split: if_splits sum.splits prod.splits)

lemma merkleProofNegotiation_Inr:
  "merkleProofNegotiation sp nd sr = (Inr (s, nd'), out) \<Longrightarrow>
     \<exists>mp. constructUploadMerkleProof nd sr = Inr (mp, nd') \<and> nd' = nd\<lparr>merkleProof := mp\<rparr> \<and>
          out = [MsgUploadMerkleProof mp] \<and> clientRevSignResp sp = Inr s"
  by (auto simp: merkleProofNegotiation_def constructUploadMerkleProof_def Let_def
           split: sum.splits prod.splits if_splits)

lemma hostSignAndUpdateRevision_Inr:
  "hostSignAndUpdateRevision ext np h rv c = Inr rv' \<Longrightarrow> \<exists>s. rv' = rv\<lparr>Signatures := [c, s]\<rparr>"
  by (auto simp: hostSignAndUpdateRevision_def Let_def split: if_splits option.splits)

text \<open>The host's state after the commit exchange: unchanged, committed, or rolled back.\<close>

lemma hostRevisionSignNegotiation_effect:
  assumes "hostRevisionSignNegotiation ext sp np h cfg nd sr rv = (r, h', out)"
  shows "(h' = h \<and> r \<noteq> Inr ()) \<or>
    (\<exists>h1. ModifyStorageResponsibility np h (updateStorageResponsibilityUpload ext nd sr cfg rv) []
             (sectorGained nd) (gainedSectorData nd) = Some h1 \<and> contractResp sp = Inr ClientCommitSuccessMsg \<and>
      (r = Inr () \<and> h' = CheckAndSetStaticConnection np h1 \<and>
         out = [MsgUploadHostRevisionSign (Signatures rv ! hostSignIndex), MsgHostAck] \<or>
       r = Inl ErrSendHostAck \<and>
         h' = RollbackUploadStorageResponsibility np (CheckAndSetStaticConnection np h1) (srSnapshot nd)
                (sectorGained nd) [] []))"
  using assms
  by (auto simp: hostRevisionSignNegotiation_def waitAndHandleClientCommitRespUpload_def
      handleClientUploadCommitResp_def handleClientUploadSuccessCommit_def Let_def
      split: if_splits sum.splits option.splits client_msg_code.splits)

lemma ContractUploadHandler_cases:
  assumes "ContractUploadHandler ext np sp h msg = (r, h', out)"
  shows "(h' = h \<and> r \<noteq> Inr ()) \<or>
    (\<exists>req sr nd c s h1. msg = Some req \<and> GetStorageResponsibility np h (StorageContractID req) = Some sr \<and>
      StorageContractRevisions sr \<noteq> [] \<and> list_all (\<lambda>a. Type a = UploadActionAppend) (Actions req) \<and>
      srSnapshot nd = sr \<and> newRoots nd = SectorRoots sr @ map (Sha256MerkleTreeRoot \<circ> Data) (Actions req) \<and>
      sectorGained nd = map (Sha256MerkleTreeRoot \<circ> Data) (Actions req) \<and>
      gainedSectorData nd = map Data (Actions req) \<and>
      ModifyStorageResponsibility np h
        (updateStorageResponsibilityUpload ext nd sr (GetHostConfig np h)
          ((upload_revision req (last (StorageContractRevisions sr)) (newRoots nd))\<lparr>Signatures := [c, s]\<rparr>))
        [] (sectorGained nd) (gainedSectorData nd) = Some h1 \<and>
      (r = Inr () \<and> h' = CheckAndSetStaticConnection np h1 \<or>
       r = Inl ErrSendHostAck \<and>
       h' = RollbackUploadStorageResponsibility np (CheckAndSetStaticConnection np h1) sr (sectorGained nd) [] []))"
proof -
  let ?cfg = "GetHostConfig np h"
  consider (early) "h' = h" "r \<noteq> Inr ()"
    | (late) req sr nd1 rv nd2 c nd3 out1 rv1 out2 where "msg = Some req"
        "GetStorageResponsibility np h (StorageContractID req) = Some sr"
        "parseAndHandleUploadActions req (uploadNegotiationData_zero\<lparr>srSnapshot := sr\<rparr>) sr (UploadBandwidthPrice ?cfg) = Inr nd1"
        "constructAndVerifyNewRevision ext np h nd1 sr req ?cfg = Inr (rv, nd2)"
        "merkleProofNegotiation sp nd2 sr = (Inr (c, nd3), out1)"
        "hostSignAndUpdateRevision ext np h rv c = Inr rv1"
        "hostRevisionSignNegotiation ext sp np h ?cfg nd3 sr rv1 = (r, h', out2)"
    using assms
    by (fastforce simp: ContractUploadHandler_def decodeUploadReqAndGetSr_def Let_def
        split: option.splits sum.splits prod.splits)
  then show ?thesis
  proof cases
    case early
    then show ?thesis by simp
  next
    case late
    have nd1: "list_all (\<lambda>a. Type a = UploadActionAppend) (Actions req)"
      "newRoots nd1 = SectorRoots sr @ map (Sha256MerkleTreeRoot \<circ> Data) (Actions req)"
      "sectorGained nd1 = map (Sha256MerkleTreeRoot \<circ> Data) (Actions req)"
      "gainedSectorData nd1 = map Data (Actions req)" "srSnapshot nd1 = sr"
      using handle_upload_actions_Inr [OF late(3) [unfolded parseAndHandleUploadActions_def]]
      by (simp_all add: uploadNegotiationData_zero_def)
    obtain rv0 where ne: "StorageContractRevisions sr \<noteq> []"
      and rv: "updateRevisionMissedAndValidPayback rv0 (last (StorageContractRevisions sr)) req = Inr rv"
      and rv0: "rv0 = (updateRevisionFileSize ((last (StorageContractRevisions sr))\<lparr>NewRevisionNumber := ReqNewRevisionNumber req\<rparr>) req)
                \<lparr>NewFileMerkleRoot := Sha256CachedTreeRoot2 (newRoots nd1)\<rparr>"
      and nd2: "newRoots nd2 = newRoots nd1" "sectorGained nd2 = sectorGained nd1"
        "gainedSectorData nd2 = gainedSectorData nd1" "srSnapshot nd2 = srSnapshot nd1"
      using constructAndVerifyNewRevision_Inr [OF late(4)] by blast
    have "filter (\<lambda>a. Type a = UploadActionAppend) (Actions req) = Actions req"
      using nd1(1) by (simp add: list_all_iff)
    then have rv_eq: "rv = upload_revision req (last (StorageContractRevisions sr)) (newRoots nd1)"
      using updateRevisionMissedAndValidPayback_Inr [OF rv] rv0
      by (simp add: upload_revision_def updateRevisionFileSize_fields)
    obtain mp where nd3: "nd3 = nd2\<lparr>merkleProof := mp\<rparr>"
      using merkleProofNegotiation_Inr [OF late(5)] by blast
    obtain s where rv1: "rv1 = rv\<lparr>Signatures := [c, s]\<rparr>"
      using hostSignAndUpdateRevision_Inr [OF late(6)] by blast
    show ?thesis
    proof (cases "h' = h \<and> r \<noteq> Inr ()")
      case True
      then show ?thesis by blast
    next
      case False
      then obtain h1 where m: "ModifyStorageResponsibility np h (updateStorageResponsibilityUpload ext nd3 sr ?cfg rv1) []
             (sectorGained nd3) (gainedSectorData nd3) = Some h1"
        and fin: "r = Inr () \<and> h' = CheckAndSetStaticConnection np h1 \<or>
          r = Inl ErrSendHostAck \<and> h' = RollbackUploadStorageResponsibility np (CheckAndSetStaticConnection np h1)
             (srSnapshot nd3) (sectorGained nd3) [] []"
        using hostRevisionSignNegotiation_effect [OF late(7)] by blast
      have "srSnapshot nd3 = sr" "newRoots nd3 = newRoots nd1" "sectorGained nd3 = sectorGained nd1"
        "gainedSectorData nd3 = gainedSectorData nd1"
        using nd1 nd2 nd3 by simp_all
      then show ?thesis
        using m fin late(1,2) ne nd1 rv1 rv_eq
        by (intro disjI2 exI [of _ req] exI [of _ sr] exI [of _ nd3] exI [of _ c] exI [of _ s] exI [of _ h1]) simp
    qed
  qed
qed

lemma handle_upload_actions_unknown:
  "list_all (\<lambda>a. Type a = UploadActionAppend) as1 \<Longrightarrow> Type a \<noteq> UploadActionAppend \<Longrightarrow>
     handle_upload_actions (as1 @ a # as2) price nd = Inl (ErrUnknownActionType (Type a))"
  by (induction as1 arbitrary: nd) auto

lemma constructAndVerifyNewRevision_short_values:
  "StorageContractRevisions sr \<noteq> [] \<Longrightarrow>
   length (NewValidProofValues req) < length (NewValidProofOutputs (last (StorageContractRevisions sr))) \<Longrightarrow>
   constructAndVerifyNewRevision ext np h nd sr req cfg = Inl ErrIndexOutOfRange"
  by (simp add: constructAndVerifyNewRevision_def calcAndUpdateRevisionMerkleRoot_def
      updateRevisionMissedAndValidPayback_def updateRevisionFileSize_def Let_def)

end
