(* ===== verification/StorageHost.thy ===== *)
theory StorageHost
  imports Upload
begin

text \<open>
  The storage host as the implementation of \<open>Protocol\<close>
  (\<open>src/storage/storagehost/negotiationproto.go\<close>): its state is the record
  \<open>StorageHost\<close> (the responsibility database, the stored sectors with their
  reference counts, the configuration, the wallets and the connection of the
  session), and each method the upload handler calls is a function on it. The
  database operations the methods delegate to (\<open>getStorageResponsibility\<close>,
  \<open>modifyStorageResponsibility\<close>, \<open>rollbackStorageResponsibility\<close>) are not
  part of the sources and are modelled from the specification: a modification
  is atomic, and a rollback restores the snapshot and releases the gained
  sectors. The theorems show that an upload either commits exactly its
  sectors and revision or leaves the database as it was.
\<close>

record StorageHost =
  db :: "digest \<Rightarrow> StorageResponsibility option"
  sectors :: "digest multiset"
  config :: HostIntConfig
  blockHeight :: u64
  wallets :: "address \<Rightarrow> (digest \<Rightarrow> sig option) option"
  peerNode :: "nat option"
  peerIsStatic :: bool
  staticNodes :: "nat set"

section \<open>The database operations\<close>

definition getStorageResponsibility :: "(digest \<Rightarrow> StorageResponsibility option) \<Rightarrow> digest \<Rightarrow> StorageResponsibility option" where
  "getStorageResponsibility d storageContractID = d storageContractID"

definition modifyStorageResponsibility ::
  "StorageHost \<Rightarrow> StorageResponsibility \<Rightarrow> digest list \<Rightarrow> digest list \<Rightarrow> byte list list \<Rightarrow> StorageHost option" where
  "modifyStorageResponsibility h sr sectorsRemoved sectorsGained gainedData =
     (if db h (SrID sr) = None \<or> length sectorsGained \<noteq> length gainedData
         \<or> \<not> mset sectorsRemoved \<subseteq># sectors h then None
      else Some (h\<lparr>db := (db h)(SrID sr \<mapsto> sr),
                   sectors := sectors h - mset sectorsRemoved + mset sectorsGained\<rparr>))"

definition rollbackStorageResponsibility ::
  "StorageHost \<Rightarrow> StorageResponsibility \<Rightarrow> digest list \<Rightarrow> digest list \<Rightarrow> byte list list \<Rightarrow> StorageHost" where
  "rollbackStorageResponsibility h oldSr sectorsGained sectorsRemoved removedSectorData =
     h\<lparr>db := (db h)(SrID oldSr \<mapsto> oldSr),
       sectors := sectors h - mset sectorsGained + mset sectorsRemoved\<rparr>"

section \<open>The methods\<close>

definition StorageHost_GetHostConfig :: "StorageHost \<Rightarrow> HostIntConfig" where
  "StorageHost_GetHostConfig h = config h"

definition StorageHost_GetBlockHeight :: "StorageHost \<Rightarrow> u64" where
  "StorageHost_GetBlockHeight h = blockHeight h"

definition StorageHost_GetStorageResponsibility :: "StorageHost \<Rightarrow> digest \<Rightarrow> StorageResponsibility option" where
  "StorageHost_GetStorageResponsibility h storageContractID = getStorageResponsibility (db h) storageContractID"

definition StorageHost_FindWallet :: "StorageHost \<Rightarrow> address \<Rightarrow> (digest \<Rightarrow> sig option) option" where
  "StorageHost_FindWallet h account = wallets h account"

definition StorageHost_ModifyStorageResponsibility ::
  "StorageHost \<Rightarrow> StorageResponsibility \<Rightarrow> digest list \<Rightarrow> digest list \<Rightarrow> byte list list \<Rightarrow> StorageHost option" where
  "StorageHost_ModifyStorageResponsibility h sr sectorsRemoved sectorsGained gainedData =
     modifyStorageResponsibility h sr sectorsRemoved sectorsGained gainedData"

text \<open>
  \<open>CheckAndSetStaticConnection\<close>: a connection that is not static becomes so,
  unless the peer's node is unknown.
\<close>

definition StorageHost_CheckAndSetStaticConnection :: "StorageHost \<Rightarrow> StorageHost" where
  "StorageHost_CheckAndSetStaticConnection h =
     (if \<not> peerIsStatic h then
        (case peerNode h of
           None \<Rightarrow> h
         | Some node \<Rightarrow> h\<lparr>staticNodes := insert node (staticNodes h)\<rparr>)
      else h)"

definition StorageHost_RollbackUploadStorageResponsibility ::
  "StorageHost \<Rightarrow> StorageResponsibility \<Rightarrow> digest list \<Rightarrow> digest list \<Rightarrow> byte list list \<Rightarrow> StorageHost" where
  "StorageHost_RollbackUploadStorageResponsibility h oldSr sectorsGained sectorsRemoved removedSectorData =
     rollbackStorageResponsibility h oldSr sectorsGained sectorsRemoved removedSectorData"

definition StorageHostProtocol :: "StorageHost Protocol" where
  "StorageHostProtocol =
     \<lparr>GetHostConfig = StorageHost_GetHostConfig,
      GetBlockHeight = StorageHost_GetBlockHeight,
      GetStorageResponsibility = StorageHost_GetStorageResponsibility,
      FindWallet = StorageHost_FindWallet,
      ModifyStorageResponsibility = StorageHost_ModifyStorageResponsibility,
      CheckAndSetStaticConnection = StorageHost_CheckAndSetStaticConnection,
      RollbackUploadStorageResponsibility = StorageHost_RollbackUploadStorageResponsibility\<rparr>"

text \<open>
  \<open>ReadSector\<close> (lines 129--131) calls itself with the same arguments; as a
  partial function its value is \<open>None\<close>: the call never returns.
\<close>

partial_function (option) StorageHost_ReadSector :: "StorageHost \<Rightarrow> digest \<Rightarrow> byte list option" where
  "StorageHost_ReadSector h sectorRoot = StorageHost_ReadSector h sectorRoot"

section \<open>The database invariant\<close>

text \<open>Every responsibility is stored under its own contract id.\<close>

definition host_wf :: "StorageHost \<Rightarrow> bool" where
  "host_wf h = (\<forall>k sr. db h k = Some sr \<longrightarrow> SrID sr = k)"

section \<open>Lemmas\<close>

lemma ReadSector_None: "StorageHost_ReadSector h r = None"
proof -
  have "StorageHost_ReadSector h r = Some y \<Longrightarrow> False" for y
    using StorageHost_ReadSector.raw_induct [where P = "\<lambda>_ _ _. False"] by blast
  then show ?thesis by (cases "StorageHost_ReadSector h r") auto
qed

lemma modify_Some:
  "modifyStorageResponsibility h sr rm gained gd = Some h1 \<Longrightarrow>
     db h1 = (db h)(SrID sr \<mapsto> sr) \<and> sectors h1 = sectors h - mset rm + mset gained \<and> db h (SrID sr) \<noteq> None"
  by (auto simp: modifyStorageResponsibility_def split: if_splits)

lemma static_db [simp]:
  "db (StorageHost_CheckAndSetStaticConnection h) = db h"
  "sectors (StorageHost_CheckAndSetStaticConnection h) = sectors h"
  by (simp_all add: StorageHost_CheckAndSetStaticConnection_def split: option.splits)

lemma StorageHostProtocol_simps [simp]:
  "GetStorageResponsibility StorageHostProtocol h k = db h k"
  "GetHostConfig StorageHostProtocol h = config h"
  "GetBlockHeight StorageHostProtocol h = blockHeight h"
  "FindWallet StorageHostProtocol h a = wallets h a"
  "ModifyStorageResponsibility StorageHostProtocol = modifyStorageResponsibility"
  "CheckAndSetStaticConnection StorageHostProtocol = StorageHost_CheckAndSetStaticConnection"
  "RollbackUploadStorageResponsibility StorageHostProtocol = rollbackStorageResponsibility"
  by (simp_all add: StorageHostProtocol_def StorageHost_GetStorageResponsibility_def getStorageResponsibility_def
      StorageHost_GetHostConfig_def StorageHost_GetBlockHeight_def StorageHost_FindWallet_def fun_eq_iff StorageHost_ModifyStorageResponsibility_def
      StorageHost_RollbackUploadStorageResponsibility_def)

lemma upload_host_effect:
  assumes wf: "host_wf h"
    and run: "ContractUploadHandler ext StorageHostProtocol sp h msg = (r, h', out)"
  shows "(r \<noteq> Inr () \<and> db h' = db h \<and> sectors h' = sectors h) \<or>
    (r = Inr () \<and> (\<exists>req sr nd c s. msg = Some req \<and> db h (StorageContractID req) = Some sr \<and>
      StorageContractRevisions sr \<noteq> [] \<and> list_all (\<lambda>a. Type a = UploadActionAppend) (Actions req) \<and>
      newRoots nd = SectorRoots sr @ map (Sha256MerkleTreeRoot \<circ> Data) (Actions req) \<and>
      db h' = (db h)(StorageContractID req \<mapsto>
        updateStorageResponsibilityUpload ext nd sr (config h)
          ((upload_revision req (last (StorageContractRevisions sr)) (newRoots nd))\<lparr>Signatures := [c, s]\<rparr>)) \<and>
      sectors h' = sectors h + mset (map (Sha256MerkleTreeRoot \<circ> Data) (Actions req))))"
proof (cases "h' = h \<and> r \<noteq> Inr ()")
  case True
  then show ?thesis by simp
next
  case False
  then obtain req sr nd c s h1 where req: "msg = Some req" and sr: "GetStorageResponsibility StorageHostProtocol h (StorageContractID req) = Some sr"
    and ne: "StorageContractRevisions sr \<noteq> []" and app: "list_all (\<lambda>a. Type a = UploadActionAppend) (Actions req)"
    and snap: "srSnapshot nd = sr"
    and roots: "newRoots nd = SectorRoots sr @ map (Sha256MerkleTreeRoot \<circ> Data) (Actions req)"
    and gained: "sectorGained nd = map (Sha256MerkleTreeRoot \<circ> Data) (Actions req)"
    and gd: "gainedSectorData nd = map Data (Actions req)"
    and m: "ModifyStorageResponsibility StorageHostProtocol h
        (updateStorageResponsibilityUpload ext nd sr (GetHostConfig StorageHostProtocol h)
          ((upload_revision req (last (StorageContractRevisions sr)) (newRoots nd))\<lparr>Signatures := [c, s]\<rparr>))
        [] (sectorGained nd) (gainedSectorData nd) = Some h1"
    and fin: "r = Inr () \<and> h' = CheckAndSetStaticConnection StorageHostProtocol h1 \<or>
       r = Inl ErrSendHostAck \<and> h' = RollbackUploadStorageResponsibility StorageHostProtocol
          (CheckAndSetStaticConnection StorageHostProtocol h1) sr (sectorGained nd) [] []"
    using ContractUploadHandler_cases [OF run] by blast
  have id: "SrID sr = StorageContractID req"
    using wf sr by (simp add: host_wf_def)
  have h1: "db h1 = (db h)(StorageContractID req \<mapsto>
        updateStorageResponsibilityUpload ext nd sr (config h)
          ((upload_revision req (last (StorageContractRevisions sr)) (newRoots nd))\<lparr>Signatures := [c, s]\<rparr>))"
      "sectors h1 = sectors h + mset (map (Sha256MerkleTreeRoot \<circ> Data) (Actions req))"
    using modify_Some [OF m [simplified]] id gained by (simp_all add: updateStorageResponsibilityUpload_def Let_def)
  show ?thesis
  proof (cases "r = Inr ()")
    case True
    then have "h' = StorageHost_CheckAndSetStaticConnection h1" using fin by auto
    then show ?thesis using True h1 req sr ne app roots
      by (intro disjI2 conjI exI [of _ req] exI [of _ sr] exI [of _ nd] exI [of _ c] exI [of _ s]) auto
  next
    case False
    then have h': "h' = rollbackStorageResponsibility (StorageHost_CheckAndSetStaticConnection h1) sr (sectorGained nd) [] []"
      using fin by auto
    have "(db h)(StorageContractID req \<mapsto> sr) = db h"
      using sr by (auto simp: fun_eq_iff)
    then show ?thesis
      using False h' h1 id gained by (simp add: rollbackStorageResponsibility_def)
  qed
qed

end
