(* ===== verification/Lock.thy ===== *)
theory Lock
  imports Prelude
begin

text \<open>
  The per-contract lock registry of the storage host
  (\<open>src/storage/storagehost/storageobligationslock.go\<close>): the map
  \<open>lockedStorageObligations\<close> from contract ids to try-mutexes, guarded by the
  host's coarse lock \<open>h.lock\<close>. A \<open>TryMutex\<close> (not part of the sources) is
  modelled by its locked flag; unlocking one that is not locked panics. The
  three functions are first given their sequential meaning on the registry;
  the step relation \<open>lock_step\<close> then interleaves threads, each call taking
  \<open>h.lock\<close> for its whole duration, including the time \<open>tl.Lock()\<close> blocks and
  the time \<open>TryLockTimed\<close> waits.
\<close>

type_synonym registry = "digest \<Rightarrow> bool option"

datatype lock_error = errObligationLocked | ErrUnlockOfUnlockedMutex

section \<open>The three functions\<close>

text \<open>
  \<open>checkAndLockStorageObligation\<close>: \<open>None\<close> when \<open>tl.Lock()\<close> blocks because the
  mutex is held; the entry is created unlocked when missing.
\<close>

definition checkAndLockStorageObligation :: "registry \<Rightarrow> digest \<Rightarrow> registry option" where
  "checkAndLockStorageObligation reg soid =
     (case reg soid of
        Some True \<Rightarrow> None
      | _ \<Rightarrow> Some (reg(soid \<mapsto> True)))"

text \<open>
  \<open>checkAndTryLockStorageObligation\<close> as one call under \<open>h.lock\<close>: nobody can
  unlock while the caller waits, so the result is decided when it starts.
\<close>

definition checkAndTryLockStorageObligation :: "registry \<Rightarrow> digest \<Rightarrow> (lock_error + unit) \<times> registry" where
  "checkAndTryLockStorageObligation reg soid =
     (case reg soid of
        Some True \<Rightarrow> (Inl errObligationLocked, reg)
      | _ \<Rightarrow> (Inr (), reg(soid \<mapsto> True)))"

definition checkAndUnlockStorageObligation :: "registry \<Rightarrow> digest \<Rightarrow> lock_error + registry" where
  "checkAndUnlockStorageObligation reg soid =
     (case reg soid of
        None \<Rightarrow> Inr reg
      | Some False \<Rightarrow> Inl ErrUnlockOfUnlockedMutex
      | Some True \<Rightarrow> Inr (reg(soid \<mapsto> False)))"

section \<open>Interleaved threads\<close>

text \<open>
  A thread is idle, holds a contract's mutex, is blocked in \<open>tl.Lock()\<close>, or
  waits in \<open>TryLockTimed\<close>; the blocked and the waiting thread hold \<open>h.lock\<close>.
\<close>

datatype lock_pc = Idle | Holding digest | LockWaiting digest | TryWaiting digest

record 't lock_state =
  coarse :: "'t option"
  lockedStorageObligations :: registry
  pc :: "'t \<Rightarrow> lock_pc"

definition lock_init :: "'t lock_state" where
  "lock_init = \<lparr>coarse = None, lockedStorageObligations = Map.empty, pc = (\<lambda>_. Idle)\<rparr>"

inductive lock_step :: "'t lock_state \<Rightarrow> 't lock_state \<Rightarrow> bool" where
  lock_acquire:
    "\<lbrakk>pc s t = Idle; coarse s = None;
      checkAndLockStorageObligation (lockedStorageObligations s) soid = Some reg'\<rbrakk> \<Longrightarrow>
     lock_step s (s\<lparr>lockedStorageObligations := reg', pc := (pc s)(t := Holding soid)\<rparr>)"
| lock_block:
    "\<lbrakk>pc s t = Idle; coarse s = None;
      checkAndLockStorageObligation (lockedStorageObligations s) soid = None\<rbrakk> \<Longrightarrow>
     lock_step s (s\<lparr>coarse := Some t, pc := (pc s)(t := LockWaiting soid)\<rparr>)"
| lock_wake:
    "\<lbrakk>pc s t = LockWaiting soid; lockedStorageObligations s soid = Some False\<rbrakk> \<Longrightarrow>
     lock_step s (s\<lparr>coarse := None, lockedStorageObligations := (lockedStorageObligations s)(soid \<mapsto> True),
                    pc := (pc s)(t := Holding soid)\<rparr>)"
| trylock_acquire:
    "\<lbrakk>pc s t = Idle; coarse s = None;
      checkAndTryLockStorageObligation (lockedStorageObligations s) soid = (Inr (), reg')\<rbrakk> \<Longrightarrow>
     lock_step s (s\<lparr>lockedStorageObligations := reg', pc := (pc s)(t := Holding soid)\<rparr>)"
| trylock_wait:
    "\<lbrakk>pc s t = Idle; coarse s = None;
      checkAndTryLockStorageObligation (lockedStorageObligations s) soid = (Inl errObligationLocked, reg')\<rbrakk> \<Longrightarrow>
     lock_step s (s\<lparr>coarse := Some t, pc := (pc s)(t := TryWaiting soid)\<rparr>)"
| trylock_late_acquire:
    "\<lbrakk>pc s t = TryWaiting soid; lockedStorageObligations s soid = Some False\<rbrakk> \<Longrightarrow>
     lock_step s (s\<lparr>coarse := None, lockedStorageObligations := (lockedStorageObligations s)(soid \<mapsto> True),
                    pc := (pc s)(t := Holding soid)\<rparr>)"
| trylock_timeout:
    "pc s t = TryWaiting soid \<Longrightarrow> lock_step s (s\<lparr>coarse := None, pc := (pc s)(t := Idle)\<rparr>)"
| unlock:
    "\<lbrakk>pc s t = Holding soid; coarse s = None;
      checkAndUnlockStorageObligation (lockedStorageObligations s) soid = Inr reg'\<rbrakk> \<Longrightarrow>
     lock_step s (s\<lparr>lockedStorageObligations := reg', pc := (pc s)(t := Idle)\<rparr>)"

inductive lock_reachable :: "'t lock_state \<Rightarrow> bool" where
  start: "lock_reachable lock_init"
| step: "lock_reachable s \<Longrightarrow> lock_step s s' \<Longrightarrow> lock_reachable s'"

text \<open>
  The invariant: a holder's mutex is locked and has no other holder, and a thread that is blocked or waiting holds \<open>h.lock\<close>
  while the mutex it waits for stays locked.
\<close>

definition lock_inv :: "'t lock_state \<Rightarrow> bool" where
  "lock_inv s =
     ((\<forall>t soid. pc s t = Holding soid \<longrightarrow> lockedStorageObligations s soid = Some True) \<and>
      (\<forall>t1 t2 soid. pc s t1 = Holding soid \<longrightarrow> pc s t2 = Holding soid \<longrightarrow> t1 = t2) \<and>
      (\<forall>t soid. pc s t = LockWaiting soid \<or> pc s t = TryWaiting soid \<longrightarrow>
         coarse s = Some t \<and> lockedStorageObligations s soid = Some True))"

section \<open>Lemmas\<close>

inductive_cases lock_stepE: "lock_step s s'"

lemma lock_inv_init: "lock_inv lock_init"
  by (simp add: lock_inv_def lock_init_def)

lemmas lock_fun_defs = checkAndLockStorageObligation_def checkAndTryLockStorageObligation_def
  checkAndUnlockStorageObligation_def

lemma lock_step_inv: "lock_step s s' \<Longrightarrow> lock_inv s \<Longrightarrow> lock_inv s'"
proof (induction rule: lock_step.induct)
  case (lock_acquire s t soid reg')
  then show ?case
    by (auto simp: lock_inv_def lock_fun_defs split: option.splits bool.splits if_splits)
next
  case (lock_block s t soid)
  then show ?case by (auto simp: lock_inv_def lock_fun_defs split: option.splits bool.splits)
next
  case (lock_wake s t soid)
  then show ?case by (auto simp: lock_inv_def; metis option.inject)
next
  case (trylock_acquire s t soid reg')
  then show ?case
    by (auto simp: lock_inv_def lock_fun_defs split: option.splits bool.splits if_splits)
next
  case (trylock_wait s t soid reg')
  then show ?case by (auto simp: lock_inv_def lock_fun_defs split: option.splits bool.splits)
next
  case (trylock_late_acquire s t soid)
  then show ?case by (auto simp: lock_inv_def; metis option.inject)
next
  case (trylock_timeout s t soid)
  then show ?case by (auto simp: lock_inv_def; metis option.inject)
next
  case (unlock s t soid reg')
  then show ?case
    by (auto simp: lock_inv_def lock_fun_defs split: option.splits bool.splits if_splits)
qed

lemma lock_inv_waiting:
  "lock_inv s \<Longrightarrow> pc s t = LockWaiting soid \<or> pc s t = TryWaiting soid \<Longrightarrow>
     coarse s = Some t \<and> lockedStorageObligations s soid = Some True"
  unfolding lock_inv_def by blast

lemma lock_reachable_inv: "lock_reachable s \<Longrightarrow> lock_inv s"
  by (induction rule: lock_reachable.induct) (auto intro: lock_inv_init lock_step_inv)

end
