(* ===== verification/HostTree.thy ===== *)
theory HostTree
  imports Prelude "HOL-Library.Multiset"
begin

text \<open>
  The storage-host selection tree of the client
  (\<open>src/storage/storageclient/storagehosttree/node.go\<close>): a binary tree whose
  nodes hold a host entry with its evaluation, an occupied flag, the number of
  nodes below them and the sum of the evaluations below them, from which a
  host is picked with probability proportional to its evaluation. The Go
  nodes have parent pointers; the model addresses a node by its path from the
  root (a list of directions), and \<open>nodeRemove\<close>'s walk up the parent
  pointers updates the ancestors on that path. Evaluations (\<open>common.BigInt\<close>)
  are integers.
\<close>

record nodeEntry =
  HostID :: nat
  entryEval :: int

datatype hnode =
    NilNode
  | Node (n_left: hnode) (n_count: int) (n_occupied: bool) (n_eval: int)
      (n_entry: "nodeEntry option") (n_right: hnode)

datatype dir = GoLeft | GoRight

datatype tree_error = ErrEvaluationTooLarge | ErrNodeNotOccupied | ErrNilPointer

section \<open>Operations\<close>

definition newNode :: "nodeEntry \<Rightarrow> hnode" where
  "newNode entry = Node NilNode 1 True (entryEval entry) (Some entry) NilNode"

text \<open>
  \<open>nodeInsert\<close> returns the number of nodes added, the path of the node the
  entry went to, and the updated subtree; \<open>isRoot\<close> is \<open>n.parent == nil\<close>.
  The recursion only descends into children that are not \<open>nil\<close>; a call on
  \<open>nil\<close> would dereference a nil pointer.
\<close>

fun nodeInsert :: "bool \<Rightarrow> nodeEntry \<Rightarrow> hnode \<Rightarrow> (int \<times> dir list \<times> hnode) option" where
  "nodeInsert isRoot entry NilNode = None"
| "nodeInsert isRoot entry (Node l c occ ev en r) =
     (if isRoot \<and> \<not> occ \<and> l = NilNode \<and> r = NilNode
      then Some (0, [], Node l c True (entryEval entry) (Some entry) r)
      else
        let ev' = ev + entryEval entry
        in if \<not> occ then Some (0, [], Node l c True ev' (Some entry) r)
           else if l = NilNode then Some (1, [GoLeft], Node (newNode entry) (c + 1) occ ev' en r)
           else if r = NilNode then Some (1, [GoRight], Node l (c + 1) occ ev' en (newNode entry))
           else if n_count l \<le> n_count r then
             (case nodeInsert False entry l of
                None \<Rightarrow> None
              | Some (added, p, l') \<Rightarrow> Some (added, GoLeft # p, Node l' (c + added) occ ev' en r))
           else
             (case nodeInsert False entry r of
                None \<Rightarrow> None
              | Some (added, p, r') \<Rightarrow> Some (added, GoRight # p, Node l (c + added) occ ev' en r')))"

fun node_at :: "dir list \<Rightarrow> hnode \<Rightarrow> hnode" where
  "node_at [] t = t"
| "node_at (d # p) NilNode = NilNode"
| "node_at (GoLeft # p) (Node l c occ ev en r) = node_at p l"
| "node_at (GoRight # p) (Node l c occ ev en r) = node_at p r"

text \<open>
  \<open>nodeRemove\<close>: the node at the path becomes unoccupied and every strict
  ancestor loses the entry's evaluation; the node's own evaluation is left as
  it was. \<open>remove_walk\<close> is that update for a known entry evaluation.
\<close>

fun remove_walk :: "dir list \<Rightarrow> int \<Rightarrow> hnode \<Rightarrow> hnode" where
  "remove_walk p e NilNode = NilNode"
| "remove_walk [] e (Node l c occ ev en r) = Node l c False ev en r"
| "remove_walk (GoLeft # p) e (Node l c occ ev en r) = Node (remove_walk p e l) c occ (ev - e) en r"
| "remove_walk (GoRight # p) e (Node l c occ ev en r) = Node l c occ (ev - e) en (remove_walk p e r)"

text \<open>
  \<open>None\<close> is the nil-pointer panic: of a nil node, or of \<open>n.entry.eval\<close>
  for a node without entry that has a parent. The root without entry has no
  parent, so the loop never reads its entry and only \<open>occupied\<close> is cleared.
\<close>

definition nodeRemove :: "dir list \<Rightarrow> hnode \<Rightarrow> hnode option" where
  "nodeRemove p t =
     (case node_at p t of
        Node _ _ _ _ (Some entry) _ \<Rightarrow> Some (remove_walk p (entryEval entry) t)
      | Node _ _ _ _ None _ \<Rightarrow> (if p = [] then Some (remove_walk [] 0 t) else None)
      | NilNode \<Rightarrow> None)"

fun nodeWithEval :: "int \<Rightarrow> hnode \<Rightarrow> tree_error + dir list" where
  "nodeWithEval x NilNode = Inl ErrNilPointer"
| "nodeWithEval x (Node l c occ ev en r) =
     (if x > ev then Inl ErrEvaluationTooLarge
      else if l \<noteq> NilNode \<and> x < n_eval l then map_sum id (Cons GoLeft) (nodeWithEval x l)
      else
        let x' = (if l \<noteq> NilNode then x - n_eval l else x)
        in if r \<noteq> NilNode \<and> x' < n_eval r then map_sum id (Cons GoRight) (nodeWithEval x' r)
           else if \<not> occ then Inl ErrNodeNotOccupied
           else Inr [])"

section \<open>Invariant and abstraction\<close>

text \<open>
  A well-formed tree: an occupied node has an entry, its evaluation is its own
  entry's (when occupied) plus its children's, and its count is one plus its
  children's. \<open>tree_count\<close> and \<open>tree_eval\<close> read \<open>nil\<close> as zero.
\<close>

definition tree_eval :: "hnode \<Rightarrow> int" where
  "tree_eval t = (case t of NilNode \<Rightarrow> 0 | Node _ _ _ ev _ _ \<Rightarrow> ev)"

definition tree_count :: "hnode \<Rightarrow> int" where
  "tree_count t = (case t of NilNode \<Rightarrow> 0 | Node _ c _ _ _ _ \<Rightarrow> c)"

fun own_eval :: "bool \<Rightarrow> nodeEntry option \<Rightarrow> int" where
  "own_eval occ en = (if occ then (case en of Some e \<Rightarrow> entryEval e | None \<Rightarrow> 0) else 0)"

fun tree_wf :: "hnode \<Rightarrow> bool" where
  "tree_wf NilNode = True"
| "tree_wf (Node l c occ ev en r) =
     (tree_wf l \<and> tree_wf r \<and> (occ \<longrightarrow> en \<noteq> None) \<and>
      ev = own_eval occ en + tree_eval l + tree_eval r \<and> c = 1 + tree_count l + tree_count r)"

text \<open>
  The abstract view: the occupied entries with their paths, in the order
  \<open>nodeWithEval\<close> visits them (left subtree, right subtree, the node), and the
  weighted pick over that list.
\<close>

fun occupied_list :: "hnode \<Rightarrow> (dir list \<times> nodeEntry) list" where
  "occupied_list NilNode = []"
| "occupied_list (Node l c occ ev en r) =
     map (\<lambda>(p, e). (GoLeft # p, e)) (occupied_list l) @ map (\<lambda>(p, e). (GoRight # p, e)) (occupied_list r) @
     (if occ then (case en of Some e \<Rightarrow> [([], e)] | None \<Rightarrow> []) else [])"

fun tree_entries :: "hnode \<Rightarrow> nodeEntry list" where
  "tree_entries NilNode = []"
| "tree_entries (Node l c occ ev en r) =
     tree_entries l @ tree_entries r @ (if occ then (case en of Some e \<Rightarrow> [e] | None \<Rightarrow> []) else [])"

fun pick :: "int \<Rightarrow> (dir list \<times> nodeEntry) list \<Rightarrow> dir list option" where
  "pick x [] = None"
| "pick x ((p, e) # rest) = (if x < entryEval e then Some p else pick (x - entryEval e) rest)"

text \<open>\<open>weight\<close> sums the evaluations of a list of occupied entries.\<close>

fun weight :: "(dir list \<times> nodeEntry) list \<Rightarrow> int" where
  "weight [] = 0"
| "weight ((p, e) # xs) = entryEval e + weight xs"

fun evals_nonneg :: "hnode \<Rightarrow> bool" where
  "evals_nonneg NilNode = True"
| "evals_nonneg (Node l c occ ev en r) =
     (evals_nonneg l \<and> evals_nonneg r \<and> (case en of Some e \<Rightarrow> 0 \<le> entryEval e | None \<Rightarrow> True))"

section \<open>Lemmas\<close>


lemma weight_append [simp]: "weight (xs @ ys) = weight xs + weight ys"
  by (induction xs rule: weight.induct) auto

lemma weight_map_prefix [simp]:
  "weight (map (\<lambda>(p, e). (d # p, e)) xs) = weight xs"
  by (induction xs rule: weight.induct) auto

lemma tree_eval_weight: "tree_wf t \<Longrightarrow> tree_eval t = weight (occupied_list t)"
  by (induction t) (auto simp: tree_eval_def split: option.splits)

lemma weight_nonneg: "list_all (\<lambda>(p, e). 0 \<le> entryEval e) xs \<Longrightarrow> 0 \<le> weight xs"
  by (induction xs rule: weight.induct) auto

lemma pick_append:
  "0 \<le> x \<Longrightarrow> list_all (\<lambda>(p, e). 0 \<le> entryEval e) xs \<Longrightarrow>
     pick x (xs @ ys) = (if x < weight xs then pick x xs else pick (x - weight xs) ys)"
proof (induction x xs rule: pick.induct)
  case (2 x p e rest)
  then show ?case using weight_nonneg [of rest] by (auto simp: algebra_simps)
qed simp

lemma occupied_list_nonneg:
  "evals_nonneg t \<Longrightarrow> list_all (\<lambda>(p, e). 0 \<le> entryEval e) (occupied_list t)"
proof (induction t)
  case (Node l c occ ev en r)
  then show ?case by (auto simp: list.pred_map comp_def case_prod_beta split: option.split)
qed simp

lemma pick_map_prefix:
  "pick x (map (\<lambda>(p, e). (d # p, e)) xs) = map_option (Cons d) (pick x xs)"
  by (induction x xs rule: pick.induct) auto

lemma tree_eval_Nil [simp]: "tree_eval NilNode = 0"
  and tree_count_Nil [simp]: "tree_count NilNode = 0"
  by (simp_all add: tree_eval_def tree_count_def)

lemma tree_eval_Node [simp]: "tree_eval (Node l c occ ev en r) = ev"
  and tree_count_Node [simp]: "tree_count (Node l c occ ev en r) = c"
  by (simp_all add: tree_eval_def tree_count_def)

lemma tree_eval_nonneg: "tree_wf t \<Longrightarrow> evals_nonneg t \<Longrightarrow> 0 \<le> tree_eval t"
  by (induction t) (auto simp: tree_eval_def split: option.splits)

lemma nodeWithEval_pick:
  "tree_wf t \<Longrightarrow> evals_nonneg t \<Longrightarrow> 0 \<le> x \<Longrightarrow> x < tree_eval t \<Longrightarrow>
     \<exists>p. nodeWithEval x t = Inr p \<and> pick x (occupied_list t) = Some p"
proof (induction t arbitrary: x)
  case NilNode
  then show ?case by (simp add: tree_eval_def)
next
  case (Node l c occ ev en r)
  have wl: "tree_eval l = weight (occupied_list l)" and wr: "tree_eval r = weight (occupied_list r)"
    using Node.prems(1) by (simp_all add: tree_eval_weight)
  have nl: "0 \<le> tree_eval l" and nr: "0 \<le> tree_eval r"
    using Node.prems(1,2) by (simp_all add: tree_eval_nonneg)
  have al: "list_all (\<lambda>(p, e). 0 \<le> entryEval e) (map (\<lambda>(p, e). (GoLeft # p, e)) (occupied_list l))"
    and ar: "list_all (\<lambda>(p, e). 0 \<le> entryEval e) (map (\<lambda>(p, e). (GoRight # p, e)) (occupied_list r))"
    using occupied_list_nonneg [of l] occupied_list_nonneg [of r] Node.prems(2)
    by (auto simp: list_all_iff)
  define L where "L = map (\<lambda>(p, e). (GoLeft # p, e)) (occupied_list l)"
  define R where "R = map (\<lambda>(p, e). (GoRight # p, e)) (occupied_list r)"
  define Own :: "(dir list \<times> nodeEntry) list" where "Own = (if occ then (case en of Some e \<Rightarrow> [([], e)] | None \<Rightarrow> []) else [])"
  have ol: "occupied_list (Node l c occ ev en r) = L @ R @ Own" by (simp add: L_def R_def Own_def)
  have pL: "pick x (L @ R @ Own) = (if x < weight L then pick x L else pick (x - weight L) (R @ Own))"
    by (rule pick_append [OF Node.prems(3) al [folded L_def]])
  have wL: "weight L = tree_eval l" and wR: "weight R = tree_eval r" using wl wr by (simp_all add: L_def R_def)
  have ev: "ev = own_eval occ en + tree_eval l + tree_eval r" using Node.prems(1) by simp
  have nil_eval: "t = NilNode \<Longrightarrow> tree_eval t = 0" for t by (simp add: tree_eval_def)
  have n_eval_eq: "t \<noteq> NilNode \<Longrightarrow> n_eval t = tree_eval t" for t by (cases t) auto
  have nw: "nodeWithEval x (Node l c occ ev en r) =
     (if l \<noteq> NilNode \<and> x < n_eval l then map_sum id (Cons GoLeft) (nodeWithEval x l)
      else let x' = (if l \<noteq> NilNode then x - n_eval l else x)
        in if r \<noteq> NilNode \<and> x' < n_eval r then map_sum id (Cons GoRight) (nodeWithEval x' r)
           else if \<not> occ then Inl ErrNodeNotOccupied else Inr [])"
    using Node.prems(4) by simp
  show ?case
  proof (cases "l \<noteq> NilNode \<and> x < tree_eval l")
    case True
    then obtain p where p: "nodeWithEval x l = Inr p" "pick x (occupied_list l) = Some p"
      using Node.IH(1) [of x] Node.prems by auto
    have "pick x (L @ R @ Own) = Some (GoLeft # p)"
      using pL True wL p(2) by (simp add: L_def pick_map_prefix)
    moreover have "nodeWithEval x (Node l c occ ev en r) = Inr (GoLeft # p)"
      using nw True n_eval_eq [of l] p(1) by simp
    ultimately show ?thesis unfolding ol by blast
  next
    case False
    define x' where "x' = x - tree_eval l"
    have x'_eq: "(if l \<noteq> NilNode then x - n_eval l else x) = x'"
      using n_eval_eq [of l] nil_eval [of l] by (auto simp: x'_def)
    have x'0: "0 \<le> x'" using False Node.prems(3) nil_eval [of l] by (auto simp: x'_def)
    have notl: "\<not> (l \<noteq> NilNode \<and> x < n_eval l)" using False n_eval_eq [of l] by auto
    have pl: "pick x (L @ R @ Own) = pick x' (R @ Own)"
      using False nil_eval [of l] pL wL Node.prems(3) by (auto simp: x'_def)
    have pR: "pick x' (R @ Own) = (if x' < weight R then pick x' R else pick (x' - weight R) Own)"
      by (rule pick_append [OF x'0 ar [folded R_def]])
    show ?thesis
    proof (cases "r \<noteq> NilNode \<and> x' < tree_eval r")
      case True
      then obtain p where p: "nodeWithEval x' r = Inr p" "pick x' (occupied_list r) = Some p"
        using Node.IH(2) [of x'] Node.prems x'0 by auto
      have "pick x (L @ R @ Own) = Some (GoRight # p)"
        using pl pR True wR p(2) by (simp add: R_def pick_map_prefix)
      moreover have "nodeWithEval x (Node l c occ ev en r) = Inr (GoRight # p)"
        using nw True notl x'_eq n_eval_eq [of r] p(1) by simp
      ultimately show ?thesis unfolding ol by blast
    next
      case False2: False
      then have "tree_eval r \<le> x'" using nil_eval [of r] x'0 by auto
      moreover have "x' < own_eval occ en + tree_eval r"
        using Node.prems(4) ev by (simp add: x'_def)
      ultimately obtain e where occ: "occ" and en: "en = Some e" and xe: "x' - tree_eval r < entryEval e"
        by (cases occ; cases en) auto
      have "pick x (L @ R @ Own) = Some []"
        using pl pR wR False2 \<open>tree_eval r \<le> x'\<close> occ en xe by (simp add: Own_def)
      have nr: "\<not> (r \<noteq> NilNode \<and> x' < n_eval r)" using False2 n_eval_eq [of r] by auto
      have "nodeWithEval x (Node l c occ ev en r) =
          (if r \<noteq> NilNode \<and> x' < n_eval r then map_sum id (Cons GoRight) (nodeWithEval x' r)
           else if \<not> occ then Inl ErrNodeNotOccupied else Inr [])"
        using nw notl x'_eq by (simp add: Let_def)
      also have "\<dots> = Inr []" using nr occ by (simp only: if_False not_True_eq_False)
      finally have "nodeWithEval x (Node l c occ ev en r) = Inr []" .
      with \<open>pick x (L @ R @ Own) = Some []\<close> show ?thesis unfolding ol by blast
    qed
  qed
qed

lemma map_snd_prefix [simp]: "map snd (map (\<lambda>(p, e). (d # p, e)) xs) = map snd xs"
  by (induction xs) auto

lemma tree_entries_occupied_list: "tree_entries t = map snd (occupied_list t)"
  by (induction t) (auto split: option.split)

lemma newNode_simps [simp]:
  "tree_wf (newNode e)" "tree_eval (newNode e) = entryEval e" "tree_count (newNode e) = 1"
  "occupied_list (newNode e) = [([], e)]" "tree_entries (newNode e) = [e]" "newNode e \<noteq> NilNode"
  "\<exists>l c ev r. newNode e = Node l c True ev (Some e) r"
  by (simp_all add: newNode_def tree_eval_def tree_count_def)

lemma nodeInsert_Some:
  "nodeInsert b e t = Some (k, p, t') \<Longrightarrow> tree_wf t \<Longrightarrow>
     tree_wf t' \<and> tree_eval t' = tree_eval t + entryEval e \<and> tree_count t' = tree_count t + k \<and>
     mset (tree_entries t') = mset (tree_entries t) + {#e#} \<and>
     (\<exists>l c ev r. node_at p t' = Node l c True ev (Some e) r)"
proof (induction t arbitrary: b k p t')
  case NilNode
  then show ?case by simp
next
  case (Node l c occ ev en r)
  show ?case
  proof (cases "b \<and> \<not> occ \<and> l = NilNode \<and> r = NilNode")
    case True
    then show ?thesis using Node.prems by auto
  next
    case notroot: False
    show ?thesis
    proof (cases occ)
      case False
      then show ?thesis using Node.prems notroot by (auto simp: Let_def)
    next
      case occ: True
      show ?thesis
      proof (cases "l = NilNode")
        case True
        then show ?thesis using Node.prems notroot occ by (auto simp: Let_def)
      next
        case lnn: False
        show ?thesis
        proof (cases "r = NilNode")
          case True
          then show ?thesis using Node.prems notroot occ lnn by (auto simp: Let_def)
        next
          case rnn: False
          show ?thesis
          proof (cases "n_count l \<le> n_count r")
            case True
            then obtain k' p' l' where rec: "nodeInsert False e l = Some (k', p', l')"
              and res: "k = k'" "p = GoLeft # p'" "t' = Node l' (c + k') occ (ev + entryEval e) en r"
              using Node.prems(1) notroot occ lnn rnn by (auto simp: Let_def split: option.splits)
            from Node.IH(1) [OF rec] Node.prems(2) show ?thesis using res by (auto simp: algebra_simps)
          next
            case False
            then obtain k' p' r' where rec: "nodeInsert False e r = Some (k', p', r')"
              and res: "k = k'" "p = GoRight # p'" "t' = Node l (c + k') occ (ev + entryEval e) en r'"
              using Node.prems(1) notroot occ lnn rnn by (auto simp: Let_def split: option.splits)
            from Node.IH(2) [OF rec] Node.prems(2) show ?thesis using res by (auto simp: algebra_simps)
          qed
        qed
      qed
    qed
  qed
qed

lemma nodeInsert_total: "t \<noteq> NilNode \<Longrightarrow> \<exists>res. nodeInsert b e t = Some res"
proof (induction t arbitrary: b)
  case (Node l c occ ev en r)
  then show ?case by (cases l; cases r) (auto simp: Let_def split: option.splits)
qed simp

lemma node_at_Nil [simp]: "node_at p NilNode = NilNode"
  by (cases p) auto

lemma node_at_remove_walk:
  "node_at p t = Node l c occ ev en r \<Longrightarrow> node_at p (remove_walk p e t) = Node l c False ev en r"
  by (induction p e t rule: remove_walk.induct) auto

lemma tree_wf_node_at: "tree_wf t \<Longrightarrow> tree_wf (node_at p t)"
  by (induction p t rule: node_at.induct) auto

lemma nodeRemove_Some:
  "node_at p t = Node l c occ ev (Some e) r \<Longrightarrow> nodeRemove p t = Some (remove_walk p (entryEval e) t)"
  by (simp add: nodeRemove_def)

end
