(* ===== verification/LuckyWheel.thy ===== *)
theory LuckyWheel
  imports Prelude "HOL-Library.Stream" "HOL-Library.Multiset"
begin

text \<open>
  The lucky-wheel random selector of the DPoS consensus
  (\<open>src/consensus/dpos/errors.go\<close>, lines 72--206): \<open>target\<close> addresses are
  drawn from weighted entries, each draw removing the chosen entry. The
  pseudo-random generator \<open>rand.New(rand.NewSource(seed))\<close> is modelled as an
  arbitrary stream of integers, one consumed per \<open>randomBigInt\<close> call, whose
  value modulo \<open>max\<close> is the number drawn; every theorem holds for every
  stream. \<open>common.BigInt\<close> values are integers.
\<close>

record randomSelectorEntry =
  addr :: address
  vote :: int

record luckyWheel =
  rnd :: "int stream"
  entries :: "randomSelectorEntry list"
  target :: int
  results :: "address list"
  sumVotes :: int

datatype wheel_error =
    errRandomSelectNotEnoughEntries
  | ErrUnknownSelectorType
  | PanicMakeSliceLen
  | PanicIndexOutOfRange

definition typeLuckyWheel :: int where
  "typeLuckyWheel = 0"

section \<open>Construction\<close>

text \<open>
  \<open>make([]common.Address, target)\<close> fills the result slice with \<open>target\<close> zero
  addresses, and panics for a negative \<open>target\<close>.
\<close>

definition newLuckyWheel ::
  "randomSelectorEntry list \<Rightarrow> int stream \<Rightarrow> int \<Rightarrow> wheel_error + luckyWheel" where
  "newLuckyWheel es source tgt =
     (if int (length es) < tgt then Inl errRandomSelectNotEnoughEntries
      else if tgt < 0 then Inl PanicMakeSliceLen
      else Inr \<lparr>rnd = source, entries = es, target = tgt, results = replicate (nat tgt) 0,
                sumVotes = sum_list (map vote es)\<rparr>)"

definition newRandomAddressSelector ::
  "int \<Rightarrow> randomSelectorEntry list \<Rightarrow> int stream \<Rightarrow> int \<Rightarrow> wheel_error + luckyWheel" where
  "newRandomAddressSelector typeCode es source tgt =
     (if typeCode = typeLuckyWheel then newLuckyWheel es source tgt else Inl ErrUnknownSelectorType)"

section \<open>Selection\<close>

text \<open>
  \<open>randomBigInt\<close>: \<open>big.Int.Rand\<close> draws from \<open>[0, max)\<close>, and returns \<open>0\<close>
  without drawing when \<open>max\<close> is not positive.
\<close>

definition randomBigInt :: "int stream \<Rightarrow> int \<Rightarrow> int \<times> int stream" where
  "randomBigInt r mx = (if mx \<le> 0 then (0, r) else (shd r mod mx, stl r))"

text \<open>
  The loop of \<open>selectSingleEntry\<close>: the first entry whose vote is at most the
  remaining draw is selected; \<open>None\<close> when the loop runs out.
\<close>

fun select_loop :: "int \<Rightarrow> int \<Rightarrow> randomSelectorEntry list \<Rightarrow> int option" where
  "select_loop i selected [] = None"
| "select_loop i selected (e # es) =
     (if vote e \<le> selected then Some i else select_loop (i + 1) (selected - vote e) es)"

definition selectSingleEntry :: "luckyWheel \<Rightarrow> int \<times> luckyWheel" where
  "selectSingleEntry lw =
     (case randomBigInt (rnd lw) (sumVotes lw) of
        (selected, r') \<Rightarrow>
          (case select_loop 0 selected (entries lw) of
             Some i \<Rightarrow> i
           | None \<Rightarrow> int (length (entries lw)) - 1,
           lw\<lparr>rnd := r'\<rparr>))"

text \<open>
  One iteration of \<open>randomSelect\<close>: the selected entry's address is appended
  to the results and the entry removed. \<open>lw.sumVotes.Sub(...)\<close> returns the
  difference and the code discards it, so \<open>sumVotes\<close> is not updated.
\<close>

definition randomSelect_step :: "luckyWheel \<Rightarrow> wheel_error + luckyWheel" where
  "randomSelect_step lw =
     (case selectSingleEntry lw of
        (selectedIndex, lw1) \<Rightarrow>
          if selectedIndex < 0 \<or> int (length (entries lw1)) \<le> selectedIndex then Inl PanicIndexOutOfRange
          else
            let i = nat selectedIndex;
                selectedEntry = entries lw1 ! i
            in Inr (lw1\<lparr>results := results lw1 @ [addr selectedEntry],
                        entries := (if selectedIndex = int (length (entries lw1)) - 1
                                    then take (length (entries lw1) - 1) (entries lw1)
                                    else take i (entries lw1) @ drop (i + 1) (entries lw1))\<rparr>))"

fun randomSelect_loop :: "nat \<Rightarrow> luckyWheel \<Rightarrow> wheel_error + luckyWheel" where
  "randomSelect_loop 0 lw = Inr lw"
| "randomSelect_loop (Suc n) lw =
     (case randomSelect_step lw of Inl e \<Rightarrow> Inl e | Inr lw' \<Rightarrow> randomSelect_loop n lw')"

definition randomSelect :: "luckyWheel \<Rightarrow> wheel_error + luckyWheel" where
  "randomSelect lw = randomSelect_loop (nat (target lw)) lw"

text \<open>\<open>RandomSelect\<close> runs \<open>randomSelect\<close> once (\<open>sync.Once\<close>) and returns the results.\<close>

definition RandomSelect :: "luckyWheel \<Rightarrow> wheel_error + address list" where
  "RandomSelect lw = map_sum id results (randomSelect lw)"

definition listAddresses :: "randomSelectorEntry list \<Rightarrow> address list" where
  "listAddresses es = map addr es"

text \<open>
  Example input: two candidates with 5 and 3 votes, two to be drawn, and a
  generator that always yields \<open>0\<close>.
\<close>

definition ex_entries :: "randomSelectorEntry list" where
  "ex_entries = [\<lparr>addr = 1, vote = 5\<rparr>, \<lparr>addr = 2, vote = 3\<rparr>]"

definition ex_wheel :: luckyWheel where
  "ex_wheel = \<lparr>rnd = sconst 0, entries = ex_entries, target = 2, results = [0, 0], sumVotes = 8\<rparr>"

section \<open>Lemmas\<close>

lemma select_loop_range:
  "select_loop i s es = Some j \<Longrightarrow> i \<le> j \<and> j < i + int (length es)"
  by (induction i s es rule: select_loop.induct) (fastforce split: if_splits)+

lemma randomBigInt_nonneg: "0 \<le> fst (randomBigInt r mx)"
  by (simp add: randomBigInt_def)

lemma selectSingleEntry_fields:
  "snd (selectSingleEntry lw) = lw\<lparr>rnd := snd (randomBigInt (rnd lw) (sumVotes lw))\<rparr>"
  by (simp add: selectSingleEntry_def split: prod.split)

lemma selectSingleEntry_range:
  "entries lw \<noteq> [] \<Longrightarrow> 0 \<le> fst (selectSingleEntry lw) \<and> fst (selectSingleEntry lw) < int (length (entries lw))"
  by (auto simp: selectSingleEntry_def split: prod.split option.split dest: select_loop_range)

lemma mset_remove_nth:
  "i < length xs \<Longrightarrow> mset (take i xs @ drop (Suc i) xs) + {#xs ! i#} = mset xs"
  by (metis add.commute append_take_drop_id mset_append Cons_nth_drop_Suc mset.simps(2) add_mset_add_single
      union_assoc union_lcomm)

lemma randomSelect_step_Inr:
  assumes "entries lw \<noteq> []"
  shows "\<exists>i. i < length (entries lw) \<and> randomSelect_step lw =
    Inr (lw\<lparr>rnd := snd (randomBigInt (rnd lw) (sumVotes lw)), results := results lw @ [addr (entries lw ! i)],
            entries := take i (entries lw) @ drop (Suc i) (entries lw)\<rparr>)"
proof -
  obtain idx lw1 where sel: "selectSingleEntry lw = (idx, lw1)" by (metis prod.exhaust)
  have lw1: "lw1 = lw\<lparr>rnd := snd (randomBigInt (rnd lw) (sumVotes lw))\<rparr>"
    using selectSingleEntry_fields [of lw] sel by simp
  have rng: "0 \<le> idx" "idx < int (length (entries lw))"
    using selectSingleEntry_range [OF assms] sel by simp_all
  have "(if idx = int (length (entries lw)) - 1 then take (length (entries lw) - 1) (entries lw)
         else take (nat idx) (entries lw) @ drop (nat idx + 1) (entries lw)) =
        take (nat idx) (entries lw) @ drop (Suc (nat idx)) (entries lw)"
  proof (cases "idx = int (length (entries lw)) - 1")
    case True
    then have "nat idx = length (entries lw) - 1" by simp
    then show ?thesis using True assms by simp
  qed simp
  moreover have "nat (int (length (entries lw)) - 1) = length (entries lw) - 1" "nat idx < length (entries lw)"
    using rng by simp_all
  ultimately show ?thesis
    using rng lw1 sel
    by (intro exI [of _ "nat idx"]) (simp add: randomSelect_step_def Let_def)
qed

lemma randomSelect_loop_Inr:
  "n \<le> length (entries lw) \<Longrightarrow>
     \<exists>lw'. randomSelect_loop n lw = Inr lw' \<and> length (results lw') = length (results lw) + n \<and>
       take (length (results lw)) (results lw') = results lw \<and>
       mset (drop (length (results lw)) (results lw')) + mset (map addr (entries lw')) = mset (map addr (entries lw)) \<and>
       sumVotes lw' = sumVotes lw \<and> target lw' = target lw"
proof (induction n arbitrary: lw)
  case 0
  then show ?case by simp
next
  case (Suc n)
  then obtain i where i: "i < length (entries lw)" and st: "randomSelect_step lw =
    Inr (lw\<lparr>rnd := snd (randomBigInt (rnd lw) (sumVotes lw)), results := results lw @ [addr (entries lw ! i)],
            entries := take i (entries lw) @ drop (Suc i) (entries lw)\<rparr>)"
    using randomSelect_step_Inr [of lw] by fastforce
  let ?lw1 = "lw\<lparr>rnd := snd (randomBigInt (rnd lw) (sumVotes lw)), results := results lw @ [addr (entries lw ! i)],
            entries := take i (entries lw) @ drop (Suc i) (entries lw)\<rparr>"
  have "n \<le> length (entries ?lw1)" using Suc.prems i by simp
  then obtain lw' where rec: "randomSelect_loop n ?lw1 = Inr lw'"
    and l: "length (results lw') = length (results ?lw1) + n"
    and t: "take (length (results ?lw1)) (results lw') = results ?lw1"
    and m: "mset (drop (length (results ?lw1)) (results lw')) + mset (map addr (entries lw')) =
            mset (map addr (entries ?lw1))"
    and sv: "sumVotes lw' = sumVotes ?lw1" "target lw' = target ?lw1"
    using Suc.IH by blast
  have t': "take (Suc (length (results lw))) (results lw') = results lw @ [addr (entries lw ! i)]"
    using t by simp
  have t0: "take (length (results lw)) (results lw') = results lw"
    using arg_cong [where f = "take (length (results lw))", OF t'] by simp
  have lt: "length (results lw) < length (results lw')" using l by simp
  have "results lw' ! length (results lw) = addr (entries lw ! i)"
    using arg_cong [where f = "\<lambda>xs. xs ! length (results lw)", OF t'] by simp
  then have d: "drop (length (results lw)) (results lw') =
      addr (entries lw ! i) # drop (length (results ?lw1)) (results lw')"
    using Cons_nth_drop_Suc [OF lt] by simp
  have "mset (map addr (take i (entries lw) @ drop (Suc i) (entries lw))) + {#addr (entries lw ! i)#} =
        mset (map addr (entries lw))"
    using mset_remove_nth [of i "map addr (entries lw)"] i by (simp add: take_map drop_map)
  then show ?case
    using rec st l m sv d t0 by (simp add: add.commute add.left_commute)
qed


lemma randomSelect_step_sumVotes:
  "randomSelect_step lw = Inr lw' \<Longrightarrow> sumVotes lw' = sumVotes lw"
  by (auto simp: randomSelect_step_def selectSingleEntry_def Let_def split: prod.splits if_splits option.splits)

lemma randomSelect_loop_sumVotes:
  "randomSelect_loop n lw = Inr lw' \<Longrightarrow> sumVotes lw' = sumVotes lw"
  by (induction n arbitrary: lw) (auto split: sum.splits dest!: randomSelect_step_sumVotes)

lemma newLuckyWheel_Inr:
  "newLuckyWheel es r t = Inr lw \<Longrightarrow>
     0 \<le> t \<and> nat t \<le> length (entries lw) \<and> target lw = t \<and> entries lw = es \<and>
     results lw = replicate (nat t) 0 \<and> sumVotes lw = sum_list (map vote es)"
  by (auto simp: newLuckyWheel_def split: if_splits)

lemma ex_wheel_new: "newLuckyWheel ex_entries (sconst 0) 2 = Inr ex_wheel"
  by (simp add: newLuckyWheel_def ex_wheel_def ex_entries_def numeral_2_eq_2)

lemmas wheel_defs = RandomSelect_def randomSelect_def randomSelect_step_def selectSingleEntry_def
  randomBigInt_def Let_def

lemma ex_wheel_run: "RandomSelect ex_wheel = Inr [0, 0, 2, 1]"
  by (simp add: wheel_defs ex_wheel_def ex_entries_def numeral_2_eq_2)

section \<open>Properties\<close>

text \<open>
  C20. A lucky wheel built from enough entries always completes
  \<open>RandomSelect\<close>, but the result has \<open>2 * target\<close> addresses whose first
  \<open>target\<close> are the zero address: \<open>make([]common.Address, target)\<close>
  followed by \<open>append\<close> keeps the zero prefix.
\<close>

theorem RandomSelect_results_shape:
  "newLuckyWheel es r t = Inr lw \<Longrightarrow>
     \<exists>res. RandomSelect lw = Inr res \<and> length res = 2 * nat t \<and> take (nat t) res = replicate (nat t) 0"
  using randomSelect_loop_Inr [of "nat t" lw]
  by (auto simp: RandomSelect_def randomSelect_def dest!: newLuckyWheel_Inr)

theorem RandomSelect_results_shape_witness:
  "newLuckyWheel ex_entries (sconst 0) 2 = Inr ex_wheel \<and>
   (\<exists>res. RandomSelect ex_wheel = Inr res \<and> length res = 4 \<and> take 2 res = [0, 0])"
  using RandomSelect_results_shape [OF ex_wheel_new] ex_wheel_new by (simp add: numeral_eq_Suc)

text \<open>
  C21. The addresses drawn by \<open>RandomSelect\<close> (after the zero prefix) are
  drawn without replacement: as a multiset they are contained in the
  candidates' addresses.
\<close>

theorem RandomSelect_without_replacement:
  "newLuckyWheel es r t = Inr lw \<Longrightarrow> RandomSelect lw = Inr res \<Longrightarrow>
     mset (drop (nat t) res) \<subseteq># mset (listAddresses es)"
  using randomSelect_loop_Inr [of "nat t" lw]
  by (auto simp: RandomSelect_def randomSelect_def listAddresses_def dest!: newLuckyWheel_Inr;
      metis mset_subset_eq_add_left)

theorem RandomSelect_without_replacement_witness:
  "mset (drop 2 [0, 0, 2, 1]) \<subseteq># mset (listAddresses ex_entries)"
  using RandomSelect_without_replacement [OF ex_wheel_new ex_wheel_run] by simp

text \<open>
  \<open>selectSingleEntry\<close> selects the first entry whenever its vote is not
  positive, whatever is drawn: the loop tests \<open>vote <= selected\<close>, so an
  entry with no votes is chosen first, not never.
\<close>

theorem selectSingleEntry_nonpositive_first:
  "entries lw = e # es \<Longrightarrow> vote e \<le> 0 \<Longrightarrow> fst (selectSingleEntry lw) = 0"
  using randomBigInt_nonneg [of "rnd lw" "sumVotes lw"]
  by (auto simp: selectSingleEntry_def split: prod.split)

theorem selectSingleEntry_nonpositive_first_witness:
  "fst (selectSingleEntry (ex_wheel\<lparr>entries := \<lparr>addr = 3, vote = 0\<rparr> # ex_entries\<rparr>)) = 0"
  using selectSingleEntry_nonpositive_first [of "ex_wheel\<lparr>entries := \<lparr>addr = 3, vote = 0\<rparr> # ex_entries\<rparr>"
      "\<lparr>addr = 3, vote = 0\<rparr>" ex_entries] by simp

text \<open>
  C23. \<open>randomSelect\<close> never updates \<open>sumVotes\<close>: after any run it is
  still the total of all the candidates' votes, including the ones already
  removed, since the result of \<open>Sub\<close> is discarded.
\<close>

theorem randomSelect_keeps_sumVotes:
  "newLuckyWheel es r t = Inr lw \<Longrightarrow> randomSelect lw = Inr lw' \<Longrightarrow> sumVotes lw' = sum_list (map vote es)"
  by (auto simp: randomSelect_def dest!: newLuckyWheel_Inr randomSelect_loop_sumVotes)

theorem randomSelect_keeps_sumVotes_witness:
  "\<exists>lw'. randomSelect ex_wheel = Inr lw' \<and> sumVotes lw' = 8"
proof (cases "randomSelect ex_wheel")
  case (Inr lw')
  then show ?thesis
    using randomSelect_keeps_sumVotes [OF ex_wheel_new Inr] by (simp add: ex_entries_def)
next
  case (Inl e)
  then show ?thesis using ex_wheel_run by (simp add: RandomSelect_def)
qed

end
