(* ===== verification/ClientDownload.thy ===== *)
theory ClientDownload
  imports Upload
begin

text \<open>
  The client's download RPC (\<open>src/unnamed/part_000\<close>, \<open>StorageClient.Read\<close>
  and \<open>Downlaod\<close> at lines 490--703, and the later copy \<open>Read\<close> and
  \<open>Download\<close> at lines 1224--1444). \<open>Read\<close> checks the requested sections,
  estimates the bandwidth and the price, checks the funds of the last revision,
  signs the download revision, sends the request and reads the host's
  responses, writing the sector data it accepts. Every call on the session
  (\<open>storage.Session\<close>), the wallet and the \<open>storage\<close> helpers that the sources
  do not contain is a parameter; \<open>w\<close> is the buffer the data is appended to.
\<close>

definition SegmentSize :: nat where
  "SegmentSize = 64"

definition HashSize :: nat where
  "HashSize = 32"

definition RPCMinLen :: nat where
  "RPCMinLen = 4096"

type_synonym pubkey = "byte list"

record DownloadRequestSection =
  MerkleRoot :: digest
  Offset :: "32 word"
  Length :: "32 word"

record DownloadRequest =
  Sections :: "DownloadRequestSection list"
  MerkleProof :: bool
  DlNewRevisionNumber :: u64
  DlNewValidProofValues :: "int list"
  DlNewMissedProofValues :: "int list"
  DlSignature :: sig

record DownloadResponse =
  RespData :: "byte list"
  RespMerkleProof :: "digest list"
  RespSignature :: sig

record HostInfo =
  hiDownloadBandwidthPrice :: int
  SectorAccessPrice :: int
  BaseRPCPrice :: int
  hiUploadBandwidthPrice :: int
  StoragePrice :: int
  hiDeposit :: int
  hiPublicKey :: pubkey
  WindowSize :: u64
  NetAddress :: string

text \<open>
  The session as the outcome of each call: the host's info, whether the
  wallet of an account is found, the signature \<open>SignHash\<close> gives, whether
  the request is sent, and the messages \<open>ReadMsg\<close> returns in order
  (\<open>None\<close> when reading or decoding fails).
\<close>

record Session =
  sHostInfo :: HostInfo
  sFindWallet :: "address \<Rightarrow> bool"
  sSignHash :: "address \<Rightarrow> digest \<Rightarrow> sig option"
  sSendDownloadRequest :: "DownloadRequest \<Rightarrow> bool"
  sResponses :: "DownloadResponse option list"

text \<open>
  The \<open>storage\<close> and \<open>common\<close> helpers \<open>Read\<close> calls: \<open>NewDownloadRevision\<close>,
  the price fudge \<open>price.MultFloat64(1 + 0.02)\<close>, \<open>VerifyRangeProof\<close> and
  \<open>RLPHash\<close>.
\<close>

record DownloadExt =
  NewDownloadRevision :: "StorageContractRevision \<Rightarrow> int \<Rightarrow> StorageContractRevision"
  MultFloat64Fudge :: "int \<Rightarrow> int"
  VerifyRangeProof :: "byte list \<Rightarrow> digest list \<Rightarrow> nat \<Rightarrow> nat \<Rightarrow> digest \<Rightarrow> bool"
  RevisionHash :: "StorageContractRevision \<Rightarrow> digest"

datatype dl_error =
    ErrIllegalOffsetLength
  | ErrNotSegmentMultiple
  | ErrInsufficientFunds
  | ErrDlFindWallet
  | ErrDlSignHash
  | ErrSendDownloadRequest
  | ErrReadMsg
  | ErrNotEnoughData
  | ErrIncorrectProof
  | PanicDlIndexOutOfRange

text \<open>The literal \<open>types.StorageContractRevision{}\<close> that \<open>Read\<close> uses as the last revision.\<close>

definition emptyRevision :: StorageContractRevision where
  "emptyRevision = \<lparr>NewRevisionNumber = 0, NewFileSize = 0, NewFileMerkleRoot = Hash_Value 0,
     NewValidProofOutputs = [], NewMissedProofOutputs = [], Signatures = []\<rparr>"

section \<open>Request checks and estimates\<close>

text \<open>The sanity check of the sections, the first offending section deciding the error.\<close>

fun check_sections :: "bool \<Rightarrow> DownloadRequestSection list \<Rightarrow> dl_error + unit" where
  "check_sections wantProof [] = Inr ()"
| "check_sections wantProof (sec # secs) =
     (if SectorSize < ucast (Offset sec) + ucast (Length sec) then Inl ErrIllegalOffsetLength
      else if wantProof \<and> (unat (Offset sec) mod SegmentSize \<noteq> 0 \<or> unat (Length sec) mod SegmentSize \<noteq> 0)
      then Inl ErrNotSegmentMultiple
      else check_sections wantProof secs)"

text \<open>
  The estimated bandwidth in \<open>uint64\<close>: the total length plus, with a proof,
  \<open>2 * bits.Len64(SectorSize / SegmentSize)\<close> hashes per section, at least
  \<open>RPCMinLen\<close>.
\<close>

definition estBandwidth :: "DownloadRequest \<Rightarrow> u64" where
  "estBandwidth req =
     (let totalLength = foldl (\<lambda>t sec. t + ucast (Length sec)) 0 (Sections req);
          estProofHashes = (if MerkleProof req
                            then word_of_nat (length (Sections req) * (2 * len64 (SectorSize div of_nat SegmentSize)))
                            else 0);
          est = totalLength + estProofHashes * of_nat HashSize
      in if est < of_nat RPCMinLen then of_nat RPCMinLen else est)"

text \<open>The number of distinct sectors accessed (the keys of \<open>sectorAccesses\<close>).\<close>

definition sectorAccesses :: "DownloadRequest \<Rightarrow> nat" where
  "sectorAccesses req = length (remdups (map MerkleRoot (Sections req)))"

definition downloadPrice :: "HostInfo \<Rightarrow> DownloadRequest \<Rightarrow> int" where
  "downloadPrice hi req =
     BaseRPCPrice hi + hiDownloadBandwidthPrice hi * uint (estBandwidth req)
       + SectorAccessPrice hi * int (sectorAccesses req)"

section \<open>The exchange\<close>

text \<open>
  \<open>Read_prepare\<close>: everything before the request is sent: the checks, the
  funds of \<open>lastRevision\<close>, the download revision and the client's signature,
  and the request carrying the new revision's values.
\<close>

definition Read_prepare :: "DownloadExt \<Rightarrow> Session \<Rightarrow> StorageContractRevision \<Rightarrow> DownloadRequest \<Rightarrow>
    dl_error + DownloadRequest \<times> StorageContractRevision" where
  "Read_prepare ext s lastRevision req =
     (case check_sections (MerkleProof req) (Sections req) of
        Inl e \<Rightarrow> Inl e
      | Inr _ \<Rightarrow>
          let price = downloadPrice (sHostInfo s) req
          in if NewValidProofOutputs lastRevision = [] then Inl PanicDlIndexOutOfRange
             else if Value (NewValidProofOutputs lastRevision ! 0) < price then Inl ErrInsufficientFunds
             else
               let price' = MultFloat64Fudge ext price;
                   newRevision = NewDownloadRevision ext lastRevision price'
               in if NewValidProofOutputs newRevision = [] then Inl PanicDlIndexOutOfRange
                  else
                    let account = Address (NewValidProofOutputs newRevision ! 0)
                    in if \<not> sFindWallet s account then Inl ErrDlFindWallet
                       else case sSignHash s account (RevisionHash ext newRevision) of
                              None \<Rightarrow> Inl ErrDlSignHash
                            | Some sg \<Rightarrow>
                                Inr (req\<lparr>DlNewRevisionNumber := NewRevisionNumber newRevision,
                                         DlNewValidProofValues := map Value (NewValidProofOutputs newRevision),
                                         DlNewMissedProofValues := map Value (NewMissedProofOutputs newRevision),
                                         DlSignature := sg\<rparr>, newRevision))"

text \<open>
  One response for a section: its data, when there is any, must have the
  section's length and, with a proof requested, pass \<open>VerifyRangeProof\<close>
  over the section's segments before it is written.
\<close>

definition accept_data :: "DownloadExt \<Rightarrow> bool \<Rightarrow> DownloadRequestSection \<Rightarrow> DownloadResponse \<Rightarrow> dl_error + unit" where
  "accept_data ext wantProof sec resp =
     (if length (RespData resp) \<noteq> unat (Length sec) then Inl ErrNotEnoughData
      else if wantProof \<and> \<not> VerifyRangeProof ext (RespData resp) (RespMerkleProof resp)
                         (unat (Offset sec) div SegmentSize) (unat (Offset sec + Length sec) div SegmentSize)
                         (MerkleRoot sec)
      then Inl ErrIncorrectProof
      else Inr ())"

text \<open>
  The loop over the sections: one message per section, until the host sends
  a signature. It returns the signature (\<open>None\<close> for a nil \<open>hostSig\<close>) and the
  messages left, with the data written so far.
\<close>

fun resp_loop :: "DownloadExt \<Rightarrow> bool \<Rightarrow> DownloadRequestSection list \<Rightarrow> DownloadResponse option list \<Rightarrow> byte list \<Rightarrow>
    (dl_error + sig option \<times> DownloadResponse option list) \<times> byte list" where
  "resp_loop ext wantProof [] rs out = (Inr (None, rs), out)"
| "resp_loop ext wantProof (sec # secs) [] out = (Inl ErrReadMsg, out)"
| "resp_loop ext wantProof (sec # secs) (None # rs) out = (Inl ErrReadMsg, out)"
| "resp_loop ext wantProof (sec # secs) (Some resp # rs) out =
     (case (if RespData resp \<noteq> [] then accept_data ext wantProof sec resp else Inr ()) of
        Inl e \<Rightarrow> (Inl e, out)
      | Inr _ \<Rightarrow>
          let out' = (if RespData resp \<noteq> [] then out @ RespData resp else out)
          in if RespSignature resp \<noteq> [] then (Inr (Some (RespSignature resp), rs), out')
             else resp_loop ext wantProof secs rs out')"

text \<open>
  \<open>Read_exchange\<close>: the request is sent, the responses read, a separate
  signature message read when none came with the data, and the signature
  stored at \<open>newRevision.Signatures[1]\<close>.
\<close>

definition Read_exchange :: "DownloadExt \<Rightarrow> Session \<Rightarrow> DownloadRequest \<Rightarrow> StorageContractRevision \<Rightarrow>
    (dl_error + unit) \<times> byte list" where
  "Read_exchange ext s req newRevision =
     (if \<not> sSendDownloadRequest s req then (Inl ErrSendDownloadRequest, [])
      else
        case resp_loop ext (MerkleProof req) (Sections req) (sResponses s) [] of
          (Inl e, out) \<Rightarrow> (Inl e, out)
        | (Inr (hostSig, rs), out) \<Rightarrow>
            (case (case hostSig of
                     Some sg \<Rightarrow> Inr sg
                   | None \<Rightarrow> (case rs of Some resp # _ \<Rightarrow> Inr (RespSignature resp) | _ \<Rightarrow> Inl ErrReadMsg)) of
               Inl e \<Rightarrow> (Inl e, out)
             | Inr sg \<Rightarrow> if length (Signatures newRevision) \<le> 1 then (Inl PanicDlIndexOutOfRange, out)
                         else (Inr (), out)))"

text \<open>\<open>Read\<close> for a given last revision, and \<open>Read\<close> as written, with the empty revision.\<close>

definition Read_with :: "DownloadExt \<Rightarrow> Session \<Rightarrow> StorageContractRevision \<Rightarrow> DownloadRequest \<Rightarrow>
    (dl_error + unit) \<times> byte list" where
  "Read_with ext s lastRevision req =
     (case Read_prepare ext s lastRevision req of
        Inl e \<Rightarrow> (Inl e, [])
      | Inr (req', newRevision) \<Rightarrow> Read_exchange ext s req' newRevision)"

definition Read :: "DownloadExt \<Rightarrow> Session \<Rightarrow> DownloadRequest \<Rightarrow> (dl_error + unit) \<times> byte list" where
  "Read ext s req = Read_with ext s emptyRevision req"

text \<open>\<open>Downlaod\<close>: one section, with a Merkle proof; the buffer and the error.\<close>

definition Downlaod :: "DownloadExt \<Rightarrow> Session \<Rightarrow> digest \<Rightarrow> 32 word \<Rightarrow> 32 word \<Rightarrow> byte list \<times> (dl_error + unit)" where
  "Downlaod ext s root offset len =
     (let req = \<lparr>Sections = [\<lparr>MerkleRoot = root, Offset = offset, Length = len\<rparr>], MerkleProof = True,
                 DlNewRevisionNumber = 0, DlNewValidProofValues = [], DlNewMissedProofValues = [], DlSignature = []\<rparr>
      in case Read ext s req of (r, buf) \<Rightarrow> (buf, r))"

section \<open>The later copy\<close>

text \<open>
  The second \<open>Read\<close> differs by a deferred call, registered after the signing,
  that reads the host's key \<open>lastRevision.UnlockConditions.PublicKeys[1]\<close> and
  records a failed or a successful interaction with the host manager. The
  keys are a parameter; the interaction is returned as the key and whether it
  failed, that is whether the named result \<open>err\<close> is set: a panic leaves it
  nil.
\<close>

definition Read_v2_with :: "DownloadExt \<Rightarrow> Session \<Rightarrow> StorageContractRevision \<Rightarrow> pubkey list \<Rightarrow> DownloadRequest \<Rightarrow>
    (dl_error + unit) \<times> byte list \<times> (pubkey \<times> bool) option" where
  "Read_v2_with ext s lastRevision unlockKeys req =
     (case Read_prepare ext s lastRevision req of
        Inl e \<Rightarrow> (Inl e, [], None)
      | Inr (req', newRevision) \<Rightarrow>
          (case Read_exchange ext s req' newRevision of
             (r, out) \<Rightarrow> if length unlockKeys \<le> 1 then (Inl PanicDlIndexOutOfRange, out, None)
                         else (r, out, Some (unlockKeys ! 1, r \<noteq> Inr () \<and> r \<noteq> Inl PanicDlIndexOutOfRange))))"

definition Read_v2 :: "DownloadExt \<Rightarrow> Session \<Rightarrow> DownloadRequest \<Rightarrow>
    (dl_error + unit) \<times> byte list \<times> (pubkey \<times> bool) option" where
  "Read_v2 ext s req = Read_v2_with ext s emptyRevision [] req"

definition Download :: "DownloadExt \<Rightarrow> Session \<Rightarrow> digest \<Rightarrow> 32 word \<Rightarrow> 32 word \<Rightarrow>
    byte list \<times> (dl_error + unit) \<times> (pubkey \<times> bool) option" where
  "Download ext s root offset len =
     (let req = \<lparr>Sections = [\<lparr>MerkleRoot = root, Offset = offset, Length = len\<rparr>], MerkleProof = True,
                 DlNewRevisionNumber = 0, DlNewValidProofValues = [], DlNewMissedProofValues = [], DlSignature = []\<rparr>
      in case Read_v2 ext s req of (r, buf, i) \<Rightarrow> (buf, r, i))"

section \<open>Example inputs\<close>

text \<open>
  A host whose range proofs check against the root \<open>Hash_Value 1\<close>, a
  revision with funds and two signatures, and a session whose host sends one
  segment of data with its signature.
\<close>

definition ex_dl_ext :: DownloadExt where
  "ex_dl_ext = \<lparr>NewDownloadRevision = (\<lambda>r p. r), MultFloat64Fudge = (\<lambda>p. p),
     VerifyRangeProof = (\<lambda>d p a b root. root = Hash_Value 1), RevisionHash = (\<lambda>r. Hash_Value 0)\<rparr>"

definition ex_dl_rev :: StorageContractRevision where
  "ex_dl_rev = emptyRevision\<lparr>NewValidProofOutputs := [\<lparr>Value = 1000000, Address = 1\<rparr>, \<lparr>Value = 0, Address = 2\<rparr>],
     Signatures := [[1], [2]]\<rparr>"

definition ex_dl_session :: Session where
  "ex_dl_session = \<lparr>sHostInfo = \<lparr>hiDownloadBandwidthPrice = 1, SectorAccessPrice = 1, BaseRPCPrice = 1,
       hiUploadBandwidthPrice = 1, StoragePrice = 1, hiDeposit = 1,
       hiPublicKey = [], WindowSize = 0, NetAddress = []\<rparr>,
     sFindWallet = (\<lambda>_. True), sSignHash = (\<lambda>_ _. Some [7]), sSendDownloadRequest = (\<lambda>_. True),
     sResponses = [Some \<lparr>RespData = replicate 64 5, RespMerkleProof = [], RespSignature = [9]\<rparr>]\<rparr>"

definition ex_dl_req :: "32 word \<Rightarrow> DownloadRequest" where
  "ex_dl_req ofs = \<lparr>Sections = [\<lparr>MerkleRoot = Hash_Value 1, Offset = ofs, Length = 64\<rparr>], MerkleProof = True,
     DlNewRevisionNumber = 0, DlNewValidProofValues = [], DlNewMissedProofValues = [], DlSignature = []\<rparr>"

section \<open>Lemmas\<close>

lemma check_sections_Inl:
  "check_sections wantProof secs = Inl e \<Longrightarrow> e = ErrIllegalOffsetLength \<or> e = ErrNotSegmentMultiple"
  by (induction wantProof secs rule: check_sections.induct) (auto split: if_splits)

lemma unat_ucast_32_64 [simp]: "unat (ucast (x :: 32 word) :: u64) = unat x"
  using unsigned_less [where 'a = nat, of x] by (simp add: unsigned_ucast_eq take_bit_nat_eq_self_iff)

lemma unat_add_32_64 [simp]: "unat (ucast (a :: 32 word) + ucast (b :: 32 word) :: u64) = unat a + unat b"
  using unsigned_less [where 'a = nat, of a] unsigned_less [where 'a = nat, of b]
  by (subst unat_add_lem [THEN iffD1]) simp_all

lemma SectorSize_lt_iff:
  "(SectorSize < ucast (ofs :: 32 word) + ucast (l :: 32 word)) = (4194304 < unat ofs + unat l)"
  by (simp add: SectorSize_def word_less_nat_alt)

lemma check_sections_segment:
  "\<forall>sec\<in>set secs. unat (Offset sec) + unat (Length sec) \<le> 4194304 \<Longrightarrow> sec \<in> set secs \<Longrightarrow>
     unat (Offset sec) mod SegmentSize \<noteq> 0 \<Longrightarrow> check_sections True secs = Inl ErrNotSegmentMultiple"
  by (induction True secs rule: check_sections.induct) (auto simp: SectorSize_lt_iff)

lemma Read_prepare_Inl_check:
  "check_sections (MerkleProof req) (Sections req) = Inl e \<Longrightarrow> Read_prepare ext s lastRev req = Inl e"
  by (simp add: Read_prepare_def)

lemma Read_prepare_empty:
  "Read_prepare ext s emptyRevision req =
     Inl (case check_sections (MerkleProof req) (Sections req) of Inl e \<Rightarrow> e | Inr _ \<Rightarrow> PanicDlIndexOutOfRange)"
  by (simp add: Read_prepare_def emptyRevision_def Let_def split: sum.split)

lemma len64_sector_segments: "len64 (SectorSize div of_nat SegmentSize) = 17"
  by (simp add: SectorSize_def SegmentSize_def len64_def len_nat_pos)

lemma unat_foldl_sum:
  "unat (t0 :: u64) + sum_list (map (unat \<circ> Length) secs) < 2 ^ 64 \<Longrightarrow>
     unat (foldl (\<lambda>t sec. t + ucast (Length sec)) t0 secs) = unat t0 + sum_list (map (unat \<circ> Length) secs)"
proof (induction secs arbitrary: t0)
  case (Cons sec secs)
  have "unat (t0 + ucast (Length sec)) = unat t0 + unat (Length sec)"
    using Cons.prems by (subst unat_add_lem [THEN iffD1]) simp_all
  then show ?case using Cons.IH [of "t0 + ucast (Length sec)"] Cons.prems by simp
qed simp

lemma sum_list_le_length_mult:
  "(\<And>x. x \<in> set xs \<Longrightarrow> f x \<le> c) \<Longrightarrow> sum_list (map f xs) \<le> length xs * (c :: nat)"
  by (induction xs) (auto intro: add_mono)

lemma sections_length_sum:
  "sum_list (map (unat \<circ> Length) secs) \<le> length secs * (2 ^ 32 - 1)"
proof (rule sum_list_le_length_mult)
  fix sec show "(unat \<circ> Length) sec \<le> 2 ^ 32 - 1"
    using unsigned_less [where 'a = nat, of "Length sec"] by simp
qed

lemma resp_loop_written:
  "resp_loop ext wantProof secs rs out0 = (r, out) \<Longrightarrow>
     \<exists>k \<le> length secs. k \<le> length rs \<and> out = out0 @ concat (map (RespData \<circ> the) (take k rs)) \<and>
       (\<forall>i<k. rs ! i \<noteq> None \<and>
          (RespData (the (rs ! i)) \<noteq> [] \<longrightarrow> accept_data ext wantProof (secs ! i) (the (rs ! i)) = Inr ()))"
proof (induction secs arbitrary: rs out0 r out)
  case Nil
  then show ?case by (intro exI [of _ 0]) auto
next
  case (Cons sec secs)
  show ?case
  proof (cases rs)
    case Nil
    then show ?thesis using Cons.prems by (intro exI [of _ 0]) auto
  next
    case (Cons o_resp rs')
    show ?thesis
    proof (cases o_resp)
      case None
      then show ?thesis using Cons.prems \<open>rs = o_resp # rs'\<close> by (intro exI [of _ 0]) auto
    next
      case (Some resp)
      note rs = \<open>rs = o_resp # rs'\<close> Some
      show ?thesis
      proof (cases "RespData resp \<noteq> [] \<longrightarrow> accept_data ext wantProof sec resp = Inr ()")
        case False
        then show ?thesis using Cons.prems rs by (intro exI [of _ 0]) (auto split: sum.splits)
      next
        case ok: True
        let ?out' = "if RespData resp \<noteq> [] then out0 @ RespData resp else out0"
        have out': "?out' = out0 @ RespData resp" by simp
        show ?thesis
        proof (cases "RespSignature resp \<noteq> []")
          case True
          then have "out = ?out'" using Cons.prems rs ok by (auto split: sum.splits if_splits)
          then show ?thesis using ok rs by (intro exI [of _ 1]) auto
        next
          case False
          then have "resp_loop ext wantProof secs rs' ?out' = (r, out)"
            using Cons.prems rs ok by (auto split: sum.splits if_splits)
          from Cons.IH [OF this] obtain k where "k \<le> length secs" "k \<le> length rs'"
            and "out = ?out' @ concat (map (RespData \<circ> the) (take k rs'))"
            and "\<forall>i<k. rs' ! i \<noteq> None \<and>
              (RespData (the (rs' ! i)) \<noteq> [] \<longrightarrow> accept_data ext wantProof (secs ! i) (the (rs' ! i)) = Inr ())"
            by blast
          then show ?thesis
            using ok rs by (intro exI [of _ "Suc k"]) (auto simp: nth_Cons' out' comp_def)
        qed
      qed
    qed
  qed
qed

lemma Read_exchange_written:
  "Read_exchange ext s req nr = (r, out) \<Longrightarrow>
     \<exists>k \<le> length (Sections req). k \<le> length (sResponses s) \<and>
       out = concat (map (RespData \<circ> the) (take k (sResponses s))) \<and>
       (\<forall>i<k. sResponses s ! i \<noteq> None \<and>
          (RespData (the (sResponses s ! i)) \<noteq> [] \<longrightarrow>
             accept_data ext (MerkleProof req) (Sections req ! i) (the (sResponses s ! i)) = Inr ()))"
  unfolding Read_exchange_def
  by (fastforce split: if_splits prod.splits sum.splits option.splits list.splits dest: resp_loop_written)

lemma Read_prepare_Inr:
  "Read_prepare ext s lastRev req = Inr (req', nr) \<Longrightarrow>
     Sections req' = Sections req \<and> MerkleProof req' = MerkleProof req"
  by (auto simp: Read_prepare_def Let_def split: sum.splits if_splits option.splits)

lemma len64_65536: "len64 65536 = 17"
  by (simp add: len64_def len_nat_pos)

lemma ex_dl_run: "Read_with ex_dl_ext ex_dl_session ex_dl_rev (ex_dl_req 0) = (Inr (), replicate 64 5)"
  by (simp add: Read_with_def Read_prepare_def Read_exchange_def downloadPrice_def estBandwidth_def
      sectorAccesses_def accept_data_def ex_dl_ext_def ex_dl_rev_def ex_dl_session_def ex_dl_req_def
      emptyRevision_def SectorSize_def len64_65536 SegmentSize_def HashSize_def RPCMinLen_def Let_def)

section \<open>Properties\<close>

text \<open>
  C24. Scenario C: when a Merkle proof is requested and a section's offset
  is not a multiple of \<open>SegmentSize\<close> (the sections being otherwise inside a
  sector), both copies of \<open>Read\<close> reject the request before any call on the
  session, whatever the session and the last revision, and write nothing.
\<close>

theorem Read_rejects_unaligned:
  assumes "\<forall>sec\<in>set (Sections req). unat (Offset sec) + unat (Length sec) \<le> 4194304"
    and "MerkleProof req" and "sec \<in> set (Sections req)" and "unat (Offset sec) mod SegmentSize \<noteq> 0"
  shows "Read_with ext s lastRev req = (Inl ErrNotSegmentMultiple, []) \<and>
         Read_v2_with ext s lastRev keys req = (Inl ErrNotSegmentMultiple, [], None)"
proof -
  have "check_sections (MerkleProof req) (Sections req) = Inl ErrNotSegmentMultiple"
    using check_sections_segment [OF assms(1,3,4)] assms(2) by simp
  then show ?thesis
    by (simp add: Read_with_def Read_v2_with_def Read_prepare_Inl_check)
qed

theorem Read_rejects_unaligned_witness:
  "Read_with ex_dl_ext ex_dl_session ex_dl_rev (ex_dl_req 32) = (Inl ErrNotSegmentMultiple, []) \<and>
   Read_v2_with ex_dl_ext ex_dl_session ex_dl_rev [] (ex_dl_req 32) = (Inl ErrNotSegmentMultiple, [], None)"
  by (rule Read_rejects_unaligned [where sec = "\<lparr>MerkleRoot = Hash_Value 1, Offset = 32, Length = 64\<rparr>"])
     (simp_all add: ex_dl_req_def SegmentSize_def)

text \<open>
  C25. \<open>Read\<close> as written never succeeds: with the empty last revision it
  returns the sanity-check error, or panics indexing
  \<open>lastRevision.NewValidProofOutputs[0]\<close>, before anything is sent or
  written; the later copy too, without recording an interaction.
\<close>

theorem Read_never_succeeds:
  "Read ext s req =
     (Inl (case check_sections (MerkleProof req) (Sections req) of Inl e \<Rightarrow> e | Inr _ \<Rightarrow> PanicDlIndexOutOfRange), []) \<and>
   Read_v2 ext s req =
     (Inl (case check_sections (MerkleProof req) (Sections req) of Inl e \<Rightarrow> e | Inr _ \<Rightarrow> PanicDlIndexOutOfRange), [], None)"
  by (simp add: Read_def Read_with_def Read_v2_def Read_v2_with_def Read_prepare_empty)

text \<open>
  Consequently both \<open>Downlaod\<close> and \<open>Download\<close> return no data and an
  error for every request.
\<close>

theorem Download_no_data:
  "\<exists>e. Downlaod ext s root ofs len = ([], Inl e) \<and> Download ext s root ofs len = ([], Inl e, None)"
  by (simp add: Downlaod_def Download_def Read_def Read_with_def Read_v2_def Read_v2_with_def Read_prepare_empty
      split: sum.split)

text \<open>
  C27. The \<open>uint64\<close> bandwidth estimate does not wrap for fewer than
  \<open>2^31\<close> sections: it is the total length plus \<open>2 * 17\<close> hashes of
  \<open>HashSize\<close> bytes per section when a proof is requested, and at least
  \<open>RPCMinLen\<close>.
\<close>

theorem estBandwidth_exact:
  assumes n: "length (Sections req) < 2 ^ 31"
  shows "unat (estBandwidth req) =
    max RPCMinLen (sum_list (map (unat \<circ> Length) (Sections req)) +
                   (if MerkleProof req then 2 * 17 * HashSize * length (Sections req) else 0))"
proof -
  let ?n = "length (Sections req)"
  let ?T = "sum_list (map (unat \<circ> Length) (Sections req))"
  let ?P = "if MerkleProof req then 34 * ?n else 0"
  have T: "?T \<le> ?n * (2 ^ 32 - 1)" by (rule sections_length_sum)
  have Tb: "?T < 2 ^ 63" using T n by (rule_tac le_less_trans, auto intro: mult_le_mono order.trans)
  have tot: "unat (foldl (\<lambda>t sec. t + ucast (Length sec)) (0 :: u64) (Sections req)) = ?T"
    using unat_foldl_sum [of 0 "Sections req"] Tb by simp
  have "unat (word_of_nat (?n * (2 * 17)) :: u64) = 34 * ?n"
    using n by (subst unat_of_nat) simp
  then have p: "unat (if MerkleProof req then word_of_nat (?n * (2 * 17)) else (0 :: u64)) = ?P"
    by simp
  have p32: "unat ((if MerkleProof req then word_of_nat (?n * (2 * 17)) else (0 :: u64)) * of_nat HashSize) = ?P * 32"
    using n p by (subst unat_mult_lem [THEN iffD1]) (simp_all add: HashSize_def)
  have sum: "?T + ?P * 32 < 2 ^ 64" using T n by auto
  show ?thesis
    unfolding estBandwidth_def Let_def len64_sector_segments
    using tot p32 sum
    by (simp add: unat_add_lem [THEN iffD1] word_less_nat_alt RPCMinLen_def HashSize_def max_def)
qed

theorem estBandwidth_exact_witness: "unat (estBandwidth (ex_dl_req 0)) = 4096"
  using estBandwidth_exact [of "ex_dl_req 0"] by (simp add: ex_dl_req_def RPCMinLen_def HashSize_def)

text \<open>
  C28. \<open>Read\<close> for any last revision writes only accepted data: the output
  is the data of the first \<open>k\<close> responses, \<open>k\<close> at most the number of
  sections, and every non-empty piece has its section's length and, with a
  proof requested, passed \<open>VerifyRangeProof\<close> for its section's segments
  and root.
\<close>

theorem Read_writes_only_accepted:
  assumes "Read_with ext s lastRev req = (r, out)"
  shows "\<exists>k \<le> length (Sections req). k \<le> length (sResponses s) \<and>
    out = concat (map (RespData \<circ> the) (take k (sResponses s))) \<and>
    (\<forall>i<k. \<exists>resp. sResponses s ! i = Some resp \<and>
       (RespData resp \<noteq> [] \<longrightarrow> length (RespData resp) = unat (Length (Sections req ! i)) \<and>
          (MerkleProof req \<longrightarrow> VerifyRangeProof ext (RespData resp) (RespMerkleProof resp)
             (unat (Offset (Sections req ! i)) div SegmentSize)
             (unat (Offset (Sections req ! i) + Length (Sections req ! i)) div SegmentSize)
             (MerkleRoot (Sections req ! i)))))"
proof (cases "Read_prepare ext s lastRev req")
  case (Inl e)
  then show ?thesis using assms by (intro exI [of _ 0]) (simp add: Read_with_def)
next
  case (Inr p)
  then obtain req' nr where p: "Read_prepare ext s lastRev req = Inr (req', nr)" by (cases p) auto
  then have "Read_exchange ext s req' nr = (r, out)" using assms by (simp add: Read_with_def)
  from Read_exchange_written [OF this] obtain k where k: "k \<le> length (Sections req')"
    "k \<le> length (sResponses s)" "out = concat (map (RespData \<circ> the) (take k (sResponses s)))"
    and a: "\<forall>i<k. sResponses s ! i \<noteq> None \<and> (RespData (the (sResponses s ! i)) \<noteq> [] \<longrightarrow>
             accept_data ext (MerkleProof req') (Sections req' ! i) (the (sResponses s ! i)) = Inr ())"
    by blast
  have secs: "Sections req' = Sections req" "MerkleProof req' = MerkleProof req"
    using Read_prepare_Inr [OF p] by simp_all
  show ?thesis
  proof (rule exI [of _ k], intro conjI allI impI)
    show "k \<le> length (Sections req)" using k(1) secs by simp
  next
    fix i assume "i < k"
    with a obtain resp where "sResponses s ! i = Some resp"
      and "RespData resp \<noteq> [] \<longrightarrow> accept_data ext (MerkleProof req) (Sections req ! i) resp = Inr ()"
      using secs by fastforce
    then show "\<exists>resp. sResponses s ! i = Some resp \<and>
       (RespData resp \<noteq> [] \<longrightarrow> length (RespData resp) = unat (Length (Sections req ! i)) \<and>
          (MerkleProof req \<longrightarrow> VerifyRangeProof ext (RespData resp) (RespMerkleProof resp)
             (unat (Offset (Sections req ! i)) div SegmentSize)
             (unat (Offset (Sections req ! i) + Length (Sections req ! i)) div SegmentSize)
             (MerkleRoot (Sections req ! i))))"
      by (intro exI [of _ resp]) (auto simp: accept_data_def split: if_splits)
  qed (simp_all add: k)
qed

theorem Read_writes_only_accepted_witness:
  "replicate 64 5 = concat (map (RespData \<circ> the) (take 1 (sResponses ex_dl_session))) \<and>
   VerifyRangeProof ex_dl_ext (replicate 64 5) [] 0 1 (Hash_Value 1)"
  using Read_writes_only_accepted [OF ex_dl_run]
  by (simp add: ex_dl_session_def ex_dl_req_def ex_dl_ext_def)


end
