(* ===== verification/ClientUpload.thy ===== *)
theory ClientUpload
  imports ClientDownload
begin

text \<open>
  The client's upload RPC (\<open>src/unnamed/part_000\<close>, \<open>StorageClient.Append\<close>
  and \<open>Write\<close> at lines 356--487, and the identical later copy at lines
  1090--1222). \<open>Write\<close> prices the actions, checks the contract's funds and
  collateral, builds the new revision, sends the upload request, verifies the
  host's Merkle diff proof against the old and the new root, and exchanges
  the revision signatures. The \<open>*big.Int\<close> variables \<open>bandwidthPrice\<close>,
  \<open>storagePrice\<close> and \<open>deposit\<close> are declared nil; a nil pointer is \<open>None\<close>,
  and \<open>Add\<close> or \<open>Cmp\<close> on one panics. The helpers of the \<open>storage\<close> package
  and the backend's block height are parameters.
\<close>

record ClientContractRevision = StorageContractRevision +
  NewWindowEnd :: u64
  ParentID :: digest

record UploadSession = Session +
  sSendUploadRequest :: "UploadRequest \<Rightarrow> bool"
  sMerkleProofResp :: "UploadMerkleProof option"
  sSendClientRevisionSign :: "sig \<Rightarrow> bool"
  sHostRevisionSig :: "sig option"

record UploadClientExt =
  GetCurrentBlockHeight :: u64
  NewRevision :: "unit ClientContractRevision_ext StorageContractRevision_scheme \<Rightarrow> int \<Rightarrow>
    unit ClientContractRevision_ext StorageContractRevision_scheme"
  CalculateProofRanges :: "UploadAction list \<Rightarrow> u64 \<Rightarrow> SubTreeLimit list"
  VerifyDiffProof :: "SubTreeLimit list \<Rightarrow> u64 \<Rightarrow> digest list \<Rightarrow> digest list \<Rightarrow> digest \<Rightarrow> bool"
  ModifyLeaves :: "digest list \<Rightarrow> UploadAction list \<Rightarrow> u64 \<Rightarrow> digest list"
  ModifyProofRanges :: "SubTreeLimit list \<Rightarrow> UploadAction list \<Rightarrow> u64 \<Rightarrow> SubTreeLimit list"

type_synonym crev = "unit ClientContractRevision_ext StorageContractRevision_scheme"

datatype wr_error =
    PanicNilPointer
  | PanicWrIndexOutOfRange
  | ErrInsufficientUploadFunds
  | ErrInsufficientCollateral
  | ErrSendUploadRequest
  | ErrWrReadMsg
  | ErrInvalidOldRoot
  | ErrInvalidNewRoot
  | ErrSendClientRevisionSign

definition emptyClientRevision :: crev where
  "emptyClientRevision = \<lparr>NewRevisionNumber = 0, NewFileSize = 0, NewFileMerkleRoot = Hash_Value 0,
     NewValidProofOutputs = [], NewMissedProofOutputs = [], Signatures = [], NewWindowEnd = 0,
     ParentID = Hash_Value 0\<rparr>"

text \<open>\<open>z.Add(x, y)\<close> on \<open>*big.Int\<close> values: a nil operand or receiver panics.\<close>

definition bigAdd :: "int option \<Rightarrow> int option \<Rightarrow> int option \<Rightarrow> wr_error + int" where
  "bigAdd z x y = (case (z, x, y) of (Some _, Some a, Some b) \<Rightarrow> Inr (a + b) | _ \<Rightarrow> Inl PanicNilPointer)"

section \<open>Pricing\<close>

text \<open>
  The loop over the actions: each append adds the sector bandwidth price to
  \<open>bandwidthPrice\<close> and a sector to the file size.
\<close>

fun price_actions :: "int \<Rightarrow> UploadAction list \<Rightarrow> int option \<times> u64 \<Rightarrow> wr_error + int option \<times> u64" where
  "price_actions sbp [] st = Inr st"
| "price_actions sbp (a # as) (bp, nfs) =
     (if Type a = UploadActionAppend then
        (case bigAdd bp bp (Some sbp) of
           Inl e \<Rightarrow> Inl e
         | Inr v \<Rightarrow> price_actions sbp as (Some v, nfs + SectorSize))
      else price_actions sbp as (bp, nfs))"

text \<open>
  \<open>Write_pricing\<close>: the prices per sector, the loop, the storage price and
  deposit of the added sectors, the proof's bandwidth and the cost. It
  returns the cost, the deposit pointer and the new file size.
\<close>

definition Write_pricing :: "UploadClientExt \<Rightarrow> HostInfo \<Rightarrow> crev \<Rightarrow> UploadAction list \<Rightarrow>
    wr_error + int \<times> int option \<times> u64" where
  "Write_pricing ext hi cr actions =
     (let blockBytes = SectorSize * (NewWindowEnd cr - GetCurrentBlockHeight ext);
          sectorBandwidthPrice = hiUploadBandwidthPrice hi * uint SectorSize;
          sectorStoragePrice = StoragePrice hi * uint blockBytes;
          sectorDeposit = hiDeposit hi * uint blockBytes
      in case price_actions sectorBandwidthPrice actions (None, NewFileSize cr) of
           Inl e \<Rightarrow> Inl e
         | Inr (bandwidthPrice, newFileSize) \<Rightarrow>
             let addedSectors = (newFileSize - NewFileSize cr) div SectorSize;
                 (storagePrice, deposit) =
                   (if NewFileSize cr < newFileSize
                    then (Some (sectorStoragePrice * uint addedSectors), Some (sectorDeposit * uint addedSectors))
                    else (None, None));
                 proofSize = HashSize * (128 + length actions)
             in case bigAdd bandwidthPrice bandwidthPrice
                       (Some (hiDownloadBandwidthPrice hi * uint (word_of_nat proofSize :: u64))) of
                  Inl e \<Rightarrow> Inl e
                | Inr bp \<Rightarrow>
                    (case bigAdd (Some bp) (Some bp) storagePrice of
                       Inl e \<Rightarrow> Inl e
                     | Inr bps \<Rightarrow> Inr (bps + BaseRPCPrice hi, deposit, newFileSize)))"

section \<open>The exchange\<close>

text \<open>
  \<open>Write_commit\<close>: from the funds checks on: the new revision with the
  deposit moved out of the host's missed output, the request, the host's
  Merkle diff proof checked against the old root and, after applying the
  actions, the new root, then the client's signature (the empty
  \<open>clientRevisionSign\<close>, as the signing is not written yet) and the host's.
  It returns the revision built, which the code drops when it returns.
\<close>

definition Write_commit :: "UploadClientExt \<Rightarrow> UploadSession \<Rightarrow> crev \<Rightarrow> UploadAction list \<Rightarrow>
    int \<Rightarrow> int option \<Rightarrow> u64 \<Rightarrow> wr_error + crev" where
  "Write_commit ext s cr actions cost deposit newFileSize =
     (if NewValidProofOutputs cr = [] then Inl PanicWrIndexOutOfRange
      else if Value (NewValidProofOutputs cr ! 0) < cost then Inl ErrInsufficientUploadFunds
      else if length (NewMissedProofOutputs cr) \<le> 1 then Inl PanicWrIndexOutOfRange
      else case deposit of
        None \<Rightarrow> Inl PanicNilPointer
      | Some d \<Rightarrow>
        if Value (NewMissedProofOutputs cr ! 1) < d then Inl ErrInsufficientCollateral
        else
          let rev0 = NewRevision ext cr cost
          in if length (NewMissedProofOutputs rev0) \<le> 1 then Inl PanicWrIndexOutOfRange
          else
            let mo = NewMissedProofOutputs rev0 ! 1;
                rev = rev0\<lparr>NewMissedProofOutputs := (NewMissedProofOutputs rev0)[1 := mo\<lparr>Value := Value mo - d\<rparr>],
                           NewFileSize := newFileSize\<rparr>;
                req = \<lparr>StorageContractID = ParentID cr, Actions = actions,
                       ReqNewRevisionNumber = NewRevisionNumber rev,
                       NewValidProofValues = map Value (NewValidProofOutputs rev),
                       NewMissedProofValues = map Value (NewMissedProofOutputs rev)\<rparr>
            in if \<not> sSendUploadRequest s req then Inl ErrSendUploadRequest
            else case sMerkleProofResp s of
              None \<Rightarrow> Inl ErrWrReadMsg
            | Some merkleResp \<Rightarrow>
              let numSectors = NewFileSize cr div SectorSize;
                  proofRanges = CalculateProofRanges ext actions numSectors;
                  proofHashes = OldSubtreeHashes merkleResp;
                  leafHashes = OldLeafHashes merkleResp;
                  oldRoot = NewFileMerkleRoot cr;
                  newRoot = NewMerkleRoot merkleResp
              in if \<not> VerifyDiffProof ext proofRanges numSectors proofHashes leafHashes oldRoot
                 then Inl ErrInvalidOldRoot
                 else
                   let leafHashes' = ModifyLeaves ext leafHashes actions numSectors;
                       proofRanges' = ModifyProofRanges ext proofRanges actions numSectors
                   in if \<not> VerifyDiffProof ext proofRanges' numSectors proofHashes leafHashes' newRoot
                      then Inl ErrInvalidNewRoot
                      else
                        let rev1 = rev\<lparr>NewFileMerkleRoot := newRoot\<rparr>;
                            clientRevisionSign = []
                        in if \<not> sSendClientRevisionSign s clientRevisionSign then Inl ErrSendClientRevisionSign
                           else if Signatures rev1 = [] then Inl PanicWrIndexOutOfRange
                           else
                             let rev2 = rev1\<lparr>Signatures := (Signatures rev1)[0 := clientRevisionSign]\<rparr>
                             in case sHostRevisionSig s of
                                  None \<Rightarrow> Inl ErrWrReadMsg
                                | Some hostRevisionSig \<Rightarrow>
                                    if length (Signatures rev2) \<le> 1 then Inl PanicWrIndexOutOfRange
                                    else Inr (rev2\<lparr>Signatures := (Signatures rev2)[1 := clientRevisionSign]\<rparr>))"

definition Write_with :: "UploadClientExt \<Rightarrow> UploadSession \<Rightarrow> crev \<Rightarrow> UploadAction list \<Rightarrow> wr_error + crev" where
  "Write_with ext s cr actions =
     (case Write_pricing ext (sHostInfo s) cr actions of
        Inl e \<Rightarrow> Inl e
      | Inr (cost, deposit, newFileSize) \<Rightarrow> Write_commit ext s cr actions cost deposit newFileSize)"

text \<open>\<open>Write\<close> as written, with the empty revision \<open>&types.StorageContractRevision{}\<close>.\<close>

definition Write :: "UploadClientExt \<Rightarrow> UploadSession \<Rightarrow> UploadAction list \<Rightarrow> wr_error + unit" where
  "Write ext s actions = map_sum id (\<lambda>_. ()) (Write_with ext s emptyClientRevision actions)"

definition Append :: "UploadClientExt \<Rightarrow> UploadSession \<Rightarrow> byte list \<Rightarrow> wr_error + unit" where
  "Append ext s data = Write ext s [\<lparr>Type = UploadActionAppend, Data = data\<rparr>]"

text \<open>The later copy of \<open>Append\<close> and \<open>Write\<close> is the same code, line for line.\<close>

definition Write_v2 :: "UploadClientExt \<Rightarrow> UploadSession \<Rightarrow> UploadAction list \<Rightarrow> wr_error + unit" where
  "Write_v2 ext s actions = map_sum id (\<lambda>_. ()) (Write_with ext s emptyClientRevision actions)"

definition Append_v2 :: "UploadClientExt \<Rightarrow> UploadSession \<Rightarrow> byte list \<Rightarrow> wr_error + unit" where
  "Append_v2 ext s data = Write_v2 ext s [\<lparr>Type = UploadActionAppend, Data = data\<rparr>]"

section \<open>Example inputs\<close>

text \<open>
  A backend at height 10, helpers under which every diff proof checks, a
  session whose host answers every step, and a revision with funds,
  collateral and two signatures.
\<close>

definition ex_up_ext :: UploadClientExt where
  "ex_up_ext = \<lparr>GetCurrentBlockHeight = 10, NewRevision = (\<lambda>r c. r), CalculateProofRanges = (\<lambda>a n. []),
     VerifyDiffProof = (\<lambda>rs n p l root. True), ModifyLeaves = (\<lambda>l a n. l), ModifyProofRanges = (\<lambda>rs a n. rs)\<rparr>"

definition ex_up_session :: UploadSession where
  "ex_up_session = \<lparr>sHostInfo = \<lparr>hiDownloadBandwidthPrice = 1, SectorAccessPrice = 1, BaseRPCPrice = 1,
       hiUploadBandwidthPrice = 1, StoragePrice = 1, hiDeposit = 1,
       hiPublicKey = [], WindowSize = 0, NetAddress = []\<rparr>,
     sFindWallet = (\<lambda>_. True), sSignHash = (\<lambda>_ _. Some [7]), sSendDownloadRequest = (\<lambda>_. True), sResponses = [],
     sSendUploadRequest = (\<lambda>_. True),
     sMerkleProofResp = Some \<lparr>OldSubtreeHashes = [], OldLeafHashes = [], NewMerkleRoot = Hash_Value 3\<rparr>,
     sSendClientRevisionSign = (\<lambda>_. True), sHostRevisionSig = Some [9]\<rparr>"

definition ex_crev :: crev where
  "ex_crev = emptyClientRevision\<lparr>NewValidProofOutputs := [\<lparr>Value = 100, Address = 1\<rparr>, \<lparr>Value = 0, Address = 2\<rparr>],
     NewMissedProofOutputs := [\<lparr>Value = 0, Address = 1\<rparr>, \<lparr>Value = 50, Address = 2\<rparr>],
     Signatures := [[1], [2]], NewWindowEnd := 20\<rparr>"

section \<open>Lemmas\<close>

lemma price_actions_nil:
  "price_actions sbp as (None, n) = Inl PanicNilPointer \<or> (\<exists>m. price_actions sbp as (None, n) = Inr (None, m))"
  by (induction as arbitrary: n) (auto simp: bigAdd_def)

lemma Write_pricing_panics: "Write_pricing ext hi cr actions = Inl PanicNilPointer"
  using price_actions_nil [of "hiUploadBandwidthPrice hi * uint SectorSize" actions "NewFileSize cr"]
  by (auto simp: Write_pricing_def Let_def bigAdd_def split: prod.split)

lemma ex_up_run:
  "Write_commit ex_up_ext ex_up_session ex_crev [] 10 (Some 5) 0 =
     Inr (ex_crev\<lparr>NewMissedProofOutputs := [\<lparr>Value = 0, Address = 1\<rparr>, \<lparr>Value = 45, Address = 2\<rparr>],
                  NewFileSize := 0, NewFileMerkleRoot := Hash_Value 3, Signatures := [[], []]\<rparr>)"
  by (simp add: Write_commit_def ex_up_ext_def ex_up_session_def ex_crev_def emptyClientRevision_def Let_def)

lemma Write_commit_Inr:
  assumes "Write_commit ext s cr actions cost deposit nfs = Inr rv"
  shows "\<exists>mr d rev0. sMerkleProofResp s = Some mr \<and> deposit = Some d \<and> rev0 = NewRevision ext cr cost \<and>
     1 < length (NewMissedProofOutputs rev0) \<and>
     VerifyDiffProof ext (CalculateProofRanges ext actions (NewFileSize cr div SectorSize)) (NewFileSize cr div SectorSize)
       (OldSubtreeHashes mr) (OldLeafHashes mr) (NewFileMerkleRoot cr) \<and>
     VerifyDiffProof ext (ModifyProofRanges ext (CalculateProofRanges ext actions (NewFileSize cr div SectorSize)) actions
         (NewFileSize cr div SectorSize))
       (NewFileSize cr div SectorSize) (OldSubtreeHashes mr)
       (ModifyLeaves ext (OldLeafHashes mr) actions (NewFileSize cr div SectorSize)) (NewMerkleRoot mr) \<and>
     1 < length (Signatures rev0) \<and> Signatures rv = (Signatures rev0)[0 := [], 1 := []] \<and>
     rv = rev0\<lparr>NewMissedProofOutputs := (NewMissedProofOutputs rev0)[1 := (NewMissedProofOutputs rev0 ! 1)\<lparr>Value := Value (NewMissedProofOutputs rev0 ! 1) - d\<rparr>],
                NewFileSize := nfs, NewFileMerkleRoot := NewMerkleRoot mr,
                Signatures := (Signatures rev0)[0 := [], 1 := []]\<rparr>"
  using assms unfolding Write_commit_def Let_def
  by (auto split: if_splits option.splits)

section \<open>Properties\<close>

text \<open>
  C29. \<open>Write\<close> never gets past its pricing: \<open>bandwidthPrice\<close> is a nil
  \<open>*big.Int\<close>, and \<open>bandwidthPrice.Add(bandwidthPrice, ...)\<close> runs at the
  first append action, or at the proof estimate when there is none, so every
  call of \<open>Write\<close> and \<open>Append\<close>, in both copies and for every contract
  revision, panics with a nil pointer before anything is sent.
\<close>

theorem Write_always_panics:
  "Write_with ext s cr actions = Inl PanicNilPointer \<and> Write ext s actions = Inl PanicNilPointer \<and>
   Append ext s data = Inl PanicNilPointer \<and> Write_v2 ext s actions = Inl PanicNilPointer \<and>
   Append_v2 ext s data = Inl PanicNilPointer"
  by (simp add: Write_with_def Write_def Append_def Write_v2_def Append_v2_def Write_pricing_panics)

text \<open>
  C30. Were the prices initialised, \<open>Write_commit\<close> succeeds only when the
  host's diff proof checks against the old root and, with the actions applied,
  against the new root; the revision it builds then has the host's new root,
  the new file size, and the deposit taken from the host's missed output.
\<close>

theorem Write_commit_verified:
  assumes "Write_commit ext s cr actions cost deposit nfs = Inr rv"
  shows "\<exists>mr d. sMerkleProofResp s = Some mr \<and> deposit = Some d \<and>
     VerifyDiffProof ext (CalculateProofRanges ext actions (NewFileSize cr div SectorSize)) (NewFileSize cr div SectorSize)
       (OldSubtreeHashes mr) (OldLeafHashes mr) (NewFileMerkleRoot cr) \<and>
     VerifyDiffProof ext (ModifyProofRanges ext (CalculateProofRanges ext actions (NewFileSize cr div SectorSize)) actions
         (NewFileSize cr div SectorSize))
       (NewFileSize cr div SectorSize) (OldSubtreeHashes mr)
       (ModifyLeaves ext (OldLeafHashes mr) actions (NewFileSize cr div SectorSize)) (NewMerkleRoot mr) \<and>
     NewFileMerkleRoot rv = NewMerkleRoot mr \<and> NewFileSize rv = nfs \<and>
     Value (NewMissedProofOutputs rv ! 1) = Value (NewMissedProofOutputs (NewRevision ext cr cost) ! 1) - d"
  using Write_commit_Inr [OF assms] by fastforce

theorem Write_commit_verified_witness:
  "\<exists>mr. sMerkleProofResp ex_up_session = Some mr \<and> NewMerkleRoot mr = Hash_Value 3 \<and>
     VerifyDiffProof ex_up_ext [] 0 [] [] (Hash_Value 0)"
  using Write_commit_verified [OF ex_up_run]
  by (simp add: ex_up_session_def ex_up_ext_def)

text \<open>
  C31. The host's revision signature is read and dropped: a successful
  \<open>Write_commit\<close> stores the client's (empty) signature both at
  \<open>Signatures[0]\<close> and at \<open>Signatures[1]\<close>, whatever signature the host
  sends.
\<close>

theorem Write_commit_drops_host_signature:
  assumes "Write_commit ext s cr actions cost deposit nfs = Inr rv"
  shows "Signatures rv ! 0 = [] \<and> Signatures rv ! 1 = []"
proof -
  obtain rev0 :: crev where "1 < length (Signatures rev0)" and "Signatures rv = (Signatures rev0)[0 := [], 1 := []]"
    using Write_commit_Inr [OF assms] by blast
  then show ?thesis by (cases "Signatures rev0") auto
qed

theorem Write_commit_drops_host_signature_witness:
  "sHostRevisionSig ex_up_session = Some [9] \<and>
   (\<exists>rv. Write_commit ex_up_ext ex_up_session ex_crev [] 10 (Some 5) 0 = Inr rv \<and> Signatures rv ! 1 = [])"
  using Write_commit_drops_host_signature [OF ex_up_run] ex_up_run
  by (simp add: ex_up_session_def)

end
