(* ===== verification/ClientCreate.thy ===== *)
theory ClientCreate
  imports ClientUpload
begin

text \<open>
  The client's contract creation (\<open>src/unnamed/part_000\<close>,
  \<open>StorageClient.ContractCreate\<close> at lines 186--355, and the later copy at
  lines 923--1089). It computes the payouts, builds the storage contract,
  sends it to the host with the client's signature, reads the host's
  signature, builds and signs the initial revision, exchanges the revision
  signatures and submits the contract in a transaction. The backend, the
  wallet, the session and the helpers the sources do not contain
  (\<open>RenterPayoutsPreTax\<close>, \<open>PubkeyToAddress\<close>, the RLP hashes and encoding,
  \<open>SendFormContractTX\<close>) are the fields of \<open>CreateBackend\<close>. Each
  \<open>ReadMsg\<close> is whether it succeeds; a failed read leaves the zero message,
  whose decoding is \<open>bDecodeZeroMsg\<close>. The messages and the transaction the
  client sends are returned as a trace.
\<close>

record RentPayment =
  ExpectedStorage :: u64
  Hosts :: u64

record ContractParams =
  Allowance :: RentPayment
  Funding :: int
  ClientPublicKey :: pubkey
  StartHeight :: u64
  EndHeight :: u64
  Host :: HostInfo

record StorageContract =
  FileSize :: u64
  FileMerkleRoot :: digest
  WindowStart :: u64
  WindowEnd :: u64
  RenterCollateral :: int
  HostCollateral :: int
  UnlockHash :: digest
  RevisionNumber :: u64
  ValidProofOutputs :: "DxcoinCharge list"
  MissedProofOutputs :: "DxcoinCharge list"
  ContractSignatures :: "sig list"

record ContractCreateRequest =
  ccStorageContract :: StorageContract
  ccSign :: sig
  ccClientPK :: pubkey

text \<open>The initial revision: the client revision with the fields only creation sets.\<close>

record CreateRevision = ClientContractRevision +
  UnlockKeys :: "pubkey list"
  NewWindowStart :: u64
  NewUnlockHash :: digest

type_synonym irev = "unit CreateRevision_ext ClientContractRevision_ext StorageContractRevision_scheme"

record CreateBackend =
  RenterPayoutsPreTax :: "HostInfo \<Rightarrow> int \<Rightarrow> u64 \<Rightarrow> u64 \<Rightarrow> (int \<times> int) option"
  PubkeyToAddress :: "pubkey \<Rightarrow> address"
  UnlockHashOf :: "pubkey list \<Rightarrow> nat \<Rightarrow> digest"
  ContractHash :: "StorageContract \<Rightarrow> digest"
  CreateRevisionHash :: "irev \<Rightarrow> digest"
  bFindWallet :: "address \<Rightarrow> bool"
  bSignHash :: "address \<Rightarrow> digest \<Rightarrow> sig option"
  bSetupConnection :: "string \<Rightarrow> bool"
  bSendCreation :: "ContractCreateRequest \<Rightarrow> bool"
  bReadHostSign :: bool
  bReadHostRevisionSign :: bool
  bDecodeZeroMsg :: "sig option"
  bSendClientRevisionSign :: "sig \<Rightarrow> bool"
  bSendClientSigns :: "sig \<Rightarrow> sig \<Rightarrow> bool"
  bEncodeContract :: "StorageContract \<Rightarrow> byte list option"
  bSendFormContractTX :: "address \<Rightarrow> address \<Rightarrow> byte list \<Rightarrow> bool"

datatype cc_msg =
    CcSendCreation ContractCreateRequest
  | CcSendRevisionSign sig
  | CcSendSigns sig sig
  | CcFormContractTx address address "byte list"

datatype cc_error =
    PanicDivideByZero
  | ErrRenterPayouts
  | ErrFindClientAccount
  | ErrSetupConnection
  | ErrContractSign
  | ErrSendCreation
  | ErrDecodeHostSign
  | PanicCcIndexOutOfRange
  | PanicCcNilPointer
  | ErrRevisionSign
  | ErrSendRevisionSign
  | ErrEncodeContract
  | ErrSendFormContractTx

section \<open>The common steps\<close>

text \<open>The payouts: the period and the expected storage per host (an integer division, which panics for no hosts).\<close>

definition cc_payouts :: "CreateBackend \<Rightarrow> ContractParams \<Rightarrow> cc_error + int \<times> int" where
  "cc_payouts b p =
     (let period = EndHeight p - StartHeight p
      in if Hosts (Allowance p) = 0 then Inl PanicDivideByZero
         else
           let expectedStorage = ExpectedStorage (Allowance p) div Hosts (Allowance p)
           in case RenterPayoutsPreTax b (Host p) (Funding p) period expectedStorage of
                None \<Rightarrow> Inl ErrRenterPayouts
              | Some (renterPayout, hostPayout) \<Rightarrow> Inr (renterPayout, hostPayout))"

definition cc_keys :: "ContractParams \<Rightarrow> pubkey list" where
  "cc_keys p = [ClientPublicKey p, hiPublicKey (Host p)]"

text \<open>The storage contract: each party's payout is returned to it on a valid and on a missed proof.\<close>

definition cc_contract :: "CreateBackend \<Rightarrow> ContractParams \<Rightarrow> int \<Rightarrow> int \<Rightarrow> StorageContract" where
  "cc_contract b p renterPayout hostPayout =
     (let clientAddr = PubkeyToAddress b (ClientPublicKey p);
          hostAddr = PubkeyToAddress b (hiPublicKey (Host p))
      in \<lparr>FileSize = 0, FileMerkleRoot = Hash_Value 0, WindowStart = EndHeight p,
          WindowEnd = EndHeight p + WindowSize (Host p), RenterCollateral = renterPayout,
          HostCollateral = hostPayout, UnlockHash = UnlockHashOf b (cc_keys p) 2, RevisionNumber = 0,
          ValidProofOutputs = [\<lparr>Value = renterPayout, Address = clientAddr\<rparr>, \<lparr>Value = hostPayout, Address = hostAddr\<rparr>],
          MissedProofOutputs = [\<lparr>Value = renterPayout, Address = clientAddr\<rparr>, \<lparr>Value = hostPayout, Address = hostAddr\<rparr>],
          ContractSignatures = []\<rparr>)"

text \<open>
  A read with the inverted error test of both copies: a successful read
  returns the nil \<open>err\<close> at once; a failed one decodes the zero message and,
  when that succeeds, goes on with what it decoded.
\<close>

definition read_inverted :: "bool \<Rightarrow> sig option \<Rightarrow> (cc_error + unit) + sig" where
  "read_inverted readOk zeroDecode =
     (if readOk then Inl (Inr ())
      else case zeroDecode of None \<Rightarrow> Inl (Inl ErrDecodeHostSign) | Some s \<Rightarrow> Inr s)"

definition cc_init_revision :: "CreateBackend \<Rightarrow> ContractParams \<Rightarrow> StorageContract \<Rightarrow> irev" where
  "cc_init_revision b p sc =
     \<lparr>NewRevisionNumber = 1, NewFileSize = FileSize sc, NewFileMerkleRoot = FileMerkleRoot sc,
      NewValidProofOutputs = ValidProofOutputs sc, NewMissedProofOutputs = MissedProofOutputs sc,
      Signatures = [], NewWindowEnd = WindowEnd sc, ParentID = ContractHash b sc,
      UnlockKeys = cc_keys p, NewWindowStart = WindowStart sc, NewUnlockHash = UnlockHash sc\<rparr>"

text \<open>
  The end of both copies: the host's revision signature is read, the contract
  encoded and sent to the storage contract address \<open>10\<close> in a transaction.
\<close>

definition cc_submit :: "CreateBackend \<Rightarrow> StorageContract \<Rightarrow> address \<Rightarrow> cc_msg list \<Rightarrow> (cc_error + unit) \<times> cc_msg list" where
  "cc_submit b sc clientAddr tr =
     (case read_inverted (bReadHostRevisionSign b) (bDecodeZeroMsg b) of
        Inl r \<Rightarrow> (r, tr)
      | Inr _ \<Rightarrow>
          (case bEncodeContract b sc of
             None \<Rightarrow> (Inl ErrEncodeContract, tr)
           | Some scBytes \<Rightarrow>
               let tr' = tr @ [CcFormContractTx clientAddr 10 scBytes]
               in if bSendFormContractTX b clientAddr 10 scBytes then (Inr (), tr')
                  else (Inl ErrSendFormContractTx, tr')))"

section \<open>The two copies\<close>

text \<open>
  The first copy: the wallet is found and the connection set up before the
  contract is signed and sent. The host's signature goes to
  \<open>storageContract.Signatures[1]\<close>, a slice the contract literal leaves nil.
\<close>

definition ContractCreate :: "CreateBackend \<Rightarrow> ContractParams \<Rightarrow> (cc_error + unit) \<times> cc_msg list" where
  "ContractCreate b p =
     (case cc_payouts b p of
        Inl e \<Rightarrow> (Inl e, [])
      | Inr (renterPayout, hostPayout) \<Rightarrow>
          let sc = cc_contract b p renterPayout hostPayout;
              clientAddr = PubkeyToAddress b (ClientPublicKey p)
          in if \<not> bFindWallet b clientAddr then (Inl ErrFindClientAccount, [])
             else if \<not> bSetupConnection b (NetAddress (Host p)) then (Inl ErrSetupConnection, [])
             else case bSignHash b clientAddr (ContractHash b sc) of
               None \<Rightarrow> (Inl ErrContractSign, [])
             | Some clientContractSign \<Rightarrow>
                 let req = \<lparr>ccStorageContract = sc, ccSign = clientContractSign, ccClientPK = []\<rparr>;
                     tr = [CcSendCreation req]
                 in if \<not> bSendCreation b req then (Inl ErrSendCreation, tr)
                    else case read_inverted (bReadHostSign b) (bDecodeZeroMsg b) of
                      Inl r \<Rightarrow> (r, tr)
                    | Inr hostSign \<Rightarrow>
                        if length (ContractSignatures sc) \<le> 1 then (Inl PanicCcIndexOutOfRange, tr)
                        else
                          let sc1 = sc\<lparr>ContractSignatures := (ContractSignatures sc)[1 := hostSign]\<rparr>;
                              rv = cc_init_revision b p sc1;
                              sc2 = sc1\<lparr>ContractSignatures := (ContractSignatures sc1)[0 := clientContractSign]\<rparr>
                          in case bSignHash b clientAddr (CreateRevisionHash b rv) of
                               None \<Rightarrow> (Inl ErrRevisionSign, tr)
                             | Some clientRevisionSign \<Rightarrow>
                                 let tr' = tr @ [CcSendRevisionSign clientRevisionSign]
                                 in if \<not> bSendClientRevisionSign b clientRevisionSign then (Inl ErrSendRevisionSign, tr')
                                    else cc_submit b sc2 clientAddr tr')"

text \<open>
  The later copy: the error of \<open>SetupConnection\<close> is not checked, so a failed
  connection leaves a nil session whose first call panics; the request
  carries the client's key instead of its signature, and the wallet is found
  and both signatures made after the host's signature is read.
\<close>

definition ContractCreate_v2 :: "CreateBackend \<Rightarrow> ContractParams \<Rightarrow> (cc_error + unit) \<times> cc_msg list" where
  "ContractCreate_v2 b p =
     (case cc_payouts b p of
        Inl e \<Rightarrow> (Inl e, [])
      | Inr (renterPayout, hostPayout) \<Rightarrow>
          let sc = cc_contract b p renterPayout hostPayout;
              clientAddr = PubkeyToAddress b (ClientPublicKey p);
              req = \<lparr>ccStorageContract = sc, ccSign = [], ccClientPK = cc_keys p ! 0\<rparr>
          in if \<not> bSetupConnection b (NetAddress (Host p)) then (Inl PanicCcNilPointer, [])
             else
               let tr = [CcSendCreation req]
               in if \<not> bSendCreation b req then (Inl ErrSendCreation, tr)
                  else case read_inverted (bReadHostSign b) (bDecodeZeroMsg b) of
                    Inl r \<Rightarrow> (r, tr)
                  | Inr hostSign \<Rightarrow>
                      if length (ContractSignatures sc) \<le> 1 then (Inl PanicCcIndexOutOfRange, tr)
                      else
                        let sc1 = sc\<lparr>ContractSignatures := (ContractSignatures sc)[1 := hostSign]\<rparr>;
                            rv = cc_init_revision b p sc1;
                            account = Address (ValidProofOutputs sc1 ! 0)
                        in if \<not> bFindWallet b account then (Inl ErrFindClientAccount, tr)
                           else case bSignHash b account (ContractHash b sc1) of
                             None \<Rightarrow> (Inl ErrContractSign, tr)
                           | Some clientContractSign \<Rightarrow>
                               let sc2 = sc1\<lparr>ContractSignatures := (ContractSignatures sc1)[0 := clientContractSign]\<rparr>
                               in case bSignHash b account (CreateRevisionHash b rv) of
                                    None \<Rightarrow> (Inl ErrRevisionSign, tr)
                                  | Some clientRevisionSign \<Rightarrow>
                                      let tr' = tr @ [CcSendSigns clientContractSign clientRevisionSign]
                                      in if \<not> bSendClientSigns b clientContractSign clientRevisionSign
                                         then (Inl ErrSendRevisionSign, tr')
                                         else cc_submit b sc2 clientAddr tr')"

section \<open>Example inputs\<close>

text \<open>
  A backend whose every call succeeds (the connection as a parameter), and
  contract parameters with a given number of hosts.
\<close>

definition ex_cb :: "bool \<Rightarrow> CreateBackend" where
  "ex_cb conn = \<lparr>RenterPayoutsPreTax = (\<lambda>h f per es. Some (f - 10, 10)), PubkeyToAddress = (\<lambda>k. length k),
     UnlockHashOf = (\<lambda>ks n. Hash_Value 0), ContractHash = (\<lambda>sc. Hash_Value 1), CreateRevisionHash = (\<lambda>r. Hash_Value 2),
     bFindWallet = (\<lambda>_. True), bSignHash = (\<lambda>_ _. Some [1]), bSetupConnection = (\<lambda>_. conn),
     bSendCreation = (\<lambda>_. True), bReadHostSign = True, bReadHostRevisionSign = True, bDecodeZeroMsg = None,
     bSendClientRevisionSign = (\<lambda>_. True), bSendClientSigns = (\<lambda>_ _. True), bEncodeContract = (\<lambda>_. Some []),
     bSendFormContractTX = (\<lambda>_ _ _. True)\<rparr>"

definition ex_cparams :: "u64 \<Rightarrow> ContractParams" where
  "ex_cparams h = \<lparr>Allowance = \<lparr>ExpectedStorage = 100, Hosts = h\<rparr>, Funding = 100, ClientPublicKey = [1],
     StartHeight = 0, EndHeight = 10,
     Host = \<lparr>hiDownloadBandwidthPrice = 1, SectorAccessPrice = 1, BaseRPCPrice = 1, hiUploadBandwidthPrice = 1,
             StoragePrice = 1, hiDeposit = 1, hiPublicKey = [2, 2], WindowSize = 5, NetAddress = ''host''\<rparr>\<rparr>"

section \<open>Lemmas\<close>

lemma cc_contract_sigs [simp]: "ContractSignatures (cc_contract b p rp hp) = []"
  by (simp add: cc_contract_def Let_def)

lemma cc_payouts_Inl_hosts: "Hosts (Allowance p) = 0 \<Longrightarrow> cc_payouts b p = Inl PanicDivideByZero"
  by (simp add: cc_payouts_def)

lemma read_inverted_success: "read_inverted ok z = Inl (Inr u) \<Longrightarrow> ok"
  by (auto simp: read_inverted_def split: if_splits option.splits)

lemmas cc_splits = sum.split prod.split option.split

lemma ex_cc_run: "ContractCreate (ex_cb True) (ex_cparams 2) =
   (Inr (), [CcSendCreation \<lparr>ccStorageContract = cc_contract (ex_cb True) (ex_cparams 2) 90 10, ccSign = [1], ccClientPK = []\<rparr>])"
  by (simp add: ContractCreate_def cc_payouts_def ex_cb_def ex_cparams_def read_inverted_def Let_def)

section \<open>Properties\<close>

text \<open>
  C32. Neither copy of \<open>ContractCreate\<close> ever gets the contract formed: the
  only message either sends is the creation request, never the revision
  signatures nor the \<open>SendFormContractTX\<close> transaction, since the host's
  signature is stored at index 1 of the contract's nil signature slice.
\<close>

theorem ContractCreate_never_forms_contract:
  "(snd (ContractCreate b p) = [] \<or> (\<exists>req. snd (ContractCreate b p) = [CcSendCreation req])) \<and>
   (snd (ContractCreate_v2 b p) = [] \<or> (\<exists>req. snd (ContractCreate_v2 b p) = [CcSendCreation req]))"
proof -
  have "snd (ContractCreate b p) = [] \<or> (\<exists>req. snd (ContractCreate b p) = [CcSendCreation req])"
    by (auto simp: ContractCreate_def Let_def split: cc_splits)
  moreover have "snd (ContractCreate_v2 b p) = [] \<or> (\<exists>req. snd (ContractCreate_v2 b p) = [CcSendCreation req])"
    by (auto simp: ContractCreate_v2_def Let_def split: cc_splits)
  ultimately show ?thesis by blast
qed

text \<open>
  \<open>ContractCreate\<close> reports success exactly on the path where the
  host's reply is read successfully: the inverted test returns the nil error
  right after the creation request, with no host signature and no contract
  formed.
\<close>

theorem ContractCreate_success_without_host_signature:
  assumes "fst (ContractCreate b p) = Inr ()"
  shows "bReadHostSign b \<and> (\<exists>rp hp sg. cc_payouts b p = Inr (rp, hp) \<and>
     snd (ContractCreate b p) = [CcSendCreation \<lparr>ccStorageContract = cc_contract b p rp hp, ccSign = sg, ccClientPK = []\<rparr>])"
  using assms
  by (cases "read_inverted (bReadHostSign b) (bDecodeZeroMsg b)")
     (auto simp: ContractCreate_def Let_def split: cc_splits if_splits dest: read_inverted_success)

theorem ContractCreate_success_without_host_signature_witness:
  "bReadHostSign (ex_cb True) \<and> cc_payouts (ex_cb True) (ex_cparams 2) = Inr (90, 10)"
  using ContractCreate_success_without_host_signature [of "ex_cb True" "ex_cparams 2"] ex_cc_run
  by (simp add: cc_payouts_def ex_cb_def ex_cparams_def)

text \<open>
  C34. An allowance with no hosts makes both copies panic on the integer
  division \<open>allowance.ExpectedStorage / allowance.Hosts\<close> before anything
  is sent.
\<close>

theorem ContractCreate_no_hosts_panics:
  "Hosts (Allowance p) = 0 \<Longrightarrow>
     ContractCreate b p = (Inl PanicDivideByZero, []) \<and> ContractCreate_v2 b p = (Inl PanicDivideByZero, [])"
  by (simp add: ContractCreate_def ContractCreate_v2_def cc_payouts_Inl_hosts)

theorem ContractCreate_no_hosts_panics_witness:
  "ContractCreate (ex_cb True) (ex_cparams 0) = (Inl PanicDivideByZero, []) \<and>
   ContractCreate_v2 (ex_cb True) (ex_cparams 0) = (Inl PanicDivideByZero, [])"
  by (rule ContractCreate_no_hosts_panics) (simp add: ex_cparams_def)

text \<open>
  C35. When the connection to the host cannot be set up, the first copy
  returns the error, while the later copy, which does not check it, panics
  on the nil session.
\<close>

theorem ContractCreate_v2_unchecked_connection:
  assumes "cc_payouts b p = Inr x" and "\<not> bSetupConnection b (NetAddress (Host p))"
  shows "ContractCreate_v2 b p = (Inl PanicCcNilPointer, []) \<and>
    (bFindWallet b (PubkeyToAddress b (ClientPublicKey p)) \<longrightarrow> ContractCreate b p = (Inl ErrSetupConnection, []))"
  using assms by (cases x) (simp add: ContractCreate_def ContractCreate_v2_def Let_def)

theorem ContractCreate_v2_unchecked_connection_witness:
  "ContractCreate_v2 (ex_cb False) (ex_cparams 2) = (Inl PanicCcNilPointer, []) \<and>
   ContractCreate (ex_cb False) (ex_cparams 2) = (Inl ErrSetupConnection, [])"
proof -
  have "cc_payouts (ex_cb False) (ex_cparams 2) = Inr (90, 10)"
    by (simp add: cc_payouts_def ex_cb_def ex_cparams_def)
  from ContractCreate_v2_unchecked_connection [OF this] show ?thesis
    by (simp add: ex_cb_def ex_cparams_def)
qed


end
