(* ===== verification/DownloadSchedule.thy ===== *)
theory DownloadSchedule
  imports Prelude
begin

text \<open>
  The client's download scheduling (\<open>src/unnamed/part_000\<close>, second copy of
  the storage client: \<open>newDownload\<close>, \<open>managedDownload\<close>, \<open>DownloadSync\<close>,
  \<open>DownloadAsync\<close>). The file snapshot (\<open>dxfile\<close>, outside the sources) is
  the record \<open>DxSnapshot\<close>: its sizes, its path, and its \<open>Sectors\<close> as a
  function that answers an error message or the sector sets of a segment,
  each sector being the host id and the Merkle root; \<open>HostID.String()\<close> is
  injective, so the segment maps are keyed by the host id.
  \<open>SegmentIndexByOffset\<close> divides by the segment size, which is positive
  for every snapshot. Offsets, lengths and sizes are \<open>uint64\<close> words, as
  the comparisons \<open>params.offset + params.length > FileSize()\<close> require; the
  write offset is the \<open>int64\<close> the source accumulates, kept as its 64 bits.
  The two loops over \<open>i := minSegment; i <= maxSegment; i++\<close> count with
  a \<open>uint64\<close> and index \<open>segmentMaps[i - minSegment]\<close>, a slice of
  \<open>maxSegment - minSegment + 1\<close> entries: an index past it panics, and a
  \<open>make\<close> longer than the allocator allows (the parameter \<open>maxLen\<close>)
  panics too. \<open>addSegmentToDownloadHeap\<close> appends to the returned queue.
\<close>

record DxSnapshot =
  fsFileSize :: u64
  fsSegmentSize :: u64
  fsSectorSize :: u64
  fsNumSegments :: u64
  fsNumSectors :: nat
  fsDxPath :: string
  fsSectors :: "u64 \<Rightarrow> string + (nat \<times> digest) list list"

definition SegmentIndexByOffset :: "DxSnapshot \<Rightarrow> u64 \<Rightarrow> u64 \<times> u64" where
  "SegmentIndexByOffset f offset = (offset div fsSegmentSize f, offset mod fsSegmentSize f)"

record downloadParams =
  dpFile :: "DxSnapshot option"
  dpDestinationType :: string
  dpDestinationString :: string
  dpLatencyTarget :: u64
  dpLength :: u64
  dpNeedsMemory :: bool
  dpOffset :: u64
  dpOverdrive :: int
  dpPriority :: u64

record download =
  dComplete :: bool
  dSegmentsRemaining :: u64
  dDestinationString :: string
  dDestinationType :: string
  dLatencyTarget :: u64
  dLength :: u64
  dOffset :: u64
  dOverdrive :: int
  dDxFilePath :: string
  dPriority :: u64

type_synonym segmentMap = "nat \<Rightarrow> (u64 \<times> digest) option"

record unfinishedDownloadSegment =
  udsSegmentIndex :: u64
  udsCacheID :: "string \<times> u64"
  udsSegmentMap :: segmentMap
  udsSegmentSize :: u64
  udsSectorSize :: u64
  udsLatencyTarget :: u64
  udsNeedsMemory :: bool
  udsPriority :: u64
  udsCompletedSectors :: "bool list"
  udsSectorUsage :: "bool list"
  udsFetchOffset :: u64
  udsFetchLength :: u64
  udsWriteOffset :: u64
  udsOverdrive :: "32 word"

datatype nd_error =
    ErrNoFile | ErrNegativeLength | ErrNegativeOffset | ErrPastFileBoundary | ErrSegmentPastBoundary
  | ErrSectors string | PanicMakeSlice | PanicSegmentIndex

datatype nd_event = LogMultipleSectors | NotifyNewDownload

section \<open>The segment maps\<close>

text \<open>The inner loops over \<open>sectors\<close> and each \<open>sectorSet\<close>.\<close>

fun addSectorSet :: "segmentMap \<Rightarrow> nat \<Rightarrow> (nat \<times> digest) list \<Rightarrow> segmentMap \<times> nd_event list" where
  "addSectorSet m sectorIndex [] = (m, [])"
| "addSectorSet m sectorIndex ((hostID, root) # ss) =
     (let evs = (if m hostID \<noteq> None then [LogMultipleSectors] else []) in
      case addSectorSet (m(hostID \<mapsto> (of_nat sectorIndex, root))) sectorIndex ss of
        (m', evs') \<Rightarrow> (m', evs @ evs'))"

fun addSectors :: "segmentMap \<Rightarrow> nat \<Rightarrow> (nat \<times> digest) list list \<Rightarrow> segmentMap \<times> nd_event list" where
  "addSectors m sectorIndex [] = (m, [])"
| "addSectors m sectorIndex (sectorSet # sets) =
     (case addSectorSet m sectorIndex sectorSet of
        (m1, evs1) \<Rightarrow> (case addSectors m1 (Suc sectorIndex) sets of (m2, evs2) \<Rightarrow> (m2, evs1 @ evs2)))"

text \<open>
  The first loop; \<open>k\<close> is \<open>segmentIndex - minSegment\<close>, \<open>cnt\<close> the length of
  \<open>segmentMaps\<close>, \<open>acc\<close> its entries filled so far.
\<close>

function buildSegmentMaps ::
  "DxSnapshot \<Rightarrow> u64 \<Rightarrow> u64 \<Rightarrow> nat \<Rightarrow> nat \<Rightarrow> segmentMap list \<Rightarrow> nd_error + segmentMap list \<times> nd_event list" where
  "buildSegmentMaps f minSegment maxSegment cnt k acc =
     (if minSegment + of_nat k \<le> maxSegment then
        (if k < cnt then
           (case fsSectors f (minSegment + of_nat k) of
              Inl err \<Rightarrow> Inl (ErrSectors err)
            | Inr sectors \<Rightarrow>
                (case addSectors Map.empty 0 sectors of
                   (m, evs) \<Rightarrow>
                     (case buildSegmentMaps f minSegment maxSegment cnt (Suc k) (acc @ [m]) of
                        Inl err \<Rightarrow> Inl err
                      | Inr (ms, evs') \<Rightarrow> Inr (ms, evs @ evs'))))
         else Inl PanicSegmentIndex)
      else Inr (acc, []))"
  by pat_completeness auto
termination by (relation "measure (\<lambda>(_, _, _, cnt, k, _). cnt - k)") auto

text \<open>The second loop, queueing one \<open>unfinishedDownloadSegment\<close> per segment.\<close>

definition mkSegment ::
  "DxSnapshot \<Rightarrow> downloadParams \<Rightarrow> segmentMap \<Rightarrow> u64 \<Rightarrow> nat \<Rightarrow> u64 \<Rightarrow> u64 \<Rightarrow> u64 \<Rightarrow> unfinishedDownloadSegment" where
  "mkSegment f p m i k fetchOffset fetchLength writeOffset =
     \<lparr>udsSegmentIndex = i, udsCacheID = (fsDxPath f, i), udsSegmentMap = m,
      udsSegmentSize = fsSegmentSize f, udsSectorSize = fsSectorSize f,
      udsLatencyTarget = dpLatencyTarget p + 25 * of_nat k,
      udsNeedsMemory = dpNeedsMemory p, udsPriority = dpPriority p,
      udsCompletedSectors = replicate (fsNumSectors f) False,
      udsSectorUsage = replicate (fsNumSectors f) False,
      udsFetchOffset = fetchOffset, udsFetchLength = fetchLength, udsWriteOffset = writeOffset,
      udsOverdrive = word_of_int (dpOverdrive p)\<rparr>"

function queueSegments ::
  "DxSnapshot \<Rightarrow> downloadParams \<Rightarrow> u64 \<Rightarrow> u64 \<Rightarrow> u64 \<Rightarrow> u64 \<Rightarrow> segmentMap list \<Rightarrow> nat \<Rightarrow> nat \<Rightarrow> u64 \<Rightarrow>
   nd_error + unfinishedDownloadSegment list \<times> nd_event list" where
  "queueSegments f p minSegment maxSegment minSegmentOffset maxSegmentOffset ms cnt k writeOffset =
     (let i = minSegment + of_nat k in
      if i \<le> maxSegment then
        (if k < cnt then
           (let m = (if k < length ms then ms ! k else Map.empty);
                fetchOffset = (if i = minSegment then minSegmentOffset else 0);
                fetchLength = (if i = maxSegment \<and> maxSegmentOffset \<noteq> 0 then maxSegmentOffset - fetchOffset
                               else fsSegmentSize f - fetchOffset)
            in case queueSegments f p minSegment maxSegment minSegmentOffset maxSegmentOffset ms cnt (Suc k)
                      (writeOffset + fetchLength) of
                 Inl err \<Rightarrow> Inl err
               | Inr (us, evs) \<Rightarrow>
                   Inr (mkSegment f p m i k fetchOffset fetchLength writeOffset # us, NotifyNewDownload # evs))
         else Inl PanicSegmentIndex)
      else Inr ([], []))"
  by pat_completeness auto
termination by (relation "measure (\<lambda>(_, _, _, _, _, _, _, cnt, k, _). cnt - k)") auto

section \<open>\<open>newDownload\<close>\<close>

definition newDownload ::
  "nat \<Rightarrow> downloadParams \<Rightarrow> nd_error + download \<times> unfinishedDownloadSegment list \<times> nd_event list" where
  "newDownload maxLen params =
     (case dpFile params of
        None \<Rightarrow> Inl ErrNoFile
      | Some file \<Rightarrow>
          if dpLength params < 0 then Inl ErrNegativeLength
          else if dpOffset params < 0 then Inl ErrNegativeOffset
          else if dpOffset params + dpLength params > fsFileSize file then Inl ErrPastFileBoundary
          else
            (let d = \<lparr>dComplete = False, dSegmentsRemaining = 0,
                      dDestinationString = dpDestinationString params, dDestinationType = dpDestinationType params,
                      dLatencyTarget = dpLatencyTarget params, dLength = dpLength params,
                      dOffset = dpOffset params, dOverdrive = dpOverdrive params,
                      dDxFilePath = fsDxPath file, dPriority = dpPriority params\<rparr>
             in if dLength d = 0 then Inr (d\<lparr>dComplete := True\<rparr>, [], [])
             else
               (case SegmentIndexByOffset file (dpOffset params) of
                  (minSegment, minSegmentOffset) \<Rightarrow>
                    (case SegmentIndexByOffset file (dpOffset params + dpLength params) of
                       (maxSegment0, maxSegmentOffset) \<Rightarrow>
                         (let maxSegment = (if 0 < maxSegment0 \<and> maxSegmentOffset = 0 then maxSegment0 - 1
                                            else maxSegment0)
                          in if minSegment = fsNumSegments file \<or> maxSegment = fsNumSegments file
                             then Inl ErrSegmentPastBoundary
                             else
                               (let cnt = maxSegment - minSegment + 1 in
                                if maxLen < unat cnt then Inl PanicMakeSlice
                                else
                                  (case buildSegmentMaps file minSegment maxSegment (unat cnt) 0 [] of
                                     Inl err \<Rightarrow> Inl err
                                   | Inr (ms, evs1) \<Rightarrow>
                                       (case queueSegments file params minSegment maxSegment minSegmentOffset
                                               maxSegmentOffset ms (unat cnt) 0 0 of
                                          Inl err \<Rightarrow> Inl err
                                        | Inr (us, evs2) \<Rightarrow>
                                            Inr (d\<lparr>dSegmentsRemaining := dSegmentsRemaining d + cnt\<rparr>, us,
                                                 evs1 @ evs2)))))))))"

section \<open>\<open>managedDownload\<close>, \<open>DownloadSync\<close> and \<open>DownloadAsync\<close>\<close>

text \<open>
  \<open>storage.ClientDownloadParameters\<close>; \<open>cdHttp\<close> tells whether
  \<open>p.Httpwriter\<close> is non-nil.
\<close>

record ClientDownloadParameters =
  cdDxFilePath :: string
  cdAsync :: bool
  cdHttp :: bool
  cdDestination :: string
  cdLength :: u64
  cdOffset :: u64

text \<open>
  What the file set, the file system and the writer answer: opening the
  entry, opening the destination file, whether the HTTP writer is a
  \<open>http.ResponseWriter\<close> and whether the destination writer made of it is an
  \<open>io.Closer\<close>, whether closing succeeds, and the allocator's limit.
\<close>

record DownloadEnv =
  envOpen :: "string \<Rightarrow> string + DxSnapshot"
  envOpenFile :: "string \<Rightarrow> string option"
  envResponseWriter :: bool
  envHttpCloser :: bool
  envCloseOk :: bool
  envMaxLen :: nat

datatype md_error =
    ErrOpenEntry string | ErrAsyncHttp | ErrDestinationWithHttp | ErrNoDestination | ErrNotAbsolute
  | ErrOffsetEqualsFileSize | ErrOffsetGreater | ErrOffsetLengthInvalid u64 | ErrOpenFile string
  | ErrCreateDownload nd_error bool | ErrNewDownload nd_error
  | ErrThreadGroup string | ErrInterruptedByShutdown | ErrDownloadFailed string

datatype md_event =
    SetTimeAccess | EntryClose | SetContentLength u64 | DestinationClose | RegisterOnComplete
  | NewDownloadEvents "nd_event list" | TmDone

text \<open>\<open>filepath.IsAbs\<close> on Unix.\<close>

definition IsAbs :: "string \<Rightarrow> bool" where
  "IsAbs path = (path \<noteq> [] \<and> hd path = CHR ''/'')"

text \<open>\<open>25e3 * time.Millisecond\<close> in nanoseconds.\<close>

definition downloadLatencyTarget :: u64 where
  "downloadLatencyTarget = 25000000000"

text \<open>The deferred \<open>entry.SetTimeAccess\<close> and \<open>entry.Close\<close>, in the order they run.\<close>

definition entryDefers :: "'r \<times> md_event list \<Rightarrow> 'r \<times> md_event list" where
  "entryDefers r = (fst r, snd r @ [SetTimeAccess, EntryClose])"

definition createDownload ::
  "DownloadEnv \<Rightarrow> ClientDownloadParameters \<Rightarrow> DxSnapshot \<Rightarrow> u64 \<Rightarrow> bool \<Rightarrow> string \<Rightarrow> md_event list \<Rightarrow>
   (md_error + download \<times> unfinishedDownloadSegment list) \<times> md_event list" where
  "createDownload env p entry len isCloser destinationType evs =
     (case newDownload (envMaxLen env)
             \<lparr>dpFile = Some entry, dpDestinationType = destinationType,
              dpDestinationString = cdDestination p, dpLatencyTarget = downloadLatencyTarget,
              dpLength = len, dpNeedsMemory = True, dpOffset = cdOffset p, dpOverdrive = 3, dpPriority = 5\<rparr> of
        Inl err \<Rightarrow>
          (if isCloser then (Inl (ErrCreateDownload err (envCloseOk env)), evs @ [DestinationClose])
           else (Inl (ErrNewDownload err), evs))
      | Inr (d, us, devs) \<Rightarrow> (Inr (d, us), evs @ [NewDownloadEvents devs, RegisterOnComplete]))"

definition managedDownload ::
  "DownloadEnv \<Rightarrow> ClientDownloadParameters \<Rightarrow> (md_error + download \<times> unfinishedDownloadSegment list) \<times> md_event list" where
  "managedDownload env p =
     (case envOpen env (cdDxFilePath p) of
        Inl err \<Rightarrow> (Inl (ErrOpenEntry err), [])
      | Inr entry \<Rightarrow> entryDefers
          (let isHTTPResp = cdHttp p in
           if cdAsync p \<and> isHTTPResp then (Inl ErrAsyncHttp, [])
           else if isHTTPResp \<and> cdDestination p \<noteq> [] then (Inl ErrDestinationWithHttp, [])
           else if \<not> isHTTPResp \<and> cdDestination p = [] then (Inl ErrNoDestination, [])
           else if cdDestination p \<noteq> [] \<and> \<not> IsAbs (cdDestination p) then (Inl ErrNotAbsolute, [])
           else if cdOffset p = fsFileSize entry \<and> fsFileSize entry \<noteq> 0 then (Inl ErrOffsetEqualsFileSize, [])
           else if cdLength p = 0 \<and> cdOffset p > fsFileSize entry then (Inl ErrOffsetGreater, [])
           else
             (let len = (if cdLength p = 0 then fsFileSize entry - cdOffset p else cdLength p) in
              if cdOffset p < 0 \<or> cdOffset p + len > fsFileSize entry
              then (Inl (ErrOffsetLengthInvalid (fsFileSize entry - 1)), [])
              else if isHTTPResp then
                createDownload env p entry len (envHttpCloser env) ''http stream''
                  (if envResponseWriter env then [SetContentLength len] else [])
              else
                (case envOpenFile env (cdDestination p) of
                   Some err \<Rightarrow> (Inl (ErrOpenFile err), [])
                 | None \<Rightarrow> createDownload env p entry len True ''file'' []))))"

text \<open>
  \<open>DownloadSync\<close> and \<open>DownloadAsync\<close>: \<open>tm.Add\<close> answers \<open>tmErr\<close>; the
  \<open>select\<close> of \<open>DownloadSync\<close> takes the completion, with the download's
  error, or the shutdown, as the parameter \<open>outcome\<close> says.
\<close>

datatype sync_outcome = Completed "string option" | Shutdown

definition DownloadSync ::
  "string option \<Rightarrow> sync_outcome \<Rightarrow> DownloadEnv \<Rightarrow> ClientDownloadParameters \<Rightarrow> md_error option \<times> md_event list" where
  "DownloadSync tmErr outcome env p =
     (case tmErr of
        Some err \<Rightarrow> (Some (ErrThreadGroup err), [])
      | None \<Rightarrow>
          (case managedDownload env p of
             (Inl err, evs) \<Rightarrow> (Some err, evs @ [TmDone])
           | (Inr _, evs) \<Rightarrow>
               (case outcome of
                  Completed r \<Rightarrow> (map_option ErrDownloadFailed r, evs @ [TmDone])
                | Shutdown \<Rightarrow> (Some ErrInterruptedByShutdown, evs @ [TmDone]))))"

definition DownloadAsync ::
  "string option \<Rightarrow> DownloadEnv \<Rightarrow> ClientDownloadParameters \<Rightarrow> md_error option \<times> md_event list" where
  "DownloadAsync tmErr env p =
     (case tmErr of
        Some err \<Rightarrow> (Some (ErrThreadGroup err), [])
      | None \<Rightarrow>
          (case managedDownload env p of
             (Inl err, evs) \<Rightarrow> (Some err, evs @ [TmDone])
           | (Inr _, evs) \<Rightarrow> (None, evs @ [TmDone])))"

section \<open>The byte ranges of a queued segment\<close>

text \<open>
  The bytes of the file a queued segment fetches, and where the download
  starts: the specification the tiling theorem is stated against.
\<close>

definition fetch_start :: "unfinishedDownloadSegment \<Rightarrow> nat" where
  "fetch_start u = unat (udsSegmentIndex u) * unat (udsSegmentSize u) + unat (udsFetchOffset u)"

definition fetch_range :: "unfinishedDownloadSegment \<Rightarrow> nat list" where
  "fetch_range u = [fetch_start u ..< fetch_start u + unat (udsFetchLength u)]"

definition segStart :: "nat \<Rightarrow> nat \<Rightarrow> nat \<Rightarrow> nat \<Rightarrow> nat" where
  "segStart o' S m k = (if k = 0 then o' else (m + k) * S)"

section \<open>Examples\<close>

definition ex_snapshot :: DxSnapshot where
  "ex_snapshot = \<lparr>fsFileSize = 10, fsSegmentSize = 4, fsSectorSize = 2, fsNumSegments = 3, fsNumSectors = 2,
     fsDxPath = ''f'', fsSectors = (\<lambda>i. Inr [[(1, Hash_Value 1)], [(2, Hash_Value 2)]])\<rparr>"

definition ex_dl_params :: "u64 \<Rightarrow> u64 \<Rightarrow> downloadParams" where
  "ex_dl_params off len =
     \<lparr>dpFile = Some ex_snapshot, dpDestinationType = ''file'', dpDestinationString = ''/tmp/out'',
      dpLatencyTarget = downloadLatencyTarget, dpLength = len, dpNeedsMemory = True, dpOffset = off,
      dpOverdrive = 3, dpPriority = 5\<rparr>"

definition ex_cd_params :: ClientDownloadParameters where
  "ex_cd_params = \<lparr>cdDxFilePath = ''f'', cdAsync = False, cdHttp = False, cdDestination = ''/tmp/out'',
     cdLength = 2, cdOffset = 18446744073709551614\<rparr>"

section \<open>Lemmas\<close>

declare buildSegmentMaps.simps [simp del] queueSegments.simps [simp del]

lemma u64_add_of_nat_le:
  "unat (a :: u64) + k < 18446744073709551616 \<Longrightarrow> (a + of_nat k \<le> b) = (unat a + k \<le> unat b)"
proof -
  assume h: "unat a + k < 18446744073709551616"
  then have "unat (a + of_nat k) = unat a + k"
    by (subst unat_add_lem [THEN iffD1]) (simp_all add: unat_of_nat)
  then show ?thesis by (simp add: word_le_nat_alt)
qed

lemma u64_add_of_nat_eq:
  "unat (a :: u64) + k < 18446744073709551616 \<Longrightarrow> (a + of_nat k = a) = (k = 0)"
proof -
  assume h: "unat a + k < 18446744073709551616"
  then have "unat (a + of_nat k) = unat a + k"
    by (subst unat_add_lem [THEN iffD1]) (simp_all add: unat_of_nat)
  then show ?thesis by (metis add_cancel_left_right add_right_imp_eq unsigned_eq_0_iff word_unat_eq_iff)
qed

lemma unat_add_of_nat:
  "unat (a :: u64) + k < 18446744073709551616 \<Longrightarrow> unat (a + of_nat k) = unat a + k"
  by (subst unat_add_lem [THEN iffD1]) (simp_all add: unat_of_nat)

lemma last_segment_nat:
  assumes S: "0 < (S :: nat)" and e: "0 < e"
  shows "(if 0 < e div S \<and> e mod S = 0 then e div S - 1 else e div S) = (e - 1) div S"
proof -
  have de: "e div S * S + e mod S = e" by simp
  have lt: "e mod S < S" using S by simp
  show ?thesis
  proof (cases "e mod S = 0")
    case True
    then have q: "0 < e div S" using e de by (metis add.right_neutral gr0I mult_is_0 not_less0)
    obtain q' where q': "e div S = Suc q'" using q by (cases "e div S") auto
    have eq: "e = S + q' * S" using de True q' by simp
    have "(e - 1) div S = e div S - 1"
      by (rule div_nat_eqI) (use eq q' S in \<open>auto simp: mult.commute\<close>)
    then show ?thesis using True q by simp
  next
    case False
    have "(e - 1) div S = e div S"
    proof (rule div_nat_eqI)
      have eq: "S * (e div S) + e mod S = e" by (rule mult_div_mod_eq)
      show "S * (e div S) \<le> e - 1" using eq False by linarith
      show "e - 1 < S * Suc (e div S)" using eq lt by (simp only: mult_Suc_right)
    qed
    then show ?thesis using False by simp
  qed
qed

lemma last_segment_word:
  assumes Sn: "0 < Sn" and us: "unat (s :: u64) = Sn" and e: "0 < e" and ux: "unat (x :: u64) = e"
  shows "unat (if 0 < x div s \<and> x mod s = 0 then x div s - 1 else x div s) = (e - 1) div Sn"
proof -
  have umax0: "unat (x div s) = e div Sn" using us ux by (simp add: unat_div)
  have c1: "(0 < x div s) = (0 < e div Sn)" using umax0 by (simp add: word_less_nat_alt)
  have c2: "(x mod s = 0) = (e mod Sn = 0)" using us ux by (metis unat_mod unsigned_eq_0_iff)
  have "unat (if 0 < x div s \<and> x mod s = 0 then x div s - 1 else x div s) =
          (if 0 < e div Sn \<and> e mod Sn = 0 then e div Sn - 1 else e div Sn)"
  proof (cases "0 < e div Sn")
    case True
    then have "x div s \<noteq> 0" using c1 by auto
    then show ?thesis unfolding c1 c2 using umax0 by (simp add: unat_minus_one)
  qed (simp add: c1 c2 umax0)
  then show ?thesis using last_segment_nat [OF Sn e] by simp
qed

lemma segment_count_unat:
  "unat a \<le> unat b \<Longrightarrow> unat (b :: u64) < 18446744073709551615 \<Longrightarrow> unat (b - a + 1) = Suc (unat b) - unat a"
proof -
  assume ab: "unat a \<le> unat b" and b: "unat b < 18446744073709551615"
  then have "unat (b - a) = unat b - unat a" by (simp add: unat_sub word_le_nat_alt)
  moreover have "unat (b - a + 1) = unat (b - a) + unat (1 :: u64)"
    by (rule unat_add_lem [THEN iffD1]) (use calculation b in simp)
  ultimately show ?thesis using ab by (simp add: Suc_diff_le)
qed

lemma buildSegmentMaps_Inr:
  "\<forall>i. \<exists>ss. fsSectors f i = Inr ss \<Longrightarrow> unat maxS < 18446744073709551615 \<Longrightarrow>
     cnt = Suc (unat maxS) - unat minS \<Longrightarrow> unat minS + k \<le> Suc (unat maxS) \<Longrightarrow>
     \<exists>ms evs. buildSegmentMaps f minS maxS cnt k acc = Inr (ms, evs)"
proof (induction f minS maxS cnt k acc rule: buildSegmentMaps.induct)
  case (1 f minS maxS cnt k acc)
  have nw: "unat minS + k < 18446744073709551616" using "1.prems"(2,4) by linarith
  show ?case
  proof (cases "unat minS + k \<le> unat maxS")
    case True
    then have g: "minS + of_nat k \<le> maxS" using u64_add_of_nat_le [OF nw] by simp
    have kc: "k < cnt" using True "1.prems"(3) by simp
    obtain ss where s: "fsSectors f (minS + of_nat k) = Inr ss" using "1.prems"(1) by blast
    obtain m evs where a: "addSectors Map.empty 0 ss = (m, evs)" by (cases "addSectors Map.empty 0 ss")
    have "unat minS + Suc k \<le> Suc (unat maxS)" using True by simp
    then obtain ms evs' where r: "buildSegmentMaps f minS maxS cnt (Suc k) (acc @ [m]) = Inr (ms, evs')"
      using "1.IH" [OF g kc s a [symmetric]] "1.prems"(1-3) by blast
    show ?thesis using g kc s a r by (subst buildSegmentMaps.simps) simp
  next
    case False
    then have "\<not> minS + of_nat k \<le> maxS" using u64_add_of_nat_le [OF nw] by simp
    then show ?thesis by (subst buildSegmentMaps.simps) simp
  qed
qed

lemma upt_split: "i \<le> j \<Longrightarrow> j \<le> k \<Longrightarrow> [i..<j] @ [j..<k] = [i..<(k :: nat)]"
  by (metis le_add_diff_inverse upt_add_eq_append)

lemma segment_piece:
  fixes S o' e i :: nat
  assumes S: "0 < S" and oe: "o' < e" and mi: "o' div S \<le> i" and im: "i \<le> (e - 1) div S"
  defines "fo \<equiv> (if i = o' div S then o' mod S else 0)"
  shows "i * S + fo = (if i = o' div S then o' else i * S)"
    and "fo \<le> S" and "i = (e - 1) div S \<and> e mod S \<noteq> 0 \<Longrightarrow> fo \<le> e mod S"
    and "i * S + fo + (if i = (e - 1) div S \<and> e mod S \<noteq> 0 then e mod S - fo else S - fo) =
           (if i = (e - 1) div S then e else Suc i * S)"
    and "e \<le> Suc ((e - 1) div S) * S"
proof -
  have eq_e: "e div S * S + e mod S = e" by (rule div_mult_mod_eq)
  have eq_o: "o' div S * S + o' mod S = o'" by (rule div_mult_mod_eq)
  have ltS: "e mod S < S" "o' mod S < S" using S by simp_all
  show 1: "i * S + fo = (if i = o' div S then o' else i * S)" using eq_o by (simp add: fo_def)
  show 2: "fo \<le> S" using ltS by (simp add: fo_def)
  have last_nz: "e mod S \<noteq> 0 \<Longrightarrow> (e - 1) div S = e div S"
    using last_segment_nat [OF S, of e] oe by (simp split: if_splits)
  have last_z: "e mod S = 0 \<Longrightarrow> Suc ((e - 1) div S) * S = e"
    using last_segment_nat [OF S, of e] oe eq_e by (cases "e div S") (simp_all split: if_splits)
  show 3: "fo \<le> e mod S" if h: "i = (e - 1) div S \<and> e mod S \<noteq> 0"
  proof (cases "i = o' div S")
    case True
    then have "o' div S * S = e div S * S" using h last_nz by simp
    then have "o' mod S \<le> e mod S" using oe eq_e eq_o by linarith
    then show ?thesis using True by (simp add: fo_def)
  qed (simp add: fo_def)
  show "i * S + fo + (if i = (e - 1) div S \<and> e mod S \<noteq> 0 then e mod S - fo else S - fo) =
           (if i = (e - 1) div S then e else Suc i * S)"
  proof (cases "i = (e - 1) div S \<and> e mod S \<noteq> 0")
    case True
    then show ?thesis using 3 [OF True] last_nz eq_e by simp
  next
    case False
    have "i * S + fo + (S - fo) = Suc i * S" using 2 by simp
    then show ?thesis using False last_z by (cases "i = (e - 1) div S") simp_all
  qed
  show "e \<le> Suc ((e - 1) div S) * S"
  proof -
    have "(e - 1) div S * S + (e - 1) mod S = e - 1" by (rule div_mult_mod_eq)
    moreover have "(e - 1) mod S < S" using S by simp
    ultimately have "e \<le> S + (e - 1) div S * S" using oe by linarith
    then show ?thesis by simp
  qed
qed

lemma segment_fetch:
  assumes S: "0 < S" "unat (fsSegmentSize f) = S" and oe: "o' < e"
    and mn: "unat (minS :: u64) = o' div S" "unat (minOff :: u64) = o' mod S"
    and mx: "unat (maxS :: u64) = (e - 1) div S" "unat (maxOff :: u64) = e mod S" and ik: "unat minS + k \<le> unat maxS"
  defines "i \<equiv> unat minS + k"
    and "fo \<equiv> (if minS + of_nat k = minS then minOff else 0)"
  shows "unat (minS + of_nat k) = i" and "i * S + unat fo = segStart o' S (unat minS) k"
    and "i * S + unat fo + unat (if minS + of_nat k = maxS \<and> maxOff \<noteq> 0 then maxOff - fo else fsSegmentSize f - fo) =
           (if i = (e - 1) div S then e else Suc i * S)"
    and "o' \<le> i * S + unat fo"
    and "i * S + unat fo + unat (if minS + of_nat k = maxS \<and> maxOff \<noteq> 0 then maxOff - fo else fsSegmentSize f - fo) \<le> e"
proof -
  define fl where "fl = (if minS + of_nat k = maxS \<and> maxOff \<noteq> 0 then maxOff - fo else fsSegmentSize f - fo)"
  have nw: "unat minS + k < 18446744073709551616" using ik unat_u64_bound [of maxS] by simp
  show ui: "unat (minS + of_nat k) = i" using unat_add_of_nat [OF nw] by (simp add: i_def)
  have k0: "(minS + of_nat k = minS) = (i = o' div S)"
    using u64_add_of_nat_eq [OF nw] mn(1) by (simp add: i_def)
  have kmax: "(minS + of_nat k = maxS) = (i = (e - 1) div S)"
    using ui mx(1) by (metis word_unat_eq_iff)
  have mi: "o' div S \<le> i" and im: "i \<le> (e - 1) div S" using ik mn(1) mx(1) by (simp_all add: i_def)
  note sp = segment_piece [OF S(1) oe mi im]
  have ufo: "unat fo = (if i = o' div S then o' mod S else 0)" unfolding fo_def k0 using mn(2) by simp
  have mo: "(maxOff \<noteq> 0) = (e mod S \<noteq> 0)" using mx(2) by (metis unsigned_eq_0_iff)
  have ufl: "unat fl = (if i = (e - 1) div S \<and> e mod S \<noteq> 0 then e mod S - unat fo else S - unat fo)"
  proof (cases "i = (e - 1) div S \<and> e mod S \<noteq> 0")
    case True
    then have "fo \<le> maxOff" using sp(3) mx(2) ufo by (simp add: word_le_nat_alt)
    then show ?thesis unfolding fl_def kmax mo using True mx(2) by (simp add: unat_sub)
  next
    case False
    then have "fo \<le> fsSegmentSize f" using sp(2) S(2) ufo by (simp add: word_le_nat_alt)
    then show ?thesis unfolding fl_def kmax mo using False S(2)
      by (cases "i = (e - 1) div S") (simp_all add: unat_sub)
  qed
  show st: "i * S + unat fo = segStart o' S (unat minS) k"
    using sp(1) ufo mn(1) by (simp add: segStart_def i_def)
  show en: "i * S + unat fo + unat fl = (if i = (e - 1) div S then e else Suc i * S)"
    unfolding ufl ufo by (rule sp(4))
  show "o' \<le> i * S + unat fo"
  proof (cases "k = 0")
    case False
    have a: "o' div S * S + o' mod S = o'" by (rule div_mult_mod_eq)
    have b: "o' mod S < S" using S(1) by simp
    have "o' < Suc (o' div S) * S" unfolding mult_Suc using a b by linarith
    moreover have "Suc (o' div S) * S \<le> (o' div S + k) * S" using False by (intro mult_le_mono1) simp
    ultimately show ?thesis using st False mn(1) by (simp add: segStart_def)
  qed (use st in \<open>simp add: segStart_def\<close>)
  show "i * S + unat fo + unat fl \<le> e"
  proof (cases "i = (e - 1) div S")
    case False
    then have "Suc i * S \<le> (e - 1) div S * S" using im by (intro mult_le_mono1) simp
    also have "\<dots> \<le> e - 1" by (rule div_times_less_eq_dividend)
    finally show ?thesis using en False by simp
  qed (use en in simp)
qed

lemma queueSegments_tiles:
  "0 < S \<Longrightarrow> unat (fsSegmentSize f) = S \<Longrightarrow> o' < e \<Longrightarrow> e < 18446744073709551616 \<Longrightarrow>
   unat minS = o' div S \<Longrightarrow> unat minOff = o' mod S \<Longrightarrow> unat maxS = (e - 1) div S \<Longrightarrow>
   unat maxOff = e mod S \<Longrightarrow> cnt = Suc (unat maxS) - unat minS \<Longrightarrow> unat minS + k \<le> Suc (unat maxS) \<Longrightarrow>
   (unat minS + k \<le> unat maxS \<longrightarrow> unat wo = segStart o' S (unat minS) k - o') \<Longrightarrow>
   \<exists>us evs. queueSegments f p minS maxS minOff maxOff ms cnt k wo = Inr (us, evs) \<and>
     concat (map fetch_range us) = [segStart o' S (unat minS) k ..< e] \<and>
     (\<forall>u\<in>set us. fetch_start u = o' + unat (udsWriteOffset u)) \<and> length us = cnt - k"
proof (induction f p minS maxS minOff maxOff ms cnt k wo rule: queueSegments.induct)
  case (1 f p minS maxS minOff maxOff ms cnt k wo)
  note P = "1.prems"
  have "(e - 1) div S \<le> e - 1" by (rule div_le_dividend)
  then have mxb: "unat maxS < 18446744073709551615" using P(4,7) by linarith
  show ?case
  proof (cases "unat minS + k \<le> unat maxS")
    case False
    then have nw: "unat minS + k < 18446744073709551616" using P(10) mxb by linarith
    have "\<not> minS + of_nat k \<le> maxS" using False u64_add_of_nat_le [OF nw] by simp
    moreover have "e \<le> segStart o' S (unat minS) k"
    proof -
      have od: "o' div S \<le> (e - 1) div S" using P(3) by (simp add: div_le_mono)
      then have "k \<noteq> 0" using False P(5,7) by auto
      moreover have "unat minS + k = Suc (unat maxS)" using False P(10) by simp
      ultimately show ?thesis using segment_piece(5) [OF P(1,3) order_refl od] P(7) by (simp add: segStart_def)
    qed
    ultimately show ?thesis using P(9,10) False by (subst queueSegments.simps) simp
  next
    case True
    define i where "i = unat minS + k"
    have nw: "unat minS + k < 18446744073709551616" using True mxb by linarith
    have g: "minS + of_nat k \<le> maxS" using True u64_add_of_nat_le [OF nw] by simp
    have kc: "k < cnt" using True P(9) by simp
    define fo where "fo = (if minS + of_nat k = minS then minOff else 0)"
    define fl where "fl = (if minS + of_nat k = maxS \<and> maxOff \<noteq> 0 then maxOff - fo else fsSegmentSize f - fo)"
    note sf = segment_fetch [OF P(1-3,5-8) True, folded i_def fo_def, folded fl_def]
    note ui = sf(1) and st = sf(2) and en = sf(3) and o_le = sf(4) and en_le = sf(5)
    have im: "i \<le> (e - 1) div S" using True P(7) by (simp add: i_def)
    have uwo: "unat wo = i * S + unat fo - o'" using P(11) True st by (simp add: i_def)
    have uwf: "unat (wo + fl) = unat wo + unat fl"
      by (rule unat_add_lem [THEN iffD1]) (use uwo o_le en_le P(4) in simp)
    have nxt: "unat minS + Suc k \<le> unat maxS \<longrightarrow> unat (wo + fl) = segStart o' S (unat minS) (Suc k) - o'"
      using uwf uwo o_le en P(7) by (auto simp: segStart_def i_def)
    obtain us evs where r: "queueSegments f p minS maxS minOff maxOff ms cnt (Suc k) (wo + fl) = Inr (us, evs)"
      and cat: "concat (map fetch_range us) = [segStart o' S (unat minS) (Suc k) ..< e]"
      and ws: "\<forall>u\<in>set us. fetch_start u = o' + unat (udsWriteOffset u)" and len: "length us = cnt - Suc k"
      using "1.IH" [OF refl g kc refl fo_def fl_def] P(1-9) True nxt by auto
    define u where "u = mkSegment f p (if k < length ms then ms ! k else Map.empty) (minS + of_nat k) k fo fl wo"
    have fs: "fetch_start u = i * S + unat fo" using ui P(2) by (simp add: u_def mkSegment_def fetch_start_def)
    have fr: "fetch_range u = [i * S + unat fo ..< i * S + unat fo + unat fl]"
      using fs by (simp add: u_def fetch_range_def mkSegment_def)
    have "[i * S + unat fo ..< i * S + unat fo + unat fl] @ [segStart o' S (unat minS) (Suc k) ..< e] =
            [segStart o' S (unat minS) k ..< e]"
    proof (cases "i = (e - 1) div S")
      case True
      then have "e \<le> segStart o' S (unat minS) (Suc k)"
        using segment_piece(5) [OF P(1,3) _ im] P(5) True by (simp add: segStart_def i_def)
      then show ?thesis using True en st by simp
    next
      case False
      have e1: "i * S + unat fo + unat fl = Suc i * S" using en False by simp
      have e2: "segStart o' S (unat minS) (Suc k) = Suc i * S" by (simp add: segStart_def i_def)
      show ?thesis unfolding e1 e2 st [symmetric] by (rule upt_split) (use e1 en_le in simp_all)
    qed
    then have "concat (map fetch_range (u # us)) = [segStart o' S (unat minS) k ..< e]" using fr cat by simp
    moreover have "queueSegments f p minS maxS minOff maxOff ms cnt k wo = Inr (u # us, NotifyNewDownload # evs)"
      by (subst queueSegments.simps)
        (simp only: Let_def g kc if_True fo_def [symmetric] fl_def [symmetric] r sum.case prod.case u_def [symmetric])
    moreover have "fetch_start u = o' + unat (udsWriteOffset u)" using fs uwo o_le by (simp add: u_def mkSegment_def)
    ultimately show ?thesis using ws len kc by auto
  qed
qed

lemma newDownload_Inr:
  "newDownload maxLen params = Inr (d, us, evs) \<Longrightarrow>
     dLength d = dpLength params \<and> dOffset d = dpOffset params \<and>
     (\<exists>f. dpFile params = Some f \<and> \<not> fsFileSize f < dpOffset params + dpLength params)"
  by (auto simp: newDownload_def Let_def split: option.splits if_splits prod.splits sum.splits)

lemma createDownload_Inr:
  "fst (createDownload env p entry len isCloser dt evs) = Inr (d, us) \<Longrightarrow>
     dLength d = len \<and> dOffset d = cdOffset p \<and> \<not> fsFileSize entry < cdOffset p + len"
  by (auto simp: createDownload_def dest!: newDownload_Inr split: sum.splits prod.splits if_splits)

lemma createDownload_closes:
  "fst (createDownload env p entry len isCloser dt evs) = Inl (ErrCreateDownload e b) \<Longrightarrow>
     DestinationClose \<in> set (snd (createDownload env p entry len isCloser dt evs))"
  by (auto simp: createDownload_def split: sum.splits prod.splits if_splits)

lemma managedDownload_defers:
  "envOpen env (cdDxFilePath p) = Inr entry \<Longrightarrow>
     \<exists>evs. snd (managedDownload env p) = evs @ [SetTimeAccess, EntryClose]"
  by (simp add: managedDownload_def entryDefers_def)

lemma managedDownload_Inr:
  "fst (managedDownload env p) = Inr (d, us) \<Longrightarrow>
     \<exists>entry. envOpen env (cdDxFilePath p) = Inr entry \<and> dOffset d = cdOffset p \<and>
       dLength d = (if cdLength p = 0 then fsFileSize entry - cdOffset p else cdLength p) \<and>
       \<not> fsFileSize entry < cdOffset p + dLength d"
  by (auto simp: managedDownload_def entryDefers_def Let_def dest!: createDownload_Inr
        split: sum.splits if_splits option.splits)

lemma managedDownload_file_closed:
  "\<not> cdHttp p \<Longrightarrow> fst (managedDownload env p) \<noteq> Inl (ErrNewDownload e)"
  by (auto simp: managedDownload_def entryDefers_def Let_def createDownload_def
        split: sum.splits if_splits option.splits prod.splits)

lemma managedDownload_closes:
  "fst (managedDownload env p) = Inl (ErrCreateDownload e b) \<Longrightarrow>
     DestinationClose \<in> set (snd (managedDownload env p))"
  by (auto simp: managedDownload_def entryDefers_def Let_def dest: createDownload_closes
        split: sum.splits if_splits option.splits)

lemma newDownload_offset_wraps:
  "(maxLen < 13835058055282163714 \<longrightarrow>
      newDownload maxLen (ex_dl_params 18446744073709551614 2) = Inl PanicMakeSlice) \<and>
   (13835058055282163714 \<le> maxLen \<longrightarrow>
      (\<exists>d. newDownload maxLen (ex_dl_params 18446744073709551614 2) = Inr (d, [], []) \<and>
           unat (dSegmentsRemaining d) = 13835058055282163714))"
  by (simp add: newDownload_def ex_dl_params_def ex_snapshot_def SegmentIndexByOffset_def Let_def
      buildSegmentMaps.simps queueSegments.simps)

lemma managedDownload_offset_wraps:
  "envOpen env ''f'' = Inr ex_snapshot \<Longrightarrow> envOpenFile env ''/tmp/out'' = None \<Longrightarrow>
     envMaxLen env < 13835058055282163714 \<Longrightarrow>
     fst (managedDownload env ex_cd_params) = Inl (ErrCreateDownload PanicMakeSlice (envCloseOk env))"
  by (simp add: managedDownload_def entryDefers_def createDownload_def ex_cd_params_def ex_snapshot_def
      IsAbs_def newDownload_def SegmentIndexByOffset_def Let_def)

lemma DownloadSync_result:
  "DownloadSync None outcome env p = (r, evs) \<Longrightarrow>
     last evs = TmDone \<and> (r = None \<longleftrightarrow> (\<exists>d. fst (managedDownload env p) = Inr d) \<and> outcome = Completed None)"
  by (auto simp: DownloadSync_def split: prod.splits sum.splits sync_outcome.splits)

text \<open>
  C26. For a request inside the file that does not wrap, with a positive
  segment size, a file of at most \<open>NumSegments\<close> segments and every
  segment's sectors readable, \<open>newDownload\<close> succeeds and the segments it
  queues fetch exactly the requested bytes \<open>offset ..< offset + length\<close>, in
  order and each once; every segment writes its bytes at their distance from
  \<open>offset\<close>; and \<open>segmentsRemaining\<close> is the number of segments queued, so
  the download can complete.
\<close>

theorem newDownload_tiles:
  assumes hf: "dpFile p = Some f" and S: "0 < fsSegmentSize f" and len: "0 < dpLength p"
    and inside: "unat (dpOffset p) + unat (dpLength p) \<le> unat (fsFileSize f)"
    and segs: "unat (fsFileSize f) \<le> unat (fsNumSegments f) * unat (fsSegmentSize f)"
    and alloc: "unat (fsNumSegments f) \<le> maxLen"
    and sec: "\<forall>i. \<exists>ss. fsSectors f i = Inr ss"
  shows "\<exists>d us evs. newDownload maxLen p = Inr (d, us, evs) \<and>
           concat (map fetch_range us) = [unat (dpOffset p) ..< unat (dpOffset p) + unat (dpLength p)] \<and>
           (\<forall>u\<in>set us. fetch_start u = unat (dpOffset p) + unat (udsWriteOffset u)) \<and>
           length us = unat (dSegmentsRemaining d) \<and> \<not> dComplete d"
proof -
  define o' e Sn where "o' = unat (dpOffset p)" and "e = unat (dpOffset p) + unat (dpLength p)"
    and "Sn = unat (fsSegmentSize f)"
  have Sn: "0 < Sn" using S by (simp add: Sn_def unat_gt_0)
  have oe: "o' < e" using len by (simp add: o'_def e_def unat_gt_0)
  have e64: "e < 18446744073709551616" using inside unat_u64_bound [of "fsFileSize f"] by (simp add: e_def)
  have ue: "unat (dpOffset p + dpLength p) = e"
    unfolding e_def by (rule unat_add_lem [THEN iffD1]) (use e64 in \<open>simp add: e_def\<close>)
  have nopast: "\<not> fsFileSize f < dpOffset p + dpLength p" using inside ue by (simp add: word_less_nat_alt e_def)
  define minS minOff max0 maxOff where "minS = dpOffset p div fsSegmentSize f"
    and "minOff = dpOffset p mod fsSegmentSize f" and "max0 = (dpOffset p + dpLength p) div fsSegmentSize f"
    and "maxOff = (dpOffset p + dpLength p) mod fsSegmentSize f"
  define maxS where "maxS = (if 0 < max0 \<and> maxOff = 0 then max0 - 1 else max0)"
  have umin: "unat minS = o' div Sn" and umo: "unat minOff = o' mod Sn"
    by (simp_all add: minS_def minOff_def o'_def Sn_def unat_div unat_mod)
  have umaxo: "unat maxOff = e mod Sn" using ue by (simp add: maxOff_def Sn_def unat_mod)
  have umax: "unat maxS = (e - 1) div Sn"
    unfolding maxS_def max0_def maxOff_def using last_segment_word [OF Sn Sn_def [symmetric]] oe ue by simp
  have od: "o' div Sn \<le> (e - 1) div Sn" using oe by (simp add: div_le_mono)
  have "e - 1 < unat (fsNumSegments f) * Sn" using inside segs oe by (simp add: e_def Sn_def)
  then have mxN: "(e - 1) div Sn < unat (fsNumSegments f)" by (simp add: less_mult_imp_div_less)
  have g1: "minS \<noteq> fsNumSegments f" and g2: "maxS \<noteq> fsNumSegments f"
    using umin umax od mxN by auto
  have "(e - 1) div Sn \<le> e - 1" by (rule div_le_dividend)
  then have mxb: "unat maxS < 18446744073709551615" using umax e64 by linarith
  define cnt where "cnt = maxS - minS + 1"
  have ucnt: "unat cnt = Suc (unat maxS) - unat minS"
    unfolding cnt_def using segment_count_unat mxb umin umax od by simp
  have nopanic: "\<not> maxLen < unat cnt" using ucnt mxN alloc umax by linarith
  obtain ms evs1 where b: "buildSegmentMaps f minS maxS (unat cnt) 0 [] = Inr (ms, evs1)"
    using buildSegmentMaps_Inr [OF sec mxb ucnt, of 0 "[]"] umin umax od by auto
  obtain us evs2 where q: "queueSegments f p minS maxS minOff maxOff ms (unat cnt) 0 0 = Inr (us, evs2)"
    and cat: "concat (map fetch_range us) = [segStart o' Sn (unat minS) 0 ..< e]"
    and ws: "\<forall>u\<in>set us. fetch_start u = o' + unat (udsWriteOffset u)" and ln: "length us = unat cnt - 0"
    using queueSegments_tiles [OF Sn Sn_def [symmetric] oe e64 umin umo umax umaxo ucnt, of 0 0 p ms]
      umin umax od by (auto simp: segStart_def)
  have seg1: "SegmentIndexByOffset f (dpOffset p) = (minS, minOff)"
    by (simp add: SegmentIndexByOffset_def minS_def minOff_def)
  have seg2: "SegmentIndexByOffset f (dpOffset p + dpLength p) = (max0, maxOff)"
    by (simp add: SegmentIndexByOffset_def max0_def maxOff_def)
  have l0: "dpLength p \<noteq> 0" using len by simp
  have nd: "newDownload maxLen p =
    Inr (\<lparr>dComplete = False, dSegmentsRemaining = cnt,
          dDestinationString = dpDestinationString p, dDestinationType = dpDestinationType p,
          dLatencyTarget = dpLatencyTarget p, dLength = dpLength p, dOffset = dpOffset p,
          dOverdrive = dpOverdrive p, dDxFilePath = fsDxPath f, dPriority = dpPriority p\<rparr>, us, evs1 @ evs2)"
    unfolding newDownload_def hf option.case Let_def seg1 seg2 prod.case maxS_def [symmetric] cnt_def [symmetric]
    using nopast g1 g2 nopanic b q l0 by simp
  show ?thesis using nd cat ws ln by (simp add: o'_def e_def segStart_def)
qed


theorem newDownload_tiles_witness:
  "\<exists>d us evs. newDownload 3 (ex_dl_params 3 6) = Inr (d, us, evs) \<and>
     concat (map fetch_range us) = [3 ..< 9] \<and>
     (\<forall>u\<in>set us. fetch_start u = 3 + unat (udsWriteOffset u)) \<and>
     length us = unat (dSegmentsRemaining d) \<and> \<not> dComplete d"
  using newDownload_tiles [of "ex_dl_params 3 6" ex_snapshot 3] by (simp add: ex_dl_params_def ex_snapshot_def)

end
