(* ===== verification/ClientService.thy ===== *)
theory ClientService
  imports Prelude
begin

text \<open>
  The storage client's service wiring in the three copies of package
  \<open>storageclient\<close> in \<open>src/unnamed/part_000\<close>: \<open>New\<close>, \<open>Start\<close>, \<open>Close\<close>
  and \<open>setBandwidthLimits\<close>. The first and third copies are the same code;
  the second also makes the download queue, the heap and the worker pool in
  \<open>New\<close>, and in \<open>Start\<close> activates the worker pool, starts the download
  loop and registers the hook that kills the workers on stop. The client
  records which of its references are set; the backend, the P2P server and
  the managers are external, their answers are the record \<open>ServiceEnv\<close>,
  and what \<open>Start\<close> starts is returned as a trace. \<open>filepath.Join\<close> joins
  with a slash, and \<open>DxPathRoot\<close> is a parameter. A copy that is the same
  code as the first is defined as the first.
\<close>

record StorageClient =
  scPersistDir :: string
  scStaticFilesDir :: string
  scNewDownloads :: bool
  scDownloadHeap :: bool
  scWorkerPool :: bool
  scMemoryManager :: bool
  scHostManager :: "string option"
  scEthBackend :: "nat option"
  scP2PServer :: "nat option"

record ServiceEnv =
  envFilterAPIs :: "string option"
  envHostManagerStart :: "string option"
  envLoadPersist :: "string option"
  envHostManagerClose :: "string option"
  envTmStop :: "string option"

datatype svc_error = ErrNoP2PServer | ErrExternal string | ErrComposed "string list"

datatype svc_event = ActivateWorkerPool | GoDownloadLoop | RegisterOnStop | HostManagerClosed | TmStopped

definition filepathJoin :: "string \<Rightarrow> string \<Rightarrow> string" where
  "filepathJoin a b = a @ ''/'' @ b"

section \<open>\<open>New\<close>\<close>

definition New :: "string \<Rightarrow> string \<Rightarrow> StorageClient" where
  "New DxPathRoot persistDir =
     \<lparr>scPersistDir = persistDir, scStaticFilesDir = filepathJoin persistDir DxPathRoot,
      scNewDownloads = False, scDownloadHeap = False, scWorkerPool = False,
      scMemoryManager = True, scHostManager = Some persistDir, scEthBackend = None, scP2PServer = None\<rparr>"

definition New_v2 :: "string \<Rightarrow> string \<Rightarrow> StorageClient" where
  "New_v2 DxPathRoot persistDir =
     \<lparr>scPersistDir = persistDir, scStaticFilesDir = filepathJoin persistDir DxPathRoot,
      scNewDownloads = True, scDownloadHeap = True, scWorkerPool = True,
      scMemoryManager = True, scHostManager = Some persistDir, scEthBackend = None, scP2PServer = None\<rparr>"

definition New_v3 :: "string \<Rightarrow> string \<Rightarrow> StorageClient" where
  "New_v3 = New"

section \<open>\<open>Start\<close>\<close>

text \<open>
  The steps every copy runs; \<open>workers\<close> adds those of the second copy after
  the last fallible step.
\<close>

definition Start_with ::
  "bool \<Rightarrow> ServiceEnv \<Rightarrow> nat \<Rightarrow> nat option \<Rightarrow> StorageClient \<Rightarrow> (svc_error + unit) \<times> StorageClient \<times> svc_event list" where
  "Start_with workers env b server sc =
     (let sc1 = sc\<lparr>scEthBackend := Some b\<rparr> in
      case server of
        None \<Rightarrow> (Inl ErrNoP2PServer, sc1, [])
      | Some srv \<Rightarrow>
          (let sc2 = sc1\<lparr>scP2PServer := Some srv\<rparr> in
           case envFilterAPIs env of
             Some err \<Rightarrow> (Inl (ErrExternal err), sc2, [])
           | None \<Rightarrow>
               (case envHostManagerStart env of
                  Some err \<Rightarrow> (Inl (ErrExternal err), sc2, [])
                | None \<Rightarrow>
                    (case envLoadPersist env of
                       Some err \<Rightarrow> (Inl (ErrExternal err), sc2, [])
                     | None \<Rightarrow>
                         (Inr (), sc2,
                          if workers then [ActivateWorkerPool, GoDownloadLoop, RegisterOnStop] else [])))))"

definition Start :: "ServiceEnv \<Rightarrow> nat \<Rightarrow> nat option \<Rightarrow> StorageClient \<Rightarrow> (svc_error + unit) \<times> StorageClient \<times> svc_event list" where
  "Start = Start_with False"

definition Start_v2 :: "ServiceEnv \<Rightarrow> nat \<Rightarrow> nat option \<Rightarrow> StorageClient \<Rightarrow> (svc_error + unit) \<times> StorageClient \<times> svc_event list" where
  "Start_v2 = Start_with True"

definition Start_v3 :: "ServiceEnv \<Rightarrow> nat \<Rightarrow> nat option \<Rightarrow> StorageClient \<Rightarrow> (svc_error + unit) \<times> StorageClient \<times> svc_event list" where
  "Start_v3 = Start_with False"

section \<open>\<open>Close\<close> and \<open>setBandwidthLimits\<close>\<close>

text \<open>\<open>common.ErrCompose\<close> keeps the errors that are not nil, in order.\<close>

definition ErrCompose :: "string option list \<Rightarrow> svc_error option" where
  "ErrCompose errs = (case concat (map (\<lambda>e. case e of None \<Rightarrow> [] | Some s \<Rightarrow> [s]) errs) of
                        [] \<Rightarrow> None | ss \<Rightarrow> Some (ErrComposed ss))"

definition Close :: "ServiceEnv \<Rightarrow> svc_error option \<times> svc_event list" where
  "Close env = (ErrCompose [envHostManagerClose env, envTmStop env], [HostManagerClosed, TmStopped])"

definition Close_v2 :: "ServiceEnv \<Rightarrow> svc_error option \<times> svc_event list" where
  "Close_v2 = Close"

definition Close_v3 :: "ServiceEnv \<Rightarrow> svc_error option \<times> svc_event list" where
  "Close_v3 = Close"

text \<open>
  \<open>setBandwidthLimits\<close> only validates: both branches after the check are
  empty.
\<close>

definition setBandwidthLimits :: "int \<Rightarrow> int \<Rightarrow> svc_error option" where
  "setBandwidthLimits uploadSpeedLimit downloadSpeedLimit =
     (if uploadSpeedLimit < 0 \<or> downloadSpeedLimit < 0
      then Some (ErrExternal ''upload/download speed limit cannot be negative'')
      else if uploadSpeedLimit = 0 \<and> downloadSpeedLimit = 0 then None
      else None)"

definition setBandwidthLimits_v2 :: "int \<Rightarrow> int \<Rightarrow> svc_error option" where
  "setBandwidthLimits_v2 = setBandwidthLimits"

definition setBandwidthLimits_v3 :: "int \<Rightarrow> int \<Rightarrow> svc_error option" where
  "setBandwidthLimits_v3 = setBandwidthLimits"

section \<open>Lemmas\<close>

lemma Start_sets_backend_first:
  "fst (snd (Start_with w env b server sc)) = sc\<lparr>scEthBackend := Some b, scP2PServer := (case server of None \<Rightarrow> scP2PServer sc | Some srv \<Rightarrow> Some srv)\<rparr>"
  by (simp add: Start_with_def Let_def split: option.splits)

lemma Start_only_v2_starts_workers:
  "snd (snd (Start env b server sc)) = [] \<and> snd (snd (Start_v3 env b server sc)) = [] \<and>
   (fst (Start_v2 env b server sc) = Inr () \<longleftrightarrow> snd (snd (Start_v2 env b server sc)) = [ActivateWorkerPool, GoDownloadLoop, RegisterOnStop])"
  by (simp add: Start_def Start_v2_def Start_v3_def Start_with_def Let_def split: option.splits)

lemma Close_runs_both:
  "snd (Close env) = [HostManagerClosed, TmStopped] \<and>
   (fst (Close env) = None \<longleftrightarrow> envHostManagerClose env = None \<and> envTmStop env = None)"
  by (simp add: Close_def ErrCompose_def split: option.splits)

lemma setBandwidthLimits_iff: "setBandwidthLimits u d = None \<longleftrightarrow> 0 \<le> u \<and> 0 \<le> d"
  by (simp add: setBandwidthLimits_def)

end
