(* ===== verification/ChainTx.thy ===== *)
theory ChainTx
  imports ClientUpload
begin

text \<open>
  The chain side of storage contracts and DPoS operations: the EVM's
  \<open>ApplyStorageContractTransaction\<close> and \<open>ApplyDposTransaction\<close> with the
  handlers they dispatch to (\<open>src/core/types/memory_test.go\<close>, package
  \<open>vm\<close>, lines 571--935). The state database (outside the sources) is an
  explicit store from addresses to accounts, each with its balance, nonce
  and storage; a snapshot is the store itself and reverting restores it.
  A storage slot holds a 32-byte hash: a number written big-endian
  (\<open>SNum\<close>), a digest (\<open>SHash\<close>), or the proof status of a contract
  (\<open>SStatus\<close>: \<open>ProofedStatus\<close> or \<open>NotProofedStatus\<close> followed by the
  contract address). \<open>BytesToHash(v.Bytes())\<close> of a \<open>big.Int\<close> keeps the
  last 32 bytes of its absolute value. RLP decoding, the checks of
  \<open>CheckCreateContract\<close>, \<open>CheckRevisionContract\<close>, \<open>CheckStorageProof\<close>
  and \<open>CheckMultiSignatures\<close>, the gas they consume (\<open>RemainGas\<close>), the
  contract id and the derived addresses are parameters (\<open>ChainExt\<close>).
  A revision is the client's revision type \<open>crev\<close> of \<open>ClientUpload\<close>, the
  same Go type \<open>types.StorageContractRevision\<close> with its \<open>ParentID\<close>.
\<close>

section \<open>The state database\<close>

datatype skey =
    KeyClientAddress | KeyHostAddress | KeyClientCollateral | KeyHostCollateral | KeyFileSize
  | KeyUnlockHash | KeyFileMerkleRoot | KeyRevisionNumber | KeyWindowStart | KeyWindowEnd
  | KeyClientValidProofOutput | KeyHostValidProofOutput | KeyClientMissedProofOutput
  | KeyHostMissedProofOutput | KeyContract digest

datatype sval = SNum nat | SHash digest | SStatus bool address

record Account =
  balance :: int
  nonce :: u64
  storage :: "skey \<Rightarrow> sval option"

type_synonym StateDB = "address \<Rightarrow> Account option"

definition emptyAccount :: Account where
  "emptyAccount = \<lparr>balance = 0, nonce = 0, storage = (\<lambda>_. None)\<rparr>"

definition Exist :: "StateDB \<Rightarrow> address \<Rightarrow> bool" where
  "Exist s a = (s a \<noteq> None)"

definition getOrNew :: "StateDB \<Rightarrow> address \<Rightarrow> Account" where
  "getOrNew s a = (case s a of Some acc \<Rightarrow> acc | None \<Rightarrow> emptyAccount)"

text \<open>\<open>CreateAccount\<close> carries the balance of an account it replaces over.\<close>

definition CreateAccount :: "StateDB \<Rightarrow> address \<Rightarrow> StateDB" where
  "CreateAccount s a = s(a \<mapsto> emptyAccount\<lparr>balance := balance (getOrNew s a)\<rparr>)"

definition SetNonce :: "StateDB \<Rightarrow> address \<Rightarrow> u64 \<Rightarrow> StateDB" where
  "SetNonce s a n = s(a \<mapsto> (getOrNew s a)\<lparr>nonce := n\<rparr>)"

definition AddBalance :: "StateDB \<Rightarrow> address \<Rightarrow> int \<Rightarrow> StateDB" where
  "AddBalance s a v = s(a \<mapsto> (getOrNew s a)\<lparr>balance := balance (getOrNew s a) + v\<rparr>)"

definition SubBalance :: "StateDB \<Rightarrow> address \<Rightarrow> int \<Rightarrow> StateDB" where
  "SubBalance s a v = s(a \<mapsto> (getOrNew s a)\<lparr>balance := balance (getOrNew s a) - v\<rparr>)"

definition SetState :: "StateDB \<Rightarrow> address \<Rightarrow> skey \<Rightarrow> sval \<Rightarrow> StateDB" where
  "SetState s a k v = s(a \<mapsto> (getOrNew s a)\<lparr>storage := (storage (getOrNew s a))(k \<mapsto> v)\<rparr>)"

definition GetState :: "StateDB \<Rightarrow> address \<Rightarrow> skey \<Rightarrow> sval" where
  "GetState s a k = (case storage (getOrNew s a) k of Some v \<Rightarrow> v | None \<Rightarrow> SNum 0)"

definition balanceOf :: "StateDB \<Rightarrow> address \<Rightarrow> int" where
  "balanceOf s a = balance (getOrNew s a)"

section \<open>Encodings of slot values\<close>

text \<open>\<open>Uint64ToBytes\<close> (lines 853--857): the eight big-endian bytes.\<close>

definition Uint64ToBytes :: "u64 \<Rightarrow> byte list" where
  "Uint64ToBytes i = map (\<lambda>k. ucast (drop_bit (8 * (7 - k)) i)) [0..<8]"

text \<open>The number a big-endian byte string denotes (\<open>big.Int.SetBytes\<close>).\<close>

definition bytesNum :: "byte list \<Rightarrow> nat" where
  "bytesNum bs = foldl (\<lambda>acc b. acc * 256 + unat b) 0 bs"

definition hashOfU64 :: "u64 \<Rightarrow> sval" where
  "hashOfU64 i = SNum (bytesNum (Uint64ToBytes i) mod 2 ^ 256)"

definition hashOfInt :: "int \<Rightarrow> sval" where
  "hashOfInt v = SNum (nat \<bar>v\<bar> mod 2 ^ 256)"

definition hashOfAddr :: "address \<Rightarrow> sval" where
  "hashOfAddr a = SNum (a mod 2 ^ 160)"

text \<open>
  Reading a slot as a number (\<open>new(big.Int).SetBytes(h.Bytes())\<close>), as an
  address (\<open>BytesToAddress\<close>, its last 20 bytes) and as a \<open>uint64\<close>
  (\<open>.Uint64()\<close>, its low 64 bits); the sources only read numbers back.
\<close>

fun slotNum :: "sval \<Rightarrow> nat" where
  "slotNum (SNum n) = n"
| "slotNum _ = 0"

definition slotInt :: "sval \<Rightarrow> int" where
  "slotInt v = int (slotNum v)"

definition slotAddr :: "sval \<Rightarrow> address" where
  "slotAddr v = slotNum v mod 2 ^ 160"

definition slotU64 :: "sval \<Rightarrow> u64" where
  "slotU64 v = of_nat (slotNum v)"

section \<open>Transactions, errors and the external calls\<close>

record ChainContract =
  scFileSize :: u64
  scFileMerkleRoot :: digest
  scWindowStart :: u64
  scWindowEnd :: u64
  scClientCollateral :: DxcoinCharge
  scHostCollateral :: DxcoinCharge
  scUnlockHash :: digest
  scRevisionNumber :: u64
  scValidProofOutputs :: "DxcoinCharge list"
  scMissedProofOutputs :: "DxcoinCharge list"

datatype tx_err =
    ErrMsg string | errUnknownStorageContractTx | errUnknownDposOperationTx
  | ErrContractExists | ErrNoContractAccount | ErrOutOfGas | PanicIndexOutOfRange

datatype sc_tx_type =
    HostAnnounceTransaction | ContractCreateTransaction | CommitRevisionTransaction | StorageProofTransaction
  | OtherStorageContractTx string

datatype dpos_tx_type = ApplyCandidate | CancelCandidate | Vote | CancelVote | OtherDposTx string

text \<open>
  Each decoder and checker answers the gas left after it (\<open>RemainGas\<close>) and
  its outcome.
\<close>

record ChainExt =
  decodeAnnouncement :: "u64 \<Rightarrow> byte list \<Rightarrow> u64 \<times> string option"
  checkAnnouncement :: "u64 \<Rightarrow> byte list \<Rightarrow> u64 \<times> string option"
  decodeContract :: "u64 \<Rightarrow> byte list \<Rightarrow> u64 \<times> (string + ChainContract)"
  contractID :: "ChainContract \<Rightarrow> digest"
  contractAddrOf :: "digest \<Rightarrow> address"
  statusAddrOf :: "u64 \<Rightarrow> address"
  checkCreateContract :: "u64 \<Rightarrow> StateDB \<Rightarrow> ChainContract \<Rightarrow> u64 \<Rightarrow> u64 \<times> string option"
  decodeRevision :: "u64 \<Rightarrow> byte list \<Rightarrow> u64 \<times> (string + crev)"
  checkRevisionContract :: "u64 \<Rightarrow> StateDB \<Rightarrow> crev \<Rightarrow> u64 \<Rightarrow> address \<Rightarrow> u64 \<times> string option"
  decodeProof :: "u64 \<Rightarrow> byte list \<Rightarrow> u64 \<times> (string + digest)"
  checkStorageProof :: "u64 \<Rightarrow> StateDB \<Rightarrow> byte list \<Rightarrow> u64 \<Rightarrow> address \<Rightarrow> address \<Rightarrow> u64 \<times> string option"

type_synonym tx_result = "(u64 \<times> tx_err option) \<times> StateDB"

section \<open>The storage-contract transactions\<close>

definition setStates :: "StateDB \<Rightarrow> address \<Rightarrow> (skey \<times> sval) list \<Rightarrow> StateDB" where
  "setStates s a kvs = foldl (\<lambda>s' kv. SetState s' a (fst kv) (snd kv)) s kvs"

text \<open>
  Storing \<open>outs[0].Value\<close> then \<open>outs[1].Value\<close>; an index past the slice
  panics after the stores before it.
\<close>

definition storeOutputs :: "StateDB \<Rightarrow> address \<Rightarrow> skey \<Rightarrow> skey \<Rightarrow> DxcoinCharge list \<Rightarrow> StateDB + StateDB" where
  "storeOutputs s a k0 k1 outs =
     (case outs of
        [] \<Rightarrow> Inl s
      | [o0] \<Rightarrow> Inl (SetState s a k0 (hashOfInt (Value o0)))
      | o0 # o1 # _ \<Rightarrow> Inr (SetState (SetState s a k0 (hashOfInt (Value o0))) a k1 (hashOfInt (Value o1))))"

definition HostAnnounceTx :: "ChainExt \<Rightarrow> byte list \<Rightarrow> u64 \<Rightarrow> StateDB \<Rightarrow> tx_result" where
  "HostAnnounceTx ext data gas s =
     (case decodeAnnouncement ext gas data of
        (gasDecode, Some errDec) \<Rightarrow> ((gasDecode, Some (ErrMsg errDec)), s)
      | (gasDecode, None) \<Rightarrow>
          (case checkAnnouncement ext gasDecode data of
             (gasCheck, Some errCheck) \<Rightarrow> ((gasCheck, Some (ErrMsg errCheck)), s)
           | (gasCheck, None) \<Rightarrow> ((gasCheck, None), s)))"

definition contractFields :: "ChainContract \<Rightarrow> (skey \<times> sval) list" where
  "contractFields sc =
     [(KeyClientAddress, hashOfAddr (Address (scClientCollateral sc))),
      (KeyHostAddress, hashOfAddr (Address (scHostCollateral sc))),
      (KeyClientCollateral, hashOfInt (Value (scClientCollateral sc))),
      (KeyHostCollateral, hashOfInt (Value (scHostCollateral sc))),
      (KeyFileSize, hashOfU64 (scFileSize sc)),
      (KeyUnlockHash, SHash (scUnlockHash sc)),
      (KeyFileMerkleRoot, SHash (scFileMerkleRoot sc)),
      (KeyRevisionNumber, hashOfU64 (scRevisionNumber sc)),
      (KeyWindowStart, hashOfU64 (scWindowStart sc)),
      (KeyWindowEnd, hashOfU64 (scWindowEnd sc))]"

definition CreateContractTx :: "ChainExt \<Rightarrow> u64 \<Rightarrow> byte list \<Rightarrow> u64 \<Rightarrow> StateDB \<Rightarrow> tx_result" where
  "CreateContractTx ext blockNumber data gas stateDB =
     (let snapshot = stateDB in
      case decodeContract ext gas data of
        (gasRemainDecode, Inl errDecode) \<Rightarrow> ((gasRemainDecode, Some (ErrMsg errDecode)), stateDB)
      | (gasRemainDecode, Inr sc) \<Rightarrow>
          (let statusAddr = statusAddrOf ext (scWindowEnd sc);
               scID = contractID ext sc;
               contractAddr = contractAddrOf ext scID;
               s1 = (if \<not> Exist stateDB statusAddr
                     then SetNonce (CreateAccount stateDB statusAddr) statusAddr 1 else stateDB)
           in if Exist s1 contractAddr then ((gasRemainDecode, Some ErrContractExists), s1)
           else
             (let s2 = SetNonce (CreateAccount s1 contractAddr) contractAddr 1 in
              case checkCreateContract ext gasRemainDecode s2 sc blockNumber of
                (gasRemainCheck, Some errCheck) \<Rightarrow> ((gasRemainCheck, Some (ErrMsg errCheck)), snapshot)
              | (gasRemainCheck, None) \<Rightarrow>
                  (let clientAddr = Address (scClientCollateral sc);
                       hostAddr = Address (scHostCollateral sc);
                       clientCollateralAmount = Value (scClientCollateral sc);
                       hostCollateralAmount = Value (scHostCollateral sc);
                       s3 = SubBalance s2 clientAddr clientCollateralAmount;
                       s4 = SubBalance s3 hostAddr hostCollateralAmount;
                       s5 = AddBalance s4 contractAddr (clientCollateralAmount + hostCollateralAmount);
                       s6 = SetState s5 statusAddr (KeyContract scID) (SStatus False contractAddr);
                       s7 = setStates s6 contractAddr (contractFields sc)
                   in case storeOutputs s7 contractAddr KeyClientValidProofOutput KeyHostValidProofOutput
                             (scValidProofOutputs sc) of
                        Inl sp \<Rightarrow> ((gasRemainCheck, Some PanicIndexOutOfRange), sp)
                      | Inr s8 \<Rightarrow>
                          (case storeOutputs s8 contractAddr KeyClientMissedProofOutput KeyHostMissedProofOutput
                                  (scMissedProofOutputs sc) of
                             Inl sp \<Rightarrow> ((gasRemainCheck, Some PanicIndexOutOfRange), sp)
                           | Inr s9 \<Rightarrow> ((gasRemainCheck, None), s9))))))"

definition CommitRevisionTx :: "ChainExt \<Rightarrow> u64 \<Rightarrow> byte list \<Rightarrow> u64 \<Rightarrow> StateDB \<Rightarrow> tx_result" where
  "CommitRevisionTx ext blockNumber data gas stateDB =
     (case decodeRevision ext gas data of
        (gasRemainDecode, Inl errDec) \<Rightarrow> ((gasRemainDecode, Some (ErrMsg errDec)), stateDB)
      | (gasRemainDecode, Inr scr) \<Rightarrow>
          (let contractAddr = contractAddrOf ext (ParentID scr) in
           if \<not> Exist stateDB contractAddr then ((gasRemainDecode, Some ErrNoContractAccount), stateDB)
           else
             (case checkRevisionContract ext gasRemainDecode stateDB scr blockNumber contractAddr of
                (gasRemainCheck, Some errCheck) \<Rightarrow> ((gasRemainCheck, Some (ErrMsg errCheck)), stateDB)
              | (gasRemainCheck, None) \<Rightarrow>
                  (let s1 = setStates stateDB contractAddr
                              [(KeyFileSize, hashOfU64 (NewFileSize scr)),
                               (KeyFileMerkleRoot, SHash (NewFileMerkleRoot scr)),
                               (KeyRevisionNumber, hashOfU64 (NewRevisionNumber scr))]
                   in case storeOutputs s1 contractAddr KeyClientValidProofOutput KeyHostValidProofOutput
                             (NewValidProofOutputs scr) of
                        Inl sp \<Rightarrow> ((gasRemainCheck, Some PanicIndexOutOfRange), sp)
                      | Inr s2 \<Rightarrow>
                          (case storeOutputs s2 contractAddr KeyClientMissedProofOutput KeyHostMissedProofOutput
                                  (NewMissedProofOutputs scr) of
                             Inl sp \<Rightarrow> ((gasRemainCheck, Some PanicIndexOutOfRange), sp)
                           | Inr s3 \<Rightarrow> ((gasRemainCheck, None), s3))))))"

definition StorageProofTx :: "ChainExt \<Rightarrow> u64 \<Rightarrow> byte list \<Rightarrow> u64 \<Rightarrow> StateDB \<Rightarrow> tx_result" where
  "StorageProofTx ext blockNumber data gas stateDB =
     (case decodeProof ext gas data of
        (gasRemainDec, Inl errDec) \<Rightarrow> ((gasRemainDec, Some (ErrMsg errDec)), stateDB)
      | (gasRemainDec, Inr parentID) \<Rightarrow>
          (let contractAddr = contractAddrOf ext parentID in
           if \<not> Exist stateDB contractAddr then ((gasRemainDec, Some ErrNoContractAccount), stateDB)
           else
             (let windowEnd = slotU64 (GetState stateDB contractAddr KeyWindowEnd);
                  clientValidOutput = slotInt (GetState stateDB contractAddr KeyClientValidProofOutput);
                  hostValidOutput = slotInt (GetState stateDB contractAddr KeyHostValidProofOutput);
                  clientAddress = slotAddr (GetState stateDB contractAddr KeyClientAddress);
                  hostAddress = slotAddr (GetState stateDB contractAddr KeyHostAddress);
                  statusAddr = statusAddrOf ext windowEnd
              in case checkStorageProof ext gasRemainDec stateDB data blockNumber statusAddr contractAddr of
                   (gasRemainCheck, Some errCheck) \<Rightarrow> ((gasRemainCheck, Some (ErrMsg errCheck)), stateDB)
                 | (gasRemainCheck, None) \<Rightarrow>
                     (let s1 = AddBalance stateDB clientAddress clientValidOutput;
                          s2 = AddBalance s1 hostAddress hostValidOutput;
                          s3 = SubBalance s2 contractAddr (clientValidOutput + hostValidOutput);
                          s4 = SetState s3 statusAddr (KeyContract parentID) (SStatus True contractAddr)
                      in ((gasRemainCheck, None), SetNonce s4 contractAddr 0)))))"

text \<open>
  \<open>ApplyStorageContractTransaction\<close>: its deferred function reverts to the
  snapshot when the named result \<open>err\<close> is set; a panic leaves \<open>err\<close> nil.
\<close>

definition revertOnError :: "StateDB \<Rightarrow> tx_result \<Rightarrow> tx_result" where
  "revertOnError snap r =
     (case snd (fst r) of
        None \<Rightarrow> r
      | Some PanicIndexOutOfRange \<Rightarrow> r
      | Some _ \<Rightarrow> (fst r, snap))"

definition ApplyStorageContractTransaction ::
  "ChainExt \<Rightarrow> u64 \<Rightarrow> sc_tx_type \<Rightarrow> byte list \<Rightarrow> u64 \<Rightarrow> StateDB \<Rightarrow> tx_result" where
  "ApplyStorageContractTransaction ext blockNumber txType data gas stateDB =
     revertOnError stateDB
       (case txType of
          HostAnnounceTransaction \<Rightarrow> HostAnnounceTx ext data gas stateDB
        | ContractCreateTransaction \<Rightarrow> CreateContractTx ext blockNumber data gas stateDB
        | CommitRevisionTransaction \<Rightarrow> CommitRevisionTx ext blockNumber data gas stateDB
        | StorageProofTransaction \<Rightarrow> StorageProofTx ext blockNumber data gas stateDB
        | OtherStorageContractTx _ \<Rightarrow> ((gas, Some errUnknownStorageContractTx), stateDB))"

section \<open>The DPoS transactions\<close>

text \<open>
  The DPoS context is of any type \<open>'c\<close>; \<open>dpos.ProcessAddCandidate\<close>,
  \<open>ProcessCancelCandidate\<close>, \<open>ProcessVote\<close> and \<open>ProcessCancelVote\<close> (outside
  the sources) answer an error or the new state and context, \<open>ProcessVote\<close>
  also the number of votes it counted. \<open>DeductGas\<close> and
  \<open>params.SstoreSetGas\<close> are go-ethereum's.
\<close>

record 'c DposExt =
  decodeAddCandidate :: "u64 \<Rightarrow> byte list \<Rightarrow> u64 \<times> string option"
  ProcessAddCandidate :: "StateDB \<Rightarrow> 'c \<Rightarrow> address \<Rightarrow> byte list \<Rightarrow> string + StateDB \<times> 'c"
  ProcessCancelCandidate :: "StateDB \<Rightarrow> 'c \<Rightarrow> address \<Rightarrow> int \<Rightarrow> string + StateDB \<times> 'c"
  decodeVote :: "u64 \<Rightarrow> byte list \<Rightarrow> u64 \<times> string option"
  ProcessVote :: "StateDB \<Rightarrow> 'c \<Rightarrow> address \<Rightarrow> byte list \<Rightarrow> int \<Rightarrow> string + nat \<times> StateDB \<times> 'c"
  ProcessCancelVote :: "StateDB \<Rightarrow> 'c \<Rightarrow> address \<Rightarrow> int \<Rightarrow> string + StateDB \<times> 'c"

definition SstoreSetGas :: u64 where "SstoreSetGas = 20000"

definition DeductGas :: "u64 \<Rightarrow> u64 \<Rightarrow> bool \<times> u64" where
  "DeductGas gas cost = (if gas < cost then (False, 0) else (True, gas - cost))"

type_synonym 'c dpos_result = "(u64 \<times> tx_err option) \<times> StateDB \<times> 'c"

text \<open>The common tail: a processed operation pays \<open>n\<close> stores, or runs out of gas.\<close>

definition chargeStores :: "u64 \<Rightarrow> u64 \<Rightarrow> StateDB \<times> 'c \<Rightarrow> 'c dpos_result" where
  "chargeStores gas n sc =
     (case DeductGas gas (SstoreSetGas * n) of
        (False, _) \<Rightarrow> ((gas, Some ErrOutOfGas), sc)
      | (True, gasRemain) \<Rightarrow> ((gasRemain, None), sc))"

definition CandidateTx :: "'c DposExt \<Rightarrow> address \<Rightarrow> byte list \<Rightarrow> u64 \<Rightarrow> StateDB \<Rightarrow> 'c \<Rightarrow> 'c dpos_result" where
  "CandidateTx ext caller data gas s ctx =
     (case decodeAddCandidate ext gas data of
        (gasRemainDec, Some errDec) \<Rightarrow> ((gasRemainDec, Some (ErrMsg errDec)), s, ctx)
      | (gasRemainDec, None) \<Rightarrow>
          (case ProcessAddCandidate ext s ctx caller data of
             Inl err \<Rightarrow> ((gasRemainDec, Some (ErrMsg err)), s, ctx)
           | Inr sc \<Rightarrow> chargeStores gasRemainDec 3 sc))"

definition CandidateCancelTx :: "'c DposExt \<Rightarrow> int \<Rightarrow> address \<Rightarrow> u64 \<Rightarrow> StateDB \<Rightarrow> 'c \<Rightarrow> 'c dpos_result" where
  "CandidateCancelTx ext time caller gas s ctx =
     (case ProcessCancelCandidate ext s ctx caller time of
        Inl err \<Rightarrow> ((gas, Some (ErrMsg err)), s, ctx)
      | Inr sc \<Rightarrow> chargeStores gas 2 sc)"

definition VoteTx :: "'c DposExt \<Rightarrow> int \<Rightarrow> address \<Rightarrow> byte list \<Rightarrow> u64 \<Rightarrow> StateDB \<Rightarrow> 'c \<Rightarrow> 'c dpos_result" where
  "VoteTx ext time caller data gas s ctx =
     (case decodeVote ext gas data of
        (gasRemainDec, Some errDec) \<Rightarrow> ((gasRemainDec, Some (ErrMsg errDec)), s, ctx)
      | (gasRemainDec, None) \<Rightarrow>
          (case ProcessVote ext s ctx caller data time of
             Inl err \<Rightarrow> ((gasRemainDec, Some (ErrMsg err)), s, ctx)
           | Inr (successVote, sc) \<Rightarrow> chargeStores gasRemainDec 4 sc))"

definition CancelVoteTx :: "'c DposExt \<Rightarrow> int \<Rightarrow> address \<Rightarrow> u64 \<Rightarrow> StateDB \<Rightarrow> 'c \<Rightarrow> 'c dpos_result" where
  "CancelVoteTx ext time caller gas s ctx =
     (case ProcessCancelVote ext s ctx caller time of
        Inl err \<Rightarrow> ((gas, Some (ErrMsg err)), s, ctx)
      | Inr sc \<Rightarrow> chargeStores gas 2 sc)"

text \<open>\<open>ApplyDposTransaction\<close> reverts both the context and the state on an error.\<close>

definition ApplyDposTransaction ::
  "'c DposExt \<Rightarrow> int \<Rightarrow> dpos_tx_type \<Rightarrow> address \<Rightarrow> byte list \<Rightarrow> u64 \<Rightarrow> StateDB \<Rightarrow> 'c \<Rightarrow> 'c dpos_result" where
  "ApplyDposTransaction ext time txType from data gas s ctx =
     (let r = (case txType of
                 ApplyCandidate \<Rightarrow> CandidateTx ext from data gas s ctx
               | CancelCandidate \<Rightarrow> CandidateCancelTx ext time from gas s ctx
               | Vote \<Rightarrow> VoteTx ext time from data gas s ctx
               | CancelVote \<Rightarrow> CancelVoteTx ext time from gas s ctx
               | OtherDposTx _ \<Rightarrow> ((gas, Some errUnknownDposOperationTx), s, ctx))
      in if snd (fst r) = None then r else (fst r, s, ctx))"

section \<open>Examples\<close>

definition ex_contract :: ChainContract where
  "ex_contract =
     \<lparr>scFileSize = 64, scFileMerkleRoot = Hash_Value 1, scWindowStart = 40, scWindowEnd = 50,
      scClientCollateral = \<lparr>Value = 10, Address = 1\<rparr>, scHostCollateral = \<lparr>Value = 20, Address = 2\<rparr>,
      scUnlockHash = Hash_Value 2, scRevisionNumber = 0,
      scValidProofOutputs = [\<lparr>Value = 12, Address = 1\<rparr>, \<lparr>Value = 18, Address = 2\<rparr>],
      scMissedProofOutputs = [\<lparr>Value = 12, Address = 1\<rparr>, \<lparr>Value = 0, Address = 2\<rparr>]\<rparr>"

definition ex_chain :: ChainExt where
  "ex_chain =
     \<lparr>decodeAnnouncement = (\<lambda>g d. (g, None)), checkAnnouncement = (\<lambda>g d. (g, None)),
      decodeContract = (\<lambda>g d. (g, Inr ex_contract)), contractID = (\<lambda>c. Hash_Value 9),
      contractAddrOf = (\<lambda>i. 100), statusAddrOf = (\<lambda>w. 200),
      checkCreateContract = (\<lambda>g s c b. (g, None)), decodeRevision = (\<lambda>g d. (g, Inl ''unused'')),
      checkRevisionContract = (\<lambda>g s r b a. (g, None)), decodeProof = (\<lambda>g d. (g, Inr (Hash_Value 9))),
      checkStorageProof = (\<lambda>g s d b sa ca. (g, None))\<rparr>"

definition ex_state :: StateDB where
  "ex_state = [1 \<mapsto> emptyAccount\<lparr>balance := 100\<rparr>, 2 \<mapsto> emptyAccount\<lparr>balance := 100\<rparr>]"

section \<open>Lemmas\<close>

lemma byte_of_u64:
  "unat (ucast (drop_bit n (w :: u64)) :: byte) = unat w div 2 ^ n mod 256"
  by (simp add: unsigned_ucast_eq take_bit_eq_mod unat_drop_bit_eq) (simp add: drop_bit_eq_div)

lemma bytesNum_snoc: "bytesNum (bs @ [b]) = bytesNum bs * 256 + unat b"
  by (simp add: bytesNum_def)

lemma div_256_step: "(x :: nat) div 256 ^ Suc k * 256 + x div 256 ^ k mod 256 = x div 256 ^ k"
proof -
  have "x div 256 ^ Suc k = x div 256 ^ k div 256" by (simp only: power_Suc2 div_mult2_eq)
  then show ?thesis by simp
qed

lemma bytesNum_prefix:
  "m \<le> 8 \<Longrightarrow> bytesNum (map (\<lambda>k. ucast (drop_bit (8 * (7 - k)) w)) [0..<m]) = unat (w :: u64) div 256 ^ (8 - m)"
proof (induction m)
  case 0
  have "unat w < 256 ^ 8" using unat_u64_bound [of w] by simp
  then show ?case by (simp add: bytesNum_def)
next
  case (Suc m)
  then have m: "m < 8" by simp
  have e: "8 - m = Suc (7 - m)" using m by simp
  have "(2 :: nat) ^ (8 * (7 - m)) = 256 ^ (7 - m)" by (simp add: power_mult)
  then show ?case using Suc m e div_256_step [of "unat w" "7 - m"]
    by (simp add: bytesNum_snoc byte_of_u64)
qed

lemma bytesNum_Uint64ToBytes: "bytesNum (Uint64ToBytes w) = unat w"
  using bytesNum_prefix [of 8 w] by (simp add: Uint64ToBytes_def)

lemma slotU64_hashOfU64 [simp]: "slotU64 (hashOfU64 w) = w"
proof -
  have "unat w < 2 ^ 256" using unat_u64_bound [of w] by (rule less_le_trans) simp
  then show ?thesis by (simp add: slotU64_def hashOfU64_def bytesNum_Uint64ToBytes)
qed

lemma slotInt_hashOfInt: "0 \<le> v \<Longrightarrow> v < 2 ^ 256 \<Longrightarrow> slotInt (hashOfInt v) = v"
proof -
  assume "0 \<le> v" "v < 2 ^ 256"
  then have "nat v < 2 ^ 256" by (simp add: nat_less_iff)
  then show ?thesis using \<open>0 \<le> v\<close> by (simp add: slotInt_def hashOfInt_def)
qed

lemma slotAddr_hashOfAddr [simp]: "slotAddr (hashOfAddr a) = a mod 2 ^ 160"
  by (simp add: slotAddr_def hashOfAddr_def)

subsection \<open>State lemmas\<close>


lemma balanceOf_ops [state_simps]:
  "balanceOf (AddBalance s a v) b = balanceOf s b + (if b = a then v else 0)"
  "balanceOf (SubBalance s a v) b = balanceOf s b - (if b = a then v else 0)"
  "balanceOf (SetState s a k x) b = balanceOf s b"
  "balanceOf (SetNonce s a n) b = balanceOf s b"
  "balanceOf (CreateAccount s a) b = balanceOf s b"
  by (simp_all add: balanceOf_def AddBalance_def SubBalance_def SetState_def SetNonce_def CreateAccount_def
      getOrNew_def emptyAccount_def split: option.splits)

lemma balanceOf_setStates [state_simps]: "balanceOf (setStates s a kvs) b = balanceOf s b"
  by (induction kvs arbitrary: s) (simp_all add: setStates_def balanceOf_ops)

lemma GetState_ops [state_simps]:
  "GetState (SetState s a k x) b k' = (if b = a \<and> k' = k then x else GetState s b k')"
  "GetState (AddBalance s a v) b k' = GetState s b k'"
  "GetState (SubBalance s a v) b k' = GetState s b k'"
  "GetState (SetNonce s a n) b k' = GetState s b k'"
  by (simp_all add: GetState_def AddBalance_def SubBalance_def SetState_def SetNonce_def getOrNew_def
      split: option.splits)

lemma Exist_ops [state_simps]:
  "Exist (AddBalance s a v) b = (b = a \<or> Exist s b)"
  "Exist (SubBalance s a v) b = (b = a \<or> Exist s b)"
  "Exist (SetState s a k x) b = (b = a \<or> Exist s b)"
  "Exist (SetNonce s a n) b = (b = a \<or> Exist s b)"
  "Exist (CreateAccount s a) b = (b = a \<or> Exist s b)"
  by (simp_all add: Exist_def AddBalance_def SubBalance_def SetState_def SetNonce_def CreateAccount_def)

lemma storeOutputs_Inr:
  "storeOutputs s a k0 k1 (o0 # o1 # rest) =
     Inr (SetState (SetState s a k0 (hashOfInt (Value o0))) a k1 (hashOfInt (Value o1)))"
  by (simp add: storeOutputs_def)

lemma storeOutputs_balance:
  "storeOutputs s a k0 k1 outs = Inr s' \<or> storeOutputs s a k0 k1 outs = Inl s' \<Longrightarrow> balanceOf s' b = balanceOf s b"
  by (auto simp: storeOutputs_def balanceOf_ops split: list.splits)

subsection \<open>The transactions\<close>

lemma CreateContractTx_success:
  assumes dec: "decodeContract ext gas data = (g1, Inr sc)"
    and ok: "CreateContractTx ext bn data gas s = ((g, None), s')"
  defines "ca \<equiv> contractAddrOf ext (contractID ext sc)"
  shows "balanceOf s' a = balanceOf s a - (if a = Address (scClientCollateral sc) then Value (scClientCollateral sc) else 0)
            - (if a = Address (scHostCollateral sc) then Value (scHostCollateral sc) else 0)
            + (if a = ca then Value (scClientCollateral sc) + Value (scHostCollateral sc) else 0)"
    and "\<exists>v0 v1 rest. scValidProofOutputs sc = v0 # v1 # rest \<and>
            GetState s' ca KeyClientValidProofOutput = hashOfInt (Value v0) \<and>
            GetState s' ca KeyHostValidProofOutput = hashOfInt (Value v1)"
    and "GetState s' ca KeyWindowEnd = hashOfU64 (scWindowEnd sc)"
    and "GetState s' ca KeyClientAddress = hashOfAddr (Address (scClientCollateral sc))"
    and "GetState s' ca KeyHostAddress = hashOfAddr (Address (scHostCollateral sc))"
    and "\<not> Exist s ca" and "Exist s' ca"
  using ok unfolding ca_def
  by (auto simp: CreateContractTx_def dec Let_def state_simps setStates_def contractFields_def storeOutputs_def
      split: if_splits prod.splits option.splits list.splits)

lemma StorageProofTx_run:
  assumes dec: "decodeProof ext gas data = (g1, Inr pid)" and ex: "Exist s (contractAddrOf ext pid)"
    and chk: "checkStorageProof ext g1 s data bn (statusAddrOf ext (slotU64 (GetState s (contractAddrOf ext pid) KeyWindowEnd)))
                (contractAddrOf ext pid) = (g2, None)"
  defines "ca \<equiv> contractAddrOf ext pid"
  shows "\<exists>s'. StorageProofTx ext bn data gas s = ((g2, None), s') \<and>
           (\<forall>a. balanceOf s' a = balanceOf s a
              + (if a = slotAddr (GetState s ca KeyClientAddress) then slotInt (GetState s ca KeyClientValidProofOutput) else 0)
              + (if a = slotAddr (GetState s ca KeyHostAddress) then slotInt (GetState s ca KeyHostValidProofOutput) else 0)
              - (if a = ca then slotInt (GetState s ca KeyClientValidProofOutput)
                                + slotInt (GetState s ca KeyHostValidProofOutput) else 0)) \<and>
           GetState s' (statusAddrOf ext (slotU64 (GetState s ca KeyWindowEnd))) (KeyContract pid) = SStatus True ca"
  using ex chk unfolding ca_def by (simp add: StorageProofTx_def dec Let_def state_simps)

lemma ApplyStorageContractTransaction_atomic:
  "ApplyStorageContractTransaction ext bn txType data gas s = ((g, Some e), s') \<Longrightarrow>
     e \<noteq> PanicIndexOutOfRange \<Longrightarrow> s' = s"
  by (auto simp: ApplyStorageContractTransaction_def revertOnError_def split: option.splits tx_err.splits)

lemma ApplyDposTransaction_atomic:
  "ApplyDposTransaction ext time txType from data gas s ctx = ((g, Some e), s', ctx') \<Longrightarrow> s' = s \<and> ctx' = ctx"
  by (auto simp: ApplyDposTransaction_def Let_def split: if_splits)

lemma chargeStores_result:
  "chargeStores gas n sc =
     (if gas < SstoreSetGas * n then ((gas, Some ErrOutOfGas), sc) else ((gas - SstoreSetGas * n, None), sc))"
  by (simp add: chargeStores_def DeductGas_def)

lemma VoteTx_success:
  "VoteTx ext time caller data gas s ctx = ((g, None), s', ctx') \<Longrightarrow>
     \<exists>gd cnt. decodeVote ext gas data = (gd, None) \<and> ProcessVote ext s ctx caller data time = Inr (cnt, s', ctx') \<and>
       SstoreSetGas * 4 \<le> gd \<and> g = gd - SstoreSetGas * 4"
  by (auto simp: VoteTx_def chargeStores_result not_less split: prod.splits option.splits sum.splits if_splits)

lemma ApplyDposTransaction_out_of_gas:
  "decodeVote ext gas data = (gd, None) \<Longrightarrow> ProcessVote ext s ctx from data time = Inr (cnt, s1, ctx1) \<Longrightarrow>
     gd < SstoreSetGas * 4 \<Longrightarrow>
     ApplyDposTransaction ext time Vote from data gas s ctx = ((gd, Some ErrOutOfGas), s, ctx)"
  by (simp add: ApplyDposTransaction_def VoteTx_def chargeStores_result)

text \<open>
  C22. A storage contract created on chain and then proved pays each party
  its valid proof output out of the collateral locked at creation: for
  output values below \<open>2^256\<close> and 20-byte collateral addresses, after a
  successful \<open>CreateContractTx\<close> and a \<open>StorageProofTx\<close> whose check passes,
  the client's collateral address has gained its valid output less its
  collateral, the host's likewise, the contract account keeps the rest, and
  the contract's status entry is marked proofed. The payout goes to the
  collateral addresses read back from the contract's storage.
\<close>

theorem create_then_prove_pays:
  assumes dec: "decodeContract ext gas data = (g1, Inr sc)"
    and created: "CreateContractTx ext bn data gas s = ((g, None), s1)"
    and decp: "decodeProof ext gas' pdata = (g2, Inr (contractID ext sc))"
    and chk: "checkStorageProof ext g2 s1 pdata bn' (statusAddrOf ext (scWindowEnd sc))
                (contractAddrOf ext (contractID ext sc)) = (g3, None)"
    and vals: "\<forall>v\<in>set (take 2 (scValidProofOutputs sc)). 0 \<le> Value v \<and> Value v < 2 ^ 256"
    and addrs: "Address (scClientCollateral sc) < 2 ^ 160" "Address (scHostCollateral sc) < 2 ^ 160"
  defines "ca \<equiv> contractAddrOf ext (contractID ext sc)"
    and "cc \<equiv> scClientCollateral sc" and "hc \<equiv> scHostCollateral sc"
  shows "\<exists>s2 v0 v1 rest. StorageProofTx ext bn' pdata gas' s1 = ((g3, None), s2) \<and>
           scValidProofOutputs sc = v0 # v1 # rest \<and>
           (\<forall>a. balanceOf s2 a = balanceOf s a
              + (if a = Address cc then Value v0 - Value cc else 0)
              + (if a = Address hc then Value v1 - Value hc else 0)
              + (if a = ca then Value cc + Value hc - Value v0 - Value v1 else 0)) \<and>
           GetState s2 (statusAddrOf ext (scWindowEnd sc)) (KeyContract (contractID ext sc)) = SStatus True ca"
proof -
  note cr = CreateContractTx_success [OF dec created]
  obtain v0 v1 rest where outs: "scValidProofOutputs sc = v0 # v1 # rest"
    and g0: "GetState s1 ca KeyClientValidProofOutput = hashOfInt (Value v0)"
    and g1': "GetState s1 ca KeyHostValidProofOutput = hashOfInt (Value v1)"
    using cr(2) unfolding ca_def by blast
  have r0: "slotInt (GetState s1 ca KeyClientValidProofOutput) = Value v0"
    using g0 vals outs by (simp add: slotInt_hashOfInt)
  have r1: "slotInt (GetState s1 ca KeyHostValidProofOutput) = Value v1"
    using g1' vals outs by (simp add: slotInt_hashOfInt)
  have ra: "slotAddr (GetState s1 ca KeyClientAddress) = Address cc"
    "slotAddr (GetState s1 ca KeyHostAddress) = Address hc"
    "slotU64 (GetState s1 ca KeyWindowEnd) = scWindowEnd sc"
    using cr(3-5) addrs unfolding ca_def cc_def hc_def by simp_all
  have chk': "checkStorageProof ext g2 s1 pdata bn' (statusAddrOf ext (slotU64 (GetState s1 ca KeyWindowEnd))) ca = (g3, None)"
    using chk ra(3) by (simp add: ca_def)
  have ex: "Exist s1 ca" using cr(7) by (simp add: ca_def)
  note sp = StorageProofTx_run [OF decp ex [unfolded ca_def] chk' [unfolded ca_def], folded ca_def]
  obtain s2 where run: "StorageProofTx ext bn' pdata gas' s1 = ((g3, None), s2)"
    and bal: "\<forall>a. balanceOf s2 a = balanceOf s1 a
              + (if a = Address cc then Value v0 else 0) + (if a = Address hc then Value v1 else 0)
              - (if a = ca then Value v0 + Value v1 else 0)"
    and st: "GetState s2 (statusAddrOf ext (scWindowEnd sc)) (KeyContract (contractID ext sc)) = SStatus True ca"
    using sp unfolding r0 r1 ra by blast
  have "balanceOf s2 a = balanceOf s a
              + (if a = Address cc then Value v0 - Value cc else 0)
              + (if a = Address hc then Value v1 - Value hc else 0)
              + (if a = ca then Value cc + Value hc - Value v0 - Value v1 else 0)" for a
    using bal cr(1) [of a, folded ca_def cc_def hc_def]
    by (cases "a = Address cc"; cases "a = Address hc"; cases "a = ca") simp_all
  then show ?thesis using run outs st by blast
qed

theorem create_then_prove_pays_witness:
  "\<exists>s2 v0 v1 rest. StorageProofTx ex_chain 7 [] 1000 (snd (CreateContractTx ex_chain 5 [] 1000 ex_state)) =
       ((1000, None), s2) \<and> scValidProofOutputs ex_contract = v0 # v1 # rest \<and>
     (\<forall>a. balanceOf s2 a = balanceOf ex_state a + (if a = 1 then 12 - 10 else 0) + (if a = 2 then 18 - 20 else 0)
          + (if a = 100 then 10 + 20 - 12 - 18 else 0)) \<and>
     GetState s2 200 (KeyContract (Hash_Value 9)) = SStatus True 100"
proof -
  have c: "CreateContractTx ex_chain 5 [] 1000 ex_state = ((1000, None), snd (CreateContractTx ex_chain 5 [] 1000 ex_state))"
    by (simp add: CreateContractTx_def ex_chain_def ex_state_def ex_contract_def Let_def Exist_def state_simps
        setStates_def storeOutputs_def SetNonce_def CreateAccount_def)
  have d1: "decodeContract ex_chain 1000 [] = (1000, Inr ex_contract)" by (simp add: ex_chain_def)
  have d2: "decodeProof ex_chain 1000 [] = (1000, Inr (contractID ex_chain ex_contract))" by (simp add: ex_chain_def)
  have k: "checkStorageProof ex_chain 1000 (snd (CreateContractTx ex_chain 5 [] 1000 ex_state)) [] 7
             (statusAddrOf ex_chain (scWindowEnd ex_contract)) (contractAddrOf ex_chain (contractID ex_chain ex_contract))
           = (1000, None)" by (simp add: ex_chain_def)
  have v: "\<forall>v\<in>set (take 2 (scValidProofOutputs ex_contract)). 0 \<le> Value v \<and> Value v < 2 ^ 256"
    by (simp add: ex_contract_def)
  have a: "Address (scClientCollateral ex_contract) < 2 ^ 160" "Address (scHostCollateral ex_contract) < 2 ^ 160"
    by (simp_all add: ex_contract_def)
  have e: "contractAddrOf ex_chain (Hash_Value 9) = 100"
    "statusAddrOf ex_chain (scWindowEnd ex_contract) = 200" "contractID ex_chain ex_contract = Hash_Value 9"
    "scClientCollateral ex_contract = \<lparr>Value = 10, Address = 1\<rparr>"
    "scHostCollateral ex_contract = \<lparr>Value = 20, Address = 2\<rparr>"
    "scValidProofOutputs ex_contract = [\<lparr>Value = 12, Address = 1\<rparr>, \<lparr>Value = 18, Address = 2\<rparr>]"
    by (simp_all add: ex_chain_def ex_contract_def)
  show ?thesis
    using create_then_prove_pays [OF d1 c d2 k v a, unfolded e, simplified] by (auto simp: e)
qed

end
