(* ===== verification/DposRpc.thy ===== *)
theory DposRpc
  imports Prelude
begin

text \<open>
  The DPoS RPC API of \<open>src/consensus/dpos/api.go\<close> (lines 20--86) and the
  consensus errors of \<open>src/consensus/dpos/errors.go\<close> (lines 12--75). The
  chain reader, the trie database and the DPoS context are external: the
  headers the reader answers, the tries it opens and what the context reads
  from them are the record \<open>RpcChain\<close>. An \<open>rpc.BlockNumber\<close> is a Go
  \<open>int64\<close>, passed by pointer (\<open>None\<close> is nil); \<open>uint64(number.Int64())\<close>
  is \<open>word_of_int\<close>. A nil header that is dereferenced panics.
\<close>

datatype consensus_error =
    errUnknownBlock | errMissingVanity | errMissingSignature | errInvalidMixDigest | errInvalidUncleHash
  | errInvalidDifficulty | ErrInvalidTimestamp | ErrWaitForPrevBlock | ErrMinedFutureBlock
  | ErrMismatchSignerAndValidator | ErrInvalidBlockValidator | ErrNilBlockHeader
  | errVoteZeroOrNegativeDeposit | errVoteZeroCandidates | errVoteTooManyCandidates
  | errCandidateInsufficientDeposit | errCandidateInvalidRewardRatio | errCandidateDecreasingDeposit
  | errInsufficientFrozenAssets | errInvalidMinedBlockTime
  | ErrTrie string | ErrLoad string | PanicNilHeader

record Header =
  hNumber :: int
  hEpochRoot :: digest
  hVoteRoot :: digest

record RpcChain =
  CurrentHeader :: "Header option"
  GetHeaderByNumber :: "u64 \<Rightarrow> Header option"
  NewEpochTrie :: "digest \<Rightarrow> string + address list"
  NewVoteTrie :: "digest \<Rightarrow> string + (address \<Rightarrow> string + address list)"
  confirmedBlockHeader :: "Header option"
  loadConfirmedBlockHeader :: "string + Header"

text \<open>\<open>rpc.LatestBlockNumber\<close>, and the error \<open>leveldb.ErrNotFound\<close>.\<close>

definition LatestBlockNumber :: int where "LatestBlockNumber = -1"

definition ErrNotFound :: string where "ErrNotFound = ''leveldb: not found''"

definition GetValidators :: "RpcChain \<Rightarrow> int option \<Rightarrow> consensus_error + address list" where
  "GetValidators chain number =
     (let header = (case number of
                      None \<Rightarrow> CurrentHeader chain
                    | Some n \<Rightarrow> if n = LatestBlockNumber then CurrentHeader chain
                                else GetHeaderByNumber chain (word_of_int n))
      in case header of
           None \<Rightarrow> Inl errUnknownBlock
         | Some h \<Rightarrow>
             (case NewEpochTrie chain (hEpochRoot h) of
                Inl err \<Rightarrow> Inl (ErrTrie err)
              | Inr validators \<Rightarrow> Inr validators))"

definition GetConfirmedBlockNumber :: "RpcChain \<Rightarrow> consensus_error + int" where
  "GetConfirmedBlockNumber chain =
     (case confirmedBlockHeader chain of
        Some h \<Rightarrow> Inr (hNumber h)
      | None \<Rightarrow>
          (case loadConfirmedBlockHeader chain of
             Inl err \<Rightarrow> if err = ErrNotFound then Inr 0 else Inl (ErrLoad err)
           | Inr h \<Rightarrow> Inr (hNumber h)))"

definition GetVotedCandidatesByAddress :: "RpcChain \<Rightarrow> address \<Rightarrow> consensus_error + address list" where
  "GetVotedCandidatesByAddress chain delegator =
     (case CurrentHeader chain of
        None \<Rightarrow> Inl PanicNilHeader
      | Some currentHeader \<Rightarrow>
          (case NewVoteTrie chain (hVoteRoot currentHeader) of
             Inl err \<Rightarrow> Inl (ErrTrie err)
           | Inr votes \<Rightarrow>
               (case votes delegator of
                  Inl err \<Rightarrow> Inl (ErrTrie err)
                | Inr candidates \<Rightarrow> Inr candidates)))"

section \<open>Lemmas\<close>

text \<open>
  \<open>rpc.PendingBlockNumber\<close> (\<open>-2\<close>) is not treated as the latest block:
  it is converted to the block number \<open>2^64 - 2\<close>.
\<close>

lemma GetValidators_pending:
  "GetValidators chain (Some (-2)) =
     (case GetHeaderByNumber chain 18446744073709551614 of
        None \<Rightarrow> Inl errUnknownBlock
      | Some h \<Rightarrow> (case NewEpochTrie chain (hEpochRoot h) of Inl err \<Rightarrow> Inl (ErrTrie err) | Inr v \<Rightarrow> Inr v))"
proof -
  have m: "(- 2 :: u64) = 18446744073709551614" by simp
  show ?thesis by (simp add: GetValidators_def LatestBlockNumber_def m)
qed

lemma GetConfirmedBlockNumber_genesis:
  "confirmedBlockHeader chain = None \<Longrightarrow> loadConfirmedBlockHeader chain = Inl ErrNotFound \<Longrightarrow>
     GetConfirmedBlockNumber chain = Inr 0"
  by (simp add: GetConfirmedBlockNumber_def)

lemma GetVotedCandidatesByAddress_nil_header:
  "CurrentHeader chain = None \<Longrightarrow> GetVotedCandidatesByAddress chain d = Inl PanicNilHeader \<and>
     GetValidators chain None = Inl errUnknownBlock"
  by (simp add: GetVotedCandidatesByAddress_def GetValidators_def)

end
