(* ===== verification/DposTxApi.thy ===== *)
theory DposTxApi
  imports Prelude
begin

text \<open>
  The transaction API of \<open>src/unnamed/part_005\<close> (package \<open>ethapi\<close>): the
  storage-contract transactions (host announcement, contract creation,
  revision, storage proof) and the DPoS transactions (apply and cancel
  candidate, vote and cancel vote), all sent to a precompiled contract at a
  small address through \<open>sendPrecompiledContractTx\<close>; the DPoS ones are first
  checked against the chain state by \<open>CheckDposOperationTx\<close>. Addresses are
  natural numbers (\<open>common.BytesToAddress([]byte{n})\<close> is \<open>n\<close>, the empty
  address \<open>0\<close>), a state slot is the number its 32 bytes encode (the empty
  hash is \<open>0\<close>), and Go's \<open>big.Int.Int64()\<close> is \<open>word_of_int\<close> into a
  \<open>64 word\<close> read back with \<open>sint\<close>, wrapping as Go does. Pointer fields of
  the arguments are options, \<open>None\<close> being nil. The backend, the wallet and
  the state database are the fields of \<open>DposBackend\<close>, and what the code
  does to the outside (the address lock and the transactions sent) is
  returned as a trace of events.
\<close>

definition minDeposit :: int where
  "minDeposit = 10 ^ 18"

definition candidateThreshold :: int where
  "candidateThreshold = 10 ^ 18"

definition StorageContractTxGas :: u64 where
  "StorageContractTxGas = 90000"

definition DposTxGas :: u64 where
  "DposTxGas = 1000000"

datatype dpos_key = KeyVoteDeposit | KeyCandidateDeposit

record PrecompiledContractTxArgs =
  pFrom :: address
  pTo :: address
  pGas :: "u64 option"
  pValue :: "int option"
  pGasPrice :: "int option"
  pNonce :: "u64 option"
  pInput :: "byte list option"

text \<open>\<open>types.NewTransaction\<close>'s fields; the amount is a \<open>*big.Int\<close>, \<open>None\<close> when nil.\<close>

record Transaction =
  txNonce :: u64
  txTo :: address
  txAmount :: "int option"
  txGas :: u64
  txGasPrice :: int
  txData :: "byte list"

datatype api_event = LockAddr address | UnlockAddr address | SentTx Transaction sig

datatype tx_error =
    ErrStateAndHeader
  | ErrBalanceNotEnoughCandidateThreshold
  | ErrDepositValueNotSuitable
  | ErrCandidateDepositTooLow
  | ErrNotCandidate
  | ErrEmptyInput
  | ErrHasNotVote
  | ErrUnknownPrecompileContractAddress
  | ErrFindAccount
  | ErrSuggestPrice
  | ErrPoolNonce
  | ErrPrecompileTxWithoutTo
  | ErrSignTx
  | ErrSendTx
  | ErrSignByNode
  | ErrEncodeAnnouncement
  | PanicTxNilPointer

record StateDB =
  GetBalance :: "address \<Rightarrow> int"
  GetState :: "address \<Rightarrow> dpos_key \<Rightarrow> nat"

record DposBackend =
  StateAndHeaderByNumber :: "StateDB option"
  AccountFind :: "address \<Rightarrow> bool"
  SuggestPrice :: "int option"
  GetPoolNonce :: "address \<Rightarrow> u64 option"
  IsEIP155 :: bool
  ChainID :: int
  SignTx :: "address \<Rightarrow> Transaction \<Rightarrow> int option \<Rightarrow> sig option"
  SendTx :: "Transaction \<Rightarrow> sig \<Rightarrow> bool"
  SignedHash :: "Transaction \<Rightarrow> sig \<Rightarrow> digest"
  GetHostEnodeURL :: string
  AnnouncementHash :: "string \<Rightarrow> digest"
  SignByNode :: "digest \<Rightarrow> sig option"
  EncodeAnnouncement :: "string \<Rightarrow> sig \<Rightarrow> byte list option"

section \<open>Arguments and transactions\<close>

text \<open>\<open>big.Int.Int64()\<close>: the low 64 bits, with the sign applied, as an \<open>int64\<close>.\<close>

definition goInt64 :: "int \<Rightarrow> 64 word" where
  "goInt64 x = word_of_int x"

text \<open>
  \<open>NewPrecompiledContractTxArgs\<close>: a nil input or value is replaced by a
  pointer to the empty input or to zero; the gas is always set.
\<close>

definition NewPrecompiledContractTxArgs ::
  "address \<Rightarrow> address \<Rightarrow> byte list option \<Rightarrow> int option \<Rightarrow> u64 \<Rightarrow> PrecompiledContractTxArgs" where
  "NewPrecompiledContractTxArgs from to input value gas =
     \<lparr>pFrom = from, pTo = to, pGas = Some gas,
      pValue = Some (case value of None \<Rightarrow> 0 | Some v \<Rightarrow> v),
      pGasPrice = None, pNonce = None,
      pInput = Some (case input of None \<Rightarrow> [] | Some bs \<Rightarrow> bs)\<rparr>"

text \<open>
  \<open>NewPrecompiledContractTx\<close>: it fills in the gas price and the nonce and
  builds the transaction, passing \<open>nil\<close> as the amount; dereferencing a nil
  gas or input pointer panics.
\<close>

definition NewPrecompiledContractTx ::
  "DposBackend \<Rightarrow> PrecompiledContractTxArgs \<Rightarrow> tx_error + Transaction \<times> PrecompiledContractTxArgs" where
  "NewPrecompiledContractTx b args =
     (case SuggestPrice b of
        None \<Rightarrow> Inl ErrSuggestPrice
      | Some price \<Rightarrow>
          let args1 = args\<lparr>pGasPrice := Some price\<rparr>
          in case GetPoolNonce b (pFrom args1) of
               None \<Rightarrow> Inl ErrPoolNonce
             | Some nonce \<Rightarrow>
                 let args2 = args1\<lparr>pNonce := Some nonce\<rparr>
                 in if pTo args2 = 0 then Inl ErrPrecompileTxWithoutTo
                    else case (pGas args2, pInput args2) of
                      (Some gas, Some input) \<Rightarrow>
                        Inr (\<lparr>txNonce = nonce, txTo = pTo args2, txAmount = None, txGas = gas,
                              txGasPrice = price, txData = input\<rparr>, args2)
                    | _ \<Rightarrow> Inl PanicTxNilPointer)"

text \<open>
  \<open>sendPrecompiledContractTx\<close>: after the wallet of \<open>from\<close> is found, the
  address is locked until the function returns (the deferred
  \<open>UnlockAddr\<close>); the transaction is built, signed with the chain id when
  EIP-155 applies, and sent. The result is the signed transaction's hash.
\<close>

definition sendPrecompiledContractTx ::
  "DposBackend \<Rightarrow> PrecompiledContractTxArgs \<Rightarrow> (tx_error + digest) \<times> api_event list" where
  "sendPrecompiledContractTx b args =
     (let from = pFrom args
      in if \<not> AccountFind b from then (Inl ErrFindAccount, [])
         else
           let unlocked = (\<lambda>r evs. (r, LockAddr from # evs @ [UnlockAddr from]))
           in case NewPrecompiledContractTx b args of
                Inl e \<Rightarrow> unlocked (Inl e) []
              | Inr (tx, _) \<Rightarrow>
                  let chainID = (if IsEIP155 b then Some (ChainID b) else None)
                  in case SignTx b from tx chainID of
                       None \<Rightarrow> unlocked (Inl ErrSignTx) []
                     | Some sg \<Rightarrow>
                         if \<not> SendTx b tx sg then unlocked (Inl ErrSendTx) [SentTx tx sg]
                         else unlocked (Inr (SignedHash b tx sg)) [SentTx tx sg])"

section \<open>The DPoS check\<close>

text \<open>The deposit already held under a key, read as \<open>int64\<close>; an empty slot is \<open>0\<close>.\<close>

definition slotInt64 :: "StateDB \<Rightarrow> address \<Rightarrow> dpos_key \<Rightarrow> 64 word" where
  "slotInt64 st a k = (if GetState st a k = 0 then 0 else goInt64 (int (GetState st a k)))"

text \<open>
  The deposit test shared by apply-candidate and vote: the value must be
  positive and, as \<open>int64\<close>, at most the balance minus the other deposit,
  the subtraction wrapping in \<open>int64\<close>.
\<close>

definition deposit_suitable :: "int \<Rightarrow> int \<Rightarrow> 64 word \<Rightarrow> bool" where
  "deposit_suitable v balance other =
     (0 < v \<and> sint (goInt64 v) \<le> sint (goInt64 balance - other))"

definition CheckDposOperationTx :: "StateDB \<Rightarrow> PrecompiledContractTxArgs \<Rightarrow> tx_error + unit" where
  "CheckDposOperationTx st args =
     (let balance = GetBalance st (pFrom args)
      in if pTo args = 13 then
           (if balance < candidateThreshold then Inl ErrBalanceNotEnoughCandidateThreshold
            else case pValue args of
              None \<Rightarrow> Inl PanicTxNilPointer
            | Some v \<Rightarrow>
                if \<not> deposit_suitable v balance (slotInt64 st (pFrom args) KeyVoteDeposit)
                then Inl ErrDepositValueNotSuitable
                else if v < minDeposit then Inl ErrCandidateDepositTooLow
                else Inr ())
         else if pTo args = 14 then
           (if GetState st (pFrom args) KeyCandidateDeposit = 0 then Inl ErrNotCandidate else Inr ())
         else if pTo args = 15 then
           (if pInput args = None then Inl ErrEmptyInput
            else case pValue args of
              None \<Rightarrow> Inl PanicTxNilPointer
            | Some v \<Rightarrow>
                if \<not> deposit_suitable v balance (slotInt64 st (pFrom args) KeyCandidateDeposit)
                then Inl ErrDepositValueNotSuitable
                else Inr ())
         else if pTo args = 16 then
           (if GetState st (pFrom args) KeyVoteDeposit = 0 then Inl ErrHasNotVote else Inr ())
         else Inl ErrUnknownPrecompileContractAddress)"

section \<open>The senders\<close>

text \<open>
  The DPoS senders: the arguments for the contract at \<open>13\<close> to \<open>16\<close>, the
  latest state, the check, then the send; an error before the send sends
  nothing.
\<close>

definition SendApplyCandidateTx ::
  "DposBackend \<Rightarrow> address \<Rightarrow> byte list option \<Rightarrow> int option \<Rightarrow> (tx_error + digest) \<times> api_event list" where
  "SendApplyCandidateTx b from data value =
     (let args = NewPrecompiledContractTxArgs from 13 data value DposTxGas
      in case StateAndHeaderByNumber b of
           None \<Rightarrow> (Inl ErrStateAndHeader, [])
         | Some st \<Rightarrow>
             (case CheckDposOperationTx st args of
                Inl e \<Rightarrow> (Inl e, [])
              | Inr _ \<Rightarrow> sendPrecompiledContractTx b args))"

definition SendCancelCandidateTx ::
  "DposBackend \<Rightarrow> address \<Rightarrow> (tx_error + digest) \<times> api_event list" where
  "SendCancelCandidateTx b from =
     (let args = NewPrecompiledContractTxArgs from 14 None None DposTxGas
      in case StateAndHeaderByNumber b of
           None \<Rightarrow> (Inl ErrStateAndHeader, [])
         | Some st \<Rightarrow>
             (case CheckDposOperationTx st args of
                Inl e \<Rightarrow> (Inl e, [])
              | Inr _ \<Rightarrow> sendPrecompiledContractTx b args))"

definition SendVoteTx ::
  "DposBackend \<Rightarrow> address \<Rightarrow> byte list option \<Rightarrow> int option \<Rightarrow> (tx_error + digest) \<times> api_event list" where
  "SendVoteTx b from data value =
     (let args = NewPrecompiledContractTxArgs from 15 data value DposTxGas
      in case StateAndHeaderByNumber b of
           None \<Rightarrow> (Inl ErrStateAndHeader, [])
         | Some st \<Rightarrow>
             (case CheckDposOperationTx st args of
                Inl e \<Rightarrow> (Inl e, [])
              | Inr _ \<Rightarrow> sendPrecompiledContractTx b args))"

definition SendCancelVoteTx ::
  "DposBackend \<Rightarrow> address \<Rightarrow> (tx_error + digest) \<times> api_event list" where
  "SendCancelVoteTx b from =
     (let args = NewPrecompiledContractTxArgs from 16 None None DposTxGas
      in case StateAndHeaderByNumber b of
           None \<Rightarrow> (Inl ErrStateAndHeader, [])
         | Some st \<Rightarrow>
             (case CheckDposOperationTx st args of
                Inl e \<Rightarrow> (Inl e, [])
              | Inr _ \<Rightarrow> sendPrecompiledContractTx b args))"

text \<open>
  The storage-contract senders: no check; the host announcement carries the
  node's enode URL signed by the node, RLP-encoded.
\<close>

definition SendHostAnnounceTX ::
  "DposBackend \<Rightarrow> address \<Rightarrow> (tx_error + digest) \<times> api_event list" where
  "SendHostAnnounceTX b from =
     (let hostEnodeURL = GetHostEnodeURL b
      in case SignByNode b (AnnouncementHash b hostEnodeURL) of
           None \<Rightarrow> (Inl ErrSignByNode, [])
         | Some sign \<Rightarrow>
             (case EncodeAnnouncement b hostEnodeURL sign of
                None \<Rightarrow> (Inl ErrEncodeAnnouncement, [])
              | Some payload \<Rightarrow>
                  sendPrecompiledContractTx b
                    (NewPrecompiledContractTxArgs from 9 (Some payload) None StorageContractTxGas)))"

definition SendContractCreateTX ::
  "DposBackend \<Rightarrow> address \<Rightarrow> byte list option \<Rightarrow> (tx_error + digest) \<times> api_event list" where
  "SendContractCreateTX b from input =
     sendPrecompiledContractTx b (NewPrecompiledContractTxArgs from 10 input None StorageContractTxGas)"

definition SendContractRevisionTX ::
  "DposBackend \<Rightarrow> address \<Rightarrow> byte list option \<Rightarrow> (tx_error + digest) \<times> api_event list" where
  "SendContractRevisionTX b from input =
     sendPrecompiledContractTx b (NewPrecompiledContractTxArgs from 11 input None StorageContractTxGas)"

definition SendStorageProofTX ::
  "DposBackend \<Rightarrow> address \<Rightarrow> byte list option \<Rightarrow> (tx_error + digest) \<times> api_event list" where
  "SendStorageProofTX b from input =
     sendPrecompiledContractTx b (NewPrecompiledContractTxArgs from 12 input None StorageContractTxGas)"

section \<open>Reference definitions\<close>

text \<open>
  One checked sender for every DPoS operation, given the contract address,
  and the property of the arguments the constructor guarantees: no nil
  pointer among the fields the check and the send dereference.
\<close>

definition dposSend ::
  "DposBackend \<Rightarrow> address \<Rightarrow> address \<Rightarrow> byte list option \<Rightarrow> int option \<Rightarrow> (tx_error + digest) \<times> api_event list" where
  "dposSend b to from data value =
     (let args = NewPrecompiledContractTxArgs from to data value DposTxGas
      in case StateAndHeaderByNumber b of
           None \<Rightarrow> (Inl ErrStateAndHeader, [])
         | Some st \<Rightarrow>
             (case CheckDposOperationTx st args of
                Inl e \<Rightarrow> (Inl e, [])
              | Inr _ \<Rightarrow> sendPrecompiledContractTx b args))"

definition args_wf :: "PrecompiledContractTxArgs \<Rightarrow> bool" where
  "args_wf args = (pGas args \<noteq> None \<and> pValue args \<noteq> None \<and> pInput args \<noteq> None)"

definition no_amount :: "api_event \<Rightarrow> bool" where
  "no_amount e = (case e of SentTx tx _ \<Rightarrow> txAmount tx = None | _ \<Rightarrow> True)"

section \<open>Example inputs\<close>

text \<open>A chain state where every account holds 5 and no deposit.\<close>

definition ex_state :: StateDB where
  "ex_state = \<lparr>GetBalance = (\<lambda>a. 5), GetState = (\<lambda>a k. 0)\<rparr>"

section \<open>Lemmas\<close>

lemma args_wf_New [simp]: "args_wf (NewPrecompiledContractTxArgs from to input value gas)"
  by (simp add: args_wf_def NewPrecompiledContractTxArgs_def)

lemma NewPrecompiledContractTx_wf:
  "args_wf args \<Longrightarrow> NewPrecompiledContractTx b args \<noteq> Inl PanicTxNilPointer"
  by (auto simp: NewPrecompiledContractTx_def args_wf_def Let_def split: option.splits)

lemma NewPrecompiledContractTx_amount:
  "NewPrecompiledContractTx b args = Inr (tx, args') \<Longrightarrow> txAmount tx = None"
  by (auto simp: NewPrecompiledContractTx_def Let_def split: option.splits if_splits)

lemma CheckDposOperationTx_wf:
  "args_wf args \<Longrightarrow> CheckDposOperationTx st args \<noteq> Inl PanicTxNilPointer"
  by (auto simp: CheckDposOperationTx_def args_wf_def Let_def split: option.splits)

lemma sendPrecompiledContractTx_no_amount:
  "list_all no_amount (snd (sendPrecompiledContractTx b args))"
  by (auto simp: sendPrecompiledContractTx_def no_amount_def Let_def split: sum.split prod.split option.split
      dest: NewPrecompiledContractTx_amount)

lemma sendPrecompiledContractTx_wf:
  "args_wf args \<Longrightarrow> fst (sendPrecompiledContractTx b args) \<noteq> Inl PanicTxNilPointer"
  using NewPrecompiledContractTx_wf [of args b]
  by (auto simp: sendPrecompiledContractTx_def Let_def split: sum.split prod.split option.split)

lemma goInt64_shift: "goInt64 (v + 18446744073709551616) = goInt64 v"
  by (simp add: goInt64_def)

section \<open>Properties\<close>

text \<open>
  C36. The arguments \<open>NewPrecompiledContractTxArgs\<close> builds are well
  formed (gas, value and input set), so neither the DPoS check nor the send
  ever dereferences a nil pointer for them.
\<close>

theorem NewPrecompiledContractTxArgs_no_nil_panic:
  "args_wf (NewPrecompiledContractTxArgs from to input value gas) \<and>
   CheckDposOperationTx st (NewPrecompiledContractTxArgs from to input value gas) \<noteq> Inl PanicTxNilPointer \<and>
   fst (sendPrecompiledContractTx b (NewPrecompiledContractTxArgs from to input value gas)) \<noteq> Inl PanicTxNilPointer"
  by (simp add: CheckDposOperationTx_wf sendPrecompiledContractTx_wf)

text \<open>
  The four DPoS senders are one checked sender: each is
  \<open>dposSend\<close> at its contract address, the cancel operations with no data
  and no value.
\<close>

theorem dpos_senders_equiv:
  "SendApplyCandidateTx b from data value = dposSend b 13 from data value \<and>
   SendCancelCandidateTx b from = dposSend b 14 from None None \<and>
   SendVoteTx b from data value = dposSend b 15 from data value \<and>
   SendCancelVoteTx b from = dposSend b 16 from None None"
  by (simp add: SendApplyCandidateTx_def SendCancelCandidateTx_def SendVoteTx_def SendCancelVoteTx_def dposSend_def)

text \<open>
  C38. The vote check's \<open>ErrEmptyInput\<close> is unreachable for the arguments
  the API builds: a nil input becomes a pointer to the empty input, so a vote
  with no candidates passes that test and \<open>SendVoteTx\<close> never reports it.
\<close>

theorem vote_empty_input_unreachable:
  "CheckDposOperationTx st (NewPrecompiledContractTxArgs from 15 input value gas) \<noteq> Inl ErrEmptyInput \<and>
   fst (SendVoteTx b from data v) \<noteq> Inl ErrEmptyInput"
  by (auto simp: CheckDposOperationTx_def NewPrecompiledContractTxArgs_def SendVoteTx_def Let_def
      sendPrecompiledContractTx_def NewPrecompiledContractTx_def split: option.splits sum.splits prod.splits if_splits)

text \<open>
  C39. The deposit is never transferred: every transaction that
  \<open>SendApplyCandidateTx\<close> and \<open>SendVoteTx\<close> send has a nil amount, since
  \<open>NewPrecompiledContractTx\<close> passes \<open>nil\<close> to \<open>types.NewTransaction\<close>
  whatever \<open>args.Value\<close> is.
\<close>

theorem deposit_never_transferred:
  "list_all no_amount (snd (SendApplyCandidateTx b from data value)) \<and>
   list_all no_amount (snd (SendVoteTx b from data value))"
  by (auto simp: SendApplyCandidateTx_def SendVoteTx_def Let_def sendPrecompiledContractTx_no_amount
      split: option.split sum.split)

text \<open>
  C40. The vote check reads the value through \<open>Int64()\<close>, so it cannot
  tell a positive value from the same value plus \<open>2^64\<close>: a vote far above
  the balance passes when its low 64 bits fit.
\<close>

theorem vote_check_modulo_2_64:
  "0 < v \<Longrightarrow>
   CheckDposOperationTx st (NewPrecompiledContractTxArgs from 15 input (Some (v + 2 ^ 64)) gas) =
   CheckDposOperationTx st (NewPrecompiledContractTxArgs from 15 input (Some v) gas)"
  by (simp add: CheckDposOperationTx_def NewPrecompiledContractTxArgs_def deposit_suitable_def Let_def goInt64_shift)

theorem vote_check_modulo_2_64_witness:
  "GetBalance ex_state 1 < 3 + 2 ^ 64 \<and>
   CheckDposOperationTx ex_state (NewPrecompiledContractTxArgs 1 15 None (Some (3 + 2 ^ 64)) DposTxGas) = Inr ()"
proof -
  have "CheckDposOperationTx ex_state (NewPrecompiledContractTxArgs 1 15 None (Some 3) DposTxGas) = Inr ()"
    by (simp add: CheckDposOperationTx_def NewPrecompiledContractTxArgs_def deposit_suitable_def Let_def
        ex_state_def slotInt64_def goInt64_def)
  with vote_check_modulo_2_64 [of 3 ex_state 1 None DposTxGas] show ?thesis
    by (simp add: ex_state_def)
qed


end
