(* ===== verification/HostEvaluation.thy ===== *)
theory HostEvaluation
  imports ClientDownload
begin

text \<open>
  Host evaluation: the criteria of \<open>src/storage/storageclient/storagehosttree/evaluation.go\<close>
  and the adjustments the storage host manager computes for them
  (\<open>src/unnamed/part_000\<close>, package \<open>storagehostmanager\<close>, lines 1891--2105).
  The adjustments are \<open>float64\<close> computations. The model does not assume any
  rounding behaviour: a \<open>float64\<close> is a type variable \<open>'f\<close> and every
  floating-point operation the code performs is a field of the record
  \<open>FloatOps\<close> (a literal, a conversion from an integer, \<open>+\<close>, \<open>-\<close>, \<open>*\<close>,
  \<open>/\<close>, \<open><\<close>, \<open>==\<close>, \<open>math.Pow\<close>, \<open>math.Min\<close>, and the two conversions of
  \<open>common.BigInt\<close> from a float). The definitions apply these operations in the
  order the Go expressions evaluate them, so every result is the term the
  code computes. The integer parts are exact: \<open>common.BigInt\<close> is \<open>int\<close>, a
  \<open>uint64\<close> is \<open>u64\<close>, a \<open>time.Duration\<close> is a \<open>64 word\<close> read with \<open>sint\<close>
  (so \<open>+=\<close> wraps), and a \<open>time.Time\<close> is its instant in nanoseconds.
\<close>

record 'f FloatOps =
  fLit :: "int \<Rightarrow> nat \<Rightarrow> 'f"
  fOfInt :: "int \<Rightarrow> 'f"
  fAdd :: "'f \<Rightarrow> 'f \<Rightarrow> 'f"
  fSub :: "'f \<Rightarrow> 'f \<Rightarrow> 'f"
  fMul :: "'f \<Rightarrow> 'f \<Rightarrow> 'f"
  fDiv :: "'f \<Rightarrow> 'f \<Rightarrow> 'f"
  fLess :: "'f \<Rightarrow> 'f \<Rightarrow> bool"
  fEq :: "'f \<Rightarrow> 'f \<Rightarrow> bool"
  fPow :: "'f \<Rightarrow> 'f \<Rightarrow> 'f"
  fMin :: "'f \<Rightarrow> 'f \<Rightarrow> 'f"
  NewBigIntFloat64 :: "'f \<Rightarrow> int"
  MultFloat64 :: "int \<Rightarrow> 'f \<Rightarrow> int"

text \<open>
  \<open>fLit m e\<close> is the Go constant \<open>m * 10^-e\<close> converted to \<open>float64\<close>
  (\<open>0.25\<close> is \<open>fLit 25 2\<close>, \<open>1\<close> is \<open>fLit 1 0\<close>). The package constants of the
  host manager that are not in the sources are the record \<open>EvalConsts\<close>.
\<close>

record 'f EvalConsts =
  minStorage :: nat
  depositFloor :: 'f
  depositExponentialSmall :: 'f
  depositExponentialLarge :: 'f
  interactionExponentiation :: 'f

record HostPoolScan =
  Timestamp :: int
  Success :: bool

text \<open>
  \<open>storage.HostInfo\<close>: the evaluation fields extend the pricing fields of
  \<open>ClientDownload.HostInfo\<close> (the deposit is \<open>hiDeposit\<close>).
\<close>

record 'f HostEvalInfo = HostInfo +
  MaxDeposit :: int
  FirstSeen :: u64
  HistoricSuccessfulInteractions :: 'f
  HistoricFailedInteractions :: 'f
  RemainingStorage :: u64
  HistoricDowntime :: "64 word"
  HistoricUptime :: "64 word"
  ScanRecords :: "HostPoolScan list"

record 'f RentPayment =
  Payment :: int
  StorageHosts :: u64
  Period :: u64
  ExpectedStorage :: u64
  ExpectedUpload :: u64
  ExpectedDownload :: u64
  ExpectedRedundancy :: 'f

record 'f EvaluationCriteria =
  AgeAdjustment :: 'f
  BurnAdjustment :: 'f
  DepositAdjustment :: 'f
  InteractionAdjustment :: 'f
  PriceAdjustment :: 'f
  StorageRemainingAdjustment :: 'f
  UptimeAdjustment :: 'f

record 'f EvaluationDetail =
  edEvaluation :: int
  edConversionRate :: 'f
  edAgeAdjustment :: 'f
  edBurnAdjustment :: 'f
  edDepositAdjustment :: 'f
  edInteractionAdjustment :: 'f
  edPriceAdjustment :: 'f
  edStorageRemainingAdjustment :: 'f
  edUptimeAdjustment :: 'f

datatype eval_error = PanicDivisionByZero | PanicIndexOutOfRange

section \<open>\<open>common.BigInt\<close> division and \<open>time.Time.Sub\<close>\<close>

text \<open>
  \<open>BigInt.Div\<close> is \<open>big.Int.Div\<close>: Euclidean division (the remainder is never
  negative), a run-time panic on a zero divisor.
\<close>

definition euclidDiv :: "int \<Rightarrow> int \<Rightarrow> int" where
  "euclidDiv x y = (if 0 < y then x div y else - (x div (- y)))"

definition BigInt_Div :: "int \<Rightarrow> int \<Rightarrow> eval_error + int" where
  "BigInt_Div x y = (if y = 0 then Inl PanicDivisionByZero else Inr (euclidDiv x y))"

definition DivUint64 :: "int \<Rightarrow> u64 \<Rightarrow> eval_error + int" where
  "DivUint64 x y = BigInt_Div x (uint y)"

definition maxDuration :: "64 word" where "maxDuration = 0x7FFFFFFFFFFFFFFF"

definition minDuration :: "64 word" where "minDuration = 0x8000000000000000"

text \<open>\<open>t.Sub(u)\<close> saturates at the bounds of \<open>time.Duration\<close>.\<close>

definition timeSub :: "int \<Rightarrow> int \<Rightarrow> 64 word" where
  "timeSub t u = (if - 9223372036854775808 \<le> t - u \<and> t - u < 9223372036854775808 then word_of_int (t - u)
                  else if t < u then minDuration else maxDuration)"

section \<open>\<open>EvaluationCriteria\<close> (\<open>evaluation.go\<close>)\<close>

definition Evaluation :: "'f FloatOps \<Rightarrow> 'f EvaluationCriteria \<Rightarrow> int" where
  "Evaluation ops ec =
     (let total = fMul ops (fMul ops (fMul ops (fMul ops (fMul ops (fMul ops
                    (AgeAdjustment ec) (BurnAdjustment ec)) (DepositAdjustment ec)) (InteractionAdjustment ec))
                    (PriceAdjustment ec)) (StorageRemainingAdjustment ec)) (UptimeAdjustment ec)
      in MultFloat64 ops 1 total)"

definition conversionRate :: "'f FloatOps \<Rightarrow> int \<Rightarrow> int \<Rightarrow> eval_error + 'f" where
  "conversionRate ops eval evalAll =
     (let evalAll' = (if evalAll \<le> 0 then 1 else evalAll);
          eval' = eval * 50
      in case BigInt_Div eval' evalAll' of
           Inl e \<Rightarrow> Inl e
         | Inr q \<Rightarrow> Inr (fOfInt ops q))"

definition EvaluationDetail ::
  "'f FloatOps \<Rightarrow> 'f EvaluationCriteria \<Rightarrow> int \<Rightarrow> bool \<Rightarrow> bool \<Rightarrow> eval_error + 'f EvaluationDetail" where
  "EvaluationDetail ops ec0 evalAll ignoreAge ignoreUptime =
     (let ec1 = (if ignoreAge then ec0\<lparr>AgeAdjustment := fLit ops 1 0\<rparr> else ec0);
          ec = (if ignoreUptime then ec1\<lparr>UptimeAdjustment := fLit ops 1 0\<rparr> else ec1);
          eval = Evaluation ops ec
      in case conversionRate ops eval evalAll of
           Inl e \<Rightarrow> Inl e
         | Inr ratio \<Rightarrow>
             Inr \<lparr>edEvaluation = eval, edConversionRate = ratio,
                  edAgeAdjustment = AgeAdjustment ec, edBurnAdjustment = BurnAdjustment ec,
                  edDepositAdjustment = DepositAdjustment ec, edInteractionAdjustment = InteractionAdjustment ec,
                  edPriceAdjustment = PriceAdjustment ec,
                  edStorageRemainingAdjustment = StorageRemainingAdjustment ec,
                  edUptimeAdjustment = UptimeAdjustment ec\<rparr>)"

section \<open>The host manager's adjustments (\<open>part_000\<close>)\<close>

text \<open>
  \<open>ageAdjustment\<close>: a host first seen after the current block height keeps
  the full weight; otherwise each age threshold the host has not reached
  scales the weight down.
\<close>

definition ageAdjustment :: "'f FloatOps \<Rightarrow> u64 \<Rightarrow> ('f, 'z) HostEvalInfo_scheme \<Rightarrow> 'f" where
  "ageAdjustment ops height info =
     (let base = fLit ops 1 0
      in if FirstSeen info \<le> height then
           (let age = height - FirstSeen info;
                b1 = (if age < 12000 then fDiv ops (fMul ops base (fLit ops 2 0)) (fLit ops 3 0) else base);
                b2 = (if age < 6000 then fDiv ops b1 (fLit ops 2 0) else b1);
                b3 = (if age < 4000 then fDiv ops b2 (fLit ops 2 0) else b2);
                b4 = (if age < 2000 then fDiv ops b3 (fLit ops 2 0) else b3);
                b5 = (if age < 1000 then fDiv ops b4 (fLit ops 3 0) else b4);
                b6 = (if age < 576 then fDiv ops b5 (fLit ops 3 0) else b5);
                b7 = (if age < 288 then fDiv ops b6 (fLit ops 3 0) else b6);
                b8 = (if age < 144 then fDiv ops b7 (fLit ops 3 0) else b7)
            in b8)
         else base)"

text \<open>
  \<open>depositAdjustment\<close>: the rent's zero fields are replaced by one (the
  expected upload and download are normalised too but not read afterwards),
  the expected storage time of one contract bounds the deposit the host can
  offer, and the result weighs the cutoff and the ratio of deposit to
  cutoff. \<open>possibleDeposit\<close> divides by the expected storage time, which
  is zero when the expected storage per host truncates to zero.
\<close>

definition depositAdjustment ::
  "'f FloatOps \<Rightarrow> 'f EvalConsts \<Rightarrow> ('f, 'z) HostEvalInfo_scheme \<Rightarrow> 'f RentPayment \<Rightarrow> eval_error + 'f" where
  "depositAdjustment ops c info rent =
     (let hosts = (if StorageHosts rent = 0 then 1 else StorageHosts rent);
          period = (if Period rent = 0 then 1 else Period rent);
          storage = (if ExpectedStorage rent = 0 then 1 else ExpectedStorage rent);
          redundancy = (if fEq ops (ExpectedRedundancy rent) (fLit ops 0 0) then fLit ops 1 0
                        else ExpectedRedundancy rent)
      in case DivUint64 (Payment rent) hosts of
           Inl e \<Rightarrow> Inl e
         | Inr contractExpectedPayment \<Rightarrow>
            (let contractExpectedStorage =
                   fDiv ops (fMul ops (fOfInt ops (uint storage)) redundancy) (fOfInt ops (uint hosts));
                 contractExpectedStorageTime = NewBigIntFloat64 ops contractExpectedStorage * uint period;
                 hostDeposit0 = hiDeposit info * contractExpectedStorageTime
             in case BigInt_Div (MaxDeposit info) contractExpectedStorageTime of
                  Inl e \<Rightarrow> Inl e
                | Inr possibleDeposit \<Rightarrow>
                   (let hostDeposit1 = (if possibleDeposit < hostDeposit0 then possibleDeposit else hostDeposit0);
                        cutoff0 = MultFloat64 ops contractExpectedPayment (depositFloor c);
                        cutoff1 = (if hostDeposit1 < cutoff0 then hostDeposit1 else cutoff0);
                        hostDeposit = (if hostDeposit1 < 1 then 1 else hostDeposit1);
                        cutoff = (if cutoff1 < 1 then 1 else cutoff1)
                    in case BigInt_Div hostDeposit cutoff of
                         Inl e \<Rightarrow> Inl e
                       | Inr ratio \<Rightarrow>
                          (let smallWeight = fPow ops (fOfInt ops cutoff) (depositExponentialSmall c);
                               largeWeight = fPow ops (fOfInt ops ratio) (depositExponentialLarge c)
                           in Inr (fMul ops smallWeight largeWeight)))))"

definition interactionAdjustment :: "'f FloatOps \<Rightarrow> 'f EvalConsts \<Rightarrow> ('f, 'z) HostEvalInfo_scheme \<Rightarrow> 'f" where
  "interactionAdjustment ops c info =
     (let hs = fAdd ops (HistoricSuccessfulInteractions info) (fLit ops 30 0);
          hf = fAdd ops (HistoricFailedInteractions info) (fLit ops 1 0);
          ratio = fDiv ops hs (fAdd ops hs hf)
      in fPow ops ratio (interactionExponentiation c))"

definition storageRemainingAdjustment :: "'f FloatOps \<Rightarrow> 'f EvalConsts \<Rightarrow> ('f, 'z) HostEvalInfo_scheme \<Rightarrow> 'f" where
  "storageRemainingAdjustment ops c info =
     (let rs = unat (RemainingStorage info); m = minStorage c;
          half = (\<lambda>b. fDiv ops b (fLit ops 2 0));
          b0 = fLit ops 1 0;
          b1 = (if rs < 100 * m then half b0 else b0);
          b2 = (if rs < 80 * m then half b1 else b1);
          b3 = (if rs < 40 * m then half b2 else b2);
          b4 = (if rs < 20 * m then half b3 else b3);
          b5 = (if rs < 15 * m then half b4 else b4);
          b6 = (if rs < 10 * m then half b5 else b5);
          b7 = (if rs < 5 * m then half b6 else b6);
          b8 = (if rs < 3 * m then half b7 else b7);
          b9 = (if rs < 2 * m then half b8 else b8);
          b10 = (if rs < m then half b9 else b9)
      in b10)"

text \<open>
  The loop of \<open>uptimeEvaluation\<close> over \<open>ScanRecords[1:]\<close>: a record older than
  the latest one accepted is skipped with a warning; otherwise the interval
  since the latest accepted record is added to the uptime when that record was
  a success and to the downtime when it was not. The state is
  \<open>(recentScanTime, recentScanSuccess, uptime, downtime, warnings)\<close>.
\<close>

fun scanLoop :: "int \<Rightarrow> bool \<Rightarrow> 64 word \<Rightarrow> 64 word \<Rightarrow> nat \<Rightarrow> HostPoolScan list \<Rightarrow> 64 word \<times> 64 word \<times> nat" where
  "scanLoop t s up down w [] = (up, down, w)"
| "scanLoop t s up down w (r # rs) =
     (if Timestamp r < t then scanLoop t s up down (Suc w) rs
      else if s then scanLoop (Timestamp r) (Success r) (up + timeSub (Timestamp r) t) down w rs
      else scanLoop (Timestamp r) (Success r) up (down + timeSub (Timestamp r) t) w rs)"

definition uptimeEvaluation :: "'f FloatOps \<Rightarrow> ('f, 'z) HostEvalInfo_scheme \<Rightarrow> eval_error + 'f \<times> nat" where
  "uptimeEvaluation ops info =
     (case ScanRecords info of
        [] \<Rightarrow> Inl PanicIndexOutOfRange
      | r0 # rest \<Rightarrow>
         (let (uptime, downtime, w) = scanLoop (Timestamp r0) (Success r0) (HistoricUptime info) (HistoricDowntime info) 0 rest
          in if uptime = 0 \<and> downtime = 0 then Inr (fLit ops 1 3, w)
             else
              (let ratio0 = fDiv ops (fOfInt ops (sint uptime)) (fOfInt ops (sint (uptime + downtime)));
                   ratio1 = (if fLess ops (fLit ops 98 2) ratio0 then fLit ops 98 2 else ratio0);
                   ratio2 = fAdd ops ratio1 (fLit ops 2 2);
                   maxDowntime = fMul ops (fLit ops 3 2) (fOfInt ops (int (length (ScanRecords info))));
                   ratio = (if fLess ops ratio2 (fSub ops (fLit ops 1 0) maxDowntime)
                            then fSub ops (fLit ops 1 0) maxDowntime else ratio2);
                   ex = fMul ops (fLit ops 200 0) (fMin ops (fSub ops (fLit ops 1 0) ratio) (fLit ops 30 2))
               in Inr (fPow ops ratio ex, w))))"

definition uptimeAdjustment :: "'f FloatOps \<Rightarrow> ('f, 'z) HostEvalInfo_scheme \<Rightarrow> eval_error + 'f \<times> nat" where
  "uptimeAdjustment ops info =
     (case ScanRecords info of
        [] \<Rightarrow> Inr (fLit ops 25 2, 0)
      | [r0] \<Rightarrow> Inr (if Success r0 then fLit ops 75 2 else fLit ops 25 2, 0)
      | [r0, r1] \<Rightarrow> Inr (if Success r0 \<and> Success r1 then fLit ops 85 2
                       else if Success r0 \<or> Success r1 then fLit ops 50 2 else fLit ops 5 2, 0)
      | _ \<Rightarrow> uptimeEvaluation ops info)"

text \<open>
  \<open>calculateEvaluationFunc\<close>: the burn and price adjustments are fixed at one;
  a panic of an adjustment is the error of the whole evaluation, and the
  warnings \<open>uptimeEvaluation\<close> logs are returned beside the criteria.
\<close>

definition calculateEvaluationFunc ::
  "'f FloatOps \<Rightarrow> 'f EvalConsts \<Rightarrow> u64 \<Rightarrow> 'f RentPayment \<Rightarrow> ('f, 'z) HostEvalInfo_scheme \<Rightarrow>
     eval_error + 'f EvaluationCriteria \<times> nat" where
  "calculateEvaluationFunc ops c height rent info =
     (case depositAdjustment ops c info rent of
        Inl e \<Rightarrow> Inl e
      | Inr dep \<Rightarrow>
         (case uptimeAdjustment ops info of
            Inl e \<Rightarrow> Inl e
          | Inr (up, w) \<Rightarrow>
              Inr (\<lparr>AgeAdjustment = ageAdjustment ops height info, BurnAdjustment = fLit ops 1 0,
                    DepositAdjustment = dep, InteractionAdjustment = interactionAdjustment ops c info,
                    PriceAdjustment = fLit ops 1 0,
                    StorageRemainingAdjustment = storageRemainingAdjustment ops c info,
                    UptimeAdjustment = up\<rparr>, w)))"

section \<open>Reference definitions\<close>

text \<open>
  The age thresholds and their steps as a table, in the order the code tests them.
\<close>

definition ageSteps :: "'f FloatOps \<Rightarrow> (u64 \<times> ('f \<Rightarrow> 'f)) list" where
  "ageSteps ops =
     [(12000, \<lambda>b. fDiv ops (fMul ops b (fLit ops 2 0)) (fLit ops 3 0)),
      (6000, \<lambda>b. fDiv ops b (fLit ops 2 0)), (4000, \<lambda>b. fDiv ops b (fLit ops 2 0)),
      (2000, \<lambda>b. fDiv ops b (fLit ops 2 0)), (1000, \<lambda>b. fDiv ops b (fLit ops 3 0)),
      (576, \<lambda>b. fDiv ops b (fLit ops 3 0)), (288, \<lambda>b. fDiv ops b (fLit ops 3 0)),
      (144, \<lambda>b. fDiv ops b (fLit ops 3 0))]"

text \<open>
  The storage thresholds, in multiples of \<open>minStorage\<close>, and the number of them a host is below.
\<close>

definition remainingThresholds :: "nat list" where
  "remainingThresholds = [100, 80, 40, 20, 15, 10, 5, 3, 2, 1]"

definition remainingPenalty :: "nat \<Rightarrow> nat \<Rightarrow> nat" where
  "remainingPenalty m rs = length (filter (\<lambda>k. rs < k * m) remainingThresholds)"

text \<open>
  The scan records the loop of \<open>uptimeEvaluation\<close> accepts: each one at least as late
  as the last accepted.
\<close>

fun acceptChain :: "int \<Rightarrow> HostPoolScan list \<Rightarrow> HostPoolScan list" where
  "acceptChain t [] = []"
| "acceptChain t (r # rs) = (if Timestamp r < t then acceptChain t rs else r # acceptChain (Timestamp r) rs)"

text \<open>
  The uptime and downtime a sorted run of scans accounts for: the interval
  after a scan counts as up when that scan succeeded, as down otherwise.
\<close>

fun scanRef :: "int \<Rightarrow> bool \<Rightarrow> HostPoolScan list \<Rightarrow> int \<times> int" where
  "scanRef t s [] = (0, 0)"
| "scanRef t s (r # rs) =
     (let (u, d) = scanRef (Timestamp r) (Success r) rs
      in if s then (u + (Timestamp r - t), d) else (u, d + (Timestamp r - t)))"

text \<open>
  The divisor of \<open>possibleDeposit\<close> in \<open>depositAdjustment\<close>: the expected storage
  time of one contract, after the rent's zero fields are replaced by one.
\<close>

definition contractExpectedStorageTime :: "'f FloatOps \<Rightarrow> 'f RentPayment \<Rightarrow> int" where
  "contractExpectedStorageTime ops rent =
     (let hosts = (if StorageHosts rent = 0 then 1 else StorageHosts rent);
          period = (if Period rent = 0 then 1 else Period rent);
          storage = (if ExpectedStorage rent = 0 then 1 else ExpectedStorage rent);
          redundancy = (if fEq ops (ExpectedRedundancy rent) (fLit ops 0 0) then fLit ops 1 0
                        else ExpectedRedundancy rent)
      in NewBigIntFloat64 ops (fDiv ops (fMul ops (fOfInt ops (uint storage)) redundancy) (fOfInt ops (uint hosts)))
           * uint period)"

text \<open>
  A fixed-point stand-in for the float operations (thousandths), used by the
  examples; \<open>math.Pow\<close> is not computed by it.
\<close>

definition ex_fops :: "int FloatOps" where
  "ex_fops = \<lparr>fLit = (\<lambda>m e. m * 1000 div 10 ^ e), fOfInt = (\<lambda>x. x * 1000), fAdd = (+), fSub = (-),
              fMul = (\<lambda>a b. a * b div 1000), fDiv = (\<lambda>a b. if b = 0 then 0 else a * 1000 div b),
              fLess = (<), fEq = (=), fPow = (\<lambda>a b. a), fMin = min,
              NewBigIntFloat64 = (\<lambda>a. a div 1000), MultFloat64 = (\<lambda>x a. x * a div 1000)\<rparr>"

section \<open>Lemmas\<close>

text \<open>
  Guards with decreasing thresholds hold on a prefix of the table.
\<close>

lemma foldl_guarded_takeWhile:
  "sorted_wrt (>) (map fst xs) \<Longrightarrow>
   foldl (\<lambda>b (th, g). if (a :: 'a :: order) < th then g b else b) b xs = foldl (\<lambda>b (th, g). g b) b (takeWhile (\<lambda>(th, g). a < th) xs)"
proof (induction xs arbitrary: b)
  case Nil
  then show ?case by simp
next
  case (Cons x xs)
  obtain th g where x: "x = (th, g)" by (cases x)
  show ?case
  proof (cases "a < th")
    case True
    then show ?thesis using Cons.IH[of "g b"] Cons.prems by (simp add: x)
  next
    case False
    have lt: "\<forall>y\<in>set xs. fst y < th" using Cons.prems by (simp add: x)
    have "\<forall>y\<in>set xs. \<not> a < fst y" using lt False less_trans by blast
    then have "foldl (\<lambda>b (th, g). if a < th then g b else b) b xs = b"
      by (induction xs) auto
    then show ?thesis using False by (simp add: x)
  qed
qed

lemma ageAdjustment_fold:
  "ageAdjustment ops height info =
     (if FirstSeen info \<le> height
      then foldl (\<lambda>b (th, g). if height - FirstSeen info < th then g b else b) (fLit ops 1 0) (ageSteps ops)
      else fLit ops 1 0)"
  by (simp add: ageAdjustment_def ageSteps_def Let_def)

lemma ageSteps_sorted: "sorted_wrt (>) (map fst (ageSteps ops))"
  by (simp add: ageSteps_def)

text \<open>
  \<open>ageAdjustment\<close> applies exactly the steps of the thresholds the host's age is
  below, which are a prefix of the table; a host first seen after the current
  height, or older than 12000 blocks, keeps the weight one.
\<close>

theorem ageAdjustment_prefix:
  "ageAdjustment ops height info =
     (if FirstSeen info \<le> height
      then foldl (\<lambda>b (th, g). g b) (fLit ops 1 0) (takeWhile (\<lambda>(th, g). height - FirstSeen info < th) (ageSteps ops))
      else fLit ops 1 0)"
  unfolding ageAdjustment_fold by (simp add: foldl_guarded_takeWhile[OF ageSteps_sorted])

lemma foldl_guarded_funpow:
  "foldl (\<lambda>b k. if P k then h b else b) b ks = (h ^^ length (filter P ks)) b"
  by (induction ks arbitrary: b) (simp_all add: funpow_swap1)

lemma length_filter_mono_pred:
  "(\<And>x. x \<in> set xs \<Longrightarrow> P x \<Longrightarrow> Q x) \<Longrightarrow> length (filter P xs) \<le> length (filter Q xs)"
  by (induction xs) auto

lemma storageRemainingAdjustment_fold:
  "storageRemainingAdjustment ops c info =
     foldl (\<lambda>b k. if unat (RemainingStorage info) < k * minStorage c then fDiv ops b (fLit ops 2 0) else b)
       (fLit ops 1 0) remainingThresholds"
  by (simp add: storageRemainingAdjustment_def remainingThresholds_def Let_def)

text \<open>
  \<open>storageRemainingAdjustment\<close> halves the weight once per threshold the remaining
  storage is below: at most ten times, never for a host with at least
  \<open>100 * minStorage\<close>, and no more often for a host with more storage.
\<close>

theorem storageRemaining_halvings:
  "storageRemainingAdjustment ops c info =
     ((\<lambda>b. fDiv ops b (fLit ops 2 0)) ^^ remainingPenalty (minStorage c) (unat (RemainingStorage info))) (fLit ops 1 0) \<and>
   (unat (RemainingStorage info) \<le> rs' \<longrightarrow> remainingPenalty (minStorage c) rs' \<le> remainingPenalty (minStorage c) (unat (RemainingStorage info))) \<and>
   (remainingPenalty (minStorage c) (unat (RemainingStorage info)) = 0 \<longleftrightarrow> 100 * minStorage c \<le> unat (RemainingStorage info)) \<and>
   remainingPenalty (minStorage c) (unat (RemainingStorage info)) \<le> 10"
proof (intro conjI impI)
  show "storageRemainingAdjustment ops c info = ((\<lambda>b. fDiv ops b (fLit ops 2 0)) ^^ remainingPenalty (minStorage c) (unat (RemainingStorage info))) (fLit ops 1 0)"
    unfolding storageRemainingAdjustment_fold foldl_guarded_funpow remainingPenalty_def ..
  show "remainingPenalty (minStorage c) rs' \<le> remainingPenalty (minStorage c) (unat (RemainingStorage info))"
    if "unat (RemainingStorage info) \<le> rs'"
    unfolding remainingPenalty_def using that by (intro length_filter_mono_pred) simp
  show "(remainingPenalty (minStorage c) (unat (RemainingStorage info)) = 0) = (100 * minStorage c \<le> unat (RemainingStorage info))"
    by (auto simp: remainingPenalty_def remainingThresholds_def)
  show "remainingPenalty (minStorage c) (unat (RemainingStorage info)) \<le> 10"
    unfolding remainingPenalty_def remainingThresholds_def by (rule order.trans[OF length_filter_le]) simp
qed

lemma acceptChain_length: "length (acceptChain t rs) \<le> length rs"
  by (induction t rs rule: acceptChain.induct) auto

lemma acceptChain_sorted: "sorted (t # map Timestamp (acceptChain t rs))"
  by (induction t rs rule: acceptChain.induct) (auto simp: not_less intro: order_trans)

lemma scanLoop_acceptChain:
  "scanLoop t s up down w rs =
     (fst (scanLoop t s up down 0 (acceptChain t rs)), fst (snd (scanLoop t s up down 0 (acceptChain t rs))),
      w + (length rs - length (acceptChain t rs)))"
proof (induction t s up down w rs rule: scanLoop.induct)
  case (2 t s up down w r rs)
  then show ?case using acceptChain_length[of t rs] acceptChain_length[of "Timestamp r" rs]
    by (auto simp: Suc_diff_le)
qed simp

lemma scanLoop_no_skip:
  "sorted (t # map Timestamp rs) \<Longrightarrow> snd (snd (scanLoop t s up down w rs)) = w"
  by (induction t s up down w rs rule: scanLoop.induct) auto

lemma scanRef_telescope:
  "fst (scanRef t s rs) + snd (scanRef t s rs) = last (t # map Timestamp rs) - t"
  by (induction t s rs rule: scanRef.induct) (auto simp: Let_def split: prod.splits)

lemma sorted_last_ge: "sorted (x # xs) \<Longrightarrow> x \<le> last (x # xs)"
  by (induction xs arbitrary: x) (auto intro: order_trans)

lemma timeSub_exact: "u \<le> t \<Longrightarrow> t - u < 9223372036854775808 \<Longrightarrow> timeSub t u = word_of_int (t - u)"
  by (simp add: timeSub_def)

lemma scanLoop_sorted:
  "sorted (t # map Timestamp rs) \<Longrightarrow> last (t # map Timestamp rs) - t < 9223372036854775808 \<Longrightarrow>
   scanLoop t s up down w rs =
     (up + word_of_int (fst (scanRef t s rs)), down + word_of_int (snd (scanRef t s rs)), w)"
proof (induction rs arbitrary: t s up down)
  case Nil
  then show ?case by simp
next
  case (Cons r rs)
  have tr: "t \<le> Timestamp r" using Cons.prems(1) by simp
  have so: "sorted (Timestamp r # map Timestamp rs)" using Cons.prems(1) by simp
  have ge: "Timestamp r \<le> last (Timestamp r # map Timestamp rs)" using sorted_last_ge[OF so] .
  have lst: "last (t # map Timestamp (r # rs)) = last (Timestamp r # map Timestamp rs)" by simp
  have sub: "timeSub (Timestamp r) t = word_of_int (Timestamp r - t)"
    using tr ge Cons.prems(2) unfolding lst by (intro timeSub_exact) auto
  have bound: "last (Timestamp r # map Timestamp rs) - Timestamp r < 9223372036854775808"
    using tr Cons.prems(2) unfolding lst by simp
  note ih = Cons.IH[OF so bound]
  show ?case using tr by (simp add: sub ih Let_def split: prod.splits)
qed

text \<open>
  C3. The loop of \<open>uptimeEvaluation\<close> accepts exactly the scans of \<open>acceptChain\<close>,
  logs one warning for each scan it skips, and adds to the uptime and the
  downtime exactly the intervals \<open>scanRef\<close> assigns them; together these
  intervals span the time from the first scan to the last accepted one, so,
  while that span fits a \<open>time.Duration\<close>, no interval is lost or counted
  twice and the 64-bit sums are exact up to wrap-around.
\<close>

theorem scanLoop_accounts:
  assumes "last (t # map Timestamp (acceptChain t rs)) - t < 9223372036854775808"
  shows "scanLoop t s up down w rs =
           (up + word_of_int (fst (scanRef t s (acceptChain t rs))),
            down + word_of_int (snd (scanRef t s (acceptChain t rs))),
            w + (length rs - length (acceptChain t rs))) \<and>
         fst (scanRef t s (acceptChain t rs)) + snd (scanRef t s (acceptChain t rs)) =
           last (t # map Timestamp (acceptChain t rs)) - t"
  using scanLoop_acceptChain[of t s up down w rs] scanLoop_sorted[OF acceptChain_sorted assms, of s up down 0]
    scanRef_telescope[of t s "acceptChain t rs"]
  by simp

theorem scanLoop_accounts_witness:
  "last (0 # map Timestamp (acceptChain 0 [\<lparr>Timestamp = 5, Success = False\<rparr>, \<lparr>Timestamp = 3, Success = False\<rparr>, \<lparr>Timestamp = 9, Success = False\<rparr>])) - 0
     < (9223372036854775808 :: int) \<and>
   scanLoop 0 True 0 0 0 [\<lparr>Timestamp = 5, Success = False\<rparr>, \<lparr>Timestamp = 3, Success = False\<rparr>, \<lparr>Timestamp = 9, Success = False\<rparr>]
     = (5, 4, 1)"
  using scanLoop_accounts[of 0 "[\<lparr>Timestamp = 5, Success = False\<rparr>, \<lparr>Timestamp = 3, Success = False\<rparr>, \<lparr>Timestamp = 9, Success = False\<rparr>]" True 0 0 0]
  by (simp add: timeSub_def)

lemma uptimeEvaluation_panics_iff:
  "(\<exists>e. uptimeEvaluation ops info = Inl e) \<longleftrightarrow> ScanRecords info = []"
  by (auto simp: uptimeEvaluation_def Let_def split: list.splits prod.splits)

lemma uptimeAdjustment_Inr: "\<exists>v w. uptimeAdjustment ops info = Inr (v, w)"
  by (auto simp: uptimeAdjustment_def uptimeEvaluation_def Let_def split: list.splits prod.splits)

lemma uint_nonzero_default [simp]: "uint (if x = 0 then 1 else (x :: u64)) = 0 \<longleftrightarrow> False"
  by (simp add: unsigned_eq_0_iff)

lemma int_at_least_one [simp]: "(if a < 1 then 1 else (a :: int)) = 0 \<longleftrightarrow> False"
  by simp

lemma depositAdjustment_panics_iff:
  "(\<exists>e. depositAdjustment ops c info rent = Inl e) \<longleftrightarrow> contractExpectedStorageTime ops rent = 0"
proof (cases "contractExpectedStorageTime ops rent = 0")
  case True
  then show ?thesis
    by (simp add: depositAdjustment_def contractExpectedStorageTime_def DivUint64_def BigInt_Div_def Let_def split del: if_split)
next
  case False
  then show ?thesis
    by (simp add: depositAdjustment_def contractExpectedStorageTime_def DivUint64_def BigInt_Div_def Let_def split del: if_split)
qed

text \<open>
  The evaluation function panics exactly when the expected storage time of a
  contract is zero: the uptime adjustment never fails, and the only division
  that can fail is the one of \<open>possibleDeposit\<close>.
\<close>

theorem calculateEvaluationFunc_panics_iff:
  "(\<exists>e. calculateEvaluationFunc ops c height rent info = Inl e) \<longleftrightarrow> contractExpectedStorageTime ops rent = 0"
proof -
  obtain v w where up: "uptimeAdjustment ops info = Inr (v, w)" using uptimeAdjustment_Inr[of ops info] by blast
  have "(\<exists>e. calculateEvaluationFunc ops c height rent info = Inl e) \<longleftrightarrow> (\<exists>e. depositAdjustment ops c info rent = Inl e)"
    by (simp add: calculateEvaluationFunc_def up split: sum.splits)
  then show ?thesis using depositAdjustment_panics_iff by blast
qed

text \<open>
  With expected storage zero (taken as one byte) spread over 50 hosts the
  expected storage time truncates to zero and the evaluation panics.
\<close>

lemma deposit_panics_small_storage:
  "\<exists>e. calculateEvaluationFunc ex_fops c h
         \<lparr>Payment = 1000, StorageHosts = 50, Period = 100, ExpectedStorage = 0, ExpectedUpload = 0,
          ExpectedDownload = 0, ExpectedRedundancy = 0\<rparr> info = Inl e"
  unfolding calculateEvaluationFunc_panics_iff
  by (simp add: contractExpectedStorageTime_def ex_fops_def)

text \<open>
  For \<open>0 \<le> eval \<le> evalAll\<close> the conversion rate is the float of an integer
  between 0 and 50.
\<close>

theorem conversionRate_bounds:
  assumes "0 \<le> eval" "eval \<le> evalAll"
  shows "\<exists>q. conversionRate ops eval evalAll = Inr (fOfInt ops q) \<and> q = (eval * 50) div evalAll \<and> 0 \<le> q \<and> q \<le> 50"
proof (cases "evalAll = 0")
  case True
  then show ?thesis using assms by (simp add: conversionRate_def BigInt_Div_def euclidDiv_def)
next
  case False
  then have pos: "0 < evalAll" using assms by simp
  have "eval * 50 div evalAll \<le> evalAll * 50 div evalAll"
    using assms pos by (intro zdiv_mono1) simp_all
  then show ?thesis using assms pos by (simp add: conversionRate_def BigInt_Div_def euclidDiv_def pos_imp_zdiv_nonneg_iff)
qed

theorem conversionRate_bounds_witness:
  "0 \<le> (3 :: int) \<and> 3 \<le> (7 :: int) \<and> conversionRate ex_fops 3 7 = Inr 21000"
  using conversionRate_bounds[of 3 7 ex_fops] by (auto simp: ex_fops_def)

text \<open>
  With both flags set, \<open>EvaluationDetail\<close> reports one for the age and uptime
  adjustments, evaluates with them, and never fails.
\<close>

lemma EvaluationDetail_ignored:
  "EvaluationDetail ops ec evalAll True True =
     (let ec' = ec\<lparr>AgeAdjustment := fLit ops 1 0, UptimeAdjustment := fLit ops 1 0\<rparr>
      in Inr \<lparr>edEvaluation = Evaluation ops ec',
              edConversionRate = fOfInt ops (Evaluation ops ec' * 50 div (if evalAll \<le> 0 then 1 else evalAll)),
              edAgeAdjustment = fLit ops 1 0, edBurnAdjustment = BurnAdjustment ec,
              edDepositAdjustment = DepositAdjustment ec, edInteractionAdjustment = InteractionAdjustment ec,
              edPriceAdjustment = PriceAdjustment ec, edStorageRemainingAdjustment = StorageRemainingAdjustment ec,
              edUptimeAdjustment = fLit ops 1 0\<rparr>)"
  by (simp add: EvaluationDetail_def conversionRate_def BigInt_Div_def euclidDiv_def Let_def)

end
