(* ===== verification/FsContractor.thy ===== *)
theory FsContractor
  imports Prelude "HOL-Library.Stream"
begin

text \<open>
  The contractors the file system uses for host health (\<open>src/unnamed/part_002\<close>,
  package \<open>filesystem\<close>): \<open>AlwaysSuccessContractor\<close>, \<open>alwaysFailContractor\<close>
  and the stateful \<open>randomContractor\<close>. An \<open>enode.ID\<close> is a \<open>nat\<close>, a
  \<open>storage.HostHealthInfoTable\<close> a map, and the set \<open>missed\<close> a set. A
  \<open>float32\<close> is a type variable of class \<open>ord\<close>: the code only compares the
  draws with the rates by \<open><\<close> and \<open>>=\<close>, which are the class's \<open><\<close> and
  \<open>\<le>\<close> with no law assumed between them (a NaN rate compares false both
  ways). The numbers \<open>rand.Float32\<close> returns after the call reseeds the
  generator are a stream, one per call. The call holds \<open>c.lock\<close> for its
  whole loop, so a call is one step on the contractor's state; \<open>once.Do\<close>
  is the flag \<open>rcInit\<close>.
\<close>

record HostHealthInfo =
  Offline :: bool
  GoodForRenew :: bool

type_synonym HostHealthInfoTable = "nat \<rightharpoonup> HostHealthInfo"

definition AlwaysSuccess_HostHealthMapByID :: "nat list \<Rightarrow> HostHealthInfoTable" where
  "AlwaysSuccess_HostHealthMapByID ids =
     foldl (\<lambda>table i. table(i \<mapsto> \<lparr>Offline = False, GoodForRenew = True\<rparr>)) Map.empty ids"

definition alwaysFail_HostHealthMapByID :: "nat list \<Rightarrow> HostHealthInfoTable" where
  "alwaysFail_HostHealthMapByID ids =
     foldl (\<lambda>table i. table(i \<mapsto> \<lparr>Offline = True, GoodForRenew = False\<rparr>)) Map.empty ids"

record 'f randomContractor =
  missRate :: 'f
  onlineRate :: 'f
  goodForRenewRate :: 'f
  missed :: "nat set"
  rcTable :: HostHealthInfoTable
  rcInit :: bool

text \<open>
  The loop over \<open>ids\<close>: the contractor, the table being returned and the
  remaining draws.
\<close>

fun rcLoop :: "('f::ord) randomContractor \<Rightarrow> HostHealthInfoTable \<Rightarrow> 'f stream \<Rightarrow> nat list \<Rightarrow>
                 'f randomContractor \<times> HostHealthInfoTable \<times> 'f stream" where
  "rcLoop c table nums [] = (c, table, nums)"
| "rcLoop c table nums (i # ids) =
     (if i \<in> missed c then rcLoop c table nums ids
      else case rcTable c i of
        Some info \<Rightarrow> rcLoop c (table(i \<mapsto> info)) nums ids
      | None \<Rightarrow>
          (let num = shd nums; nums1 = stl nums
           in if num < missRate c then rcLoop (c\<lparr>missed := insert i (missed c)\<rparr>) table nums1 ids
              else
               (let num2 = shd nums1; nums2 = stl nums1;
                    offline = onlineRate c \<le> num2;
                    num3 = shd nums2; nums3 = stl nums2;
                    goodForRenew = num3 < goodForRenewRate c;
                    info = \<lparr>Offline = offline, GoodForRenew = goodForRenew\<rparr>
                in rcLoop (c\<lparr>rcTable := (rcTable c)(i \<mapsto> info)\<rparr>) (table(i \<mapsto> info)) nums3 ids)))"

definition random_HostHealthMapByID ::
  "('f::ord) randomContractor \<Rightarrow> 'f stream \<Rightarrow> nat list \<Rightarrow> 'f randomContractor \<times> HostHealthInfoTable" where
  "random_HostHealthMapByID c0 nums ids =
     (let c = (if rcInit c0 then c0 else c0\<lparr>rcTable := Map.empty, missed := {}, rcInit := True\<rparr>);
          (c', table, _) = rcLoop c Map.empty nums ids
      in (c', table))"

section \<open>Invariant and answers\<close>

text \<open>
  The contractor's invariant: no host is both missed and in the table. The
  answer a contractor gives for a host is nothing once the host is missed and
  its table entry otherwise.
\<close>

definition rc_inv :: "'f randomContractor \<Rightarrow> bool" where
  "rc_inv c = (missed c \<inter> dom (rcTable c) = {})"

definition rc_answer :: "'f randomContractor \<Rightarrow> nat \<Rightarrow> HostHealthInfo option" where
  "rc_answer c i = (if i \<in> missed c then None else rcTable c i)"

definition ex_rc :: "nat randomContractor" where
  "ex_rc = \<lparr>missRate = 3, onlineRate = 5, goodForRenewRate = 5, missed = {}, rcTable = Map.empty, rcInit = False\<rparr>"

definition ex_draws :: "nat stream" where
  "ex_draws = [7, 6, 2, 1] @- sconst 9"

section \<open>Lemmas\<close>

lemma map_le_SomeD: "m1 \<subseteq>\<^sub>m m2 \<Longrightarrow> m1 x = Some v \<Longrightarrow> m2 x = Some v"
  by (metis domI map_le_def)

lemma map_le_NoneD: "m1 \<subseteq>\<^sub>m m2 \<Longrightarrow> m2 x = None \<Longrightarrow> m1 x = None"
  by (cases "m1 x") (auto dest: map_le_SomeD)

lemma rcLoop_spec:
  "rcLoop c table nums ids = (c', table', nums') \<Longrightarrow> rc_inv c \<Longrightarrow> table \<subseteq>\<^sub>m rcTable c \<Longrightarrow>
   rc_inv c' \<and> table' \<subseteq>\<^sub>m rcTable c' \<and> missed c \<subseteq> missed c' \<and> rcTable c \<subseteq>\<^sub>m rcTable c' \<and>
   (\<forall>i\<in>set ids. table' i = rc_answer c' i \<and> (i \<in> missed c' \<or> i \<in> dom (rcTable c'))) \<and>
   (\<forall>i. i \<notin> set ids \<longrightarrow> table' i = table i)"
proof (induction c table nums ids arbitrary: c' table' nums' rule: rcLoop.induct)
  case (1 c table nums)
  then show ?case by simp
next
  case (2 c table nums i ids)
  show ?case
  proof (cases "i \<in> missed c")
    case True
    then have eq: "rcLoop c table nums ids = (c', table', nums')" using "2.prems"(1) by simp
    have none: "table i = None"
    proof (rule ccontr)
      assume "table i \<noteq> None"
      then have "i \<in> dom table" by (simp add: domIff)
      then have "i \<in> dom (rcTable c)" using "2.prems"(3) by (metis domD domI map_le_def)
      then show False using True "2.prems"(2) by (auto simp: rc_inv_def)
    qed
    show ?thesis using "2.IH"(1)[OF True eq "2.prems"(2,3)] True none
      by (cases "i \<in> set ids") (auto simp: rc_answer_def)
  next
    case False
    show ?thesis
    proof (cases "rcTable c i")
      case (Some info)
      then have eq: "rcLoop c (table(i \<mapsto> info)) nums ids = (c', table', nums')" using False "2.prems"(1) by simp
      have le: "table(i \<mapsto> info) \<subseteq>\<^sub>m rcTable c" using Some "2.prems"(3) by (auto simp: map_le_def)
      note ih = "2.IH"(4)[OF False Some eq "2.prems"(2) le]
      have c'i: "rcTable c' i = Some info" using ih Some by (metis domI map_le_def)
      have nm: "i \<notin> missed c'" using ih c'i unfolding rc_inv_def by blast
      show ?thesis using ih c'i nm
        by (cases "i \<in> set ids") (auto simp: rc_answer_def)
    next
      case None
      have ti: "table i = None" using None "2.prems"(3) by (rule map_le_NoneD[rotated])
      show ?thesis
      proof (cases "shd nums < missRate c")
        case True
        let ?c1 = "c\<lparr>missed := insert i (missed c)\<rparr>"
        have eq: "rcLoop ?c1 table (stl nums) ids = (c', table', nums')"
          using False None True "2.prems"(1) by simp
        have inv1: "rc_inv ?c1" using None "2.prems"(2) by (auto simp: rc_inv_def)
        have le1: "table \<subseteq>\<^sub>m rcTable ?c1" using "2.prems"(3) by simp
        note ih = "2.IH"(2)[OF False None refl refl True eq inv1 le1]
        show ?thesis using ih ti by (cases "i \<in> set ids") (auto simp: rc_answer_def)
      next
        case nmiss: False
        let ?info = "\<lparr>Offline = onlineRate c \<le> shd (stl nums), GoodForRenew = shd (stl (stl nums)) < goodForRenewRate c\<rparr>"
        let ?c1 = "c\<lparr>rcTable := (rcTable c)(i \<mapsto> ?info)\<rparr>"
        have eq: "rcLoop ?c1 (table(i \<mapsto> ?info)) (stl (stl (stl nums))) ids = (c', table', nums')"
          using False None nmiss "2.prems"(1) by (simp add: Let_def)
        have inv1: "rc_inv ?c1" using False "2.prems"(2) by (auto simp: rc_inv_def)
        have le1: "table(i \<mapsto> ?info) \<subseteq>\<^sub>m rcTable ?c1" using "2.prems"(3) by (auto simp: map_le_def)
        note ih = "2.IH"(3)[OF False None refl refl nmiss refl refl refl refl refl refl refl eq inv1 le1]
        have le': "rcTable ?c1 \<subseteq>\<^sub>m rcTable c'" using ih by blast
        have c'i: "rcTable c' i = Some ?info" by (rule map_le_SomeD[OF le']) simp
        have nm: "i \<notin> missed c'" using ih c'i unfolding rc_inv_def by blast
        have "rcTable c \<subseteq>\<^sub>m rcTable ?c1" using None by (auto simp: map_le_def)
        then have sub: "rcTable c \<subseteq>\<^sub>m rcTable c'" using le' by (rule map_le_trans)
        show ?thesis using ih c'i nm sub by (cases "i \<in> set ids") (auto simp: rc_answer_def)
      qed
    qed
  qed
qed

lemma rcLoop_init: "rcLoop c table nums ids = (c', table', nums') \<Longrightarrow> rcInit c' = rcInit c"
  by (induction c table nums ids arbitrary: c' table' nums' rule: rcLoop.induct)
     (auto simp: Let_def split: if_splits option.splits)

lemma random_HostHealthMapByID_spec:
  assumes "random_HostHealthMapByID c0 nums ids = (c1, t)" "rcInit c0 \<longrightarrow> rc_inv c0"
  shows "rc_inv c1 \<and> rcInit c1 \<and> (rcInit c0 \<longrightarrow> missed c0 \<subseteq> missed c1 \<and> rcTable c0 \<subseteq>\<^sub>m rcTable c1) \<and>
         (\<forall>i\<in>set ids. t i = rc_answer c1 i \<and> (i \<in> missed c1 \<or> i \<in> dom (rcTable c1)))"
proof -
  define c where "c = (if rcInit c0 then c0 else c0\<lparr>rcTable := Map.empty, missed := {}, rcInit := True\<rparr>)"
  obtain nums' where loop: "rcLoop c Map.empty nums ids = (c1, t, nums')"
    using assms(1) unfolding random_HostHealthMapByID_def c_def[symmetric] by (auto split: prod.splits)
  have inv: "rc_inv c" using assms(2) by (simp add: c_def rc_inv_def)
  have "rcInit c" by (simp add: c_def)
  then show ?thesis using rcLoop_spec[OF loop inv] rcLoop_init[OF loop] by (cases "rcInit c0") (simp_all add: c_def)
qed

text \<open>
  C11. The random contractor answers consistently across calls: whatever
  numbers the generator draws, a host asked for in two successive calls gets
  the same answer in both, because a missed host stays missed and a host in
  the table keeps its entry (the invariant that no host is both is kept by
  every call, starting from the zero contractor).
\<close>

theorem random_contractor_stable:
  assumes "random_HostHealthMapByID c0 nums1 ids1 = (c1, t1)" "random_HostHealthMapByID c1 nums2 ids2 = (c2, t2)"
    "rcInit c0 \<longrightarrow> rc_inv c0"
  shows "\<forall>i\<in>set ids1 \<inter> set ids2. t2 i = t1 i"
proof
  fix i assume i: "i \<in> set ids1 \<inter> set ids2"
  note s1 = random_HostHealthMapByID_spec[OF assms(1,3)]
  then have ok1: "rcInit c1 \<longrightarrow> rc_inv c1" by blast
  note s2 = random_HostHealthMapByID_spec[OF assms(2) ok1]
  show "t2 i = t1 i"
  proof (cases "i \<in> missed c1")
    case True
    then show ?thesis using s1 s2 i by (auto simp: rc_answer_def)
  next
    case False
    then obtain v where v: "rcTable c1 i = Some v" using s1 i by auto
    then have "rcTable c2 i = Some v" using s1 s2 by (auto intro: map_le_SomeD)
    moreover have "i \<notin> missed c2" using s2 calculation unfolding rc_inv_def by blast
    ultimately show ?thesis using s1 s2 i v False by (auto simp: rc_answer_def)
  qed
qed

theorem random_contractor_stable_witness:
  "snd (random_HostHealthMapByID (fst (random_HostHealthMapByID ex_rc ex_draws [1, 2])) ex_draws [2, 1]) 1 =
     snd (random_HostHealthMapByID ex_rc ex_draws [1, 2]) 1 \<and>
   snd (random_HostHealthMapByID (fst (random_HostHealthMapByID ex_rc ex_draws [1, 2])) ex_draws [2, 1]) 2 =
     snd (random_HostHealthMapByID ex_rc ex_draws [1, 2]) 2"
proof -
  have h: "rcInit ex_rc \<longrightarrow> rc_inv ex_rc" by (simp add: ex_rc_def)
  have "\<forall>i\<in>set [1, 2] \<inter> set [2, 1].
     snd (random_HostHealthMapByID (fst (random_HostHealthMapByID ex_rc ex_draws [1, 2])) ex_draws [2, 1]) i =
     snd (random_HostHealthMapByID ex_rc ex_draws [1, 2]) i"
    by (rule random_contractor_stable[OF prod.collapse[symmetric] prod.collapse[symmetric] h])
  then show ?thesis by simp
qed

lemma random_contractor_example:
  "snd (random_HostHealthMapByID ex_rc ex_draws [1, 2]) = [1 \<mapsto> \<lparr>Offline = True, GoodForRenew = True\<rparr>] \<and>
   missed (fst (random_HostHealthMapByID ex_rc ex_draws [1, 2])) = {2}"
  by (simp add: random_HostHealthMapByID_def ex_rc_def ex_draws_def Let_def)

lemma AlwaysSuccess_HostHealthMapByID_all:
  "AlwaysSuccess_HostHealthMapByID ids i = (if i \<in> set ids then Some \<lparr>Offline = False, GoodForRenew = True\<rparr> else None) \<and>
   alwaysFail_HostHealthMapByID ids i = (if i \<in> set ids then Some \<lparr>Offline = True, GoodForRenew = False\<rparr> else None)"
proof -
  have "\<And>m. foldl (\<lambda>table i. table(i \<mapsto> v)) m ids i = (if i \<in> set ids then Some v else m i)" for v :: HostHealthInfo
    by (induction ids) auto
  then show ?thesis by (simp add: AlwaysSuccess_HostHealthMapByID_def alwaysFail_HostHealthMapByID_def)
qed

end
