(* ===== verification/TrieExamples.thy ===== *)
theory TrieExamples
  imports Prelude "HOL-Library.List_Lexorder" "HOL-Library.Stream"
begin

text \<open>
  The examples of package \<open>trie\<close> that follow the lock registry in
  \<open>src/storage/storagehost/storageobligationslock.go\<close> (lines 60--389). The trie
  itself (\<open>Trie\<close>, \<open>Database\<close>, the iterators) is go-ethereum code outside the
  sources and is modelled from its interface: a trie holds a finite map from
  keys to non-empty values, kept as the association list sorted by key (the
  order its iterators visit), and since the trie is content-addressed its root
  is that list itself; the empty list is the empty root \<open>common.Hash{}\<close>.
  \<open>Commit\<close> stores the root in the database, \<open>New\<close> (\<open>trieNew\<close>) opens a stored root.
  Byte slices are \<open>byte list\<close>s, Go strings are converted byte for byte, the
  lines an example prints are a list of strings, and the bytes
  \<open>crypto/rand\<close> reads are a stream.
\<close>

type_synonym bytes = "byte list"
type_synonym trie = "(bytes \<times> bytes) list"
type_synonym tdb = "trie list"

datatype trie_error = MissingNodeError | PanicCountTooLarge | PanicNilTrie

definition bytesOf :: "string \<Rightarrow> bytes" where
  "bytesOf s = map of_char s"

definition strOf :: "bytes \<Rightarrow> string" where
  "strOf b = map (\<lambda>x. char_of (unat x)) b"

section \<open>The trie interface\<close>

fun tInsert :: "bytes \<Rightarrow> bytes \<Rightarrow> trie \<Rightarrow> trie" where
  "tInsert k v [] = [(k, v)]"
| "tInsert k v ((k', v') # t) =
     (if k < k' then (k, v) # (k', v') # t
      else if k = k' then (k, v) # t
      else (k', v') # tInsert k v t)"

definition tDelete :: "bytes \<Rightarrow> trie \<Rightarrow> trie" where
  "tDelete k t = filter (\<lambda>p. fst p \<noteq> k) t"

text \<open>\<open>TryUpdate\<close> with an empty value deletes the key; \<open>Update\<close> is the same.\<close>

definition TryUpdate :: "bytes \<Rightarrow> bytes \<Rightarrow> trie \<Rightarrow> trie" where
  "TryUpdate k v t = (if v = [] then tDelete k t else tInsert k v t)"

definition TryDelete :: "bytes \<Rightarrow> trie \<Rightarrow> trie" where
  "TryDelete k t = tDelete k t"

text \<open>
  \<open>TryGet\<close> of an absent key returns a nil value and no error; a trie held in
  memory never misses a node, so no call of the examples fails. \<open>Get\<close>
  drops the error.
\<close>

definition TryGet :: "bytes \<Rightarrow> trie \<Rightarrow> trie_error + bytes" where
  "TryGet k t = Inr (case map_of t k of None \<Rightarrow> [] | Some v \<Rightarrow> v)"

definition Get :: "bytes \<Rightarrow> trie \<Rightarrow> bytes" where
  "Get k t = (case TryGet k t of Inl _ \<Rightarrow> [] | Inr v \<Rightarrow> v)"

definition trieErrMsg :: "trie_error \<Rightarrow> string" where
  "trieErrMsg e = (case e of MissingNodeError \<Rightarrow> ''missing trie node'' | _ \<Rightarrow> ''panic'')"

text \<open>\<open>fmt\<close>'s decimal form of a natural number.\<close>

fun natStr :: "nat \<Rightarrow> string" where
  "natStr n = (if n < 10 then [char_of (48 + n)] else natStr (n div 10) @ [char_of (48 + n mod 10)])"

definition Commit :: "trie \<Rightarrow> tdb \<Rightarrow> trie \<times> tdb" where
  "Commit t db = (t, t # db)"

definition trieNew :: "trie \<Rightarrow> tdb \<Rightarrow> trie_error + trie" where
  "trieNew root db = (if root = [] \<or> root \<in> set db then Inr root else Inl MissingNodeError)"

text \<open>The leaves an iterator visits, and those a prefix iterator visits.\<close>

definition iterKeys :: "trie \<Rightarrow> bytes list" where
  "iterKeys t = map fst t"

definition prefixIterKeys :: "trie \<Rightarrow> bytes \<Rightarrow> bytes list" where
  "prefixIterKeys t p = filter (\<lambda>k. take (length p) k = p) (map fst t)"

section \<open>The examples\<close>

definition testData :: "(string \<times> string) list" where
  "testData = [(''do'', ''verb''), (''ether'', ''wookiedoo''), (''horse'', ''stallion''), (''shaman'', ''horse''),
               (''doge'', ''coin''), (''dog'', ''puppy''), (''somethingveryoddindeedthis is'', ''myothernodedata'')]"

definition newTrieWithData :: "(string \<times> string) list \<Rightarrow> trie" where
  "newTrieWithData data =
     (if data = [] then [] else foldl (\<lambda>t (k, v). TryUpdate (bytesOf k) (bytesOf v) t) [] data)"

definition ExampleTrie_InsertGet :: "string list" where
  "ExampleTrie_InsertGet =
     (let trie = TryUpdate (bytesOf ''does'') (bytesOf ''good'') (newTrieWithData testData);
          val = Get (bytesOf ''does'') trie
      in [''Inserted value: '' @ ''does'' @ '' -> '' @ strOf val])"

definition ExampleTrie_UpdateGet :: "string list" where
  "ExampleTrie_UpdateGet =
     (let trie = TryUpdate (bytesOf ''dog'') (bytesOf ''valueChanged'') (newTrieWithData testData);
          newVal = Get (bytesOf ''dog'') trie
      in [''Updated val: '' @ ''dog'' @ '' -> '' @ strOf newVal])"

definition ExampleTrie_Delete :: "string list" where
  "ExampleTrie_Delete =
     (let trie = TryDelete (bytesOf ''dog'') (newTrieWithData testData)
      in case TryGet (bytesOf ''dog'') trie of
           Inl err \<Rightarrow> [''TryGet returns an error: '' @ trieErrMsg err]
         | Inr val \<Rightarrow> [''After deletion, have key value pair: '' @ ''dog'' @ '' -> ['' @ strOf val @ ''].''])"

definition ExampleTrie_Commit :: "string list" where
  "ExampleTrie_Commit =
     (let trie1 = newTrieWithData testData;
          (hash, db1) = Commit trie1 []
      in case trieNew hash db1 of
           Inl err \<Rightarrow> [''New returns an error:, '' @ trieErrMsg err]
         | Inr trie2 \<Rightarrow>
            (let got = map (\<lambda>(k, v). ''The new trie got data: '' @ k @ '' -> '' @ strOf (Get (bytesOf k) trie2)) testData;
                 trie2' = TryUpdate (bytesOf ''doom'') (bytesOf ''catastrophe'') trie2;
                 (newHash, db2) = Commit trie2' db1;
                 differ = (if newHash \<noteq> hash then [''The new trie have a different hash from the original.''] else []);
                 val = Get (bytesOf ''doom'') trie1
             in got @ [[]] @ differ @ [''After change trie2, trie1 have key value: '' @ ''doom'' @ '' -> ['' @ strOf val @ ''].'']))"

text \<open>
  A \<open>New\<close> whose error the example ignores leaves a nil trie, and the next
  method call on it panics.
\<close>

definition openTrie :: "trie \<Rightarrow> tdb \<Rightarrow> trie_error + trie" where
  "openTrie root db = (case trieNew root db of Inl _ \<Rightarrow> Inl PanicNilTrie | Inr t \<Rightarrow> Inr t)"

definition tbind :: "trie_error + 'a \<Rightarrow> ('a \<Rightarrow> trie_error + 'b) \<Rightarrow> trie_error + 'b" where
  "tbind x f = (case x of Inl e \<Rightarrow> Inl e | Inr a \<Rightarrow> f a)"

definition ExampleTrie_ContentBasedStorage :: "trie_error + string list" where
  "ExampleTrie_ContentBasedStorage =
     (let key = bytesOf ''my key''; value1 = bytesOf ''value 1''; value2 = bytesOf ''value 2'';
          newValue2 = bytesOf ''value 3''; db0 = []
      in tbind (openTrie [] db0) (\<lambda>t1.
         let (root1, db1) = Commit (TryUpdate key value1 t1) db0
         in tbind (openTrie [] db1) (\<lambda>t2.
         let t2a = TryUpdate key value2 t2; (root2, db2) = Commit t2a db1
         in tbind (openTrie root1 db2) (\<lambda>r1.
            tbind (openTrie root2 db2) (\<lambda>r2.
         let out1 = [''recovered [value 1], got ['' @ strOf (Get key r1) @ '']'',
                     ''recovered [value 2], got ['' @ strOf (Get key r2) @ '']'', [], ''updating trie 2''];
             t2b = TryUpdate key newValue2 t2a; (newRoot2, db3) = Commit t2b db2
         in tbind (openTrie root1 db3) (\<lambda>r1'.
            tbind (openTrie newRoot2 db3) (\<lambda>r2'.
            Inr (out1 @ [''recovered [value 1], got ['' @ strOf (Get key r1') @ '']'',
                         ''recovered [value 2], got ['' @ strOf (Get key r2') @ '']'']))))))))"

text \<open>
  \<open>insertKeyValue\<close>: the loop \<open>for i := 0; i != count; i++\<close> runs \<open>count\<close>
  times for a count that is not negative; for a negative count the Go
  \<open>int\<close> counter wraps, so it runs \<open>2^64 + count\<close> times. The key of round
  \<open>j\<close> is \<open>byte(i)\<close>, the low byte of \<open>j\<close>.
\<close>

definition loopRounds :: "int \<Rightarrow> nat" where
  "loopRounds count = (if 0 \<le> count then nat count else nat (18446744073709551616 + count))"

definition insertKeyValue :: "int \<Rightarrow> trie \<Rightarrow> trie_error + trie" where
  "insertKeyValue count t =
     (if 256 < count then Inl PanicCountTooLarge
      else Inr (foldl (\<lambda>t j. TryUpdate [of_nat j] [of_nat j] t) t [0..<loopRounds count]))"

definition ExampleTrieIterator_ContentBasedStorage :: "trie_error + string list" where
  "ExampleTrieIterator_ContentBasedStorage =
     tbind (openTrie [] []) (\<lambda>t1. tbind (insertKeyValue 100 t1) (\<lambda>t1'.
     tbind (openTrie [] []) (\<lambda>t2. tbind (insertKeyValue 200 t2) (\<lambda>t2'.
       Inr [''t1 have '' @ natStr (length (iterKeys t1')) @ '' entries.'']))))"

section \<open>The prefix iterator example\<close>

text \<open>
  \<open>records\<close> maps a prefix to the set of keys inserted under it. The keys of
  the example are 64 bytes, the prefixes 32. The order in which
  \<open>range expect\<close> visits the prefixes is chosen by the Go runtime: it is the
  parameter \<open>order\<close>.
\<close>

type_synonym records = "bytes \<rightharpoonup> bytes set"

primrec makeRandomPrefixes :: "nat \<Rightarrow> byte stream \<Rightarrow> bytes list \<times> byte stream" where
  "makeRandomPrefixes 0 rnd = ([], rnd)"
| "makeRandomPrefixes (Suc n) rnd =
     (let prefix = stake 32 rnd; (ps, rnd') = makeRandomPrefixes n (sdrop 32 rnd) in (prefix # ps, rnd'))"

definition makeTestKeyWithPrefix :: "bytes \<Rightarrow> byte stream \<Rightarrow> bytes \<times> byte stream" where
  "makeTestKeyWithPrefix prefix rnd = (prefix @ stake 32 rnd, sdrop 32 rnd)"

primrec insertKeysLoop :: "bytes \<Rightarrow> nat \<Rightarrow> trie \<Rightarrow> bytes set \<Rightarrow> byte stream \<Rightarrow> trie \<times> bytes set \<times> byte stream" where
  "insertKeysLoop prefix 0 t E rnd = (t, E, rnd)"
| "insertKeysLoop prefix (Suc n) t E rnd =
     (let (keyAndValue, rnd') = makeTestKeyWithPrefix prefix rnd
      in insertKeysLoop prefix n (TryUpdate keyAndValue keyAndValue t) (insert keyAndValue E) rnd')"

definition insertKeyValueWithPrefix :: "trie \<Rightarrow> bytes \<Rightarrow> nat \<Rightarrow> records \<Rightarrow> byte stream \<Rightarrow> trie \<times> records \<times> byte stream" where
  "insertKeyValueWithPrefix t prefix count expect rnd =
     (let E0 = (case expect prefix of None \<Rightarrow> {} | Some E \<Rightarrow> E);
          (t', E', rnd') = insertKeysLoop prefix count t E0 rnd
      in (t', expect(prefix \<mapsto> E'), rnd'))"

fun insertKeyValueWithPrefixes :: "trie \<Rightarrow> bytes list \<Rightarrow> nat \<Rightarrow> records \<Rightarrow> byte stream \<Rightarrow> trie \<times> records \<times> byte stream" where
  "insertKeyValueWithPrefixes t [] n expect rnd = (t, expect, rnd)"
| "insertKeyValueWithPrefixes t (p # ps) n expect rnd =
     (let (t', expect', rnd') = insertKeyValueWithPrefix t p n expect rnd
      in insertKeyValueWithPrefixes t' ps n expect' rnd')"

definition makePrefixTestTrie :: "tdb \<Rightarrow> bytes list \<Rightarrow> nat \<Rightarrow> byte stream \<Rightarrow> trie_error + trie \<times> records \<times> tdb \<times> byte stream" where
  "makePrefixTestTrie db prefixes numPerPrefix rnd =
     tbind (trieNew [] db) (\<lambda>t.
       let (t', expect, rnd') = insertKeyValueWithPrefixes t prefixes numPerPrefix Map.empty rnd;
           (root, db') = Commit t' db
       in Inr (root, expect, db', rnd'))"

definition byteToTestKey :: "bytes \<Rightarrow> bytes" where
  "byteToTestKey b = (if 64 \<le> length b then take 64 b else b @ replicate (64 - length b) 0)"

text \<open>The inner loop of \<open>checkTriePrefixIterator\<close> over the keys of one prefix.\<close>

fun checkEntries :: "bytes list \<Rightarrow> bytes set \<Rightarrow> string + bytes set" where
  "checkEntries [] E = Inr E"
| "checkEntries (key # keys) E =
     (if byteToTestKey key \<notin> E then Inl ''key not expected''
      else checkEntries keys (E - {byteToTestKey key}))"

fun checkPrefixes :: "trie \<Rightarrow> records \<Rightarrow> bytes list \<Rightarrow> string option" where
  "checkPrefixes t expect [] = None"
| "checkPrefixes t expect (p # ps) =
     (let entries = (case expect p of None \<Rightarrow> {} | Some E \<Rightarrow> E)
      in case checkEntries (prefixIterKeys t p) entries of
           Inl err \<Rightarrow> Some err
         | Inr E' \<Rightarrow> if E' \<noteq> {} then Some ''entries not enough'' else checkPrefixes t (expect(p \<mapsto> E')) ps)"

definition checkTriePrefixIterator :: "trie \<Rightarrow> tdb \<Rightarrow> records \<Rightarrow> (records \<Rightarrow> bytes list) \<Rightarrow> string option" where
  "checkTriePrefixIterator root db expect order =
     (case trieNew root db of Inl err \<Rightarrow> Some (trieErrMsg err) | Inr t \<Rightarrow> checkPrefixes t expect (order expect))"

definition ExampleTriePrefixIterator_ContentBasedStorage :: "byte stream \<Rightarrow> (records \<Rightarrow> bytes list) \<Rightarrow> string list" where
  "ExampleTriePrefixIterator_ContentBasedStorage rnd order =
     (let numPrefix = 100; numKeys = 10;
          (prefixes, rnd1) = makeRandomPrefixes numPrefix rnd
      in case makePrefixTestTrie [] prefixes numKeys rnd1 of
           Inl err \<Rightarrow> [trieErrMsg err]
         | Inr (r1, expect1, db1, rnd2) \<Rightarrow>
          (case makePrefixTestTrie db1 prefixes numKeys rnd2 of
             Inl err \<Rightarrow> [trieErrMsg err]
           | Inr (r2, expect2, db2, rnd3) \<Rightarrow>
              (case checkTriePrefixIterator r1 db2 expect1 order of
                 Some err \<Rightarrow> [err]
               | None \<Rightarrow>
                  (case checkTriePrefixIterator r2 db2 expect2 order of
                     Some err \<Rightarrow> [err]
                   | None \<Rightarrow> []))))"


section \<open>Invariant of the prefix example\<close>

text \<open>
  A trie and the records of the prefix example agree: the trie's keys are
  sorted, they are exactly the recorded keys, every recorded prefix has 32
  bytes and every key recorded under a prefix has 64 bytes and starts with it.
\<close>

definition recs_ok :: "trie \<Rightarrow> records \<Rightarrow> bool" where
  "recs_ok t e = (sorted_wrt (<) (map fst t) \<and> set (map fst t) = \<Union> (ran e) \<and>
     (\<forall>p \<in> dom e. length p = 32) \<and> (\<forall>p E. e p = Some E \<longrightarrow> (\<forall>k\<in>E. length k = 64 \<and> take 32 k = p)))"

section \<open>Lemmas\<close>

lemma unat_of_char: "unat (of_char c :: byte) = of_char c"
proof -
  have "(of_char c :: byte) = of_nat (of_char c)" by (simp only: of_nat_of_char)
  then show ?thesis using nat_of_char_less_256[of c] by (simp add: unat_of_nat)
qed

text \<open>Converting a Go string to bytes and back is the identity.\<close>

lemma strOf_bytesOf: "strOf (bytesOf s) = s"
  by (induction s) (simp_all add: strOf_def bytesOf_def unat_of_char)

lemma char_of_nat_eq: "(n::nat) < 256 \<Longrightarrow> (char_of n = c) = (n = of_char c)"
  by (metis char_of_char mod_less of_char_of)
lemma ExampleTrie_InsertGet_output: "ExampleTrie_InsertGet = [''Inserted value: does -> good'']"
  by (simp add: ExampleTrie_InsertGet_def newTrieWithData_def testData_def TryUpdate_def Get_def TryGet_def bytesOf_def strOf_def char_of_nat_eq)
lemma ExampleTrie_UpdateGet_output: "ExampleTrie_UpdateGet = [''Updated val: dog -> valueChanged'']"
  by (simp add: ExampleTrie_UpdateGet_def newTrieWithData_def testData_def TryUpdate_def Get_def TryGet_def bytesOf_def strOf_def char_of_nat_eq)

lemma ExampleTrie_Delete_output: "ExampleTrie_Delete = [''After deletion, have key value pair: dog -> [].'']"
  by (simp add: ExampleTrie_Delete_def newTrieWithData_def testData_def TryUpdate_def TryDelete_def tDelete_def TryGet_def bytesOf_def strOf_def)
lemma ExampleTrie_Commit_output: "ExampleTrie_Commit = [''The new trie got data: do -> verb'', ''The new trie got data: ether -> wookiedoo'', ''The new trie got data: horse -> stallion'',
   ''The new trie got data: shaman -> horse'', ''The new trie got data: doge -> coin'', ''The new trie got data: dog -> puppy'',
   ''The new trie got data: somethingveryoddindeedthis is -> myothernodedata'', [],
   ''The new trie have a different hash from the original.'', ''After change trie2, trie1 have key value: doom -> [].'']"
  by (simp add: ExampleTrie_Commit_def newTrieWithData_def testData_def TryUpdate_def Get_def TryGet_def Commit_def trieNew_def bytesOf_def strOf_def char_of_nat_eq)
lemma ExampleTrie_ContentBasedStorage_output: "ExampleTrie_ContentBasedStorage = Inr [''recovered [value 1], got [value 1]'', ''recovered [value 2], got [value 2]'', [], ''updating trie 2'',
   ''recovered [value 1], got [value 1]'', ''recovered [value 2], got [value 3]'']"
  by (simp add: ExampleTrie_ContentBasedStorage_def tbind_def openTrie_def TryUpdate_def Get_def TryGet_def Commit_def trieNew_def bytesOf_def strOf_def char_of_nat_eq)
lemma tInsert_last: "(\<forall>p\<in>set t. fst p < k) \<Longrightarrow> tInsert k v t = t @ [(k, v)]"
  by (induction t) auto

lemma byte_key_less: "j < n \<Longrightarrow> n < 256 \<Longrightarrow> (of_nat j :: byte) < of_nat n"
  by (simp add: word_less_nat_alt unat_of_nat)

lemma insert_byte_keys:
  "n \<le> 256 \<Longrightarrow> foldl (\<lambda>t j. TryUpdate [of_nat j] [of_nat j] t) [] [0..<n] = map (\<lambda>j. ([of_nat j :: byte], [of_nat j])) [0..<n]"
proof (induction n)
  case 0
  then show ?case by simp
next
  case (Suc n)
  have "\<forall>p\<in>set (map (\<lambda>j. ([of_nat j :: byte], [of_nat j])) [0..<n]). fst p < [of_nat n]"
    using Suc.prems by (auto intro!: byte_key_less)
  then show ?case using Suc by (simp add: TryUpdate_def tInsert_last)
qed

lemma insertKeyValue_keys:
  "0 \<le> count \<Longrightarrow> count \<le> 256 \<Longrightarrow> insertKeyValue count [] = Inr (map (\<lambda>j. ([of_nat j], [of_nat j])) [0..<nat count])"
  by (simp add: insertKeyValue_def loopRounds_def insert_byte_keys)

lemma ExampleTrieIterator_output: "ExampleTrieIterator_ContentBasedStorage = Inr [''t1 have 100 entries.'']"
proof -
  have "insertKeyValue 100 [] = Inr (map (\<lambda>j. ([of_nat j], [of_nat j])) [0..<100])" using insertKeyValue_keys[of 100] by simp
  moreover have "insertKeyValue 200 [] = Inr (map (\<lambda>j. ([of_nat j], [of_nat j])) [0..<200])" using insertKeyValue_keys[of 200] by simp
  ultimately show ?thesis
    by (simp add: ExampleTrieIterator_ContentBasedStorage_def tbind_def openTrie_def trieNew_def iterKeys_def char_of_nat_eq)
qed

lemma tInsert_keys: "fst ` set (tInsert k v t) = insert k (fst ` set t)"
  by (induction k v t rule: tInsert.induct) auto

lemma tInsert_sorted: "sorted_wrt (<) (map fst t) \<Longrightarrow> sorted_wrt (<) (map fst (tInsert k v t))"
proof (induction t)
  case Nil
  then show ?case by simp
next
  case (Cons p t)
  obtain k' v' where p: "p = (k', v')" by (cases p)
  show ?case
  proof (cases "k < k'")
    case True
    then show ?thesis using Cons.prems by (auto simp: p intro: less_trans)
  next
    case False
    then show ?thesis
    proof (cases "k = k'")
      case True
      then show ?thesis using Cons.prems by (simp add: p)
    next
      case ne: False
      have lt: "k' < k" using False ne by simp
      have "\<forall>x\<in>fst ` set (tInsert k v t). k' < x" using Cons.prems lt by (simp add: tInsert_keys p)
      then show ?thesis using Cons False ne by (simp add: p)
    qed
  qed
qed

lemma insertKeysLoop_spec:
  "length prefix = 32 \<Longrightarrow> sorted_wrt (<) (map fst t) \<Longrightarrow> insertKeysLoop prefix n t E rnd = (t', E', rnd') \<Longrightarrow>
   sorted_wrt (<) (map fst t') \<and>
   (\<exists>A. set (map fst t') = set (map fst t) \<union> A \<and> E' = E \<union> A \<and> (\<forall>k\<in>A. length k = 64 \<and> take 32 k = prefix))"
proof (induction n arbitrary: t E rnd)
  case 0
  then show ?case by auto
next
  case (Suc n)
  define k where "k = prefix @ stake 32 rnd"
  have k: "length k = 64" "take 32 k = prefix" using Suc.prems(1) by (simp_all add: k_def)
  have ne: "k \<noteq> []" using k(1) by auto
  have loop: "insertKeysLoop prefix n (tInsert k k t) (insert k E) (sdrop 32 rnd) = (t', E', rnd')"
    using Suc.prems(3) ne by (simp add: makeTestKeyWithPrefix_def TryUpdate_def k_def)
  have ih: "sorted_wrt (<) (map fst t') \<and>
    (\<exists>A. set (map fst t') = set (map fst (tInsert k k t)) \<union> A \<and> E' = insert k E \<union> A \<and>
      (\<forall>k\<in>A. length k = 64 \<and> take 32 k = prefix))"
    by (rule Suc.IH[OF Suc.prems(1) tInsert_sorted[OF Suc.prems(2)] loop])
  then obtain A where A: "sorted_wrt (<) (map fst t')" "set (map fst t') = set (map fst (tInsert k k t)) \<union> A"
      "E' = insert k E \<union> A" "\<forall>k\<in>A. length k = 64 \<and> take 32 k = prefix"
    by blast
  show ?case using A k by (intro conjI exI[of _ "insert k A"]) (auto simp: tInsert_keys)
qed

lemma Union_ran_upd:
  assumes "(case e p of None \<Rightarrow> {} | Some E \<Rightarrow> E) \<subseteq> X"
  shows "\<Union> (ran (e(p \<mapsto> X))) = \<Union> (ran e) \<union> X"
proof (rule set_eqI)
  fix x
  have upd: "(e(p \<mapsto> X)) p = Some X" by simp
  show "x \<in> \<Union> (ran (e(p \<mapsto> X))) \<longleftrightarrow> x \<in> \<Union> (ran e) \<union> X"
  proof
    assume "x \<in> \<Union> (ran (e(p \<mapsto> X)))"
    then obtain q Y where q: "(e(p \<mapsto> X)) q = Some Y" "x \<in> Y" by (auto simp: ran_def)
    then show "x \<in> \<Union> (ran e) \<union> X" by (cases "q = p") (auto simp: ran_def)
  next
    assume x: "x \<in> \<Union> (ran e) \<union> X"
    show "x \<in> \<Union> (ran (e(p \<mapsto> X)))"
    proof (cases "x \<in> X")
      case True
      then show ?thesis using upd unfolding ran_def by blast
    next
      case False
      then obtain q Y where q: "e q = Some Y" "x \<in> Y" using x by (auto simp: ran_def)
      have "q \<noteq> p" using q False assms by auto
      then have "(e(p \<mapsto> X)) q = Some Y" using q by simp
      then show ?thesis using q unfolding ran_def by blast
    qed
  qed
qed

lemma insertKeyValueWithPrefix_ok:
  assumes "recs_ok t e" "length p = 32" "insertKeyValueWithPrefix t p n e rnd = (t', e', rnd')"
  shows "recs_ok t' e'"
proof -
  define E0 where "E0 = (case e p of None \<Rightarrow> {} | Some E \<Rightarrow> E)"
  obtain E' where loop: "insertKeysLoop p n t E0 rnd = (t', E', rnd')" and e': "e' = e(p \<mapsto> E')"
    using assms(3) by (auto simp: insertKeyValueWithPrefix_def E0_def split: prod.splits)
  from insertKeysLoop_spec[OF assms(2) _ loop] assms(1) obtain A where
    A: "sorted_wrt (<) (map fst t')" "set (map fst t') = set (map fst t) \<union> A" "E' = E0 \<union> A"
       "\<forall>k\<in>A. length k = 64 \<and> take 32 k = p"
    unfolding recs_ok_def by blast
  have u: "\<Union> (ran e') = \<Union> (ran e) \<union> E'" unfolding e' using A(3) by (intro Union_ran_upd) (simp add: E0_def)
  have E0: "\<forall>k\<in>E0. length k = 64 \<and> take 32 k = p" using assms(1) by (auto simp: recs_ok_def E0_def split: option.splits)
  have "E0 \<subseteq> \<Union> (ran e)" by (auto simp: E0_def ran_def split: option.splits)
  then have keys: "set (map fst t') = \<Union> (ran e')" using assms(1) A(2,3) u unfolding recs_ok_def by auto
  have dom: "\<forall>q \<in> dom e'. length q = 32" using assms(1,2) unfolding recs_ok_def e' by auto
  have pre: "\<forall>q E. e' q = Some E \<longrightarrow> (\<forall>k\<in>E. length k = 64 \<and> take 32 k = q)"
    using assms(1) A(3,4) E0 unfolding recs_ok_def e' by auto
  show ?thesis using A(1) keys dom pre unfolding recs_ok_def by blast
qed


lemma insertKeyValueWithPrefixes_ok:
  "recs_ok t e \<Longrightarrow> (\<forall>p\<in>set ps. length p = 32) \<Longrightarrow> insertKeyValueWithPrefixes t ps n e rnd = (t', e', rnd') \<Longrightarrow> recs_ok t' e'"
proof (induction t ps n e rnd rule: insertKeyValueWithPrefixes.induct)
  case (1 t n expect rnd)
  then show ?case by simp
next
  case (2 t p ps n expect rnd)
  obtain t1 e1 r1 where step: "insertKeyValueWithPrefix t p n expect rnd = (t1, e1, r1)" by (cases "insertKeyValueWithPrefix t p n expect rnd") auto
  have ok1: "recs_ok t1 e1" using insertKeyValueWithPrefix_ok[OF "2.prems"(1) _ step] "2.prems"(2) by simp
  have rest: "insertKeyValueWithPrefixes t1 ps n e1 r1 = (t', e', rnd')" using "2.prems"(3) step by simp
  show ?case using "2.IH"[OF step[symmetric] refl refl ok1 _ rest] "2.prems"(2) by simp
qed

lemma makePrefixTestTrie_ok:
  "(\<forall>p\<in>set ps. length p = 32) \<Longrightarrow> \<exists>r e r'. makePrefixTestTrie db ps n rnd = Inr (r, e, r # db, r') \<and> recs_ok r e"
proof -
  assume ps: "\<forall>p\<in>set ps. length p = 32"
  obtain t' e rnd' where ins: "insertKeyValueWithPrefixes [] ps n Map.empty rnd = (t', e, rnd')"
    by (cases "insertKeyValueWithPrefixes [] ps n Map.empty rnd") auto
  have "recs_ok [] Map.empty" by (simp add: recs_ok_def)
  then have "recs_ok t' e" using insertKeyValueWithPrefixes_ok[OF _ ps ins] by simp
  then show ?thesis using ins by (simp add: makePrefixTestTrie_def tbind_def trieNew_def Commit_def)
qed

lemma prefixIterKeys_ok:
  assumes "recs_ok t e" "e p = Some E"
  shows "set (prefixIterKeys t p) = E \<and> distinct (prefixIterKeys t p) \<and> (\<forall>k\<in>set (prefixIterKeys t p). length k = 64)"
proof -
  have len: "length p = 32" using assms unfolding recs_ok_def by blast
  have pre: "\<forall>q E. e q = Some E \<longrightarrow> (\<forall>k\<in>E. length k = 64 \<and> take 32 k = q)" using assms(1) unfolding recs_ok_def by blast
  have keys: "fst ` set t = \<Union> (ran e)" using assms(1) unfolding recs_ok_def by simp
  have eqv: "k \<in> fst ` set t \<and> take 32 k = p \<longleftrightarrow> k \<in> E" for k
  proof
    assume "k \<in> fst ` set t \<and> take 32 k = p"
    then obtain q F where "e q = Some F" "k \<in> F" "take 32 k = p" using keys by (auto simp: ran_def)
    then show "k \<in> E" using pre assms(2) by fastforce
  next
    assume "k \<in> E"
    then show "k \<in> fst ` set t \<and> take 32 k = p" using keys pre assms(2) by (auto simp: ran_def)
  qed
  have st: "set (prefixIterKeys t p) = E"
  proof -
    have "set (prefixIterKeys t p) = {k \<in> fst ` set t. take 32 k = p}" by (auto simp: prefixIterKeys_def len)
    then show ?thesis using eqv by blast
  qed
  have "distinct (map fst t)" using assms(1) unfolding recs_ok_def by (simp add: strict_sorted_iff)
  then have "distinct (prefixIterKeys t p)" by (simp add: prefixIterKeys_def)
  moreover have "\<forall>k\<in>set (prefixIterKeys t p). length k = 64" using st pre assms(2) by blast
  ultimately show ?thesis using st by blast
qed

lemma checkEntries_ok:
  "distinct L \<Longrightarrow> set L \<subseteq> E \<Longrightarrow> (\<forall>k\<in>set L. length k = 64) \<Longrightarrow> checkEntries L E = Inr (E - set L)"
proof (induction L arbitrary: E)
  case Nil
  then show ?case by simp
next
  case (Cons k L)
  have bk: "byteToTestKey k = k" using Cons.prems(3) by (simp add: byteToTestKey_def)
  have kE: "k \<in> E" using Cons.prems(2) by simp
  have "checkEntries L (E - {k}) = Inr (E - {k} - set L)" using Cons.prems by (intro Cons.IH) auto
  moreover have "E - {k} - set L = E - set (k # L)" by auto
  ultimately show ?case using bk kE by simp
qed

lemma checkPrefixes_ok:
  "recs_ok t e0 \<Longrightarrow> distinct ps \<Longrightarrow> set ps \<subseteq> dom e0 \<Longrightarrow> (\<forall>p\<in>set ps. e p = e0 p) \<Longrightarrow> checkPrefixes t e ps = None"
proof (induction ps arbitrary: e)
  case Nil
  then show ?case by simp
next
  case (Cons p ps)
  obtain E where E: "e0 p = Some E" using Cons.prems(3) by auto
  have ep: "e p = Some E" using Cons.prems(4) E by simp
  note k = prefixIterKeys_ok[OF Cons.prems(1) E]
  have ce: "checkEntries (prefixIterKeys t p) E = Inr {}" using checkEntries_ok[of "prefixIterKeys t p" E] k by simp
  have "checkPrefixes t (e(p \<mapsto> {})) ps = None"
    using Cons.prems by (intro Cons.IH) auto
  then show ?case using ep ce by simp
qed

lemma makeRandomPrefixes_len: "makeRandomPrefixes n rnd = (ps, r) \<Longrightarrow> \<forall>p\<in>set ps. length p = 32"
  by (induction n arbitrary: rnd ps r) (auto simp: Let_def split: prod.splits)

theorem prefix_example_silent:
  assumes "\<forall>e. distinct (order e) \<and> set (order e) \<subseteq> dom e"
  shows "ExampleTriePrefixIterator_ContentBasedStorage rnd order = []"
proof -
  obtain ps rnd1 where mp: "makeRandomPrefixes 100 rnd = (ps, rnd1)" by (cases "makeRandomPrefixes 100 rnd") auto
  have ps: "\<forall>p\<in>set ps. length p = 32" using makeRandomPrefixes_len[OF mp] .
  obtain r1 e1 rnd2 where m1: "makePrefixTestTrie [] ps 10 rnd1 = Inr (r1, e1, [r1], rnd2)" and ok1: "recs_ok r1 e1"
    using makePrefixTestTrie_ok[OF ps] by blast
  obtain r2 e2 rnd3 where m2: "makePrefixTestTrie [r1] ps 10 rnd2 = Inr (r2, e2, [r2, r1], rnd3)" and ok2: "recs_ok r2 e2"
    using makePrefixTestTrie_ok[OF ps] by blast
  have n1: "trieNew r1 [r2, r1] = Inr r1" "trieNew r2 [r2, r1] = Inr r2" by (simp_all add: trieNew_def)
  have c1: "checkTriePrefixIterator r1 [r2, r1] e1 order = None"
    unfolding checkTriePrefixIterator_def n1 sum.case using assms by (intro checkPrefixes_ok[OF ok1]) auto
  have c2: "checkTriePrefixIterator r2 [r2, r1] e2 order = None"
    unfolding checkTriePrefixIterator_def n1 sum.case using assms by (intro checkPrefixes_ok[OF ok2]) auto
  show ?thesis
    by (simp only: ExampleTriePrefixIterator_ContentBasedStorage_def Let_def mp prod.case m1 m2 sum.case c1 c2 option.case)
qed

text \<open>
  C37. Every example of the trie package prints exactly the lines of its
  \<open>// Output:\<close> comment: the five fixed examples as evaluated, and the
  prefix-iterator example nothing at all, for every random byte stream and
  every order in which the Go runtime ranges over the records map.
\<close>

theorem trie_examples_documented_output:
  assumes "\<forall>e. distinct (order e) \<and> set (order e) \<subseteq> dom e"
  shows "ExampleTrie_InsertGet = [''Inserted value: does -> good''] \<and>
         ExampleTrie_UpdateGet = [''Updated val: dog -> valueChanged''] \<and>
         ExampleTrie_Delete = [''After deletion, have key value pair: dog -> [].''] \<and>
         ExampleTrie_Commit = [''The new trie got data: do -> verb'', ''The new trie got data: ether -> wookiedoo'',
           ''The new trie got data: horse -> stallion'', ''The new trie got data: shaman -> horse'',
           ''The new trie got data: doge -> coin'', ''The new trie got data: dog -> puppy'',
           ''The new trie got data: somethingveryoddindeedthis is -> myothernodedata'', [],
           ''The new trie have a different hash from the original.'', ''After change trie2, trie1 have key value: doom -> [].''] \<and>
         ExampleTrie_ContentBasedStorage = Inr [''recovered [value 1], got [value 1]'', ''recovered [value 2], got [value 2]'', [],
           ''updating trie 2'', ''recovered [value 1], got [value 1]'', ''recovered [value 2], got [value 3]''] \<and>
         ExampleTrieIterator_ContentBasedStorage = Inr [''t1 have 100 entries.''] \<and>
         ExampleTriePrefixIterator_ContentBasedStorage rnd order = []"
  using ExampleTrie_InsertGet_output ExampleTrie_UpdateGet_output ExampleTrie_Delete_output ExampleTrie_Commit_output
    ExampleTrie_ContentBasedStorage_output ExampleTrieIterator_output prefix_example_silent[OF assms]
  by blast

theorem trie_examples_documented_output_witness:
  "(\<forall>e. distinct ((\<lambda>e :: records. [] :: bytes list) e) \<and> set ((\<lambda>e :: records. [] :: bytes list) e) \<subseteq> dom e) \<and>
   ExampleTriePrefixIterator_ContentBasedStorage (sconst 0) (\<lambda>e. []) = [] \<and>
   ExampleTrie_Delete = [''After deletion, have key value pair: dog -> [].'']"
proof -
  have h: "\<forall>e. distinct ((\<lambda>e :: records. [] :: bytes list) e) \<and> set ((\<lambda>e :: records. [] :: bytes list) e) \<subseteq> dom e" by simp
  show ?thesis using h trie_examples_documented_output[OF h, of "sconst 0"] by blast
qed

end
