(* ===== verification/EvmCall.thy ===== *)
theory EvmCall
  imports ChainTx
begin

text \<open>
  The call and create frames of the EVM (\<open>src/core/types/memory_test.go\<close>,
  package \<open>vm\<close>, lines 145--565): \<open>NewEVM\<close>, \<open>Cancel\<close>, \<open>Call\<close>,
  \<open>CallCode\<close>, \<open>DelegateCall\<close>, \<open>StaticCall\<close>, \<open>create\<close>, \<open>Create\<close> and
  \<open>Create2\<close>. The world they change is the state database of \<open>ChainTx\<close>
  together with the code of each account; a snapshot is the whole world and
  reverting restores it. The interpreter behind \<open>run\<close> (precompiles and
  bytecode, which may call back into these frames) is a parameter: it gets
  the contract frame, the input and the read-only flag, and returns the
  output, the gas left in the frame, its error and the new world. The
  transfer guard and the transfer are fields of the \<open>Context\<close> as in the
  code; the chain rules are flags of the EVM. Tracer calls only report and
  are left out.
\<close>

record EvmWorld =
  wDB :: StateDB
  wCode :: "address \<Rightarrow> byte list"

text \<open>
  A code hash is the zero hash of an account that does not exist, or the
  hash of its code; \<open>emptyCodeHash\<close> is the hash of no code.
\<close>

datatype code_hash = ZeroHash | HashOfCode "byte list"

definition emptyCodeHash :: code_hash where
  "emptyCodeHash = HashOfCode []"

definition GetCodeHash :: "EvmWorld \<Rightarrow> address \<Rightarrow> code_hash" where
  "GetCodeHash w a = (if Exist (wDB w) a then HashOfCode (wCode w a) else ZeroHash)"

definition GetNonce :: "EvmWorld \<Rightarrow> address \<Rightarrow> u64" where
  "GetNonce w a = nonce (getOrNew (wDB w) a)"

definition SetCode :: "EvmWorld \<Rightarrow> address \<Rightarrow> byte list \<Rightarrow> EvmWorld" where
  "SetCode w a c = w\<lparr>wDB := (if Exist (wDB w) a then wDB w else (wDB w)(a \<mapsto> emptyAccount)), wCode := (wCode w)(a := c)\<rparr>"

datatype evm_err =
    ErrDepth | ErrInsufficientBalance | ErrContractAddressCollision | ErrCodeStoreOutOfGas
  | errMaxCodeSizeExceeded | errExecutionReverted | ErrNoCompatibleInterpreter | ErrExec string
  | PanicEwasm | PanicNotContractCaller

text \<open>
  A \<open>ContractRef\<close>: an \<open>AccountRef\<close> is only an address; a running
  \<open>Contract\<close> also has its caller and value, which \<open>AsDelegate\<close> copies.
\<close>

datatype ContractRef = AccountRef address | ContractCaller address address int

fun refAddress :: "ContractRef \<Rightarrow> address" where
  "refAddress (AccountRef a) = a"
| "refAddress (ContractCaller a _ _) = a"

record Contract =
  CallerAddress :: address
  cSelf :: address
  cValue :: int
  cGas :: u64
  cCode :: "byte list"
  CodeAddr :: "address option"
  DelegateCallFlag :: bool

record Context =
  CanTransfer :: "StateDB \<Rightarrow> address \<Rightarrow> int \<Rightarrow> bool"
  Transfer :: "StateDB \<Rightarrow> address \<Rightarrow> address \<Rightarrow> int \<Rightarrow> StateDB"

record EVM =
  evmContext :: Context
  depth :: nat
  NoRecursion :: bool
  abort :: bool
  IsEIP158 :: bool
  IsHomestead :: bool
  IsEWASM :: bool
  isPrecompile :: "address \<Rightarrow> bool"
  run :: "Contract \<Rightarrow> byte list \<Rightarrow> bool \<Rightarrow> EvmWorld \<Rightarrow> byte list \<times> u64 \<times> evm_err option \<times> EvmWorld"

text \<open>\<open>params.CallCreateDepth\<close>, \<open>params.MaxCodeSize\<close>, \<open>params.CreateDataGas\<close>.\<close>

definition CallCreateDepth :: nat where "CallCreateDepth = 1024"

definition MaxCodeSize :: nat where "MaxCodeSize = 24576"

definition CreateDataGas :: u64 where "CreateDataGas = 200"

text \<open>The transfer guard and transfer \<open>core\<close> installs in the context.\<close>

definition coreCanTransfer :: "StateDB \<Rightarrow> address \<Rightarrow> int \<Rightarrow> bool" where
  "coreCanTransfer db a v = (v \<le> balanceOf db a)"

definition coreTransfer :: "StateDB \<Rightarrow> address \<Rightarrow> address \<Rightarrow> int \<Rightarrow> StateDB" where
  "coreTransfer db sender recipient v = AddBalance (SubBalance db sender v) recipient v"

section \<open>Construction\<close>

definition NewEVM :: "Context \<Rightarrow> EVM \<Rightarrow> evm_err + EVM" where
  "NewEVM ctx cfg =
     (if IsEWASM cfg then Inl PanicEwasm else Inr (cfg\<lparr>evmContext := ctx, depth := 0, abort := False\<rparr>))"

definition Cancel :: "EVM \<Rightarrow> EVM" where
  "Cancel evm = evm\<lparr>abort := True\<rparr>"

section \<open>Calls\<close>

text \<open>
  The end of every call frame: an error reverts to the snapshot and, unless
  it is a revert, uses up the frame's gas.
\<close>

definition finishCall ::
  "EvmWorld \<Rightarrow> byte list \<times> u64 \<times> evm_err option \<times> EvmWorld \<Rightarrow> byte list \<times> u64 \<times> evm_err option \<times> EvmWorld" where
  "finishCall snapshot r =
     (case r of (ret, gasLeft, err, w) \<Rightarrow>
        if err \<noteq> None then (ret, if err \<noteq> Some errExecutionReverted then 0 else gasLeft, err, snapshot)
        else (ret, gasLeft, None, w))"

definition Call ::
  "EVM \<Rightarrow> ContractRef \<Rightarrow> address \<Rightarrow> byte list \<Rightarrow> u64 \<Rightarrow> int \<Rightarrow> EvmWorld \<Rightarrow> byte list \<times> u64 \<times> evm_err option \<times> EvmWorld" where
  "Call evm caller addr input gas value w =
     (if NoRecursion evm \<and> 0 < depth evm then ([], gas, None, w)
      else if CallCreateDepth < depth evm then ([], gas, Some ErrDepth, w)
      else if \<not> CanTransfer (evmContext evm) (wDB w) (refAddress caller) value then ([], gas, Some ErrInsufficientBalance, w)
      else
       (let snapshot = w
        in if \<not> Exist (wDB w) addr \<and> \<not> isPrecompile evm addr \<and> IsEIP158 evm \<and> value = 0 then ([], gas, None, w)
           else
            (let w1 = (if \<not> Exist (wDB w) addr then w\<lparr>wDB := CreateAccount (wDB w) addr\<rparr> else w);
                 w2 = w1\<lparr>wDB := Transfer (evmContext evm) (wDB w1) (refAddress caller) addr value\<rparr>;
                 contract = \<lparr>CallerAddress = refAddress caller, cSelf = addr, cValue = value, cGas = gas,
                             cCode = wCode w2 addr, CodeAddr = Some addr, DelegateCallFlag = False\<rparr>
             in finishCall snapshot (run evm contract input False w2))))"

definition CallCode ::
  "EVM \<Rightarrow> ContractRef \<Rightarrow> address \<Rightarrow> byte list \<Rightarrow> u64 \<Rightarrow> int \<Rightarrow> EvmWorld \<Rightarrow> byte list \<times> u64 \<times> evm_err option \<times> EvmWorld" where
  "CallCode evm caller addr input gas value w =
     (if NoRecursion evm \<and> 0 < depth evm then ([], gas, None, w)
      else if CallCreateDepth < depth evm then ([], gas, Some ErrDepth, w)
      else if \<not> CanTransfer (evmContext evm) (wDB w) (refAddress caller) value then ([], gas, Some ErrInsufficientBalance, w)
      else
       (let snapshot = w;
            contract = \<lparr>CallerAddress = refAddress caller, cSelf = refAddress caller, cValue = value, cGas = gas,
                        cCode = wCode w addr, CodeAddr = Some addr, DelegateCallFlag = False\<rparr>
        in finishCall snapshot (run evm contract input False w)))"

text \<open>
  \<open>AsDelegate\<close> asserts that the caller is a running contract and takes its
  caller and value; with an \<open>AccountRef\<close> caller the assertion panics.
\<close>

definition DelegateCall ::
  "EVM \<Rightarrow> ContractRef \<Rightarrow> address \<Rightarrow> byte list \<Rightarrow> u64 \<Rightarrow> EvmWorld \<Rightarrow> evm_err + byte list \<times> u64 \<times> evm_err option \<times> EvmWorld" where
  "DelegateCall evm caller addr input gas w =
     (if NoRecursion evm \<and> 0 < depth evm then Inr ([], gas, None, w)
      else if CallCreateDepth < depth evm then Inr ([], gas, Some ErrDepth, w)
      else
       (case caller of
          AccountRef _ \<Rightarrow> Inl PanicNotContractCaller
        | ContractCaller a parentCaller parentValue \<Rightarrow>
           (let snapshot = w;
                contract = \<lparr>CallerAddress = parentCaller, cSelf = a, cValue = parentValue, cGas = gas,
                            cCode = wCode w addr, CodeAddr = Some addr, DelegateCallFlag = True\<rparr>
            in Inr (finishCall snapshot (run evm contract input False w)))))"

definition StaticCall ::
  "EVM \<Rightarrow> ContractRef \<Rightarrow> address \<Rightarrow> byte list \<Rightarrow> u64 \<Rightarrow> EvmWorld \<Rightarrow> byte list \<times> u64 \<times> evm_err option \<times> EvmWorld" where
  "StaticCall evm caller addr input gas w =
     (if NoRecursion evm \<and> 0 < depth evm then ([], gas, None, w)
      else if CallCreateDepth < depth evm then ([], gas, Some ErrDepth, w)
      else
       (let snapshot = w;
            contract = \<lparr>CallerAddress = refAddress caller, cSelf = addr, cValue = 0, cGas = gas,
                        cCode = wCode w addr, CodeAddr = Some addr, DelegateCallFlag = False\<rparr>;
            w1 = w\<lparr>wDB := AddBalance (wDB w) addr 0\<rparr>
        in finishCall snapshot (run evm contract input True w1)))"

section \<open>Contract creation\<close>

text \<open>
  \<open>create\<close>: the caller's nonce is raised before the collision check, and
  outside the snapshot, so it stays raised on every later failure. A creation
  that runs out of gas for storing its code is reverted only from Homestead
  on. \<open>UseGas\<close> succeeds when the frame has that much gas left.
\<close>

definition create ::
  "EVM \<Rightarrow> ContractRef \<Rightarrow> byte list \<Rightarrow> u64 \<Rightarrow> int \<Rightarrow> address \<Rightarrow> EvmWorld \<Rightarrow>
     byte list \<times> address \<times> u64 \<times> evm_err option \<times> EvmWorld" where
  "create evm caller code gas value address w =
     (if CallCreateDepth < depth evm then ([], 0, gas, Some ErrDepth, w)
      else if \<not> CanTransfer (evmContext evm) (wDB w) (refAddress caller) value then ([], 0, gas, Some ErrInsufficientBalance, w)
      else
       (let n = GetNonce w (refAddress caller);
            w1 = w\<lparr>wDB := SetNonce (wDB w) (refAddress caller) (n + 1)\<rparr>;
            contractHash = GetCodeHash w1 address
        in if GetNonce w1 address \<noteq> 0 \<or> (contractHash \<noteq> ZeroHash \<and> contractHash \<noteq> emptyCodeHash)
           then ([], 0, 0, Some ErrContractAddressCollision, w1)
           else
            (let snapshot = w1;
                 w2 = w1\<lparr>wDB := CreateAccount (wDB w1) address\<rparr>;
                 w3 = (if IsEIP158 evm then w2\<lparr>wDB := SetNonce (wDB w2) address 1\<rparr> else w2);
                 w4 = w3\<lparr>wDB := Transfer (evmContext evm) (wDB w3) (refAddress caller) address value\<rparr>;
                 contract = \<lparr>CallerAddress = refAddress caller, cSelf = address, cValue = value, cGas = gas,
                             cCode = code, CodeAddr = Some address, DelegateCallFlag = False\<rparr>
             in if NoRecursion evm \<and> 0 < depth evm then ([], address, gas, None, w4)
                else
                 (case run evm contract [] False w4 of
                    (ret, gasLeft, err, w5) \<Rightarrow>
                     (let maxCodeSizeExceeded = IsEIP158 evm \<and> MaxCodeSize < length ret;
                          (err1, gas1, w6) =
                            (if err = None \<and> \<not> maxCodeSizeExceeded then
                               (let createDataGas = of_nat (length ret) * CreateDataGas
                                in if createDataGas \<le> gasLeft then (None, gasLeft - createDataGas, SetCode w5 address ret)
                                   else (Some ErrCodeStoreOutOfGas, gasLeft, w5))
                             else (err, gasLeft, w5));
                          revert = maxCodeSizeExceeded \<or> (err1 \<noteq> None \<and> (IsHomestead evm \<or> err1 \<noteq> Some ErrCodeStoreOutOfGas));
                          (gas2, w7) = (if revert then (if err1 \<noteq> Some errExecutionReverted then 0 else gas1, snapshot)
                                        else (gas1, w6));
                          err2 = (if maxCodeSizeExceeded \<and> err1 = None then Some errMaxCodeSizeExceeded else err1)
                      in (ret, address, gas2, err2, w7))))))"

text \<open>
  The derived addresses (\<open>crypto.CreateAddress\<close>, \<open>crypto.CreateAddress2\<close>)
  and the code hash \<open>codeAndHash.Hash\<close> computes are parameters.
\<close>

definition Create ::
  "(address \<Rightarrow> u64 \<Rightarrow> address) \<Rightarrow> EVM \<Rightarrow> ContractRef \<Rightarrow> byte list \<Rightarrow> u64 \<Rightarrow> int \<Rightarrow> EvmWorld \<Rightarrow>
     byte list \<times> address \<times> u64 \<times> evm_err option \<times> EvmWorld" where
  "Create CreateAddress evm caller code gas value w =
     (let contractAddr = CreateAddress (refAddress caller) (GetNonce w (refAddress caller))
      in create evm caller code gas value contractAddr w)"

definition Create2 ::
  "(address \<Rightarrow> int \<Rightarrow> byte list \<Rightarrow> address) \<Rightarrow> (byte list \<Rightarrow> byte list) \<Rightarrow> EVM \<Rightarrow> ContractRef \<Rightarrow> byte list \<Rightarrow> u64 \<Rightarrow> int \<Rightarrow> int \<Rightarrow>
     EvmWorld \<Rightarrow> byte list \<times> address \<times> u64 \<times> evm_err option \<times> EvmWorld" where
  "Create2 CreateAddress2 Keccak256 evm caller code gas endowment salt w =
     (let contractAddr = CreateAddress2 (refAddress caller) salt (Keccak256 code)
      in create evm caller code gas endowment contractAddr w)"

section \<open>Examples\<close>

text \<open>
  A world where account 1 holds 100, and an EVM whose interpreter fails with
  an invalid opcode after writing code.
\<close>

definition ex_world :: EvmWorld where
  "ex_world = \<lparr>wDB = [1 \<mapsto> emptyAccount\<lparr>balance := 100\<rparr>], wCode = (\<lambda>_. [])\<rparr>"

definition ex_evm :: EVM where
  "ex_evm = \<lparr>evmContext = \<lparr>CanTransfer = coreCanTransfer, Transfer = coreTransfer\<rparr>, depth = 0, NoRecursion = False,
     abort = False, IsEIP158 = True, IsHomestead = True, IsEWASM = False, isPrecompile = (\<lambda>_. False),
     run = (\<lambda>c i ro w. ([], 3, Some (ErrExec ''invalid opcode''), w\<lparr>wCode := (wCode w)(cSelf c := [1])\<rparr>))\<rparr>"

section \<open>Lemmas\<close>

lemma Call_absent_zero_value:
  "\<not> (NoRecursion evm \<and> 0 < depth evm) \<Longrightarrow> depth evm \<le> CallCreateDepth \<Longrightarrow>
   CanTransfer (evmContext evm) (wDB w) (refAddress c) 0 \<Longrightarrow> \<not> Exist (wDB w) a \<Longrightarrow> \<not> isPrecompile evm a \<Longrightarrow> IsEIP158 evm \<Longrightarrow>
   Call evm c a i g 0 w = ([], g, None, w)"
  by (simp add: Call_def Let_def)

lemma finishCall_err:
  "finishCall s r = (ret, g, Some e, w') \<Longrightarrow> w' = s \<and> (e \<noteq> errExecutionReverted \<longrightarrow> g = 0)"
  by (cases r) (auto simp: finishCall_def split: if_splits)

lemma finishCall_ok:
  "finishCall s r = (ret, g, None, w') \<Longrightarrow> r = (ret, g, None, w')"
  by (cases r) (auto simp: finishCall_def split: if_splits)

lemma Call_err:
  "Call evm c a i g v w = (ret, g', Some e, w') \<Longrightarrow>
   w' = w \<and> (e \<noteq> errExecutionReverted \<and> e \<noteq> ErrDepth \<and> e \<noteq> ErrInsufficientBalance \<longrightarrow> g' = 0)"
  unfolding Call_def Let_def by (auto split: if_splits dest: finishCall_err)

lemma CallCode_err:
  "CallCode evm c a i g v w = (ret, g', Some e, w') \<Longrightarrow>
   w' = w \<and> (e \<noteq> errExecutionReverted \<and> e \<noteq> ErrDepth \<and> e \<noteq> ErrInsufficientBalance \<longrightarrow> g' = 0)"
  unfolding CallCode_def Let_def by (auto split: if_splits dest: finishCall_err)

lemma DelegateCall_err:
  "DelegateCall evm c a i g w = Inr (ret, g', Some e, w') \<Longrightarrow>
   w' = w \<and> (e \<noteq> errExecutionReverted \<and> e \<noteq> ErrDepth \<longrightarrow> g' = 0)"
  unfolding DelegateCall_def Let_def by (auto split: if_splits ContractRef.splits dest: finishCall_err)

lemma StaticCall_err:
  "StaticCall evm c a i g w = (ret, g', Some e, w') \<Longrightarrow>
   w' = w \<and> (e \<noteq> errExecutionReverted \<and> e \<noteq> ErrDepth \<longrightarrow> g' = 0)"
  unfolding StaticCall_def Let_def by (auto split: if_splits dest: finishCall_err)


text \<open>
  From Homestead on, a creation that fails after its guards leaves exactly one
  change: the caller's nonce raised by one, which \<open>create\<close> makes before the
  snapshot.
\<close>

lemma create_err_bumps_nonce:
  assumes "IsHomestead evm" "depth evm \<le> CallCreateDepth" "CanTransfer (evmContext evm) (wDB w) (refAddress c) v"
    "create evm c code g v a w = (ret, addr, g', Some e, w')"
  shows "w' = w\<lparr>wDB := SetNonce (wDB w) (refAddress c) (GetNonce w (refAddress c) + 1)\<rparr>"
  using assms unfolding create_def Let_def
  by (auto split: if_splits prod.splits)

text \<open>A successful creation stores the code the constructor returned.\<close>

lemma create_ok_stores_code:
  assumes "\<not> (NoRecursion evm \<and> 0 < depth evm)" "create evm c code g v a w = (ret, addr, g', None, w')"
  shows "wCode w' a = ret \<and> addr = a \<and> Exist (wDB w') a"
  using assms unfolding create_def Let_def
  by (auto simp: SetCode_def Exist_def split: if_splits prod.splits)


text \<open>
  C33. Every call frame of the EVM is atomic: when \<open>Call\<close>, \<open>CallCode\<close>,
  \<open>DelegateCall\<close> or \<open>StaticCall\<close> returns an error, the world (balances,
  nonces, storage and code) is the one it was called with, whatever the
  interpreter did, and the frame's gas is used up unless the error is a
  revert or one of the guards before the snapshot.
\<close>

theorem evm_calls_atomic:
  "(Call evm c a i g v w = (ret, g', Some e, w') \<longrightarrow>
      w' = w \<and> (e \<noteq> errExecutionReverted \<and> e \<noteq> ErrDepth \<and> e \<noteq> ErrInsufficientBalance \<longrightarrow> g' = 0)) \<and>
   (CallCode evm c a i g v w = (ret, g', Some e, w') \<longrightarrow>
      w' = w \<and> (e \<noteq> errExecutionReverted \<and> e \<noteq> ErrDepth \<and> e \<noteq> ErrInsufficientBalance \<longrightarrow> g' = 0)) \<and>
   (DelegateCall evm c a i g w = Inr (ret, g', Some e, w') \<longrightarrow>
      w' = w \<and> (e \<noteq> errExecutionReverted \<and> e \<noteq> ErrDepth \<longrightarrow> g' = 0)) \<and>
   (StaticCall evm c a i g w = (ret, g', Some e, w') \<longrightarrow>
      w' = w \<and> (e \<noteq> errExecutionReverted \<and> e \<noteq> ErrDepth \<longrightarrow> g' = 0))"
  by (intro conjI impI) (auto dest!: Call_err CallCode_err DelegateCall_err StaticCall_err)

theorem evm_calls_atomic_witness:
  "Call ex_evm (AccountRef 1) 2 [] 10 5 ex_world = ([], 0, Some (ErrExec ''invalid opcode''), ex_world)"
proof -
  have r: "fst (snd (snd (Call ex_evm (AccountRef 1) 2 [] 10 5 ex_world))) = Some (ErrExec ''invalid opcode'') \<and>
           fst (Call ex_evm (AccountRef 1) 2 [] 10 5 ex_world) = []"
    by (simp add: Call_def ex_evm_def ex_world_def finishCall_def coreCanTransfer_def balanceOf_def getOrNew_def
                  Exist_def Let_def CallCreateDepth_def)
  then obtain g' w' where eq: "Call ex_evm (AccountRef 1) 2 [] 10 5 ex_world = ([], g', Some (ErrExec ''invalid opcode''), w')"
    by (cases "Call ex_evm (AccountRef 1) 2 [] 10 5 ex_world") auto
  show ?thesis using evm_calls_atomic[of ex_evm "AccountRef 1" 2 "[]" 10 5 ex_world "[]" g' "ErrExec ''invalid opcode''" w'] eq
    by simp
qed

end
