(* ===== verification/EvmRun.thy ===== *)
theory EvmRun
  imports EvmCall
begin

text \<open>
  The dispatch \<open>run\<close> of package \<open>vm\<close> (\<open>src/core/types/memory_test.go\<close>,
  lines 144--169), which \<open>EvmCall\<close> takes as the parameter \<open>run\<close> of an
  \<open>EVM\<close>. A contract whose code address is a precompile of the active rule
  set runs that precompile; otherwise the first interpreter of
  \<open>evm.interpreters\<close> that can run the code runs it, with the EVM's current
  interpreter pointer switched to it and, by a deferred call, switched back.
  The precompiles, their runner and the interpreters' \<open>CanRun\<close> and \<open>Run\<close> are
  fields of the environment. An interpreter's \<open>Run\<close> receives the pointer as
  it stands and returns it as its nested frames leave it.
\<close>

type_synonym run_result = "byte list \<times> u64 \<times> evm_err option \<times> EvmWorld"

record ('i, 'p) RunEnv =
  IsByzantium :: bool
  PrecompiledContractsHomestead :: "address \<rightharpoonup> 'p"
  PrecompiledContractsByzantium :: "address \<rightharpoonup> 'p"
  RunPrecompiledContract :: "'p \<Rightarrow> byte list \<Rightarrow> Contract \<Rightarrow> EvmWorld \<Rightarrow> run_result"
  interpreters :: "'i list"
  interpreter :: 'i
  CanRun :: "'i \<Rightarrow> byte list \<Rightarrow> bool"
  IRun :: "'i \<Rightarrow> Contract \<Rightarrow> byte list \<Rightarrow> bool \<Rightarrow> EvmWorld \<Rightarrow> 'i \<Rightarrow> run_result \<times> 'i"

text \<open>
  The loop over \<open>evm.interpreters\<close>; the second component is the value of
  \<open>evm.interpreter\<close> when \<open>run\<close> returns, after the deferred restore.
\<close>

fun runInterpreters ::
  "('i, 'p) RunEnv \<Rightarrow> 'i list \<Rightarrow> Contract \<Rightarrow> byte list \<Rightarrow> bool \<Rightarrow> EvmWorld \<Rightarrow> run_result \<times> 'i" where
  "runInterpreters env [] c input readOnly w =
     (([], cGas c, Some ErrNoCompatibleInterpreter, w), interpreter env)"
| "runInterpreters env (i # is) c input readOnly w =
     (if CanRun env i (cCode c) then
        (if interpreter env \<noteq> i
         then (fst (IRun env i c input readOnly w i), interpreter env)
         else IRun env i c input readOnly w (interpreter env))
      else runInterpreters env is c input readOnly w)"

definition vmRun :: "('i, 'p) RunEnv \<Rightarrow> Contract \<Rightarrow> byte list \<Rightarrow> bool \<Rightarrow> EvmWorld \<Rightarrow> run_result \<times> 'i" where
  "vmRun env c input readOnly w =
     (case CodeAddr c of
        Some a \<Rightarrow>
          (let precompiles = (if IsByzantium env then PrecompiledContractsByzantium env
                              else PrecompiledContractsHomestead env)
           in case precompiles a of
                Some p \<Rightarrow> (RunPrecompiledContract env p input c w, interpreter env)
              | None \<Rightarrow> runInterpreters env (interpreters env) c input readOnly w)
      | None \<Rightarrow> runInterpreters env (interpreters env) c input readOnly w)"

text \<open>The \<open>run\<close> an \<open>EVM\<close> built over this environment calls.\<close>

definition evmWithRun :: "EVM \<Rightarrow> ('i, 'p) RunEnv \<Rightarrow> EVM" where
  "evmWithRun evm env = evm\<lparr>run := (\<lambda>c input readOnly w. fst (vmRun env c input readOnly w))\<rparr>"

text \<open>The precompile, if any, that \<open>run\<close> would pick for a contract.\<close>

definition precompileOf :: "('i, 'p) RunEnv \<Rightarrow> Contract \<Rightarrow> 'p option" where
  "precompileOf env c =
     (case CodeAddr c of
        Some a \<Rightarrow> (if IsByzantium env then PrecompiledContractsByzantium env a
                   else PrecompiledContractsHomestead env a)
      | None \<Rightarrow> None)"

text \<open>
  An example environment: no precompiles, one interpreter \<open>1\<close> that runs
  non-empty code and leaves the pointer as it finds it, and the pointer at
  another interpreter \<open>0\<close>.
\<close>

definition ex_env :: "(nat, nat) RunEnv" where
  "ex_env = \<lparr>IsByzantium = True, PrecompiledContractsHomestead = Map.empty,
     PrecompiledContractsByzantium = Map.empty, RunPrecompiledContract = (\<lambda>p i c w. ([], 0, None, w)),
     interpreters = [1], interpreter = 0, CanRun = (\<lambda>i code. code \<noteq> []),
     IRun = (\<lambda>i c input ro w p. (([], cGas c, None, w), p))\<rparr>"

definition ex_contract :: Contract where
  "ex_contract = \<lparr>CallerAddress = 1, cSelf = 2, cValue = 0, cGas = 10, cCode = [1], CodeAddr = Some 2,
     DelegateCallFlag = False\<rparr>"

section \<open>Dispatch\<close>

lemma runInterpreters_find:
  "fst (runInterpreters env is c input readOnly w) =
     (case find (\<lambda>i. CanRun env i (cCode c)) is of
        None \<Rightarrow> ([], cGas c, Some ErrNoCompatibleInterpreter, w)
      | Some i \<Rightarrow> fst (IRun env i c input readOnly w i))"
  by (induction "is") auto

lemma runInterpreters_pointer:
  assumes "\<forall>c input readOnly w. snd (IRun env (interpreter env) c input readOnly w (interpreter env)) = interpreter env"
  shows "snd (runInterpreters env is c input readOnly w) = interpreter env"
  using assms by (induction "is") auto

theorem vmRun_dispatch:
  "fst (vmRun env c input readOnly w) =
     (case precompileOf env c of
        Some p \<Rightarrow> RunPrecompiledContract env p input c w
      | None \<Rightarrow>
          (case find (\<lambda>i. CanRun env i (cCode c)) (interpreters env) of
             None \<Rightarrow> ([], cGas c, Some ErrNoCompatibleInterpreter, w)
           | Some i \<Rightarrow> fst (IRun env i c input readOnly w i)))"
  by (simp add: vmRun_def precompileOf_def runInterpreters_find Let_def split: option.split)

theorem vmRun_restores_interpreter:
  assumes "\<forall>c input readOnly w. snd (IRun env (interpreter env) c input readOnly w (interpreter env)) = interpreter env"
  shows "snd (vmRun env c input readOnly w) = interpreter env"
  using runInterpreters_pointer[OF assms]
  by (simp add: vmRun_def Let_def split: option.split)

theorem Call_no_interpreter:
  assumes "\<not> (NoRecursion evm \<and> 0 < depth evm)" "depth evm \<le> CallCreateDepth"
    and "CanTransfer (evmContext evm) (wDB w) (refAddress caller) value"
    and "Exist (wDB w) addr"
    and "(if IsByzantium env then PrecompiledContractsByzantium env else PrecompiledContractsHomestead env) addr = None"
    and "\<forall>i\<in>set (interpreters env). \<not> CanRun env i (wCode w addr)"
  shows "Call (evmWithRun evm env) caller addr input gas value w = ([], 0, Some ErrNoCompatibleInterpreter, w)"
proof -
  have "find (\<lambda>i. CanRun env i (wCode w addr)) (interpreters env) = None"
    using assms(6) by (simp add: find_None_iff)
  then show ?thesis
    using assms(1-5) vmRun_dispatch[of env]
    by (cases "IsByzantium env") (simp_all add: Call_def evmWithRun_def finishCall_def precompileOf_def Let_def not_less)
qed

lemma vmRun_restores_interpreter_witness:
  "snd (vmRun ex_env ex_contract [] False ex_world) = 0"
  using vmRun_restores_interpreter[of ex_env ex_contract "[]" False ex_world]
  by (simp add: ex_env_def)

lemma Call_no_interpreter_witness:
  "Call (evmWithRun ex_evm ex_env) (AccountRef 1) 1 [] 10 0 ex_world = ([], 0, Some ErrNoCompatibleInterpreter, ex_world)"
  using Call_no_interpreter[of ex_evm ex_world "AccountRef 1" 0 1 ex_env "[]" 10]
  by (simp add: ex_evm_def ex_env_def ex_world_def CallCreateDepth_def coreCanTransfer_def balanceOf_def
                getOrNew_def Exist_def)

end
