(* ===== verification/HashTests.thy ===== *)
theory HashTests
  imports Prelude "HOL-Library.Multiset"
begin

text \<open>
  The hasher benchmarks of \<open>src/core/types/memory_test.go\<close> (lines 17--88)
  and the Merkle proof fixture of the \<open>vm\<close> tests (\<open>src/unnamed/part_004\<close>,
  lines 98--117). The Keccak-256 function is a parameter \<open>keccak\<close>; a hasher
  of \<open>sha3.NewLegacyKeccak256\<close> is its absorbed input with the sponge's
  phase, as the \<open>sha3\<close> package keeps them: \<open>Write\<close> after \<open>Read\<close> panics,
  \<open>Reset\<close> returns to the empty absorbing state. The \<open>sync.Pool\<close> of
  \<open>syncHashGetter\<close> is a multiset: \<open>Get\<close> returns any pooled hasher or a new
  one, and the runtime may drop the pooled hashers at any time. The
  goroutines of \<open>b.RunParallel\<close> are interleaved as a step relation.
\<close>

definition strBytes :: "string \<Rightarrow> byte list" where
  "strBytes s = map of_char s"

definition testString :: string where
  "testString = ''ahsdhfkasjkdfkasdkfjkasdkfhakshfkasdlfjasdfhalksdjhfkljashdfjkashdfkaskdflasdkfhkasssdfkjashjdkfadkfkashdfkajskdhfkasdhjaslkhdflka''"

definition shaRes :: "byte list" where
  "shaRes = [239, 243, 164, 0, 131, 103, 23, 137, 161, 71, 38, 30, 110, 160, 132, 208,
             112, 170, 112, 222, 60, 144, 218, 120, 67, 232, 75, 102, 8, 139, 12, 140]"

record sha =
  absorbed :: "byte list"
  squeezing :: bool

definition NewLegacyKeccak256 :: sha where
  "NewLegacyKeccak256 = \<lparr>absorbed = [], squeezing = False\<rparr>"

datatype hash_panic = PanicWriteAfterRead | PanicExpectGot "byte list" "byte list" | PanicIndexOutOfRange

definition shaWrite :: "sha \<Rightarrow> byte list \<Rightarrow> hash_panic + sha" where
  "shaWrite h p = (if squeezing h then Inl PanicWriteAfterRead else Inr (h\<lparr>absorbed := absorbed h @ p\<rparr>))"

text \<open>\<open>Read\<close> of an absorbing hasher: the first bytes of the digest of its input.\<close>

definition shaRead :: "(byte list \<Rightarrow> byte list) \<Rightarrow> sha \<Rightarrow> byte list \<times> sha" where
  "shaRead keccak h = (keccak (absorbed h), h\<lparr>squeezing := True\<rparr>)"

definition shaReset :: "sha \<Rightarrow> sha" where
  "shaReset h = NewLegacyKeccak256"

section \<open>The two hash getters\<close>

datatype hashGetter = newHashGetter | syncHashGetter

text \<open>
  \<open>returnHasher\<close>: \<open>newHashGetter\<close> drops the hasher, \<open>syncHashGetter\<close> resets
  it and puts it in the pool.
\<close>

fun returnHasher :: "hashGetter \<Rightarrow> sha \<Rightarrow> sha multiset \<Rightarrow> sha multiset" where
  "returnHasher newHashGetter s pool = pool"
| "returnHasher syncHashGetter s pool = add_mset (shaReset s) pool"

text \<open>
  The body of \<open>testHash\<close> once it holds a hasher: write the test string,
  read the digest, return the hasher, then compare.
\<close>

definition testHashWork :: "(byte list \<Rightarrow> byte list) \<Rightarrow> hashGetter \<Rightarrow> sha \<Rightarrow> sha multiset \<Rightarrow> hash_panic + (byte list \<times> sha multiset)" where
  "testHashWork keccak hg h pool =
     (case shaWrite h (strBytes testString) of
        Inl e \<Rightarrow> Inl e
      | Inr h1 \<Rightarrow> (case shaRead keccak h1 of (res, h2) \<Rightarrow> Inr (res, returnHasher hg h2 pool)))"

definition testHashCheck :: "byte list \<Rightarrow> hash_panic option" where
  "testHashCheck res = (if res \<noteq> shaRes then Some (PanicExpectGot shaRes res) else None)"

datatype tstate = Idle | Holding sha | Checking "byte list" | Panicked hash_panic

record HashBench =
  getter :: hashGetter
  pool :: "sha multiset"
  threads :: "nat \<Rightarrow> tstate"

definition benchInit :: "hashGetter \<Rightarrow> HashBench" where
  "benchInit hg = \<lparr>getter = hg, pool = {#}, threads = (\<lambda>_. Idle)\<rparr>"

text \<open>
  One step of one goroutine of \<open>benchmarkHash\<close>, or the runtime clearing the
  pool. \<open>getHasher\<close> of \<open>syncHashGetter\<close> takes a pooled hasher or calls the
  pool's \<open>New\<close>; that of \<open>newHashGetter\<close> always makes a new one.
\<close>

inductive bench_step :: "(byte list \<Rightarrow> byte list) \<Rightarrow> HashBench \<Rightarrow> HashBench \<Rightarrow> bool" for keccak where
  get_pooled: "\<lbrakk>getter st = syncHashGetter; threads st t = Idle; s \<in># pool st\<rbrakk> \<Longrightarrow>
     bench_step keccak st (st\<lparr>pool := pool st - {#s#}, threads := (threads st)(t := Holding s)\<rparr>)"
| get_new: "threads st t = Idle \<Longrightarrow>
     bench_step keccak st (st\<lparr>threads := (threads st)(t := Holding NewLegacyKeccak256)\<rparr>)"
| work_panic: "\<lbrakk>threads st t = Holding h; testHashWork keccak (getter st) h (pool st) = Inl e\<rbrakk> \<Longrightarrow>
     bench_step keccak st (st\<lparr>threads := (threads st)(t := Panicked e)\<rparr>)"
| work: "\<lbrakk>threads st t = Holding h; testHashWork keccak (getter st) h (pool st) = Inr (res, p')\<rbrakk> \<Longrightarrow>
     bench_step keccak st (st\<lparr>pool := p', threads := (threads st)(t := Checking res)\<rparr>)"
| check: "threads st t = Checking res \<Longrightarrow>
     bench_step keccak st (st\<lparr>threads := (threads st)(t := (case testHashCheck res of Some e \<Rightarrow> Panicked e | None \<Rightarrow> Idle))\<rparr>)"
| gc: "bench_step keccak st (st\<lparr>pool := {#}\<rparr>)"

definition bench_inv :: "(byte list \<Rightarrow> byte list) \<Rightarrow> HashBench \<Rightarrow> bool" where
  "bench_inv keccak st \<longleftrightarrow>
     set_mset (pool st) \<subseteq> {NewLegacyKeccak256} \<and>
     (\<forall>t. threads st t \<in> {Idle, Holding NewLegacyKeccak256, Checking (keccak (strBytes testString))})"

section \<open>The Merkle proof fixture of the vm tests\<close>

text \<open>
  \<open>HashSum\<close> resets the hasher, writes each slice and returns the digest;
  \<open>common.BytesToHash\<close> keeps the last 32 bytes, left-padding with zeros.
\<close>

definition HashSum :: "(byte list \<Rightarrow> byte list) \<Rightarrow> byte list list \<Rightarrow> byte list" where
  "HashSum keccak ds = keccak (concat ds)"

definition BytesToHash :: "byte list \<Rightarrow> byte list" where
  "BytesToHash b = (if 32 < length b then drop (length b - 32) b else replicate (32 - length b) 0 @ b)"

definition leaveContent :: "string list" where
  "leaveContent = [''jack'', ''lucy'', ''green'', ''apple'']"

definition mockMerkleProof :: "(byte list \<Rightarrow> byte list) \<Rightarrow> string list \<Rightarrow> hash_panic + byte list \<times> byte list list" where
  "mockMerkleProof keccak lc =
     (let leaveHashes = map (\<lambda>c. HashSum keccak [strBytes c]) lc
      in if length leaveHashes < 4 then Inl PanicIndexOutOfRange
         else let p1 = HashSum keccak [leaveHashes ! 0, leaveHashes ! 1];
                  p2 = HashSum keccak [leaveHashes ! 2, leaveHashes ! 3];
                  p0 = HashSum keccak [p1, p2]
              in Inr (BytesToHash p0, [BytesToHash (leaveHashes ! 1), BytesToHash p2]))"

text \<open>
  The leftmost path of a Merkle proof: the leaf's hash joined, in order,
  with each hash of the set on its right.
\<close>

definition leftmostRoot :: "(byte list \<Rightarrow> byte list) \<Rightarrow> byte list \<Rightarrow> byte list list \<Rightarrow> byte list" where
  "leftmostRoot keccak leaf hs = foldl (\<lambda>acc h. HashSum keccak [acc, h]) (HashSum keccak [leaf]) hs"

section \<open>The pool keeps only reset hashers\<close>

lemma testHashWork_fresh:
  "testHashWork keccak hg NewLegacyKeccak256 p =
     Inr (keccak (strBytes testString), returnHasher hg (NewLegacyKeccak256\<lparr>absorbed := strBytes testString, squeezing := True\<rparr>) p)"
  by (simp add: testHashWork_def shaWrite_def shaRead_def NewLegacyKeccak256_def)

lemma testHashWork_squeezed:
  "squeezing h \<Longrightarrow> testHashWork keccak hg h p = Inl PanicWriteAfterRead"
  by (simp add: testHashWork_def shaWrite_def)

lemma returnHasher_fresh:
  "set_mset p \<subseteq> {NewLegacyKeccak256} \<Longrightarrow> set_mset (returnHasher hg s p) \<subseteq> {NewLegacyKeccak256}"
  by (cases hg) (simp_all add: shaReset_def)

lemma bench_inv_init: "bench_inv keccak (benchInit hg)"
  by (simp add: bench_inv_def benchInit_def)

lemma bench_inv_threads:
  "bench_inv keccak st \<Longrightarrow> threads st t = Idle \<or> threads st t = Holding NewLegacyKeccak256 \<or>
     threads st t = Checking (keccak (strBytes testString))"
  unfolding bench_inv_def by blast

lemma bench_inv_pool: "bench_inv keccak st \<Longrightarrow> s \<in># pool st \<Longrightarrow> s = NewLegacyKeccak256"
  unfolding bench_inv_def by blast

lemma bench_inv_upd:
  "bench_inv keccak st \<Longrightarrow> set_mset p \<subseteq> {NewLegacyKeccak256} \<Longrightarrow>
   x \<in> {Idle, Holding NewLegacyKeccak256, Checking (keccak (strBytes testString))} \<Longrightarrow>
   bench_inv keccak (st\<lparr>pool := p, threads := (threads st)(t := x)\<rparr>)"
  unfolding bench_inv_def by simp

lemma bench_inv_step:
  assumes digest: "keccak (strBytes testString) = shaRes"
    and step: "bench_step keccak st st'" and inv: "bench_inv keccak st"
  shows "bench_inv keccak st'"
  using step
proof cases
  case (get_pooled t s)
  have "set_mset (pool st - {#s#}) \<subseteq> {NewLegacyKeccak256}"
    using bench_inv_pool[OF inv] by (blast dest: in_diffD)
  then show ?thesis
    using bench_inv_upd[OF inv, of _ "Holding s" t] bench_inv_pool[OF inv get_pooled(4)] get_pooled(1) by simp
next
  case (get_new t)
  then show ?thesis using bench_inv_upd[OF inv, of "pool st" "Holding NewLegacyKeccak256" t] inv
    by (simp add: bench_inv_def)
next
  case (work_panic t h e)
  then have "h = NewLegacyKeccak256" using bench_inv_threads[OF inv, of t] by simp
  then show ?thesis using work_panic by (simp add: testHashWork_fresh)
next
  case (work t h res p')
  then have h: "h = NewLegacyKeccak256" using bench_inv_threads[OF inv, of t] by simp
  then have "res = keccak (strBytes testString)" "p' = returnHasher (getter st) (NewLegacyKeccak256\<lparr>absorbed := strBytes testString, squeezing := True\<rparr>) (pool st)"
    using work(3) by (simp_all add: testHashWork_fresh)
  moreover have "set_mset (pool st) \<subseteq> {NewLegacyKeccak256}" using inv by (simp add: bench_inv_def)
  ultimately show ?thesis using work(1) bench_inv_upd[OF inv, of p' "Checking res" t] returnHasher_fresh by simp
next
  case (check t res)
  then have "res = shaRes" using bench_inv_threads[OF inv, of t] digest by simp
  then show ?thesis using check bench_inv_upd[OF inv, of "pool st" Idle t] inv
    by (simp add: bench_inv_def testHashCheck_def)
next
  case gc
  then show ?thesis using inv by (simp add: bench_inv_def)
qed

lemma bench_inv_reach:
  "(bench_step keccak)\<^sup>*\<^sup>* (benchInit hg) st \<Longrightarrow> keccak (strBytes testString) = shaRes \<Longrightarrow> bench_inv keccak st"
  by (induction rule: rtranclp_induct) (auto intro: bench_inv_step bench_inv_init)

text \<open>
  C8. In every interleaving of the benchmark goroutines, with either hash
  getter and whatever the runtime drops from the pool, no goroutine panics
  when the Keccak-256 digest of \<open>testString\<close> is \<open>shaRes\<close>: a hasher taken
  from the pool has been reset by \<open>returnHasher\<close>, so its \<open>Write\<close> never
  follows a \<open>Read\<close> and its digest is that of \<open>testString\<close> alone.
\<close>

theorem bench_never_panics:
  assumes "keccak (strBytes testString) = shaRes"
    and "(bench_step keccak)\<^sup>*\<^sup>* (benchInit hg) st"
  shows "threads st t \<noteq> Panicked e"
  using bench_inv_threads[OF bench_inv_reach[OF assms(2,1)], of t] by auto

theorem bench_wrong_digest_panics:
  assumes "keccak (strBytes testString) \<noteq> shaRes"
  shows "\<exists>st. (bench_step keccak)\<^sup>*\<^sup>* (benchInit hg) st \<and>
            threads st 0 = Panicked (PanicExpectGot shaRes (keccak (strBytes testString)))"
proof -
  let ?s0 = "benchInit hg"
  let ?s1 = "?s0\<lparr>threads := (threads ?s0)(0 := Holding NewLegacyKeccak256)\<rparr>"
  let ?res = "keccak (strBytes testString)"
  let ?p = "returnHasher hg (NewLegacyKeccak256\<lparr>absorbed := strBytes testString, squeezing := True\<rparr>) {#}"
  let ?s2 = "?s1\<lparr>pool := ?p, threads := (threads ?s1)(0 := Checking ?res)\<rparr>"
  let ?s3 = "?s2\<lparr>threads := (threads ?s2)(0 := Panicked (PanicExpectGot shaRes ?res))\<rparr>"
  have s01: "bench_step keccak ?s0 ?s1" by (rule get_new) (simp add: benchInit_def)
  have "testHashWork keccak (getter ?s1) NewLegacyKeccak256 (pool ?s1) = Inr (?res, ?p)"
    using testHashWork_fresh[of keccak hg "{#}"] by (simp add: benchInit_def)
  then have s12: "bench_step keccak ?s1 ?s2"
    using work[of ?s1 0 NewLegacyKeccak256 keccak ?res ?p] by simp
  have s23: "bench_step keccak ?s2 ?s3"
    using check[of ?s2 0 ?res keccak] assms by (simp add: testHashCheck_def)
  have "(bench_step keccak)\<^sup>*\<^sup>* ?s0 ?s3"
    using s01 s12 s23 by (meson converse_rtranclp_into_rtranclp rtranclp.rtrancl_refl)
  then show ?thesis by auto
qed

section \<open>The Merkle fixture\<close>

lemma BytesToHash_32: "length b = 32 \<Longrightarrow> BytesToHash b = b"
  by (simp add: BytesToHash_def)

theorem mockMerkleProof_panics_iff:
  "mockMerkleProof keccak lc = Inl e \<longleftrightarrow> length lc < 4 \<and> e = PanicIndexOutOfRange"
  by (auto simp: mockMerkleProof_def Let_def)

theorem mockMerkleProof_proves_first_leaf:
  assumes "\<forall>x. length (keccak x) = 32"
    and "mockMerkleProof keccak lc = Inr (root, hs)"
  shows "leftmostRoot keccak (strBytes (lc ! 0)) hs = root"
proof -
  have "\<not> length lc < 4" using assms(2) by (auto simp: mockMerkleProof_def Let_def)
  then have "0 < length lc" "Suc 0 < length lc" "2 < length lc" "3 < length lc"
    by linarith+
  then show ?thesis using assms by (auto simp: mockMerkleProof_def Let_def leftmostRoot_def HashSum_def BytesToHash_32)
qed

lemma bench_never_panics_witness:
  "threads ((benchInit syncHashGetter)\<lparr>threads := (threads (benchInit syncHashGetter))(0 := Holding NewLegacyKeccak256)\<rparr>) 0
     \<noteq> Panicked PanicWriteAfterRead"
proof -
  have "bench_step (\<lambda>_. shaRes) (benchInit syncHashGetter)
          ((benchInit syncHashGetter)\<lparr>threads := (threads (benchInit syncHashGetter))(0 := Holding NewLegacyKeccak256)\<rparr>)"
    by (rule get_new) (simp add: benchInit_def)
  then show ?thesis
    using bench_never_panics[of "\<lambda>_. shaRes" syncHashGetter] by blast
qed

lemma mockMerkleProof_proves_first_leaf_witness:
  "case mockMerkleProof (\<lambda>x. take 32 (x @ replicate 32 0)) leaveContent of
     Inr (root, hs) \<Rightarrow> leftmostRoot (\<lambda>x. take 32 (x @ replicate 32 0)) (strBytes ''jack'') hs = root
   | Inl _ \<Rightarrow> False"
proof (cases "mockMerkleProof (\<lambda>x. take 32 (x @ replicate 32 0)) leaveContent")
  case (Inl e)
  then show ?thesis by (simp add: mockMerkleProof_def leaveContent_def Let_def)
next
  case (Inr r)
  have len: "\<forall>x. length (take 32 (x @ replicate 32 (0::byte))) = 32" by (simp add: min_def)
  obtain root hs where r: "r = (root, hs)" by (cases r)
  have "leftmostRoot (\<lambda>x. take 32 (x @ replicate 32 0)) (strBytes (leaveContent ! 0)) hs = root"
    by (rule mockMerkleProof_proves_first_leaf[OF len]) (use Inr r in simp)
  then show ?thesis using Inr r by (simp add: leaveContent_def)
qed

end
