(* ===== verification/HostDebug.thy ===== *)
theory HostDebug
  imports StorageHost
begin

text \<open>
  The host's debug API (\<open>src/storage/storagehost/api_storagehost.go\<close>) and
  the methods of \<open>StorageHost\<close> it calls (\<open>debug.go\<close>). The host state is
  the \<open>StorageHost\<close> record extended with the fields the debug methods read
  and write, the financial metrics being of any type \<open>'m\<close>. Writing the
  settings file (\<open>syncConfig\<close>) is a parameter that succeeds or fails; what a
  call does to the host lock, to the fields, to the file and to the log is
  returned as a trace of events, so that the lock discipline can be read off.
\<close>

text \<open>What \<open>extractPersistence\<close> saves of the host (outside the sources).\<close>

record 'm HostPersist =
  pConfig :: HostIntConfig
  pBroadcast :: bool
  pRevisionNumber :: u64
  pFinancialMetrics :: 'm

record 'm DebugHost = StorageHost +
  persistDir :: string
  broadcast :: bool
  revisionNumber :: u64
  financialMetrics :: 'm
  settingsFile :: "'m HostPersist option"

type_synonym 'm dhost = "('m, unit) DebugHost_ext StorageHost_scheme"

datatype dbg_event =
    RLockE | RUnlockE | LockE | UnlockE
  | WriteConfig | WriteBroadcast | WriteRevisionNumber | WriteFinancialMetrics
  | SyncConfig bool | WarnLog | Dump

definition extractPersistence :: "'m dhost \<Rightarrow> 'm HostPersist" where
  "extractPersistence h =
     \<lparr>pConfig = config h, pBroadcast = broadcast h, pRevisionNumber = revisionNumber h,
      pFinancialMetrics = financialMetrics h\<rparr>"

text \<open>\<open>syncConfig\<close>; a failure is only logged with \<open>h.log.Warn\<close>.\<close>

definition syncConfig :: "bool \<Rightarrow> 'm dhost \<Rightarrow> 'm dhost \<times> dbg_event list" where
  "syncConfig ok h =
     (if ok then (h\<lparr>settingsFile := Some (extractPersistence h)\<rparr>, [SyncConfig True])
      else (h, [SyncConfig False, WarnLog]))"

section \<open>The methods of \<open>debug.go\<close>\<close>

definition getPersistDir :: "'m dhost \<Rightarrow> string \<times> dbg_event list" where
  "getPersistDir h = (persistDir h, [RLockE, RUnlockE])"

definition getHostPersist :: "'m dhost \<Rightarrow> 'm HostPersist \<times> dbg_event list" where
  "getHostPersist h = (extractPersistence h, [RLockE, Dump, RUnlockE])"

definition getIntConfig :: "'m dhost \<Rightarrow> HostIntConfig \<times> dbg_event list" where
  "getIntConfig h = (config h, [Dump])"

definition getFinancialMetrics :: "'m dhost \<Rightarrow> 'm \<times> dbg_event list" where
  "getFinancialMetrics h = (financialMetrics h, [Dump])"

text \<open>\<open>setDefault\<close> writes the configuration without taking \<open>h.lock\<close>.\<close>

definition setDefault :: "HostIntConfig \<Rightarrow> bool \<Rightarrow> 'm dhost \<Rightarrow> 'm dhost \<times> dbg_event list" where
  "setDefault dflt ok h =
     (case syncConfig ok (h\<lparr>config := dflt\<rparr>) of (h', evs) \<Rightarrow> (h', WriteConfig # evs))"

definition setBroadCast :: "bool \<Rightarrow> bool \<Rightarrow> 'm dhost \<Rightarrow> 'm dhost \<times> dbg_event list" where
  "setBroadCast b ok h =
     (case syncConfig ok (h\<lparr>broadcast := b\<rparr>) of (h', evs) \<Rightarrow> (h', [LockE, WriteBroadcast] @ evs @ [UnlockE]))"

text \<open>\<open>uint64(num)\<close> of a Go \<open>int\<close>: a negative number wraps.\<close>

definition setRevisionNumber :: "int \<Rightarrow> bool \<Rightarrow> 'm dhost \<Rightarrow> 'm dhost \<times> dbg_event list" where
  "setRevisionNumber num ok h =
     (case syncConfig ok (h\<lparr>revisionNumber := word_of_int num\<rparr>) of
        (h', evs) \<Rightarrow> (h', [LockE, WriteRevisionNumber] @ evs @ [UnlockE]))"

definition setFinancialMetrics :: "'m \<Rightarrow> bool \<Rightarrow> 'm dhost \<Rightarrow> 'm dhost \<times> dbg_event list" where
  "setFinancialMetrics metric ok h =
     (case syncConfig ok (h\<lparr>financialMetrics := metric\<rparr>) of
        (h', evs) \<Rightarrow> (h', [LockE, WriteFinancialMetrics] @ evs @ [UnlockE]))"

section \<open>The API\<close>

text \<open>
  The calls of \<open>HostDeBugAPI\<close> as a datatype of operations and one step
  function. \<open>LoadIntConfig\<close> calls \<open>setIntConfig\<close>, which is not among the
  sources; it is the parameter \<open>setIntConfig\<close>. \<open>defaultConfig()\<close> is the
  parameter \<open>dflt\<close>, the outcome of writing the file \<open>ok\<close>.
\<close>

datatype 'm dbg_op =
    HelloWorld | Version | Persistdir | PrintHostPersist | PrintIntConfig | PrintFinancialMetrics
  | SetDefault | SetBroadCast bool | SetRevisionNumber int
  | LoadIntConfig HostIntConfig | LoadFinancialMetrics 'm

datatype 'm dbg_out = OutString string | OutPersist "'m HostPersist" | OutConfig HostIntConfig | OutMetrics 'm | OutNone

definition HostDeBugAPI ::
  "(HostIntConfig \<Rightarrow> 'm dhost \<Rightarrow> 'm dhost \<times> dbg_event list) \<Rightarrow> HostIntConfig \<Rightarrow> bool \<Rightarrow> 'm dbg_op \<Rightarrow>
   'm dhost \<Rightarrow> 'm dbg_out \<times> 'm dhost \<times> dbg_event list" where
  "HostDeBugAPI setIntConfig dflt ok op h =
     (case op of
        HelloWorld \<Rightarrow> (OutString ''confirmed! host api is working'', h, [])
      | Version \<Rightarrow> (OutString ''mock host version'', h, [])
      | Persistdir \<Rightarrow> (case getPersistDir h of (d, evs) \<Rightarrow> (OutString d, h, evs))
      | PrintHostPersist \<Rightarrow> (case getHostPersist h of (p, evs) \<Rightarrow> (OutPersist p, h, evs))
      | PrintIntConfig \<Rightarrow> (case getIntConfig h of (c, evs) \<Rightarrow> (OutConfig c, h, evs))
      | PrintFinancialMetrics \<Rightarrow> (case getFinancialMetrics h of (m, evs) \<Rightarrow> (OutMetrics m, h, evs))
      | SetDefault \<Rightarrow> (case setDefault dflt ok h of (h', evs) \<Rightarrow> (OutNone, h', evs))
      | SetBroadCast b \<Rightarrow> (case setBroadCast b ok h of (h', evs) \<Rightarrow> (OutNone, h', evs))
      | SetRevisionNumber n \<Rightarrow> (case setRevisionNumber n ok h of (h', evs) \<Rightarrow> (OutNone, h', evs))
      | LoadIntConfig c \<Rightarrow> (case setIntConfig c h of (h', evs) \<Rightarrow> (OutNone, h', evs))
      | LoadFinancialMetrics m \<Rightarrow> (case setFinancialMetrics m ok h of (h', evs) \<Rightarrow> (OutNone, h', evs)))"

text \<open>A write of a field is guarded when it comes after a \<open>Lock\<close> with no \<open>Unlock\<close> in between.\<close>

fun writes_guarded :: "bool \<Rightarrow> dbg_event list \<Rightarrow> bool" where
  "writes_guarded held [] = True"
| "writes_guarded held (e # evs) =
     (case e of
        LockE \<Rightarrow> writes_guarded True evs
      | UnlockE \<Rightarrow> writes_guarded False evs
      | WriteConfig \<Rightarrow> held \<and> writes_guarded held evs
      | WriteBroadcast \<Rightarrow> held \<and> writes_guarded held evs
      | WriteRevisionNumber \<Rightarrow> held \<and> writes_guarded held evs
      | WriteFinancialMetrics \<Rightarrow> held \<and> writes_guarded held evs
      | _ \<Rightarrow> writes_guarded held evs)"

section \<open>Lemmas\<close>

lemma syncConfig_file:
  "syncConfig ok h = (h', evs) \<Longrightarrow>
     (ok \<longrightarrow> settingsFile h' = Some (extractPersistence h)) \<and>
     (\<not> ok \<longrightarrow> h' = h \<and> WarnLog \<in> set evs) \<and> writes_guarded held evs"
  by (auto simp: syncConfig_def split: if_splits)

lemma setters_guarded:
  "writes_guarded False (snd (setBroadCast b ok h)) \<and>
   writes_guarded False (snd (setRevisionNumber n ok h)) \<and>
   writes_guarded False (snd (setFinancialMetrics m ok h))"
  by (simp_all add: setBroadCast_def setRevisionNumber_def setFinancialMetrics_def syncConfig_def)

lemma setDefault_unguarded: "\<not> writes_guarded False (snd (setDefault dflt ok h))"
  by (simp add: setDefault_def syncConfig_def)

lemma unat_word_of_int_u64: "unat (word_of_int num :: u64) = nat (num mod 2 ^ 64)"
  by (simp add: unat_eq_nat_uint uint_word_of_int_eq take_bit_eq_mod)

lemma setRevisionNumber_value:
  "revisionNumber (fst (setRevisionNumber num ok h)) = word_of_int num"
  by (cases ok) (simp_all add: setRevisionNumber_def syncConfig_def)

lemma setRevisionNumber_wraps:
  "unat (revisionNumber (fst (setRevisionNumber num ok h))) = nat (num mod 2 ^ 64)"
  by (simp only: setRevisionNumber_value unat_word_of_int_u64)

lemma setters_persist:
  "settingsFile (fst (setRevisionNumber num True h)) = Some (extractPersistence (h\<lparr>revisionNumber := word_of_int num\<rparr>)) \<and>
   settingsFile (fst (setBroadCast b True h)) = Some (extractPersistence (h\<lparr>broadcast := b\<rparr>)) \<and>
   settingsFile (fst (setDefault dflt True h)) = Some (extractPersistence (h\<lparr>config := dflt\<rparr>))"
  by (simp add: setRevisionNumber_def setBroadCast_def setDefault_def syncConfig_def)

lemma HostDeBugAPI_readers_pure:
  "op \<in> {HelloWorld, Version, Persistdir, PrintHostPersist, PrintIntConfig, PrintFinancialMetrics} \<Longrightarrow>
     fst (snd (HostDeBugAPI setIntConfig dflt ok op h)) = h"
  by (auto simp: HostDeBugAPI_def getPersistDir_def getHostPersist_def getIntConfig_def getFinancialMetrics_def)

end
