(* ===== verification/HostProtocol.thy ===== *)
theory HostProtocol
  imports HostDebug Lock
begin

text \<open>
  The methods of \<open>Protocol\<close> that the contract-creation handler calls
  (\<open>src/storage/storagehost/negotiationproto.go\<close>, lines 15--103). The host is
  the debug host extended with the map \<open>clientToContract\<close>, the registry of
  locked responsibilities of \<open>Lock\<close>, and the flag
  \<open>config.AcceptingContracts\<close>. The helpers these methods call are not part
  of the sources and are modelled from the specification: the try-lock and
  unlock of a responsibility are those of the lock registry, writing and
  deleting a responsibility in the persistence engine succeed or fail by a
  parameter, and \<open>deleteLockedStorageResponsibility\<close> drops the registry
  entry. The Ethereum backend's \<open>CheckAndUpdateConnection\<close> and the
  \<open>String()\<close> of a node are external: the first is an event of the trace, the
  second the parameter \<open>nodeStr\<close>. A deferred unlock that panics turns the
  result into the panic.
\<close>

record 'm ProtoHost = "'m DebugHost" +
  clientToContract :: "string \<Rightarrow> digest option"
  lockedResponsibilities :: registry
  acceptingContracts :: bool

type_synonym 'm phost = "('m, unit ProtoHost_ext) DebugHost_ext StorageHost_scheme"

datatype proto_error = ProtoLockErr lock_error | ErrPersist | PanicNilNode

datatype proto_event = PLock | PUnlock | PRLock | PRUnlock | UpdateConnection "nat option"

section \<open>The helpers outside the sources\<close>

definition insertStorageResponsibility ::
  "bool \<Rightarrow> 'm phost \<Rightarrow> StorageResponsibility \<Rightarrow> proto_error + 'm phost" where
  "insertStorageResponsibility ok h sr =
     (if ok then Inr (h\<lparr>db := (db h)(SrID sr \<mapsto> sr)\<rparr>) else Inl ErrPersist)"

definition deleteStorageResponsibilities ::
  "bool \<Rightarrow> 'm phost \<Rightarrow> digest list \<Rightarrow> proto_error + 'm phost" where
  "deleteStorageResponsibilities ok h ids =
     (if ok then Inr (h\<lparr>db := (\<lambda>k. if k \<in> set ids then None else db h k)\<rparr>) else Inl ErrPersist)"

definition deleteLockedStorageResponsibility :: "'m phost \<Rightarrow> digest \<Rightarrow> 'm phost" where
  "deleteLockedStorageResponsibility h soid =
     h\<lparr>lockedResponsibilities := (lockedResponsibilities h)(soid := None)\<rparr>"

definition tryLockResponsibility :: "'m phost \<Rightarrow> digest \<Rightarrow> proto_error + 'm phost" where
  "tryLockResponsibility h soid =
     (case checkAndTryLockStorageObligation (lockedResponsibilities h) soid of
        (Inl e, _) \<Rightarrow> Inl (ProtoLockErr e)
      | (Inr _, reg) \<Rightarrow> Inr (h\<lparr>lockedResponsibilities := reg\<rparr>))"

text \<open>The deferred \<open>checkAndUnlockStorageResponsibility\<close> run after the body.\<close>

definition deferUnlock ::
  "digest \<Rightarrow> (proto_error + unit) \<times> 'm phost \<Rightarrow> (proto_error + unit) \<times> 'm phost" where
  "deferUnlock soid rh =
     (case checkAndUnlockStorageObligation (lockedResponsibilities (snd rh)) soid of
        Inl e \<Rightarrow> (Inl (ProtoLockErr e), snd rh)
      | Inr reg \<Rightarrow> (fst rh, (snd rh)\<lparr>lockedResponsibilities := reg\<rparr>))"

section \<open>The methods\<close>

definition StorageHost_GetFinancialMetrics :: "'m phost \<Rightarrow> 'm \<times> proto_event list" where
  "StorageHost_GetFinancialMetrics h = (financialMetrics h, [PRLock, PRUnlock])"

definition StorageHost_InsertContract :: "string \<Rightarrow> digest \<Rightarrow> 'm phost \<Rightarrow> 'm phost \<times> proto_event list" where
  "StorageHost_InsertContract peerNodeStr contractID h =
     (h\<lparr>clientToContract := (clientToContract h)(peerNodeStr \<mapsto> contractID)\<rparr>, [PLock, PUnlock])"

definition StorageHost_IsAcceptingContract :: "'m phost \<Rightarrow> bool \<times> proto_event list" where
  "StorageHost_IsAcceptingContract h = (acceptingContracts h, [PRLock, PRUnlock])"

definition StorageHost_SetStatic :: "nat \<Rightarrow> 'm phost \<Rightarrow> 'm phost" where
  "StorageHost_SetStatic node h = h\<lparr>staticNodes := insert node (staticNodes h)\<rparr>"

definition StorageHost_CheckAndUpdateConnection :: "nat option \<Rightarrow> proto_event list" where
  "StorageHost_CheckAndUpdateConnection node = [UpdateConnection node]"

definition StorageHost_FinalizeStorageResponsibility ::
  "bool \<Rightarrow> 'm phost \<Rightarrow> StorageResponsibility \<Rightarrow> (proto_error + unit) \<times> 'm phost" where
  "StorageHost_FinalizeStorageResponsibility insOk h sr =
     (case tryLockResponsibility h (SrID sr) of
        Inl lockErr \<Rightarrow> (Inl lockErr, h)
      | Inr h1 \<Rightarrow>
          deferUnlock (SrID sr)
            (case insertStorageResponsibility insOk h1 sr of
               Inl err \<Rightarrow> (Inl err, deleteLockedStorageResponsibility h1 (SrID sr))
             | Inr h2 \<Rightarrow> (Inr (), h2)))"

definition StorageHost_RollBackCreateStorageResponsibility ::
  "bool \<Rightarrow> 'm phost \<Rightarrow> StorageResponsibility \<Rightarrow> (proto_error + unit) \<times> 'm phost" where
  "StorageHost_RollBackCreateStorageResponsibility delOk h sr =
     (case tryLockResponsibility h (SrID sr) of
        Inl lockErr \<Rightarrow> (Inl lockErr, h)
      | Inr h1 \<Rightarrow>
          deferUnlock (SrID sr)
            (case deleteStorageResponsibilities delOk h1 [SrID sr] of
               Inl err \<Rightarrow> (Inl err, h1)
             | Inr h2 \<Rightarrow> (Inr (), deleteLockedStorageResponsibility h2 (SrID sr))))"

text \<open>
  \<open>RollBackConnectionType\<close>: the backend call comes first, outside
  \<open>h.lock\<close>; \<open>sp.PeerNode().String()\<close> on a nil node panics.
\<close>

definition StorageHost_RollBackConnectionType ::
  "(nat \<Rightarrow> string) \<Rightarrow> 'm phost \<Rightarrow> (proto_error + unit) \<times> 'm phost \<times> proto_event list" where
  "StorageHost_RollBackConnectionType nodeStr h =
     (let evs = StorageHost_CheckAndUpdateConnection (peerNode h) in
      case peerNode h of
        None \<Rightarrow> (Inl PanicNilNode, h, evs @ [PLock, PUnlock])
      | Some node \<Rightarrow>
          (Inr (), h\<lparr>clientToContract := (clientToContract h)(nodeStr node := None)\<rparr>, evs @ [PLock, PUnlock]))"

section \<open>Lemmas\<close>

lemma tryLock_free:
  "lockedResponsibilities h soid \<noteq> Some True \<Longrightarrow>
     tryLockResponsibility h soid = Inr (h\<lparr>lockedResponsibilities := (lockedResponsibilities h)(soid \<mapsto> True)\<rparr>)"
  by (cases "lockedResponsibilities h soid") (auto simp: tryLockResponsibility_def checkAndTryLockStorageObligation_def)

lemma tryLock_held:
  "lockedResponsibilities h soid = Some True \<Longrightarrow>
     tryLockResponsibility h soid = Inl (ProtoLockErr errObligationLocked)"
  by (simp add: tryLockResponsibility_def checkAndTryLockStorageObligation_def)

lemma deferUnlock_held:
  "lockedResponsibilities h soid = Some True \<Longrightarrow>
     deferUnlock soid (r, h) = (r, h\<lparr>lockedResponsibilities := (lockedResponsibilities h)(soid \<mapsto> False)\<rparr>)"
  by (simp add: deferUnlock_def checkAndUnlockStorageObligation_def)

lemma deferUnlock_dropped:
  "lockedResponsibilities h soid = None \<Longrightarrow> deferUnlock soid (r, h) = (r, h)"
  by (simp add: deferUnlock_def checkAndUnlockStorageObligation_def)

lemma delete_single:
  "deleteStorageResponsibilities ok h [soid] =
     (if ok then Inr (h\<lparr>db := (db h)(soid := None)\<rparr>) else Inl ErrPersist)"
  by (simp add: deleteStorageResponsibilities_def fun_upd_def)

lemmas proto_lock_simps = tryLock_free tryLock_held deferUnlock_held deferUnlock_dropped

lemma Finalize_free:
  "lockedResponsibilities h (SrID sr) \<noteq> Some True \<Longrightarrow>
     StorageHost_FinalizeStorageResponsibility insOk h sr =
       (if insOk then (Inr (), h\<lparr>db := (db h)(SrID sr \<mapsto> sr),
                                  lockedResponsibilities := (lockedResponsibilities h)(SrID sr \<mapsto> False)\<rparr>)
        else (Inl ErrPersist, h\<lparr>lockedResponsibilities := (lockedResponsibilities h)(SrID sr := None)\<rparr>))"
  by (simp add: StorageHost_FinalizeStorageResponsibility_def proto_lock_simps insertStorageResponsibility_def
        deleteLockedStorageResponsibility_def)

lemma Finalize_held:
  "lockedResponsibilities h (SrID sr) = Some True \<Longrightarrow>
     StorageHost_FinalizeStorageResponsibility insOk h sr = (Inl (ProtoLockErr errObligationLocked), h)"
  by (simp add: StorageHost_FinalizeStorageResponsibility_def tryLock_held)

lemma RollBackCreate_free:
  "lockedResponsibilities h (SrID sr) \<noteq> Some True \<Longrightarrow>
     StorageHost_RollBackCreateStorageResponsibility delOk h sr =
       (if delOk then (Inr (), h\<lparr>db := (db h)(SrID sr := None),
                                  lockedResponsibilities := (lockedResponsibilities h)(SrID sr := None)\<rparr>)
        else (Inl ErrPersist, h\<lparr>lockedResponsibilities := (lockedResponsibilities h)(SrID sr \<mapsto> False)\<rparr>))"
  by (simp add: StorageHost_RollBackCreateStorageResponsibility_def proto_lock_simps
        delete_single deleteLockedStorageResponsibility_def)

lemma RollBackCreate_held:
  "lockedResponsibilities h (SrID sr) = Some True \<Longrightarrow>
     StorageHost_RollBackCreateStorageResponsibility delOk h sr = (Inl (ProtoLockErr errObligationLocked), h)"
  by (simp add: StorageHost_RollBackCreateStorageResponsibility_def tryLock_held)

lemma Finalize_RollBackCreate:
  assumes "db h (SrID sr) = None" and "lockedResponsibilities h (SrID sr) = None"
  shows "StorageHost_RollBackCreateStorageResponsibility True
           (snd (StorageHost_FinalizeStorageResponsibility True h sr)) sr = (Inr (), h)"
  using assms by (simp add: Finalize_free RollBackCreate_free fun_upd_idem)

lemma Finalize_no_panic:
  "fst (StorageHost_FinalizeStorageResponsibility insOk h sr) \<noteq> Inl (ProtoLockErr ErrUnlockOfUnlockedMutex)"
  by (cases "lockedResponsibilities h (SrID sr) = Some True") (simp_all add: Finalize_free Finalize_held)

lemma RollBackCreate_no_panic:
  "fst (StorageHost_RollBackCreateStorageResponsibility delOk h sr) \<noteq> Inl (ProtoLockErr ErrUnlockOfUnlockedMutex)"
  by (cases "lockedResponsibilities h (SrID sr) = Some True") (simp_all add: RollBackCreate_free RollBackCreate_held)

lemma InsertContract_RollBackConnectionType:
  assumes "peerNode h = Some n" and "clientToContract h (nodeStr n) = None"
  shows "StorageHost_RollBackConnectionType nodeStr (fst (StorageHost_InsertContract (nodeStr n) cid h)) =
           (Inr (), h, [UpdateConnection (Some n), PLock, PUnlock])"
  using assms by (simp add: StorageHost_RollBackConnectionType_def StorageHost_InsertContract_def
                   StorageHost_CheckAndUpdateConnection_def fun_upd_idem)

lemma RollBackConnectionType_nil:
  "peerNode h = None \<Longrightarrow>
     StorageHost_RollBackConnectionType nodeStr h = (Inl PanicNilNode, h, [UpdateConnection None, PLock, PUnlock])"
  by (simp add: StorageHost_RollBackConnectionType_def StorageHost_CheckAndUpdateConnection_def)

end
