(* ===== verification/Wire.thy ===== *)
theory Wire
  imports Prelude
begin

text \<open>
  The wire message codes and the storage constants of package \<open>storage\<close>
  (\<open>src/unnamed/part_003\<close>), and the contract-creation constants
  (\<open>contractcreatenegotiation/const.go\<close>). The message codes are one
  datatype of names with their code; block counts are \<open>uint64\<close> words, as
  Go types the \<open>var\<close> block; \<open>ExpectedRedundancy\<close>, the \<open>float64\<close> \<open>2.0\<close>,
  is the integer it denotes exactly.
\<close>

definition IDLE :: nat where "IDLE = 0"

definition BUSY :: nat where "BUSY = 1"

datatype msg_name =
    StorageContractCreationMsg
  | StorageContractCreationHostSignMsg
  | StorageContractCreationClientRevisionSignMsg
  | StorageContractCreationHostRevisionSignMsg
  | StorageContractUploadRequestMsg
  | StorageContractUploadMerkleRootProofMsg
  | StorageContractUploadClientRevisionMsg
  | StorageContractUploadHostRevisionMsg
  | StorageContractDownloadRequestMsg
  | StorageContractDownloadDataMsg
  | StorageContractDownloadHostRevisionMsg
  | NegotiationErrorMsg
  | NegotiationStopMsg
  | HostConfigRespMsg
  | UploadMerkleProofMsg
  | HostConfigReqMsg
  | ContractCreateReqMsg
  | UploadReqMsg

fun msgCode :: "msg_name \<Rightarrow> nat" where
  "msgCode StorageContractCreationMsg = 0x22"
| "msgCode StorageContractCreationHostSignMsg = 0x23"
| "msgCode StorageContractCreationClientRevisionSignMsg = 0x24"
| "msgCode StorageContractCreationHostRevisionSignMsg = 0x25"
| "msgCode StorageContractUploadRequestMsg = 0x26"
| "msgCode StorageContractUploadMerkleRootProofMsg = 0x27"
| "msgCode StorageContractUploadClientRevisionMsg = 0x28"
| "msgCode StorageContractUploadHostRevisionMsg = 0x29"
| "msgCode StorageContractDownloadRequestMsg = 0x33"
| "msgCode StorageContractDownloadDataMsg = 0x34"
| "msgCode StorageContractDownloadHostRevisionMsg = 0x35"
| "msgCode NegotiationErrorMsg = 0x33"
| "msgCode NegotiationStopMsg = 0x34"
| "msgCode HostConfigRespMsg = 0x20"
| "msgCode UploadMerkleProofMsg = 0x21"
| "msgCode HostConfigReqMsg = 0x30"
| "msgCode ContractCreateReqMsg = 0x31"
| "msgCode UploadReqMsg = 0x32"

section \<open>Block counts and defaults\<close>

definition BlockPerMin :: u64 where "BlockPerMin = 4"

definition BlockPerHour :: u64 where "BlockPerHour = 240"

definition BlocksPerDay :: u64 where "BlocksPerDay = 24 * BlockPerHour"

definition BlocksPerWeek :: u64 where "BlocksPerWeek = 7 * BlocksPerDay"

definition BlocksPerMonth :: u64 where "BlocksPerMonth = 30 * BlocksPerDay"

definition BlocksPerYear :: u64 where "BlocksPerYear = 365 * BlocksPerDay"

text \<open>\<open>ResponsibilityLockTimeout\<close>, in seconds.\<close>

definition ResponsibilityLockTimeout :: nat where "ResponsibilityLockTimeout = 60"

record RentPaymentDefaults =
  rpFund :: int
  rpStorageHosts :: u64
  rpPeriod :: u64
  rpRenewWindow :: u64
  rpExpectedStorage :: u64
  rpExpectedUpload :: u64
  rpExpectedDownload :: u64
  rpExpectedRedundancy :: int

definition DefaultRentPayment :: RentPaymentDefaults where
  "DefaultRentPayment =
     \<lparr>rpFund = 10 ^ 18, rpStorageHosts = 3, rpPeriod = 3 * BlocksPerDay, rpRenewWindow = 12 * BlockPerHour,
      rpExpectedStorage = 1000000000000, rpExpectedUpload = 200000000000 div BlocksPerMonth,
      rpExpectedDownload = 100000000000 div BlocksPerMonth, rpExpectedRedundancy = 2\<rparr>"

section \<open>Contract-creation constants\<close>

definition expectedValidProofPaybackCounts :: nat where "expectedValidProofPaybackCounts = 2"

definition expectedMissedProofPaybackCounts :: nat where "expectedMissedProofPaybackCounts = 2"

definition missedProofPaybackHostAddressIndex :: nat where "missedProofPaybackHostAddressIndex = 1"

definition contractRequiredSignatures :: nat where "contractRequiredSignatures = 2"

section \<open>Lemmas\<close>

text \<open>
  The codes are unique except for two pairs: the download request and data
  messages share their codes with the negotiation error and stop messages, so
  a reader dispatching on \<open>msg.Code\<close> cannot tell them apart.
\<close>

lemma msgCode_eq_iff:
  "msgCode a = msgCode b \<longleftrightarrow>
     a = b \<or> {a, b} = {StorageContractDownloadRequestMsg, NegotiationErrorMsg} \<or>
     {a, b} = {StorageContractDownloadDataMsg, NegotiationStopMsg}"
  by (cases a; cases b) (auto simp: doubleton_eq_iff)

lemma block_counts:
  "unat BlocksPerDay = 5760 \<and> unat BlocksPerWeek = 40320 \<and> unat BlocksPerMonth = 172800 \<and>
   unat BlocksPerYear = 2102400"
  by (simp add: BlocksPerDay_def BlocksPerWeek_def BlocksPerMonth_def BlocksPerYear_def BlockPerHour_def)

lemma DefaultRentPayment_values:
  "unat (rpPeriod DefaultRentPayment) = 17280 \<and> unat (rpRenewWindow DefaultRentPayment) = 2880 \<and>
   unat (rpExpectedUpload DefaultRentPayment) = 1157407 \<and> unat (rpExpectedDownload DefaultRentPayment) = 578703"
  by (simp add: DefaultRentPayment_def BlocksPerDay_def BlocksPerMonth_def BlockPerHour_def)

end
