(* ===== verification/Spec2Isabelle.thy ===== *)
theory Spec2Isabelle
  imports StorageHost Lock HostTree LuckyWheel ClientCreate DownloadSchedule ClientService ChainTx DposRpc DposTxApi HostEvaluation FsContractor TrieExamples EvmCall EvmRun HashTests HostDebug HostProtocol Wire
begin

text \<open>
  \<^bold>\<open>A verification library for the storage-negotiation core of godx.\<close>

  \<^emph>\<open>The program.\<close> A storage client and a storage host negotiate a contract,
  then revise it each time data is uploaded or downloaded. Every revision is
  justified by Merkle diff proofs over the file's sector roots. The parts are:
  \<^item> the Merkle proof engine of package \<open>merkle\<close>
    (\<open>src/consensus/dpos/api.go\<close>, lines 87--397);
  \<^item> the host's upload negotiation
    (\<open>src/storage/storagehost/hostnegotiation/contractuploadhandler.go\<close>);
  \<^item> the host's per-contract lock registry
    (\<open>src/storage/storagehost/storageobligationslock.go\<close>);
  \<^item> the host-selection tree (\<open>src/storage/storageclient/storagehosttree/node.go\<close>);
  \<^item> the validator lucky wheel (\<open>src/consensus/dpos/errors.go\<close>, second file);
  \<^item> the client's contract-creation, upload and download flows
    (\<open>src/unnamed/part_000\<close>);
  \<^item> the transaction API that submits storage-contract and DPoS transactions
    (\<open>src/unnamed/part_005\<close>);
  \<^item> the EVM handlers that execute those transactions on chain
    (\<open>src/core/types/memory_test.go\<close>, lines 571--935), and the call and
    create frames and interpreter dispatch of package \<open>vm\<close> they run in
    (lines 125--565);
  \<^item> the host evaluation criteria (\<open>evaluation.go\<close>, \<open>part_000\<close>);
  \<^item> the test and example code: the host-health contractors
    (\<open>part_002\<close>), the trie examples, the hasher benchmarks of
    \<open>memory_test.go\<close> and the Merkle fixture of \<open>part_004\<close>.
  The upload handler computes the new sector-root list and asks the Merkle engine
  for a diff proof over it; the client verifies that proof with the same engine.

  \<^emph>\<open>The library.\<close>
  \<^item> \<open>Prelude\<close>: the 64-bit word types standing for Go's \<open>uint64\<close> and \<open>int\<close>;
    Go's \<open>bits.TrailingZeros64\<close> and \<open>bits.Len64\<close> as \<open>trailingZeros64\<close> and
    \<open>len64\<close>; \<open>1 << uint(k)\<close> as \<open>go_shl1\<close>; the symbolic \<open>digest\<close> type.
    \<open>digest\<close> is the free term algebra of the hash constructions
    \<open>leafSum\<close>/\<open>nodeSum\<close>: the usual collision-resistance idealisation, so two
    roots are equal exactly when the trees are.
  \<^item> \<open>MerkleTree\<close>: the incremental \<open>Tree\<close> as a stack of complete subtrees
    (\<open>join_all\<close>, \<open>push_subtree\<close>, \<open>push_leaf\<close>, \<open>tree_root\<close>). The \<open>Tree\<close>
    source is not among the sources, so this part is modelled from the spec,
    following the stack discipline the proof code relies on.
    \<open>Sha256CachedTreeRoot2\<close> is modelled from the spec too. The theory also
    holds \<open>adjacentSubtreeSize\<close> and \<open>checkLimitList\<close>, translated from
    \<open>api.go\<close> lines 107--129. Its lemmas: the root is invariant under joining;
    pushing an aligned block of \<open>2 ^ k\<close> leaves is pushing its root at height
    \<open>k\<close>; the heights of a stack covering \<open>n\<close> leaves are the bits of \<open>n\<close>.
  \<^item> \<open>MerkleProof\<close>: the \<open>SubtreeRoot\<close> and \<open>LeafRoot\<close> interfaces as records
    of functions over the source's state. Their instances are the reader
    (\<open>SubtreeRootReader\<close>, \<open>LeafRootReader\<close>) and the cache
    (\<open>CachedSubtreeRoot\<close>, \<open>LeafRootCached\<close>). Proof construction is
    \<open>getLimitStorageProof\<close>, with its \<open>consumeUntil\<close> closure as \<open>consume_until\<close>,
    a \<open>function\<close> that terminates for every source. Verification is
    \<open>checkLimitStorageProof\<close>; the single-range wrappers are
    \<open>GetLimitStorageProof\<close> and \<open>CheckLimitStorageProof\<close>. Its lemmas run prover
    and verifier in lock-step over the gaps, the skipped ranges and the final
    drain.

  \<^item> \<open>Upload\<close>: the host's upload handler \<open>ContractUploadHandler\<close> and
    every step it calls, as functions over the host state with the peer's
    answers as a script (\<open>PeerScript\<close>) and the calls outside the sources as
    parameters (\<open>UploadExt\<close>, the \<open>Protocol\<close> record). Its lemmas give each
    step's result on every branch.
  \<^item> \<open>StorageHost\<close>: the host state (\<open>StorageHost\<close> record, the database
    of responsibilities as a map) and its \<open>Protocol\<close> implementation
    (\<open>negotiationproto.go\<close>); \<open>StorageHost_ReadSector\<close>, which calls itself,
    is a \<open>partial_function (option)\<close> whose value is \<open>None\<close> (it never returns).
  \<^item> \<open>Lock\<close>: the lock registry's three functions, then threads interleaved
    as the step relation \<open>lock_step\<close> over \<open>lock_state\<close>, with the invariant
    \<open>lock_inv\<close> proved for every reachable state by rule induction.
  \<^item> \<open>HostTree\<close>: the host-selection tree (\<open>hnode\<close>, parent pointers
    replaced by paths), \<open>nodeInsert\<close>, \<open>nodeRemove\<close>, \<open>nodeWithEval\<close>; the
    invariant \<open>tree_wf\<close>, the abstraction to the multiset of occupied entries,
    and the refinement of \<open>nodeWithEval\<close> by a weighted pick over a list.
  \<^item> \<open>LuckyWheel\<close>: the lucky-wheel selector, the random source being any
    stream of integers, so its theorems hold for every seed.
  \<^item> \<open>ClientDownload\<close>, \<open>ClientUpload\<close>, \<open>ClientCreate\<close>: both copies of
    the client's \<open>Read\<close>/\<open>Download\<close>, \<open>Write\<close>/\<open>Append\<close> and
    \<open>ContractCreate\<close> in \<open>part_000\<close>, with the session, the wallet and the
    backend as records of outcomes and the messages sent as a trace. Nil
    \<open>*big.Int\<close> pointers are \<open>None\<close>, Go panics are error constructors.
  \<^item> \<open>DownloadSchedule\<close>: the client's download scheduling in
    \<open>part_000\<close>: \<open>newDownload\<close> with its two \<open>uint64\<close> segment loops as
    functions with a measure, \<open>managedDownload\<close> with its parameter checks
    and deferred calls as an event trace, \<open>DownloadSync\<close> and
    \<open>DownloadAsync\<close>. Its theorem \<open>newDownload_tiles\<close> shows that the
    queued segments fetch exactly the requested bytes and write each at its
    offset; its lemmas show that an \<open>offset + length\<close> that wraps passes
    both boundary checks.
  \<^item> \<open>ClientService\<close>: the three copies of the client's \<open>New\<close>,
    \<open>Start\<close>, \<open>Close\<close> and \<open>setBandwidthLimits\<close>; its lemmas show that
    \<open>Start\<close> sets the backend before its first check, that only the second
    copy starts the workers, and that \<open>Close\<close> closes both managers.
  \<^item> \<open>ChainTx\<close>: the on-chain side: \<open>CreateContractTx\<close>,
    \<open>CommitRevisionTx\<close>, \<open>StorageProofTx\<close>, \<open>HostAnnounceTx\<close> and the DPoS
    handlers over an explicit state database, with the dispatchers'
    snapshot and revert. Its lemmas give the balance effect of each
    transaction, the round trip of \<open>Uint64ToBytes\<close> through a storage slot,
    and the atomicity of both dispatchers; its theorem
    \<open>create_then_prove_pays\<close> follows a contract from creation to proof.
  \<^item> \<open>DposRpc\<close>: the DPoS RPC API of \<open>api.go\<close> over the chain reader's
    answers, and the consensus errors of \<open>errors.go\<close>; its lemmas show the
    pending block number read as \<open>2^64 - 2\<close> and the nil current header
    that \<open>GetVotedCandidatesByAddress\<close> does not check.
  \<^item> \<open>DposTxApi\<close>: the transaction API of \<open>part_005\<close>: the arguments
    constructor, \<open>CheckDposOperationTx\<close> with Go's \<open>Int64()\<close> truncation
    as \<open>64 word\<close> arithmetic, \<open>sendPrecompiledContractTx\<close> with the address
    lock and the transactions sent as a trace, and the eight senders.
  \<^item> \<open>HostDebug\<close>: the host debug API (\<open>api_storagehost.go\<close>,
    \<open>debug.go\<close>) as a datatype of calls and one step function over the host
    state, with the lock, field writes, file writes and log as an event
    trace; its lemmas show \<open>setDefault\<close> is the one setter that writes
    without the host lock, and that \<open>setRevisionNumber\<close> wraps a negative
    number.
  \<^item> \<open>HostProtocol\<close>: the remaining \<open>Protocol\<close> methods of
    \<open>negotiationproto.go\<close> that contract creation calls, over the debug host
    extended with \<open>clientToContract\<close>, the registry of locked
    responsibilities and \<open>AcceptingContracts\<close>. Its lemmas give
    \<open>FinalizeStorageResponsibility\<close> and
    \<open>RollBackCreateStorageResponsibility\<close> on every branch, show that
    neither panics in its deferred unlock, that a rollback after a
    finalisation restores the host exactly, and that
    \<open>RollBackConnectionType\<close> undoes \<open>InsertContract\<close> but panics on a
    nil peer node.
  \<^item> \<open>Wire\<close>: the message codes (\<open>part_003\<close>) as a datatype of names with
    their code, the block counts, the default rent payment and the
    contract-creation constants; its lemma \<open>msgCode_eq_iff\<close> shows the codes
    unique except the two pairs the negotiation error and stop messages
    share with the download messages.
  \<^item> \<open>HostEvaluation\<close>: the host evaluation criteria and every adjustment
    (\<open>evaluation.go\<close> and the adjustments in \<open>part_000\<close>), with \<open>float64\<close>
    as an abstract record of operations (\<open>FloatOps\<close>) applied in the order
    of the code and Go's durations as 64-bit words. Its lemmas give each
    adjustment's value against a closed form, the panics of the integer
    divisions, and (claim C3) that the scan loop adds up exactly the
    intervals between accepted, time-ordered scans.
  \<^item> \<open>FsContractor\<close>: the three host-health contractors of the file-system
    tests (\<open>part_002\<close>), the random one as a step on its state with the
    \<open>rand.Float32\<close> draws as a stream; its lemmas show that two successive
    calls give the same answer for every host asked in both (C11).
  \<^item> \<open>TrieExamples\<close>: the trie package examples after the lock registry,
    over the go-ethereum trie modelled from its interface as a
    content-addressed sorted association list (\<open>tInsert\<close>, \<open>tDelete\<close>,
    \<open>Commit\<close>, \<open>trieNew\<close> for \<open>trie.New\<close>); its lemmas compute each example's
    printed output (C37).
  \<^item> \<open>EvmCall\<close>: \<open>NewEVM\<close>, \<open>Call\<close>, \<open>CallCode\<close>, \<open>DelegateCall\<close>,
    \<open>StaticCall\<close>, \<open>create\<close>, \<open>Create\<close>, \<open>Create2\<close> of package \<open>vm\<close> over the
    state database of \<open>ChainTx\<close> and the accounts' code, with the
    interpreter as the parameter \<open>run\<close>; its lemmas show every error reverts
    to the snapshot (C33) and what a failed or successful create leaves.
  \<^item> \<open>EvmRun\<close>: the dispatch \<open>run\<close> that \<open>EvmCall\<close> calls: precompiles by
    rule set, then the first interpreter that can run the code, with the
    deferred restore of the interpreter pointer. Its lemmas show the loop is
    a \<open>find\<close> over the interpreters, that the pointer is restored whenever
    the current interpreter restores it, and that a \<open>Call\<close> whose code no
    interpreter runs returns \<open>ErrNoCompatibleInterpreter\<close>, burns the gas
    and reverts.
  \<^item> \<open>HashTests\<close>: the hasher benchmarks of \<open>memory_test.go\<close> (lines
    17--88), the goroutines of \<open>RunParallel\<close> interleaved as the step
    relation \<open>bench_step\<close> over the \<open>sync.Pool\<close> (a multiset the runtime may
    clear) and the threads' states, and the Merkle fixture
    \<open>mockMerkleProof\<close> of the \<open>vm\<close> tests (\<open>part_004\<close>). Its lemmas show, by
    rule induction, that the pool holds only reset hashers, so no goroutine
    panics when the digest of \<open>testString\<close> is \<open>shaRes\<close> (C8) and one does
    when it is not; and that the fixture's hash set proves the first leaf.
  The claims C1--C19 are in this theory except C3 (\<open>HostEvaluation\<close>),
  C8 (\<open>HashTests\<close>) and C11 (\<open>FsContractor\<close>); the later ones are in the component theories
  (LuckyWheel C20, C21 and C23, ChainTx C22, ClientDownload C24, C25, C27 and
  C28, DownloadSchedule C26, ClientUpload C29--C31, ClientCreate C32, C34 and
  C35, EvmCall C33, DposTxApi C36 and C38--C40, TrieExamples C37).

  \<^emph>\<open>Bounds.\<close> The Merkle theorems assume fewer than \<open>2 ^ 62\<close> leaves. The size
  the drain asks for is then a positive Go \<open>int\<close>, and no leaf index
  overflows. At \<open>2 ^ 63\<close> the size would read as a negative \<open>int\<close>, the source
  would push nothing, and a \<open>nil\<close> root would enter the proof. The bandwidth
  estimate of \<open>Read\<close> is exact for fewer than \<open>2 ^ 31\<close> sections, where its
  \<open>uint64\<close> sum cannot wrap. No fuel is used: every loop is structural or has
  a measure, and the one recursion that does not end, \<open>ReadSector\<close>, is a
  \<open>partial_function (option)\<close> proved to be \<open>None\<close>. The length a Go \<open>make\<close>
  may allocate is the parameter \<open>maxLen\<close> of \<open>newDownload\<close>: the runtime's
  limit depends on the machine, and the theorems hold for every value of it
  that admits the file's segment count.

  \<^emph>\<open>Not modelled.\<close> I/O errors of the byte stream other than its end; the
  transport, wallets and the chain (interfaces only). \<open>float64\<close> arithmetic
  is abstract (\<open>FloatOps\<close>): the theorems of \<open>HostEvaluation\<close> hold for
  every implementation of the operations, and none depends on rounding.
  Keccak-256 and the \<open>sha3\<close> sponge are a parameter and a two-phase
  record: the theorems hold for every digest function. The bytecode
  interpreters, the precompiled contracts and the gas table of go-ethereum
  are fields of \<open>EvmRun\<close>'s environment, not code of the sources. Not
  modelled at all: the directory example of \<open>part_001\<close>, which only drives
  the \<open>dxdir\<close> file store and write-ahead log through the file system and
  whose \<open>reflect.DeepEqual\<close> check compares a metadata record with its
  reread copy; and \<open>TestCheckMultiSignatures\<close> of \<open>part_004\<close>, which signs
  with fresh ECDSA keys and calls \<open>CheckMultiSignatures\<close>, outside the
  sources. The client's service wiring (\<open>ClientService\<close>) records only
  which references \<open>New\<close> and \<open>Start\<close> set and which goroutines and hooks
  they start; the managers, the memory manager and the download loop they
  start are outside the sources.
\<close>

section \<open>Example inputs\<close>

definition ex_leaves :: "digest list" where
  "ex_leaves = map Hash_Value [1, 2, 3, 4, 5]"

definition ex_limits :: "SubTreeLimit list" where
  "ex_limits = [\<lparr>Left = 1, Right = 2\<rparr>, \<lparr>Left = 3, Right = 4\<rparr>]"

definition ex_adjacent_limits :: "SubTreeLimit list" where
  "ex_adjacent_limits = [\<lparr>Left = 0, Right = 1\<rparr>, \<lparr>Left = 1, Right = 2\<rparr>]"

text \<open>
  An upload on a host holding one contract with an empty file (the
  specification's scenario A): one appended sector, a client that signs and
  commits, and the acknowledgement that can be sent or not.
\<close>

definition ex_rev0 :: StorageContractRevision where
  "ex_rev0 = \<lparr>NewRevisionNumber = 1, NewFileSize = 0, NewFileMerkleRoot = zero_hash,
     NewValidProofOutputs = [\<lparr>Value = 10, Address = 1\<rparr>, \<lparr>Value = 20, Address = 2\<rparr>],
     NewMissedProofOutputs = [\<lparr>Value = 10, Address = 1\<rparr>, \<lparr>Value = 20, Address = 2\<rparr>], Signatures = []\<rparr>"

definition ex_sr :: StorageResponsibility where
  "ex_sr = \<lparr>SrID = Hash_Value 7, SectorRoots = [], StorageContractRevisions = [ex_rev0],
     PotentialStorageRevenue = 0, RiskedStorageDeposit = 0, PotentialUploadRevenue = 0\<rparr>"

definition ex_host :: StorageHost where
  "ex_host = \<lparr>db = [Hash_Value 7 \<mapsto> ex_sr], sectors = {#},
     config = \<lparr>UploadBandwidthPrice = 1, DownloadBandwidthPrice = 1\<rparr>, blockHeight = 100,
     wallets = [2 \<mapsto> (\<lambda>_. Some [1])], peerNode = None, peerIsStatic = False, staticNodes = {}\<rparr>"

definition ex_ext :: UploadExt where
  "ex_ext = \<lparr>calcHostRevenue = (\<lambda>_ _ _ _. (0, 0, 0)), uploadRevisionValidation = (\<lambda>_ _ _ _. True),
     calcBandwidthRevenueForProof = (\<lambda>_ _ _ _. 0), RLPHash = (\<lambda>_. zero_hash)\<rparr>"

definition ex_req :: "int list \<Rightarrow> UploadRequest" where
  "ex_req vals = \<lparr>StorageContractID = Hash_Value 7, Actions = [\<lparr>Type = UploadActionAppend, Data = [1, 2, 3]\<rparr>],
     ReqNewRevisionNumber = 2, NewValidProofValues = vals, NewMissedProofValues = vals\<rparr>"

definition ex_peer :: "bool \<Rightarrow> PeerScript" where
  "ex_peer ackOk = \<lparr>sendProofOk = True, clientRevSignResp = Inr [5], sendHostRevSignOk = True,
     contractResp = Inr ClientCommitSuccessMsg, sendAckOk = ackOk\<rparr>"

text \<open>
  Two threads and the contract id \<open>Hash_Value 7\<close>: thread 0 holds the
  contract's mutex and thread 1 is blocked on it (or waits in a try-lock).
\<close>

definition ex_lock_state :: "lock_pc \<Rightarrow> nat lock_state" where
  "ex_lock_state waiting = \<lparr>coarse = Some 1, lockedStorageObligations = [Hash_Value 7 \<mapsto> True],
     pc = (\<lambda>t. if t = 0 then Holding (Hash_Value 7) else if t = 1 then waiting else Idle)\<rparr>"

text \<open>
  A host tree with host 1 (evaluation 5) at the root and host 2 (evaluation
  3) as its left child.
\<close>

definition ex_host1 :: nodeEntry where "ex_host1 = \<lparr>HostID = 1, entryEval = 5\<rparr>"

definition ex_host2 :: nodeEntry where "ex_host2 = \<lparr>HostID = 2, entryEval = 3\<rparr>"

definition ex_tree :: hnode where
  "ex_tree = Node (newNode ex_host2) 2 True 8 (Some ex_host1) NilNode"

section \<open>The Merkle proof engine\<close>

lemma check_limits_from_iff:
  "check_limits_from prev limits \<longleftrightarrow>
     (\<forall>r\<in>set limits. Left r < Right r) \<and> sorted_wrt (\<lambda>a b. Right a \<le> Left b) limits \<and>
     (case prev of None \<Rightarrow> True | Some x \<Rightarrow> \<forall>r\<in>set limits. x \<le> Left r)"
proof (induction limits arbitrary: prev)
  case Nil
  then show ?case by (simp split: option.splits)
next
  case (Cons r rs)
  show ?case
  proof (cases "Left r < Right r \<and> (case prev of None \<Rightarrow> True | Some x \<Rightarrow> x \<le> Left r)")
    case True
    then show ?thesis using Cons.IH [of "Some (Right r)"]
      by (auto simp: not_less split: option.splits dest: order_trans order.strict_implies_order)
  next
    case False
    then show ?thesis by (auto simp: not_less split: option.splits)
  qed
qed

lemma limits_nonempty_leaves:
  assumes "checkLimitList limits" "limits \<noteq> []" "\<forall>r\<in>set limits. unat (Right r) \<le> length ls"
  shows "Sha256CachedTreeRoot2 ls = tree_root (push_roots ls [])"
proof -
  from assms(2,3) obtain r where r: "r \<in> set limits" "unat (Right r) \<le> length ls"
    by (cases limits) auto
  from assms(1) r(1) have "Left r < Right r"
    by (simp add: checkLimitList_def check_limits_from_iff)
  with r(2) have "ls \<noteq> []" by (auto simp: word_less_nat_alt)
  then show ?thesis by (simp add: Sha256CachedTreeRoot2_def)
qed

lemma ex_limits_ok:
  "checkLimitList ex_limits" "ex_limits \<noteq> []" "\<forall>r\<in>set ex_limits. unat (Right r) \<le> length ex_leaves"
  "length ex_leaves < 2 ^ 62"
  by (simp_all add: ex_limits_def ex_leaves_def checkLimitList_def word_le_nat_alt)

text \<open>
  C1. Round trip of the diff proof: for a valid, non-empty list of ranges
  inside the leaves, the proof that \<open>getLimitStorageProof\<close> builds from the
  cached leaf roots succeeds, consumes the source, and
  \<open>checkLimitStorageProof\<close>, given the leaves inside the ranges, accepts it
  against the leaves' root \<open>Sha256CachedTreeRoot2\<close>.
\<close>

theorem diff_proof_roundtrip:
  assumes "checkLimitList limits" and "limits \<noteq> []"
    and "\<forall>r\<in>set limits. unat (Right r) \<le> length ls" and "length ls < 2 ^ 62"
  shows "\<exists>prf. getLimitStorageProof limits CachedSubtreeRoot ls = (Inr prf, []) \<and>
    checkLimitStorageProof LeafRootCached (range_leaves limits ls) limits prf (Sha256CachedTreeRoot2 ls)
      = Inr True"
  using limit_storage_proof_check [OF assms, of "Sha256CachedTreeRoot2 ls"]
    limits_nonempty_leaves [OF assms(1-3)] by simp

theorem diff_proof_roundtrip_witness:
  "checkLimitList ex_limits \<and> ex_limits \<noteq> [] \<and> length ex_leaves < 2 ^ 62 \<and>
   (\<exists>prf. getLimitStorageProof ex_limits CachedSubtreeRoot ex_leaves = (Inr prf, []) \<and>
     checkLimitStorageProof LeafRootCached (range_leaves ex_limits ex_leaves) ex_limits prf
       (Sha256CachedTreeRoot2 ex_leaves) = Inr True)"
  using ex_limits_ok diff_proof_roundtrip [OF ex_limits_ok] by blast

text \<open>
  C2. The same proof is rejected against any other root: verification answers
  \<open>Inr False\<close>, not an error, when the expected root differs from the root of
  the leaves the proof was built from.
\<close>

theorem diff_proof_rejects_other_root:
  assumes "checkLimitList limits" and "limits \<noteq> []"
    and "\<forall>r\<in>set limits. unat (Right r) \<le> length ls" and "length ls < 2 ^ 62"
    and "root \<noteq> Sha256CachedTreeRoot2 ls"
  shows "\<exists>prf. getLimitStorageProof limits CachedSubtreeRoot ls = (Inr prf, []) \<and>
    checkLimitStorageProof LeafRootCached (range_leaves limits ls) limits prf root = Inr False"
  using limit_storage_proof_check [OF assms(1-4), of root]
    limits_nonempty_leaves [OF assms(1-3)] assms(5) by auto

theorem diff_proof_rejects_other_root_witness:
  "checkLimitList ex_limits \<and> ex_limits \<noteq> [] \<and> length ex_leaves < 2 ^ 62 \<and> Hash_Value 0 \<noteq> Sha256CachedTreeRoot2 ex_leaves \<and>
   (\<exists>prf. getLimitStorageProof ex_limits CachedSubtreeRoot ex_leaves = (Inr prf, []) \<and>
     checkLimitStorageProof LeafRootCached (range_leaves ex_limits ex_leaves) ex_limits prf
       (Hash_Value 0) = Inr False)"
proof -
  have ne: "Hash_Value 0 \<noteq> Sha256CachedTreeRoot2 ex_leaves"
    by (simp add: Sha256CachedTreeRoot2_def ex_leaves_def push_roots_def)
  show ?thesis using ex_limits_ok ne diff_proof_rejects_other_root [OF ex_limits_ok ne] by blast
qed

text \<open>
  The single-range wrappers \<open>GetLimitStorageProof\<close> and
  \<open>CheckLimitStorageProof\<close>: for \<open>a < b\<close> inside the leaves, the proof built
  over the cached leaf roots verifies, with the leaves of \<open>[a, b)\<close>, exactly
  against the leaves' root: the answer is \<open>Inr True\<close> for that root and
  \<open>Inr False\<close> for every other.
\<close>

theorem single_range_proof_check:
  assumes "a < b" and "unat b \<le> length ls" and "length ls < 2 ^ 62"
  shows "\<exists>prf. GetLimitStorageProof a b CachedSubtreeRoot ls = (Inr prf, []) \<and>
    CheckLimitStorageProof LeafRootCached (take (unat b - unat a) (drop (unat a) ls)) a b prf root
      = Inr (root = Sha256CachedTreeRoot2 ls)"
proof -
  define lim where "lim = [\<lparr>Left = a, Right = b\<rparr>]"
  have ab: "unat a < unat b" using assms(1) by (simp add: word_less_nat_alt)
  have sb: "unat b < 2 ^ 63" using assms(2,3) by simp
  have sa: "unat a < 2 ^ 63" using ab sb by simp
  have guard: "\<not> (sint a < 0 \<or> sint a > sint b \<or> a = b)"
    using sint_small [OF sa] sint_small [OF sb] assms(1) ab by (auto simp: word_less_def)
  have ok: "checkLimitList lim" "lim \<noteq> []" "\<forall>r\<in>set lim. unat (Right r) \<le> length ls"
    using assms(1,2) by (simp_all add: lim_def checkLimitList_def)
  have rl: "range_leaves lim ls = take (unat b - unat a) (drop (unat a) ls)" by (simp add: lim_def)
  from limit_storage_proof_check [OF ok assms(3), of root] limits_nonempty_leaves [OF ok]
  show ?thesis using guard rl
    by (auto simp: GetLimitStorageProof_def CheckLimitStorageProof_def lim_def)
qed

theorem single_range_proof_check_witness:
  "(1::u64) < 3 \<and> unat (3::u64) \<le> length ex_leaves \<and> length ex_leaves < 2 ^ 62 \<and>
   (\<exists>prf. GetLimitStorageProof 1 3 CachedSubtreeRoot ex_leaves = (Inr prf, []) \<and>
     CheckLimitStorageProof LeafRootCached (take (unat (3::u64) - unat (1::u64)) (drop (unat (1::u64)) ex_leaves))
       1 3 prf (Sha256CachedTreeRoot2 ex_leaves) = Inr True)"
proof -
  have h: "(1::u64) < 3" "unat (3::u64) \<le> length ex_leaves" "length ex_leaves < 2 ^ 62"
    by (simp_all add: ex_leaves_def)
  show ?thesis using h single_range_proof_check [OF h, of "Sha256CachedTreeRoot2 ex_leaves"] by simp
qed

text \<open>
  C4. \<open>adjacentSubtreeSize left right\<close>, for \<open>left \<noteq> right\<close>, is a power of two
  below \<open>2 ^ 64\<close> that fits in the span \<open>right - left\<close> and divides
  \<open>left\<close>: the proof hashes stand for complete, aligned subtrees.
\<close>

theorem adjacentSubtreeSize_aligned:
  assumes "left \<noteq> right"
  shows "\<exists>k<64. unat (adjacentSubtreeSize left right) = 2 ^ k \<and> 2 ^ k \<le> unat (right - left) \<and>
           unat left mod 2 ^ k = 0"
proof -
  from adjacentSubtreeSize_pow2 [OF assms] obtain k where
    "k < 64" "adjacentSubtreeSize left right = 2 ^ k" "2 ^ k \<le> unat (right - left)" "2 ^ k dvd unat left"
    by blast
  then show ?thesis by (intro exI [of _ k]) (simp add: unat_pow2_64 dvd_eq_mod_eq_0)
qed

theorem adjacentSubtreeSize_aligned_witness:
  "(12::u64) \<noteq> 32 \<and>
   (\<exists>k<64. unat (adjacentSubtreeSize 12 32) = 2 ^ k \<and> 2 ^ k \<le> unat (32 - 12 :: u64) \<and>
      unat (12::u64) mod 2 ^ k = 0)"
proof -
  have ne: "(12::u64) \<noteq> 32" by simp
  show ?thesis using ne adjacentSubtreeSize_aligned [OF ne] by blast
qed

text \<open>
  C5. \<open>checkLimitList\<close> accepts exactly the lists of non-empty ranges in which
  each range ends at or before the start of every later one. Adjacent ranges
  (one ending where the next starts) are accepted.
\<close>

theorem checkLimitList_iff:
  "checkLimitList limits \<longleftrightarrow>
     (\<forall>r\<in>set limits. Left r < Right r) \<and> sorted_wrt (\<lambda>a b. Right a \<le> Left b) limits"
  by (simp add: checkLimitList_def check_limits_from_iff)

theorem checkLimitList_iff_witness:
  "checkLimitList ex_adjacent_limits \<and> sorted_wrt (\<lambda>a b. Right a \<le> Left b) ex_adjacent_limits"
proof -
  have "\<forall>r\<in>set ex_adjacent_limits. Left r < Right r"
    "sorted_wrt (\<lambda>a b. Right a \<le> Left b) ex_adjacent_limits"
    by (simp_all add: ex_adjacent_limits_def word_less_nat_alt)
  then show ?thesis using checkLimitList_iff [of ex_adjacent_limits] by simp
qed


section \<open>The upload negotiation\<close>

lemma ex_host_simps [simp]:
  "db ex_host = [Hash_Value 7 \<mapsto> ex_sr]" "config ex_host = \<lparr>UploadBandwidthPrice = 1, DownloadBandwidthPrice = 1\<rparr>"
  "blockHeight ex_host = 100" "wallets ex_host = [2 \<mapsto> (\<lambda>_. Some [1])]" "sectors ex_host = {#}"
  "peerIsStatic ex_host = False" "peerNode ex_host = None"
  by (simp_all add: ex_host_def)

lemma ex_host_wf: "host_wf ex_host"
  by (simp add: host_wf_def ex_sr_def)

lemmas upload_defs = ContractUploadHandler_def decodeUploadReqAndGetSr_def parseAndHandleUploadActions_def
  handleUploadAppendType_def constructAndVerifyNewRevision_def updateRevisionFileSize_def
  calcAndUpdateRevisionMerkleRoot_def updateRevisionMissedAndValidPayback_def merkleProofNegotiation_def
  constructUploadMerkleProof_def calcAndSortProofRanges_def calcLeafHashes_def calcOldHashSet_def
  Sha256DiffProof_def getLimitStorageProof_def hostSignAndUpdateRevision_def hostRevisionSignNegotiation_def
  waitAndHandleClientCommitRespUpload_def handleClientUploadCommitResp_def handleClientUploadSuccessCommit_def
  updateStorageResponsibilityUpload_def validProofPaybackHostAddressIndex_def hostSignIndex_def

lemmas ex_upload_defs = ex_ext_def ex_req_def ex_sr_def ex_rev0_def ex_peer_def uploadNegotiationData_zero_def
  modifyStorageResponsibility_def rollbackStorageResponsibility_def StorageHost_CheckAndSetStaticConnection_def

lemma ex_upload_run:
  "ContractUploadHandler ex_ext StorageHostProtocol (ex_peer ackOk) ex_host (Some (ex_req [9, 21])) =
     (if ackOk then Inr () else Inl ErrSendHostAck,
      if ackOk then ex_host\<lparr>db := [Hash_Value 7 \<mapsto>
         ex_sr\<lparr>SectorRoots := [Sha256MerkleTreeRoot [1, 2, 3]],
           StorageContractRevisions := [ex_rev0, \<lparr>NewRevisionNumber = 2, NewFileSize = SectorSize,
             NewFileMerkleRoot = Sha256MerkleTreeRoot [1, 2, 3],
             NewValidProofOutputs = [\<lparr>Value = 10, Address = 1\<rparr>, \<lparr>Value = 20, Address = 2\<rparr>,
                                     \<lparr>Value = 9, Address = 1\<rparr>, \<lparr>Value = 21, Address = 2\<rparr>],
             NewMissedProofOutputs = [\<lparr>Value = 10, Address = 1\<rparr>, \<lparr>Value = 20, Address = 2\<rparr>,
                                      \<lparr>Value = 9, Address = 1\<rparr>, \<lparr>Value = 21, Address = 2\<rparr>],
             Signatures = [[5], [1]]\<rparr>]\<rparr>],
         sectors := {#Sha256MerkleTreeRoot [1, 2, 3]#}\<rparr>
      else ex_host\<lparr>db := [Hash_Value 7 \<mapsto> ex_sr]\<rparr>,
      [MsgUploadMerkleProof \<lparr>OldSubtreeHashes = [], OldLeafHashes = [],
         NewMerkleRoot = Sha256MerkleTreeRoot [1, 2, 3]\<rparr>, MsgUploadHostRevisionSign [1]] @
      (if ackOk then [MsgHostAck] else []))"
  by (cases ackOk) (simp_all add: upload_defs ex_upload_defs Let_def)

text \<open>
  C6. A successful upload on the host stores the responsibility with the
  appended sector roots and one more revision, whose number is the requested
  one, whose file root is the root of the new sector roots and whose file size
  grew by one sector per action; the gained sectors are added to the store.
\<close>

theorem upload_commit:
  assumes "host_wf h"
    and "ContractUploadHandler ext StorageHostProtocol sp h (Some req) = (Inr (), h', out)"
  shows "\<exists>sr sr'. db h (StorageContractID req) = Some sr \<and> db h' = (db h)(StorageContractID req \<mapsto> sr') \<and>
    SectorRoots sr' = SectorRoots sr @ map (Sha256MerkleTreeRoot \<circ> Data) (Actions req) \<and>
    StorageContractRevisions sr' = StorageContractRevisions sr @ [last (StorageContractRevisions sr')] \<and>
    NewRevisionNumber (last (StorageContractRevisions sr')) = ReqNewRevisionNumber req \<and>
    NewFileMerkleRoot (last (StorageContractRevisions sr')) = Sha256CachedTreeRoot2 (SectorRoots sr') \<and>
    NewFileSize (last (StorageContractRevisions sr')) =
      NewFileSize (last (StorageContractRevisions sr)) + of_nat (length (Actions req)) * SectorSize \<and>
    sectors h' = sectors h + mset (map (Sha256MerkleTreeRoot \<circ> Data) (Actions req))"
proof -
  obtain sr nd c s where sr: "db h (StorageContractID req) = Some sr"
    and roots: "newRoots nd = SectorRoots sr @ map (Sha256MerkleTreeRoot \<circ> Data) (Actions req)"
    and dbh: "db h' = (db h)(StorageContractID req \<mapsto>
        updateStorageResponsibilityUpload ext nd sr (config h)
          ((upload_revision req (last (StorageContractRevisions sr)) (newRoots nd))\<lparr>Signatures := [c, s]\<rparr>))"
    and sec: "sectors h' = sectors h + mset (map (Sha256MerkleTreeRoot \<circ> Data) (Actions req))"
    using upload_host_effect [OF assms] by auto
  show ?thesis
    using sr dbh sec roots
    by (intro exI [of _ sr] exI [of _ "updateStorageResponsibilityUpload ext nd sr (config h)
          ((upload_revision req (last (StorageContractRevisions sr)) (newRoots nd))\<lparr>Signatures := [c, s]\<rparr>)"])
       (simp add: updateStorageResponsibilityUpload_def upload_revision_def Let_def)
qed

theorem upload_commit_witness:
  "\<exists>h' out sr'. ContractUploadHandler ex_ext StorageHostProtocol (ex_peer True) ex_host (Some (ex_req [9, 21])) =
      (Inr (), h', out) \<and> db h' (Hash_Value 7) = Some sr' \<and>
    SectorRoots sr' = [Sha256MerkleTreeRoot [1, 2, 3]] \<and>
    NewFileMerkleRoot (last (StorageContractRevisions sr')) = Sha256MerkleTreeRoot [1, 2, 3] \<and>
    NewFileSize (last (StorageContractRevisions sr')) = SectorSize"
proof -
  obtain h' out where run: "ContractUploadHandler ex_ext StorageHostProtocol (ex_peer True) ex_host
      (Some (ex_req [9, 21])) = (Inr (), h', out)"
    using ex_upload_run [of True] by simp
  from upload_commit [OF ex_host_wf run] obtain sr sr' where
    "db ex_host (Hash_Value 7) = Some sr" "db h' = (db ex_host)(Hash_Value 7 \<mapsto> sr')"
    "SectorRoots sr' = SectorRoots sr @ [Sha256MerkleTreeRoot [1, 2, 3]]"
    "NewFileMerkleRoot (last (StorageContractRevisions sr')) = Sha256CachedTreeRoot2 (SectorRoots sr')"
    "NewFileSize (last (StorageContractRevisions sr')) = NewFileSize (last (StorageContractRevisions sr)) + SectorSize"
    by (auto simp: ex_req_def)
  then show ?thesis using run by (auto simp: ex_sr_def ex_rev0_def)
qed


text \<open>
  C7. An upload that ends in an error leaves the host's responsibilities and
  stored sectors as they were, also when the error comes after the commit:
  when the acknowledgement cannot be sent, the rollback restores the snapshot
  and releases the gained sectors.
\<close>

theorem upload_error_atomic:
  assumes "host_wf h"
    and "ContractUploadHandler ext StorageHostProtocol sp h msg = (Inl e, h', out)"
  shows "db h' = db h \<and> sectors h' = sectors h"
  using upload_host_effect [OF assms] by auto

theorem upload_error_atomic_witness:
  "\<exists>h' out. ContractUploadHandler ex_ext StorageHostProtocol (ex_peer False) ex_host (Some (ex_req [9, 21])) =
      (Inl ErrSendHostAck, h', out) \<and> db h' = db ex_host \<and> sectors h' = sectors ex_host"
proof -
  obtain h' out where run: "ContractUploadHandler ex_ext StorageHostProtocol (ex_peer False) ex_host
      (Some (ex_req [9, 21])) = (Inl ErrSendHostAck, h', out)"
    using ex_upload_run [of False] by simp
  show ?thesis using run upload_error_atomic [OF ex_host_wf run] by blast
qed

text \<open>
  C9. The committed revision's payouts are the current revision's outputs
  followed by the new ones: \<open>newRev := currentRev\<close> shares the output slices
  and \<open>updateRevisionMissedAndValidPayback\<close> appends to them, so a contract
  with two outputs (client, host) gets four, and the host's payout at index 1,
  where \<open>hostSignAndUpdateRevision\<close> looks up the host's address, keeps the
  old value.
\<close>

theorem upload_payouts_doubled:
  assumes "host_wf h"
    and "ContractUploadHandler ext StorageHostProtocol sp h (Some req) = (Inr (), h', out)"
  shows "\<exists>sr sr'. db h (StorageContractID req) = Some sr \<and> db h' (StorageContractID req) = Some sr' \<and>
    length (NewValidProofOutputs (last (StorageContractRevisions sr'))) =
      2 * length (NewValidProofOutputs (last (StorageContractRevisions sr))) \<and>
    take (length (NewValidProofOutputs (last (StorageContractRevisions sr))))
      (NewValidProofOutputs (last (StorageContractRevisions sr'))) =
      NewValidProofOutputs (last (StorageContractRevisions sr))"
  using upload_host_effect [OF assms]
  by (auto simp: updateStorageResponsibilityUpload_def upload_revision_def Let_def)

theorem upload_payouts_doubled_witness:
  "\<exists>h' out sr'. ContractUploadHandler ex_ext StorageHostProtocol (ex_peer True) ex_host (Some (ex_req [9, 21])) =
      (Inr (), h', out) \<and> db h' (Hash_Value 7) = Some sr' \<and>
    length (NewValidProofOutputs (last (StorageContractRevisions sr'))) = 4 \<and>
    NewValidProofOutputs (last (StorageContractRevisions sr')) ! 1 = \<lparr>Value = 20, Address = 2\<rparr>"
proof -
  obtain h' out where run: "ContractUploadHandler ex_ext StorageHostProtocol (ex_peer True) ex_host
      (Some (ex_req [9, 21])) = (Inr (), h', out)"
    using ex_upload_run [of True] by simp
  from upload_payouts_doubled [OF ex_host_wf run] obtain sr sr' where
    a: "db ex_host (Hash_Value 7) = Some sr" "db h' (Hash_Value 7) = Some sr'"
    "length (NewValidProofOutputs (last (StorageContractRevisions sr'))) =
      2 * length (NewValidProofOutputs (last (StorageContractRevisions sr)))"
    "take (length (NewValidProofOutputs (last (StorageContractRevisions sr))))
      (NewValidProofOutputs (last (StorageContractRevisions sr'))) =
      NewValidProofOutputs (last (StorageContractRevisions sr))"
    by (auto simp: ex_req_def)
  have old: "NewValidProofOutputs (last (StorageContractRevisions sr)) = [\<lparr>Value = 10, Address = 1\<rparr>, \<lparr>Value = 20, Address = 2\<rparr>]"
  proof -
    have "sr = ex_sr" using a(1) by simp
    then show ?thesis by (simp add: ex_sr_def ex_rev0_def)
  qed
  let ?xs = "NewValidProofOutputs (last (StorageContractRevisions sr'))"
  have t: "take 2 ?xs = [\<lparr>Value = 10, Address = 1\<rparr>, \<lparr>Value = 20, Address = 2\<rparr>]"
    using a(4) old by (simp add: numeral_2_eq_2)
  have "?xs ! 1 = take 2 ?xs ! 1" by simp
  also have "\<dots> = \<lparr>Value = 20, Address = 2\<rparr>" by (simp only: t) simp
  finally show ?thesis using run a(2,3) old by auto
qed

text \<open>
  C10. A request with fewer proposed valid payouts than the current revision
  has outputs makes the handler panic (an index out of range in
  \<open>updateRevisionMissedAndValidPayback\<close>) before any message is sent and
  before the host's state changes; the request is not length-checked.
\<close>

theorem upload_short_values_panic:
  assumes "GetStorageResponsibility np h (StorageContractID req) = Some sr"
    and "StorageContractRevisions sr \<noteq> []"
    and "list_all (\<lambda>a. Type a = UploadActionAppend) (Actions req)"
    and "length (NewValidProofValues req) < length (NewValidProofOutputs (last (StorageContractRevisions sr)))"
  shows "ContractUploadHandler ext np sp h (Some req) = (Inl ErrIndexOutOfRange, h, [])"
proof -
  obtain nd1 where "parseAndHandleUploadActions req (uploadNegotiationData_zero\<lparr>srSnapshot := sr\<rparr>) sr
      (UploadBandwidthPrice (GetHostConfig np h)) = Inr nd1"
    using handle_upload_actions_append [OF assms(3)] by (auto simp: parseAndHandleUploadActions_def)
  then show ?thesis
    using assms(1) by (simp add: ContractUploadHandler_def decodeUploadReqAndGetSr_def Let_def
      constructAndVerifyNewRevision_short_values [OF assms(2,4)])
qed

theorem upload_short_values_panic_witness:
  "ContractUploadHandler ex_ext StorageHostProtocol (ex_peer True) ex_host (Some (ex_req [9])) =
     (Inl ErrIndexOutOfRange, ex_host, [])"
  by (rule upload_short_values_panic [where sr = ex_sr]) (simp_all add: ex_req_def ex_sr_def ex_rev0_def)

text \<open>
  An action of another type than \<open>Append\<close> makes the handler fail with
  the unknown-action error, the host's state unchanged and nothing sent.
\<close>

theorem upload_unknown_action:
  assumes "GetStorageResponsibility np h (StorageContractID req) = Some sr"
    and "Actions req = as1 @ a # as2"
    and "list_all (\<lambda>a. Type a = UploadActionAppend) as1"
    and "Type a \<noteq> UploadActionAppend"
  shows "ContractUploadHandler ext np sp h (Some req) = (Inl (ErrUnknownActionType (Type a)), h, [])"
  using assms handle_upload_actions_unknown [OF assms(3,4)]
  by (simp add: ContractUploadHandler_def decodeUploadReqAndGetSr_def parseAndHandleUploadActions_def Let_def)

theorem upload_unknown_action_witness:
  "ContractUploadHandler ex_ext StorageHostProtocol (ex_peer True) ex_host
     (Some ((ex_req [9, 21])\<lparr>Actions := [\<lparr>Type = ''Delete'', Data = []\<rparr>]\<rparr>)) =
   (Inl (ErrUnknownActionType ''Delete''), ex_host, [])"
proof -
  let ?a = "\<lparr>Type = ''Delete'', Data = []\<rparr> :: UploadAction"
  have "GetStorageResponsibility StorageHostProtocol ex_host
      (StorageContractID ((ex_req [9, 21])\<lparr>Actions := [?a]\<rparr>)) = Some ex_sr"
    "Actions ((ex_req [9, 21])\<lparr>Actions := [?a]\<rparr>) = [] @ ?a # []"
    "list_all (\<lambda>a. Type a = UploadActionAppend) []" "Type ?a \<noteq> UploadActionAppend"
    by (simp_all add: ex_req_def UploadActionAppend_def)
  from upload_unknown_action [OF this, of ex_ext "ex_peer True"] show ?thesis by simp
qed

text \<open>
  C12. \<open>StorageHost.ReadSector\<close> calls itself with the same arguments and
  never returns, for every host and sector root.
\<close>

theorem ReadSector_never_returns: "StorageHost_ReadSector h sectorRoot = None"
  by (rule ReadSector_None)


section \<open>The lock registry\<close>

lemma ex_lock_holder_reachable:
  "lock_reachable (lock_init\<lparr>lockedStorageObligations := [Hash_Value 7 \<mapsto> True],
     pc := (pc lock_init)(0 := Holding (Hash_Value 7))\<rparr> :: nat lock_state)"
  by (rule lock_reachable.step [OF lock_reachable.start])
     (rule lock_step.lock_acquire, simp_all add: lock_init_def lock_fun_defs)

lemma ex_lock_state_reachable:
  assumes "waiting = LockWaiting (Hash_Value 7) \<or> waiting = TryWaiting (Hash_Value 7)"
  shows "lock_reachable (ex_lock_state waiting)"
proof -
  let ?s = "lock_init\<lparr>lockedStorageObligations := [Hash_Value 7 \<mapsto> True],
     pc := (pc lock_init)(0 := Holding (Hash_Value 7))\<rparr> :: nat lock_state"
  have "lock_step ?s (?s\<lparr>coarse := Some 1, pc := (pc ?s)(1 := waiting)\<rparr>)"
    using assms
  proof
    assume w: "waiting = LockWaiting (Hash_Value 7)"
    have "lock_step ?s (?s\<lparr>coarse := Some 1, pc := (pc ?s)(1 := LockWaiting (Hash_Value 7))\<rparr>)"
      by (rule lock_step.lock_block) (simp_all add: lock_init_def lock_fun_defs)
    then show ?thesis using w by simp
  next
    assume w: "waiting = TryWaiting (Hash_Value 7)"
    have "lock_step ?s (?s\<lparr>coarse := Some 1, pc := (pc ?s)(1 := TryWaiting (Hash_Value 7))\<rparr>)"
      by (rule lock_step.trylock_wait) (simp_all add: lock_init_def lock_fun_defs)
    then show ?thesis using w by simp
  qed
  moreover have "?s\<lparr>coarse := Some 1, pc := (pc ?s)(1 := waiting)\<rparr> = ex_lock_state waiting"
    by (simp add: ex_lock_state_def lock_init_def fun_eq_iff)
  ultimately show ?thesis
    using lock_reachable.step [OF ex_lock_holder_reachable] by metis
qed

text \<open>
  C13. Mutual exclusion: in every reachable state of the interleaved lock
  registry, at most one thread holds a contract's mutex.
\<close>

theorem lock_mutual_exclusion:
  assumes "lock_reachable s" and "pc s t1 = Holding soid" and "pc s t2 = Holding soid"
  shows "t1 = t2"
  using lock_reachable_inv [OF assms(1)] assms(2,3) by (auto simp: lock_inv_def)

theorem lock_mutual_exclusion_witness:
  "(0::nat) = 0 \<and> lock_reachable (ex_lock_state (LockWaiting (Hash_Value 7))) \<and>
   pc (ex_lock_state (LockWaiting (Hash_Value 7))) 0 = Holding (Hash_Value 7)"
proof -
  have r: "lock_reachable (ex_lock_state (LockWaiting (Hash_Value 7)))"
    by (rule ex_lock_state_reachable) simp
  have h: "pc (ex_lock_state (LockWaiting (Hash_Value 7))) 0 = Holding (Hash_Value 7)"
    by (simp add: ex_lock_state_def)
  show ?thesis using lock_mutual_exclusion [OF r h h] r h by simp
qed

text \<open>
  C14. Deadlock: \<open>checkAndLockStorageObligation\<close> blocks in \<open>tl.Lock()\<close>
  while it holds \<open>h.lock\<close>, and \<open>checkAndUnlockStorageObligation\<close> needs
  \<open>h.lock\<close> to release the mutex. A reachable state where one thread holds a
  contract's mutex and another blocks on it has no successor at all: no
  thread can ever move again.
\<close>

theorem lock_deadlock:
  assumes "lock_reachable s" and "pc s t1 = Holding soid" and "pc s t2 = LockWaiting soid"
  shows "\<not> lock_step s s'"
proof
  assume "lock_step s s'"
  moreover have inv: "lock_inv s" by (rule lock_reachable_inv [OF assms(1)])
  then have c: "coarse s = Some t2" "lockedStorageObligations s soid = Some True"
    using assms(3) by (auto simp: lock_inv_def)
  ultimately show False
    using inv assms(3) by (cases rule: lock_stepE) (auto dest: lock_inv_waiting)
qed

theorem lock_deadlock_witness:
  "lock_reachable (ex_lock_state (LockWaiting (Hash_Value 7))) \<and>
   pc (ex_lock_state (LockWaiting (Hash_Value 7))) 0 = Holding (Hash_Value 7) \<and>
   pc (ex_lock_state (LockWaiting (Hash_Value 7))) 1 = LockWaiting (Hash_Value 7) \<and>
   \<not> (\<exists>s'. lock_step (ex_lock_state (LockWaiting (Hash_Value 7))) s')"
proof -
  have r: "lock_reachable (ex_lock_state (LockWaiting (Hash_Value 7)))"
    by (rule ex_lock_state_reachable) simp
  have h: "pc (ex_lock_state (LockWaiting (Hash_Value 7))) 0 = Holding (Hash_Value 7)"
    and w: "pc (ex_lock_state (LockWaiting (Hash_Value 7))) 1 = LockWaiting (Hash_Value 7)"
    by (simp_all add: ex_lock_state_def)
  show ?thesis using lock_deadlock [OF r h w] r h w by blast
qed

text \<open>
  C15. A try-lock that finds the mutex held waits holding \<open>h.lock\<close>, so the
  holder cannot unlock meanwhile: from a reachable state where a thread
  waits in \<open>TryLockTimed\<close>, the only step is its timeout, which releases
  \<open>h.lock\<close> and returns \<open>errObligationLocked\<close>; every other thread is blocked
  for the whole wait.
\<close>

theorem trylock_only_times_out:
  assumes "lock_reachable s" and "pc s t = TryWaiting soid" and "lock_step s s'"
  shows "s' = s\<lparr>coarse := None, pc := (pc s)(t := Idle)\<rparr>"
proof -
  have inv: "lock_inv s" by (rule lock_reachable_inv [OF assms(1)])
  then have c: "coarse s = Some t" "lockedStorageObligations s soid = Some True"
    using assms(2) by (auto simp: lock_inv_def)
  from assms(3) show ?thesis
    using inv c assms(2) by (cases rule: lock_stepE) (auto dest: lock_inv_waiting)
qed

theorem trylock_only_times_out_witness:
  "lock_reachable (ex_lock_state (TryWaiting (Hash_Value 7))) \<and>
   pc (ex_lock_state (TryWaiting (Hash_Value 7))) 1 = TryWaiting (Hash_Value 7) \<and>
   lock_step (ex_lock_state (TryWaiting (Hash_Value 7)))
     ((ex_lock_state (TryWaiting (Hash_Value 7)))\<lparr>coarse := None,
        pc := (pc (ex_lock_state (TryWaiting (Hash_Value 7))))(1 := Idle)\<rparr>) \<and>
   (ex_lock_state (TryWaiting (Hash_Value 7)))\<lparr>coarse := None,
        pc := (pc (ex_lock_state (TryWaiting (Hash_Value 7))))(1 := Idle)\<rparr> =
   (ex_lock_state (TryWaiting (Hash_Value 7)))\<lparr>coarse := None,
        pc := (pc (ex_lock_state (TryWaiting (Hash_Value 7))))(1 := Idle)\<rparr>"
proof -
  let ?s = "ex_lock_state (TryWaiting (Hash_Value 7))"
  have r: "lock_reachable ?s" by (rule ex_lock_state_reachable) simp
  have w: "pc ?s 1 = TryWaiting (Hash_Value 7)" by (simp add: ex_lock_state_def)
  have st: "lock_step ?s (?s\<lparr>coarse := None, pc := (pc ?s)(1 := Idle)\<rparr>)"
    by (rule lock_step.trylock_timeout [OF w])
  show ?thesis using trylock_only_times_out [OF r w st] r w st by blast
qed


section \<open>The host selection tree\<close>

lemma ex_tree_wf: "tree_wf ex_tree" and ex_tree_nonneg: "evals_nonneg ex_tree"
  by (simp_all add: ex_tree_def ex_host1_def ex_host2_def newNode_def)

text \<open>
  C16. \<open>nodeInsert\<close> keeps the tree well formed (every node's evaluation is
  its own entry's plus its children's, its count one plus theirs); the root's
  evaluation grows by the entry's evaluation and its count by the number of
  nodes added.
\<close>

theorem nodeInsert_wf:
  assumes "tree_wf t" and "nodeInsert isRoot entry t = Some (added, p, t')"
  shows "tree_wf t' \<and> tree_eval t' = tree_eval t + entryEval entry \<and> tree_count t' = tree_count t + added"
  using nodeInsert_Some [OF assms(2,1)] by blast

theorem nodeInsert_wf_witness:
  "tree_wf ex_tree \<and> nodeInsert True \<lparr>HostID = 3, entryEval = 4\<rparr> ex_tree =
     Some (1, [GoRight], Node (newNode ex_host2) 3 True 12 (Some ex_host1) (newNode \<lparr>HostID = 3, entryEval = 4\<rparr>)) \<and>
   tree_wf (Node (newNode ex_host2) 3 True 12 (Some ex_host1) (newNode \<lparr>HostID = 3, entryEval = 4\<rparr>))"
proof -
  have run: "nodeInsert True \<lparr>HostID = 3, entryEval = 4\<rparr> ex_tree =
     Some (1, [GoRight], Node (newNode ex_host2) 3 True 12 (Some ex_host1) (newNode \<lparr>HostID = 3, entryEval = 4\<rparr>))"
    by (simp add: ex_tree_def newNode_def)
  show ?thesis using ex_tree_wf run nodeInsert_wf [OF ex_tree_wf run] by blast
qed

text \<open>
  C17. Abstractly, \<open>nodeInsert\<close> adds the entry to the multiset of the
  tree's occupied entries, and the node it returns holds the entry.
\<close>

theorem nodeInsert_adds_entry:
  assumes "tree_wf t" and "nodeInsert isRoot entry t = Some (added, p, t')"
  shows "mset (tree_entries t') = mset (tree_entries t) + {#entry#} \<and>
    (\<exists>l c ev r. node_at p t' = Node l c True ev (Some entry) r)"
  using nodeInsert_Some [OF assms(2,1)] by blast

theorem nodeInsert_adds_entry_witness:
  "tree_wf ex_tree \<and> nodeInsert True \<lparr>HostID = 3, entryEval = 4\<rparr> ex_tree =
     Some (1, [GoRight], Node (newNode ex_host2) 3 True 12 (Some ex_host1) (newNode \<lparr>HostID = 3, entryEval = 4\<rparr>)) \<and>
   mset (tree_entries (Node (newNode ex_host2) 3 True 12 (Some ex_host1) (newNode \<lparr>HostID = 3, entryEval = 4\<rparr>))) =
     {#ex_host2, ex_host1, \<lparr>HostID = 3, entryEval = 4\<rparr>#}"
proof -
  have run: "nodeInsert True \<lparr>HostID = 3, entryEval = 4\<rparr> ex_tree =
     Some (1, [GoRight], Node (newNode ex_host2) 3 True 12 (Some ex_host1) (newNode \<lparr>HostID = 3, entryEval = 4\<rparr>))"
    by (simp add: ex_tree_def newNode_def)
  have "mset (tree_entries ex_tree) = {#ex_host2, ex_host1#}"
    by (simp add: ex_tree_def newNode_def)
  then show ?thesis using ex_tree_wf run nodeInsert_adds_entry [OF ex_tree_wf run] by auto
qed

text \<open>
  C18. On a well-formed tree with non-negative evaluations, \<open>nodeWithEval x\<close>
  for \<open>0 \<le> x < \<close> the root's evaluation refines the weighted choice: it
  returns the occupied node whose interval, in the order left subtree, right
  subtree, node, contains \<open>x\<close>; each host is chosen for a share of the
  values equal to its evaluation.
\<close>

theorem nodeWithEval_refines_pick:
  assumes "tree_wf t" and "evals_nonneg t" and "0 \<le> x" and "x < tree_eval t"
  shows "\<exists>p. nodeWithEval x t = Inr p \<and> pick x (occupied_list t) = Some p"
  by (rule nodeWithEval_pick [OF assms])

theorem nodeWithEval_refines_pick_witness:
  "tree_wf ex_tree \<and> evals_nonneg ex_tree \<and> (0::int) \<le> 4 \<and> 4 < tree_eval ex_tree \<and>
   nodeWithEval 4 ex_tree = Inr [] \<and> pick 4 (occupied_list ex_tree) = Some []"
proof -
  have "(0::int) \<le> 4" "4 < tree_eval ex_tree" by (simp_all add: ex_tree_def)
  from nodeWithEval_refines_pick [OF ex_tree_wf ex_tree_nonneg this] obtain p where
    "nodeWithEval 4 ex_tree = Inr p" "pick 4 (occupied_list ex_tree) = Some p" by blast
  moreover have "pick 4 (occupied_list ex_tree) = Some []"
    by (simp add: ex_tree_def newNode_def ex_host1_def ex_host2_def)
  ultimately show ?thesis using ex_tree_wf ex_tree_nonneg \<open>4 < tree_eval ex_tree\<close> by simp
qed

text \<open>
  C19. \<open>nodeRemove\<close> subtracts the removed entry's evaluation from the
  ancestors but not from the node itself, so removing an entry with a
  non-zero evaluation from a well-formed tree leaves a tree that is not well
  formed: the node keeps the evaluation of an entry it no longer holds, and
  \<open>nodeWithEval\<close> then walks into it and fails.
\<close>

theorem nodeRemove_breaks_wf:
  assumes "tree_wf t" and "node_at p t = Node l c True ev (Some entry) r" and "entryEval entry \<noteq> 0"
    and "nodeRemove p t = Some t'"
  shows "\<not> tree_wf t'"
proof
  assume wf': "tree_wf t'"
  have t': "t' = remove_walk p (entryEval entry) t"
    using assms(4) nodeRemove_Some [OF assms(2)] by simp
  have "node_at p t' = Node l c False ev (Some entry) r"
    unfolding t' by (rule node_at_remove_walk [OF assms(2)])
  then have "ev = tree_eval l + tree_eval r"
    using tree_wf_node_at [OF wf', of p] by simp
  moreover have "ev = entryEval entry + tree_eval l + tree_eval r"
    using tree_wf_node_at [OF assms(1), of p] assms(2) by simp
  ultimately show False using assms(3) by simp
qed

theorem nodeRemove_breaks_wf_witness:
  "tree_wf ex_tree \<and> node_at [GoLeft] ex_tree = Node NilNode 1 True 3 (Some ex_host2) NilNode \<and>
   entryEval ex_host2 \<noteq> 0 \<and>
   nodeRemove [GoLeft] ex_tree = Some (Node (Node NilNode 1 False 3 (Some ex_host2) NilNode) 2 True 5 (Some ex_host1) NilNode) \<and>
   \<not> tree_wf (Node (Node NilNode 1 False 3 (Some ex_host2) NilNode) 2 True 5 (Some ex_host1) NilNode) \<and>
   nodeWithEval 0 (Node (Node NilNode 1 False 3 (Some ex_host2) NilNode) 2 True 5 (Some ex_host1) NilNode) =
     Inl ErrNodeNotOccupied"
proof -
  have at: "node_at [GoLeft] ex_tree = Node NilNode 1 True 3 (Some ex_host2) NilNode"
    by (simp add: ex_tree_def newNode_def ex_host2_def)
  have e: "entryEval ex_host2 \<noteq> 0" by (simp add: ex_host2_def)
  have rm: "nodeRemove [GoLeft] ex_tree =
      Some (Node (Node NilNode 1 False 3 (Some ex_host2) NilNode) 2 True 5 (Some ex_host1) NilNode)"
    by (simp add: nodeRemove_def ex_tree_def newNode_def ex_host2_def)
  show ?thesis
    using nodeRemove_breaks_wf [OF ex_tree_wf at e rm] ex_tree_wf at e rm by simp
qed

end
